(* ===== verification/Go_Base.thy ===== *)
theory Go_Base
  imports Main "HOL-Library.Word"
begin

text \<open>
  The prelude: the parts of the Go language every component uses.
  Errors are values of \<open>goerr\<close> (the chain that \<open>fmt.Errorf\<close> with a wrapping verb builds),
  a fallible call returns \<open>goerr + 'a\<close> or an optional error next to its state, machine integers
  are \<open>int\<close> with the wrap-around of \<open>int64\<close> written out, and a call that touches the outside
  passes its state explicitly: \<open>'s \<Rightarrow> 'a \<times> 's\<close>.
\<close>

named_theorems go_defs \<open>unfolding rules of the language layer\<close>
named_theorems err_simps \<open>errors.Is and errors.As on the shapes the program builds\<close>

section \<open>Errors\<close>

text \<open>
  \<open>ErrText\<close> is \<open>errors.New\<close>, \<open>fmt.Errorf\<close> without a wrapped error, or an error made by code
  outside the repository; \<open>Wrapf p e\<close> is \<open>fmt.Errorf\<close> of the form ``p: wrapped''. The
  sentinels are the ones the program tests with \<open>errors.Is\<close>, and \<open>UnrecoverableError\<close> is the type
  of internal/messaging that the consumer looks for with \<open>errors.As\<close>.
\<close>

datatype goerr =
    ErrText string
  | ContextCanceled
  | ContextDeadlineExceeded
  | SqlErrNoRows
  | PgxErrNoRows
  | AmqpErrClosed
  | UnrecoverableError goerr
  | Wrapf string goerr

fun error_string :: "goerr \<Rightarrow> string" where
  "error_string (ErrText m) = m"
| "error_string ContextCanceled = ''context canceled''"
| "error_string ContextDeadlineExceeded = ''context deadline exceeded''"
| "error_string SqlErrNoRows = ''sql: no rows in result set''"
| "error_string PgxErrNoRows = ''no rows in result set''"
| "error_string AmqpErrClosed = ''Exception (504) Reason: channel/connection is not open''"
| "error_string (UnrecoverableError e) = error_string e"
| "error_string (Wrapf p e) = p @ '': '' @ error_string e"

text \<open>\<open>errors.Is\<close> walks the chain and compares each link with the sentinel.\<close>

fun errors_is :: "goerr \<Rightarrow> goerr \<Rightarrow> bool" where
  "errors_is (Wrapf p e) t = (Wrapf p e = t \<or> errors_is e t)"
| "errors_is (UnrecoverableError e) t = (UnrecoverableError e = t \<or> errors_is e t)"
| "errors_is e t = (e = t)"

text \<open>\<open>errors.As\<close> with a target of type \<open>UnrecoverableError\<close>.\<close>

fun errors_as_unrecoverable :: "goerr \<Rightarrow> bool" where
  "errors_as_unrecoverable (UnrecoverableError e) = True"
| "errors_as_unrecoverable (Wrapf p e) = errors_as_unrecoverable e"
| "errors_as_unrecoverable _ = False"

lemma errors_is_self [simp]: "errors_is e e"
  by (cases e) simp_all

lemma errors_is_wrap [err_simps]:
  "t \<in> {ContextCanceled, ContextDeadlineExceeded, SqlErrNoRows, PgxErrNoRows, AmqpErrClosed} \<Longrightarrow>
   errors_is (Wrapf p e) t = errors_is e t"
  by auto

type_synonym 'a res = "goerr + 'a"

section \<open>64-bit signed integers\<close>

definition min_int64 :: int where
  "min_int64 = - (2 ^ 63)"

definition max_int64 :: int where
  "max_int64 = 2 ^ 63 - 1"

definition in_int64 :: "int \<Rightarrow> bool" where
  "in_int64 x \<longleftrightarrow> min_int64 \<le> x \<and> x \<le> max_int64"

definition wrap64 :: "int \<Rightarrow> int" where
  "wrap64 x = (x + 2 ^ 63) mod 2 ^ 64 - 2 ^ 63"

lemma wrap64_id: "in_int64 x \<Longrightarrow> wrap64 x = x"
  by (simp add: wrap64_def in_int64_def min_int64_def max_int64_def)

lemma wrap64_in_int64: "in_int64 (wrap64 x)"
proof -
  have "0 \<le> (x + 2 ^ 63) mod 2 ^ 64" and "(x + 2 ^ 63) mod 2 ^ 64 < 2 ^ 64"
    by simp_all
  then show ?thesis
    by (simp add: in_int64_def wrap64_def min_int64_def max_int64_def)
qed

lemma in_int64_range: "- 1000000000000000000 \<le> x \<Longrightarrow> x \<le> 1000000000000000000 \<Longrightarrow> in_int64 x"
  by (simp add: in_int64_def min_int64_def max_int64_def)

text \<open>Go's integer division truncates towards zero.\<close>

definition go_div :: "int \<Rightarrow> int \<Rightarrow> int" where
  "go_div a b = sgn a * sgn b * (\<bar>a\<bar> div \<bar>b\<bar>)"

lemma go_div_nonneg: "0 \<le> a \<Longrightarrow> 0 < b \<Longrightarrow> go_div a b = a div b"
  by (cases "a = 0") (simp_all add: go_div_def)

section \<open>Time\<close>

text \<open>
  An instant is the number of nanoseconds since the zero value of \<open>time.Time\<close>
  (year 1, January 1, 00:00 UTC), so \<open>IsZero\<close> is equality with 0. A duration is a number of
  nanoseconds.
\<close>

type_synonym time = int
type_synonym duration = int

definition is_zero_time :: "time \<Rightarrow> bool" where
  "is_zero_time t \<longleftrightarrow> t = 0"

abbreviation millisecond :: duration where
  "millisecond \<equiv> 1000000"

abbreviation second :: duration where
  "second \<equiv> 1000000000"

definition milliseconds :: "duration \<Rightarrow> int" where
  "milliseconds d = go_div d millisecond"

section \<open>Results and lists\<close>

lemma case_sum_Inl [simp]: "x = Inl e \<Longrightarrow> case_sum f g x = f e"
  by simp

lemma case_sum_Inr [simp]: "x = Inr y \<Longrightarrow> case_sum f g x = g y"
  by simp

lemma sum_cases_ex: "(\<exists>e. x = Inl e) \<or> (\<exists>y. x = Inr y)"
  by (cases x) auto

end
