(* ===== verification/Go_Strings.thy ===== *)
theory Go_Strings
  imports Go_Base
begin

text \<open>
  The parts of the packages strings and strconv that the program calls, on the bytes of a Go
  string: a \<open>char\<close> is one byte, so UTF-8 encoded code points are several of them. The Unicode
  cases the callers can observe (white space above ASCII, the code points whose lower case or fold
  is an ASCII letter) are spelled out as their encodings.
\<close>

section \<open>Searching and cutting\<close>

fun contains :: "string \<Rightarrow> string \<Rightarrow> bool" where
  "contains [] sub = (sub = [])"
| "contains (c # s) sub = (take (length sub) (c # s) = sub \<or> contains s sub)"

definition has_prefix :: "string \<Rightarrow> string \<Rightarrow> bool" where
  "has_prefix s p \<longleftrightarrow> take (length p) s = p"

definition trim_prefix :: "string \<Rightarrow> string \<Rightarrow> string" where
  "trim_prefix s p = (if has_prefix s p then drop (length p) s else s)"

definition trim_suffix :: "string \<Rightarrow> string \<Rightarrow> string" where
  "trim_suffix s p = rev (trim_prefix (rev s) (rev p))"

text \<open>\<open>strings.Cut\<close> and \<open>strings.SplitN\<close> with limit 2, for a one-byte separator.\<close>

definition cut :: "char \<Rightarrow> string \<Rightarrow> (string \<times> string) option" where
  "cut c s = (if c \<in> set s then Some (takeWhile (\<lambda>x. x \<noteq> c) s, tl (dropWhile (\<lambda>x. x \<noteq> c) s)) else None)"

definition splitN2 :: "char \<Rightarrow> string \<Rightarrow> string list" where
  "splitN2 c s = (case cut c s of Some (a, b) \<Rightarrow> [a, b] | None \<Rightarrow> [s])"

fun split_on :: "char \<Rightarrow> string \<Rightarrow> string list" where
  "split_on c [] = [[]]"
| "split_on c (x # xs) =
     (if x = c then [] # split_on c xs
      else (case split_on c xs of [] \<Rightarrow> [[x]] | y # ys \<Rightarrow> (x # y) # ys))"

fun join :: "string \<Rightarrow> string list \<Rightarrow> string" where
  "join sep [] = []"
| "join sep [s] = s"
| "join sep (s # ss) = s @ sep @ join sep ss"

text \<open>\<open>strings.ReplaceAll\<close> of a one-byte pattern.\<close>

definition replace_all :: "string \<Rightarrow> char \<Rightarrow> string \<Rightarrow> string" where
  "replace_all s c r = concat (map (\<lambda>x. if x = c then r else [x]) s)"

definition trim_left_char :: "char \<Rightarrow> string \<Rightarrow> string" where
  "trim_left_char c s = dropWhile (\<lambda>x. x = c) s"

section \<open>White space\<close>

text \<open>The code points of \<open>unicode.IsSpace\<close>, in UTF-8.\<close>

definition space_encodings :: "string list" where
  "space_encodings =
     map (\<lambda>c. [c]) [CHR 0x09, CHR 0x0A, CHR 0x0B, CHR 0x0C, CHR 0x0D, CHR 0x20] @
     [[CHR 0xC2, CHR 0x85], [CHR 0xC2, CHR 0xA0], [CHR 0xE1, CHR 0x9A, CHR 0x80]] @
     map (\<lambda>c. [CHR 0xE2, CHR 0x80, c])
       [CHR 0x80, CHR 0x81, CHR 0x82, CHR 0x83, CHR 0x84, CHR 0x85, CHR 0x86, CHR 0x87, CHR 0x88,
        CHR 0x89, CHR 0x8A, CHR 0xA8, CHR 0xA9, CHR 0xAF] @
     [[CHR 0xE2, CHR 0x81, CHR 0x9F], [CHR 0xE3, CHR 0x80, CHR 0x80]]"

fun strip_one :: "string list \<Rightarrow> string \<Rightarrow> string option" where
  "strip_one [] s = None"
| "strip_one (p # ps) s =
     (if p \<noteq> [] \<and> has_prefix s p then Some (drop (length p) s) else strip_one ps s)"

lemma strip_one_length: "strip_one ps s = Some s' \<Longrightarrow> length s' < length s"
proof (induction ps)
  case (Cons p ps)
  show ?case
  proof (cases "p \<noteq> [] \<and> has_prefix s p")
    case True
    then have "s \<noteq> []" by (auto simp: has_prefix_def)
    with True Cons.prems show ?thesis by auto
  qed (use Cons in auto)
qed simp

function trim_front :: "string list \<Rightarrow> string \<Rightarrow> string" where
  "trim_front ps s = (case strip_one ps s of None \<Rightarrow> s | Some s' \<Rightarrow> trim_front ps s')"
  by pat_completeness auto
termination
  by (relation "measure (\<lambda>(_, s). length s)") (auto dest: strip_one_length)

declare trim_front.simps [simp del]

definition trim_space :: "string \<Rightarrow> string" where
  "trim_space s = rev (trim_front (map rev space_encodings) (rev (trim_front space_encodings s)))"

lemma trim_front_None: "strip_one ps s = None \<Longrightarrow> trim_front ps s = s"
  by (subst trim_front.simps) simp

lemma strip_one_Nil [simp]: "strip_one ps [] = None"
  by (induction ps) (auto simp: has_prefix_def)

lemma trim_front_Nil [simp]: "trim_front ps [] = []"
  by (subst trim_front.simps) simp

lemma trim_space_Nil [simp]: "trim_space [] = []"
  by (simp add: trim_space_def)

section \<open>Case\<close>

definition lower_char :: "char \<Rightarrow> char" where
  "lower_char c = (let n = (of_char c :: nat) in if 65 \<le> n \<and> n \<le> 90 then char_of (n + 32) else c)"

text \<open>
  \<open>strings.ToLower\<close> as far as a search for an ASCII word can see it: the ASCII letters, and the two
  other code points whose lower case is ASCII (U+0130 and the Kelvin sign U+212A). Every other byte
  above ASCII belongs to a code point that stays above ASCII.
\<close>

fun to_lower :: "string \<Rightarrow> string" where
  "to_lower [] = []"
| "to_lower (c # s) =
     (if c = CHR 0xC4 \<and> take 1 s = [CHR 0xB0] then CHR ''i'' # to_lower (drop 1 s)
      else if c = CHR 0xE2 \<and> take 2 s = [CHR 0x84, CHR 0xAA] then CHR ''k'' # to_lower (drop 2 s)
      else lower_char c # to_lower s)"

text \<open>
  \<open>strings.EqualFold\<close> with an ASCII second argument: simple folding also identifies the long s
  (U+017F) with s and the Kelvin sign with k.
\<close>

fun fold_case :: "string \<Rightarrow> string" where
  "fold_case [] = []"
| "fold_case (c # s) =
     (if c = CHR 0xC5 \<and> take 1 s = [CHR 0xBF] then CHR ''s'' # fold_case (drop 1 s)
      else if c = CHR 0xE2 \<and> take 2 s = [CHR 0x84, CHR 0xAA] then CHR ''k'' # fold_case (drop 2 s)
      else lower_char c # fold_case s)"

definition equal_fold :: "string \<Rightarrow> string \<Rightarrow> bool" where
  "equal_fold s t \<longleftrightarrow> fold_case s = fold_case t"

section \<open>Numbers\<close>

definition is_digit :: "char \<Rightarrow> bool" where
  "is_digit c \<longleftrightarrow> 48 \<le> (of_char c :: nat) \<and> (of_char c :: nat) \<le> 57"

definition digit_val :: "char \<Rightarrow> int" where
  "digit_val c = int (of_char c) - 48"

definition digits_val :: "string \<Rightarrow> int" where
  "digits_val s = foldl (\<lambda>a c. 10 * a + digit_val c) 0 s"

text \<open>
  The verb \<open>%q\<close> on ASCII text (bytes above ASCII are kept, as for printable code points).
\<close>

definition hex_digit :: "nat \<Rightarrow> char" where
  "hex_digit n = (if n < 10 then char_of (48 + n) else char_of (87 + n))"

definition quote_char :: "char \<Rightarrow> string" where
  "quote_char c =
     (let n = (of_char c :: nat); bs = CHR 0x5C in
      if n = 34 then [bs, c] else if n = 92 then [bs, c]
      else if n = 7 then [bs, CHR ''a''] else if n = 8 then [bs, CHR ''b'']
      else if n = 12 then [bs, CHR ''f''] else if n = 10 then [bs, CHR ''n'']
      else if n = 13 then [bs, CHR ''r''] else if n = 9 then [bs, CHR ''t'']
      else if n = 11 then [bs, CHR ''v'']
      else if n < 32 \<or> n = 127 then [bs, CHR ''x'', hex_digit (n div 16), hex_digit (n mod 16)]
      else [c])"

definition go_quote :: "string \<Rightarrow> string" where
  "go_quote s = [CHR 0x22] @ concat (map quote_char s) @ [CHR 0x22]"

text \<open>
  \<open>strconv.ParseInt(s, 10, 64)\<close>; \<open>strconv.Atoi\<close> accepts the same strings on a 64-bit platform and
  differs in the name it puts into the error.
\<close>

definition parse_int_as :: "string \<Rightarrow> string \<Rightarrow> int res" where
  "parse_int_as fn s =
     (let neg = (s \<noteq> [] \<and> hd s = CHR ''-'');
          ds = (if s \<noteq> [] \<and> (hd s = CHR ''-'' \<or> hd s = CHR ''+'') then tl s else s);
          v = (if neg then - digits_val ds else digits_val ds)
      in if ds = [] \<or> \<not> list_all is_digit ds
         then Inl (ErrText (''strconv.'' @ fn @ '': parsing '' @ go_quote s @ '': invalid syntax''))
         else if \<not> in_int64 v
         then Inl (ErrText (''strconv.'' @ fn @ '': parsing '' @ go_quote s @ '': value out of range''))
         else Inr v)"

definition atoi :: "string \<Rightarrow> int res" where
  "atoi s = parse_int_as ''Atoi'' s"

definition parse_int :: "string \<Rightarrow> int res" where
  "parse_int s = parse_int_as ''ParseInt'' s"

fun nat_digits :: "nat \<Rightarrow> string" where
  "nat_digits n = (if n < 10 then [char_of (48 + n)] else nat_digits (n div 10) @ [char_of (48 + n mod 10)])"

declare nat_digits.simps [simp del]

text \<open>The verb \<open>%d\<close>.\<close>

definition itoa :: "int \<Rightarrow> string" where
  "itoa n = (if n < 0 then CHR ''-'' # nat_digits (nat (- n)) else nat_digits (nat n))"

section \<open>Facts\<close>

lemma contains_iff: "contains s sub \<longleftrightarrow> (\<exists>p q. s = p @ sub @ q)"
proof (induction s)
  case (Cons c s)
  have "take (length sub) (c # s) = sub \<longleftrightarrow> (\<exists>q. c # s = sub @ q)"
    by (metis append_eq_conv_conj append_take_drop_id)
  then show ?case
    using Cons by (auto simp: Cons_eq_append_conv)
qed auto

lemma contains_self [simp]: "contains s s"
  by (simp add: contains_iff exI[of _ "[]"])

lemma cut_Some: "cut c s = Some (a, b) \<Longrightarrow> s = a @ c # b \<and> c \<notin> set a"
proof -
  assume "cut c s = Some (a, b)"
  then have c: "c \<in> set s" and ab: "a = takeWhile (\<lambda>x. x \<noteq> c) s" "b = tl (dropWhile (\<lambda>x. x \<noteq> c) s)"
    by (auto simp: cut_def split: if_splits)
  then have ne: "dropWhile (\<lambda>x. x \<noteq> c) s \<noteq> []" by (auto simp: dropWhile_eq_Nil_conv)
  then have "hd (dropWhile (\<lambda>x. x \<noteq> c) s) = c" using hd_dropWhile by blast
  with ne have "dropWhile (\<lambda>x. x \<noteq> c) s = c # b" using ab by (metis list.collapse)
  then show ?thesis
    using ab takeWhile_dropWhile_id[of "\<lambda>x. x \<noteq> c" s] by (auto dest: set_takeWhileD)
qed

lemma cut_append [simp]: "c \<notin> set a \<Longrightarrow> cut c (a @ c # b) = Some (a, b)"
proof -
  assume "c \<notin> set a"
  then have "takeWhile (\<lambda>x. x \<noteq> c) (a @ c # b) = a \<and> dropWhile (\<lambda>x. x \<noteq> c) (a @ c # b) = c # b"
    by (induction a) auto
  then show ?thesis by (simp add: cut_def)
qed

lemma cut_None [simp]: "c \<notin> set s \<Longrightarrow> cut c s = None"
  by (simp add: cut_def)

lemma split_on_nonempty [simp]: "split_on c s \<noteq> []"
  by (induction s) (auto split: list.splits)

lemma join_split_on: "join [c] (split_on c s) = s"
proof (induction s)
  case (Cons x s)
  obtain y ys where y: "split_on c s = y # ys" by (cases "split_on c s") auto
  with Cons show ?case by (cases ys) (auto simp: y)
qed simp

lemma split_on_no_sep: "t \<in> set (split_on c s) \<Longrightarrow> c \<notin> set t"
  by (induction s arbitrary: t) (auto split: list.splits if_splits)

text \<open>Trimming leaves a slice of the string with no white space at its ends.\<close>

lemma strip_one_trim_front [simp]: "strip_one ps (trim_front ps s) = None"
proof (induction ps s rule: trim_front.induct)
  case (1 ps s)
  show ?case
  proof (cases "strip_one ps s")
    case None
    then show ?thesis by (simp add: trim_front_None)
  next
    case (Some s')
    with "1.IH" show ?thesis by (subst trim_front.simps) simp
  qed
qed

lemma strip_one_suffix: "strip_one ps s = Some s' \<Longrightarrow> \<exists>p. s = p @ s'"
  by (induction ps) (auto split: if_splits intro: append_take_drop_id[symmetric])

lemma trim_front_suffix: "\<exists>p. s = p @ trim_front ps s"
proof (induction ps s rule: trim_front.induct)
  case (1 ps s)
  show ?case
  proof (cases "strip_one ps s")
    case (Some s')
    from "1.IH"[OF Some] strip_one_suffix[OF Some] obtain p q
      where "s' = p @ trim_front ps s'" "s = q @ s'" by blast
    then have "s = (q @ p) @ trim_front ps s'" by simp
    with Some show ?thesis by (subst trim_front.simps) auto
  qed (simp add: trim_front_None)
qed

lemma strip_one_None_prefix: "strip_one ps (u @ v) = None \<Longrightarrow> strip_one ps u = None"
  by (induction ps) (auto simp: has_prefix_def split: if_splits)

lemma strip_one_rev:
  "strip_one (map rev space_encodings) (rev (trim_space s)) = None"
  by (simp add: trim_space_def)

lemma strip_one_trim_space: "strip_one space_encodings (trim_space s) = None"
proof -
  let ?t = "trim_front space_encodings s"
  obtain p where "rev ?t = p @ trim_front (map rev space_encodings) (rev ?t)"
    using trim_front_suffix by blast
  then have "?t = trim_space s @ rev p"
    unfolding trim_space_def by (metis rev_append rev_rev_ident)
  then show ?thesis by (metis strip_one_trim_front strip_one_None_prefix)
qed

lemma trim_space_idem [simp]: "trim_space (trim_space s) = trim_space s"
  using strip_one_trim_space[of s] strip_one_rev[of s]
  by (simp add: trim_space_def[of "trim_space s"] trim_front_None)

lemma trim_space_slice: "\<exists>p q. s = p @ trim_space s @ q"
proof -
  let ?t = "trim_front space_encodings s"
  obtain p where p: "s = p @ ?t" using trim_front_suffix by blast
  obtain q where "rev ?t = q @ trim_front (map rev space_encodings) (rev ?t)"
    using trim_front_suffix by blast
  then have "?t = trim_space s @ rev q"
    unfolding trim_space_def by (metis rev_append rev_rev_ident)
  with p show ?thesis by metis
qed

text \<open>Printing a number and parsing it back.\<close>

lemma nat_digits_nonempty [simp]: "nat_digits n \<noteq> []"
  by (subst nat_digits.simps) simp

lemma is_digit_char [simp]: "n < 10 \<Longrightarrow> is_digit (char_of (48 + n :: nat))"
  by (simp add: is_digit_def)

lemma digit_val_char [simp]: "n < 10 \<Longrightarrow> digit_val (char_of (48 + n :: nat)) = int n"
  by (simp add: digit_val_def)

lemma nat_digits_digits: "list_all is_digit (nat_digits n)"
proof (induction n rule: nat_digits.induct)
  case (1 n)
  then show ?case by (subst nat_digits.simps) simp
qed

lemma digits_val_snoc: "digits_val (s @ [c]) = 10 * digits_val s + digit_val c"
  by (simp add: digits_val_def)

lemma digits_val_nat_digits [simp]: "digits_val (nat_digits n) = int n"
proof (induction n rule: nat_digits.induct)
  case (1 n)
  show ?case
  proof (cases "n < 10")
    case True
    then show ?thesis by (subst nat_digits.simps) (simp add: digits_val_def)
  next
    case False
    with 1 have "digits_val (nat_digits (n div 10)) = int (n div 10)" by simp
    with False show ?thesis
      by (subst nat_digits.simps) (simp add: digits_val_snoc, presburger)
  qed
qed

lemma is_digit_not_sign: "is_digit c \<Longrightarrow> c \<noteq> CHR ''-'' \<and> c \<noteq> CHR ''+''"
  by (auto simp: is_digit_def)

lemma nat_digits_Cons: "\<exists>c cs. nat_digits n = c # cs \<and> is_digit c \<and> list_all is_digit cs"
  using nat_digits_digits[of n] by (cases "nat_digits n") auto

lemma parse_int_as_nat_digits:
  "in_int64 (int n) \<Longrightarrow> parse_int_as fn (nat_digits n) = Inr (int n)"
  using nat_digits_Cons[of n] digits_val_nat_digits[of n]
  by (auto simp: parse_int_as_def Let_def dest: is_digit_not_sign)

lemma parse_int_as_itoa: "in_int64 n \<Longrightarrow> parse_int_as fn (itoa n) = Inr n"
proof (cases "n < 0")
  case True
  assume "in_int64 n"
  with True nat_digits_digits[of "nat (- n)"] show ?thesis
    by (simp add: itoa_def parse_int_as_def Let_def)
next
  case False
  assume "in_int64 n"
  with False parse_int_as_nat_digits[of "nat n" fn] show ?thesis
    by (simp add: itoa_def)
qed

lemma split_on_append: "split_on c (xs @ c # ys) = split_on c xs @ split_on c ys"
  by (induction xs) (auto split: list.splits)

lemma split_on_single: "c \<notin> set v \<Longrightarrow> split_on c v = [v]"
  by (induction v) auto

end
