(* ===== verification/Go_Time.thy ===== *)
theory Go_Time
  imports Go_Strings
begin

text \<open>
  The text form of \<open>time.Time\<close> that encoding/json reads and writes: RFC 3339 with an optional
  fraction, always in UTC when written (every instant the program stores is \<open>time.Now().UTC()\<close>).
  The calendar is the proleptic Gregorian one of package time.
\<close>

section \<open>The calendar\<close>

definition is_leap :: "int \<Rightarrow> bool" where
  "is_leap y \<longleftrightarrow> y mod 4 = 0 \<and> (y mod 100 \<noteq> 0 \<or> y mod 400 = 0)"

text \<open>Days from January 1 of year 1 to January 1 of year \<open>y\<close>.\<close>

definition days_before_year :: "int \<Rightarrow> int" where
  "days_before_year y = 365 * (y - 1) + (y - 1) div 4 - (y - 1) div 100 + (y - 1) div 400"

definition year_of_days :: "int \<Rightarrow> int" where
  "year_of_days d =
     (let y = 400 * d div 146097 + 1 in
      if days_before_year (y + 1) \<le> d then y + 1
      else if days_before_year y \<le> d then y else y - 1)"

definition month_lengths :: "int \<Rightarrow> int list" where
  "month_lengths y = [31, if is_leap y then 29 else 28, 31, 30, 31, 30, 31, 31, 30, 31, 30, 31]"

fun month_day :: "int \<Rightarrow> int list \<Rightarrow> int \<Rightarrow> int \<times> int" where
  "month_day m [] yd = (m, yd + 1)"
| "month_day m (l # ls) yd = (if yd < l then (m, yd + 1) else month_day (m + 1) ls (yd - l))"

definition year_day :: "int list \<Rightarrow> int \<Rightarrow> int \<Rightarrow> int" where
  "year_day ls m d = sum_list (take (nat (m - 1)) ls) + d - 1"

abbreviation day_ns :: int where
  "day_ns \<equiv> 86400000000000"

record civil =
  c_year :: int
  c_month :: int
  c_day :: int
  c_hour :: int
  c_min :: int
  c_sec :: int
  c_nsec :: int

definition civil_of :: "time \<Rightarrow> civil" where
  "civil_of t =
     (let d = t div day_ns; r = t mod day_ns; y = year_of_days d;
          (m, day) = month_day 1 (month_lengths y) (d - days_before_year y)
      in \<lparr>c_year = y, c_month = m, c_day = day, c_hour = r div (3600 * second),
          c_min = r div (60 * second) mod 60, c_sec = r div second mod 60, c_nsec = r mod second\<rparr>)"

definition time_of :: "civil \<Rightarrow> time" where
  "time_of c =
     (days_before_year (c_year c) + year_day (month_lengths (c_year c)) (c_month c) (c_day c)) * day_ns +
     c_hour c * (3600 * second) + c_min c * (60 * second) + c_sec c * second + c_nsec c"

definition civil_ok :: "civil \<Rightarrow> bool" where
  "civil_ok c \<longleftrightarrow> 0 \<le> c_year c \<and> c_year c \<le> 9999 \<and> 1 \<le> c_month c \<and> c_month c \<le> 12 \<and>
     1 \<le> c_day c \<and> c_day c \<le> month_lengths (c_year c) ! nat (c_month c - 1) \<and>
     0 \<le> c_hour c \<and> c_hour c \<le> 23 \<and> 0 \<le> c_min c \<and> c_min c \<le> 59 \<and>
     0 \<le> c_sec c \<and> c_sec c \<le> 59 \<and> 0 \<le> c_nsec c \<and> c_nsec c < second"

section \<open>RFC 3339\<close>

definition dig :: "int \<Rightarrow> char" where
  "dig n = char_of (48 + nat n)"

definition pad2 :: "int \<Rightarrow> string" where
  "pad2 n = [dig (n div 10), dig (n mod 10)]"

definition pad4 :: "int \<Rightarrow> string" where
  "pad4 n = pad2 (n div 100) @ pad2 (n mod 100)"

definition pad9 :: "int \<Rightarrow> string" where
  "pad9 n = dig (n div 100000000) # pad4 (n div 10000 mod 10000) @ pad4 (n mod 10000)"

definition format_fraction :: "int \<Rightarrow> string" where
  "format_fraction n =
     (if n = 0 then [] else CHR ''.'' # rev (dropWhile (\<lambda>c. c = CHR ''0'') (rev (pad9 n))))"

definition format_civil :: "civil \<Rightarrow> string" where
  "format_civil c =
     pad4 (c_year c) @ ''-'' @ pad2 (c_month c) @ ''-'' @ pad2 (c_day c) @ ''T'' @
     pad2 (c_hour c) @ '':'' @ pad2 (c_min c) @ '':'' @ pad2 (c_sec c) @
     format_fraction (c_nsec c) @ ''Z''"

text \<open>\<open>Time.MarshalJSON\<close>: an error outside the years 0 to 9999.\<close>

definition format_time :: "time \<Rightarrow> string res" where
  "format_time t =
     (let c = civil_of t in
      if 0 \<le> c_year c \<and> c_year c \<le> 9999 then Inr (format_civil c)
      else Inl (ErrText ''Time.MarshalJSON: year outside of range [0,9999]''))"

definition parse_digits :: "string \<Rightarrow> int option" where
  "parse_digits s = (if s \<noteq> [] \<and> list_all is_digit s then Some (digits_val s) else None)"

text \<open>The fraction and what follows it; digits after the ninth are dropped.\<close>

definition parse_fraction :: "string \<Rightarrow> (int \<times> string) option" where
  "parse_fraction s =
     (case s of
        [] \<Rightarrow> None
      | c # r \<Rightarrow>
          if c = CHR ''.'' then
            let ds = takeWhile is_digit r in
            if ds = [] then None
            else Some (digits_val (take 9 (ds @ replicate 9 (CHR ''0''))), dropWhile is_digit r)
          else Some (0, s))"

definition parse_zone :: "string \<Rightarrow> int option" where
  "parse_zone s =
     (if s = ''Z'' then Some 0
      else if length s = 6 \<and> (s ! 0 = CHR ''+'' \<or> s ! 0 = CHR ''-'') \<and> s ! 3 = CHR '':'' then
        (case (parse_digits (take 2 (drop 1 s)), parse_digits (drop 4 s)) of
           (Some h, Some m) \<Rightarrow>
             if h \<le> 23 \<and> m \<le> 59
             then Some ((if s ! 0 = CHR ''-'' then - 1 else 1) * (h * 60 + m) * 60 * second)
             else None
         | _ \<Rightarrow> None)
      else None)"

definition parse_time :: "string \<Rightarrow> time option" where
  "parse_time s =
     (if length s < 20 \<or> s ! 4 \<noteq> CHR ''-'' \<or> s ! 7 \<noteq> CHR ''-'' \<or> s ! 10 \<noteq> CHR ''T'' \<or>
         s ! 13 \<noteq> CHR '':'' \<or> s ! 16 \<noteq> CHR '':'' then None
      else
        (case (parse_digits (take 4 s), parse_digits (take 2 (drop 5 s)),
               parse_digits (take 2 (drop 8 s)), parse_digits (take 2 (drop 11 s)),
               parse_digits (take 2 (drop 14 s)), parse_digits (take 2 (drop 17 s)),
               parse_fraction (drop 19 s)) of
           (Some y, Some mo, Some d, Some h, Some mi, Some sec, Some (ns, rest)) \<Rightarrow>
             (case parse_zone rest of
                None \<Rightarrow> None
              | Some off \<Rightarrow>
                  let c = \<lparr>c_year = y, c_month = mo, c_day = d, c_hour = h, c_min = mi,
                           c_sec = sec, c_nsec = ns\<rparr>
                  in if civil_ok c then Some (time_of c - off) else None)
         | _ \<Rightarrow> None))"

section \<open>The calendar computes with itself\<close>

lemma div_bracket: "0 < k \<Longrightarrow> \<exists>q. x div k = q \<and> k * q \<le> x \<and> x < k * q + k" for x k :: int
  using pos_mod_bound[of k x] pos_mod_sign[of k x] mult_div_mod_eq[of k x]
  by (intro exI[of _ "x div k"]) linarith

lemma days_before_year_bounds:
  "146097 * y - 146796 \<le> 400 * days_before_year y \<and>
   400 * days_before_year y \<le> 146097 * y - 145701"
proof -
  obtain a where a: "(y - 1) div 4 = a" "4 * a \<le> y - 1" "y - 1 < 4 * a + 4"
    using div_bracket[of 4 "y - 1"] by auto
  obtain b where b: "(y - 1) div 100 = b" "100 * b \<le> y - 1" "y - 1 < 100 * b + 100"
    using div_bracket[of 100 "y - 1"] by auto
  obtain c where c: "(y - 1) div 400 = c" "400 * c \<le> y - 1" "y - 1 < 400 * c + 400"
    using div_bracket[of 400 "y - 1"] by auto
  have "days_before_year y = 365 * y - 365 + a - b + c"
    by (simp add: days_before_year_def a(1) b(1) c(1) right_diff_distrib)
  then show ?thesis using a(2,3) b(2,3) c(2,3) by (intro conjI; linarith)
qed

lemma div_step: "0 < k \<Longrightarrow> x div k = (x - 1) div k + (if x mod k = 0 then 1 else 0)" for x k :: int
proof -
  assume k: "0 < k"
  show ?thesis
  proof (cases "x mod k = 0")
    case True
    then have "x - 1 = (k - 1) + (x div k - 1) * k"
      using div_mult_mod_eq[of x k] by (simp add: algebra_simps)
    moreover have "((k - 1) + (x div k - 1) * k) div k = (x div k - 1) + (k - 1) div k"
      using k by (intro div_mult_self1) simp
    ultimately have "(x - 1) div k = (x div k - 1) + (k - 1) div k" by argo
    with True k show ?thesis by (simp add: div_pos_pos_trivial)
  next
    case False
    have "0 \<le> x mod k - 1" "x mod k - 1 < k"
      using k False pos_mod_bound[OF k, of x] pos_mod_sign[OF k, of x] by linarith+
    moreover have "x - 1 = (x mod k - 1) + (x div k) * k"
      using div_mult_mod_eq[of x k] by simp
    ultimately have "(x - 1) div k = x div k"
      using k by (metis add.commute add.right_neutral div_mult_self1 div_pos_pos_trivial less_irrefl)
    with False show ?thesis by simp
  qed
qed

lemma days_before_year_Suc:
  "days_before_year (y + 1) = days_before_year y + (if is_leap y then 366 else 365)"
proof -
  have "100 dvd y \<Longrightarrow> 4 dvd y" and "400 dvd y \<Longrightarrow> 100 dvd y"
    using dvd_trans[of 4 100 y] dvd_trans[of 100 400 y] by simp_all
  then have "y mod 100 = 0 \<Longrightarrow> y mod 4 = 0" and "y mod 400 = 0 \<Longrightarrow> y mod 100 = 0"
    by (simp_all add: mod_eq_0_iff_dvd)
  note leap = this
  have "days_before_year (y + 1) = 365 * y + y div 4 - y div 100 + y div 400"
    by (simp add: days_before_year_def)
  also have "\<dots> = 365 * y +
      ((y - 1) div 4 + (if y mod 4 = 0 then 1 else 0)) -
      ((y - 1) div 100 + (if y mod 100 = 0 then 1 else 0)) +
      ((y - 1) div 400 + (if y mod 400 = 0 then 1 else 0))"
    using div_step[of 4 y] div_step[of 100 y] div_step[of 400 y] by (simp only: zero_less_numeral)
  also have "\<dots> = days_before_year y + 365 + ((if y mod 4 = 0 then 1 else 0) -
      (if y mod 100 = 0 then 1 else 0) + (if y mod 400 = 0 then 1 else 0))"
    by (simp add: days_before_year_def right_diff_distrib)
  also have "\<dots> = days_before_year y + (if is_leap y then 366 else 365)"
    using leap unfolding is_leap_def
    by (cases "y mod 400 = 0"; cases "y mod 100 = 0"; cases "y mod 4 = 0") simp_all
  finally show ?thesis .
qed

lemma year_of_days_bounds:
  "days_before_year (year_of_days d) \<le> d \<and> d < days_before_year (year_of_days d + 1)"
proof -
  obtain n where n: "400 * d div 146097 = n" "146097 * n \<le> 400 * d" "400 * d < 146097 * n + 146097"
    using div_bracket[of 146097 "400 * d"] by auto
  have lo: "days_before_year n \<le> d"
    using conjunct2[OF days_before_year_bounds[of n]] n(2) by linarith
  have hi: "d < days_before_year (n + 3)"
    using conjunct1[OF days_before_year_bounds[of "n + 3"]] n(3) by (simp add: distrib_left)
  have "n + 1 + 1 + 1 = n + 3" "n + 1 + 1 = n + 2" by simp_all
  with lo hi n(1) show ?thesis
    by (simp add: year_of_days_def Let_def add.commute[of _ n])
qed

lemma month_day_year_day:
  "0 \<le> yd \<Longrightarrow> yd < sum_list ls \<Longrightarrow> \<forall>l \<in> set ls. 0 < l \<Longrightarrow> month_day m0 ls yd = (m, d) \<Longrightarrow>
   m0 \<le> m \<and> m < m0 + int (length ls) \<and> 1 \<le> d \<and> d \<le> ls ! nat (m - m0) \<and>
   sum_list (take (nat (m - m0)) ls) + d - 1 = yd"
proof (induction ls arbitrary: m0 yd)
  case (Cons l ls)
  show ?case
  proof (cases "yd < l")
    case True
    with Cons.prems show ?thesis by auto
  next
    case False
    with Cons.prems have "m0 + 1 \<le> m \<and> m < m0 + 1 + int (length ls) \<and> 1 \<le> d \<and>
        d \<le> ls ! nat (m - (m0 + 1)) \<and> sum_list (take (nat (m - (m0 + 1))) ls) + d - 1 = yd - l"
      by (intro Cons.IH) auto
    moreover from this have "nat (m - m0) = Suc (nat (m - (m0 + 1)))" by auto
    ultimately show ?thesis by auto
  qed
qed simp

lemma month_lengths_sum: "sum_list (month_lengths y) = (if is_leap y then 366 else 365)"
  by (simp add: month_lengths_def)

lemma month_lengths_length [simp]: "length (month_lengths y) = 12"
  by (simp add: month_lengths_def)

lemma month_lengths_pos: "\<forall>l \<in> set (month_lengths y). 0 < l"
  by (simp add: month_lengths_def)

lemma clock_join:
  "r = a * second + s \<Longrightarrow> a = b * 60 + c \<Longrightarrow> b = e * 60 + f \<Longrightarrow>
   r = e * (3600 * second) + f * (60 * second) + c * second + s" for r :: int
  by (simp add: algebra_simps)

lemma clock_split:
  "r = r div (3600 * second) * (3600 * second) + r div (60 * second) mod 60 * (60 * second) +
       r div second mod 60 * second + r mod second" for r :: int
proof -
  have div: "r div (60 * second) = r div second div 60"
    "r div (3600 * second) = r div second div 60 div 60"
    by (simp_all add: zdiv_zmult2_eq[symmetric])
  show ?thesis unfolding div by (rule clock_join) simp_all
qed

lemma time_of_civil_of: "time_of (civil_of t) = t"
proof -
  let ?d = "t div day_ns" and ?r = "t mod day_ns"
  let ?y = "year_of_days ?d"
  obtain m day where md: "month_day 1 (month_lengths ?y) (?d - days_before_year ?y) = (m, day)"
    by (cases "month_day 1 (month_lengths ?y) (?d - days_before_year ?y)")
  have "0 \<le> ?d - days_before_year ?y" "?d - days_before_year ?y < sum_list (month_lengths ?y)"
    using year_of_days_bounds[of ?d] days_before_year_Suc[of ?y] by (auto simp: month_lengths_sum)
  from month_day_year_day[OF this month_lengths_pos md]
  have days: "days_before_year ?y + year_day (month_lengths ?y) m day = ?d"
    by (simp add: year_day_def)
  note r = clock_split[of ?r]
  have "time_of (civil_of t) = ?d * day_ns +
      (?r div (3600 * second) * (3600 * second) + ?r div (60 * second) mod 60 * (60 * second) +
       ?r div second mod 60 * second + ?r mod second)"
    using days by (simp add: civil_of_def time_of_def md Let_def add.assoc)
  also have "\<dots> = ?d * day_ns + ?r" by (simp only: r[symmetric])
  finally show ?thesis by simp
qed

lemma clock_bounds:
  assumes "0 \<le> r" "r < day_ns"
  shows "0 \<le> r div (3600 * second)" "r div (3600 * second) \<le> 23"
proof -
  show "0 \<le> r div (3600 * second)" using assms by (simp add: pos_imp_zdiv_nonneg_iff)
  have "r div (3600 * second) \<le> (day_ns - 1) div (3600 * second)"
    using assms by (intro zdiv_mono1) simp_all
  then show "r div (3600 * second) \<le> 23" by simp
qed

lemma mod_60_le: "x mod 60 \<le> 59" for x :: int
  using pos_mod_bound[of 60 x] by linarith

lemma civil_okI:
  "0 \<le> y \<Longrightarrow> y \<le> 9999 \<Longrightarrow> 1 \<le> m \<Longrightarrow> m < 13 \<Longrightarrow> 1 \<le> d \<Longrightarrow> d \<le> month_lengths y ! nat (m - 1) \<Longrightarrow>
   0 \<le> h \<Longrightarrow> h \<le> 23 \<Longrightarrow> civil_ok \<lparr>c_year = y, c_month = m, c_day = d, c_hour = h,
     c_min = i mod 60, c_sec = s mod 60, c_nsec = n mod second\<rparr>"
  using mod_60_le[of i] mod_60_le[of s] by (simp add: civil_ok_def)

lemma civil_of_ok:
  assumes "0 \<le> c_year (civil_of t)" "c_year (civil_of t) \<le> 9999"
  shows "civil_ok (civil_of t)"
proof -
  let ?d = "t div day_ns" and ?r = "t mod day_ns"
  let ?y = "year_of_days ?d"
  obtain m day where md: "month_day 1 (month_lengths ?y) (?d - days_before_year ?y) = (m, day)"
    by (cases "month_day 1 (month_lengths ?y) (?d - days_before_year ?y)")
  have "0 \<le> ?d - days_before_year ?y" "?d - days_before_year ?y < sum_list (month_lengths ?y)"
    using year_of_days_bounds[of ?d] days_before_year_Suc[of ?y] by (auto simp: month_lengths_sum)
  from month_day_year_day[OF this month_lengths_pos md]
  have days: "1 \<le> m" "m < 13" "1 \<le> day" "day \<le> month_lengths ?y ! nat (m - 1)"
    by simp_all
  have fields: "civil_of t = \<lparr>c_year = ?y, c_month = m, c_day = day,
      c_hour = ?r div (3600 * second), c_min = ?r div (60 * second) mod 60,
      c_sec = ?r div second mod 60, c_nsec = ?r mod second\<rparr>"
    unfolding civil_of_def Let_def md prod.case by (rule refl)
  have "0 \<le> ?r" "?r < day_ns" by simp_all
  with assms days show ?thesis
    unfolding fields civil.simps by (intro civil_okI clock_bounds)
qed

section \<open>Writing and reading back\<close>

lemma is_digit_dig: "0 \<le> n \<Longrightarrow> n < 10 \<Longrightarrow> is_digit (dig n)"
  unfolding dig_def by (intro is_digit_char) simp

lemma digit_val_dig: "0 \<le> n \<Longrightarrow> n < 10 \<Longrightarrow> digit_val (dig n) = n"
  unfolding dig_def by (subst digit_val_char) simp_all

lemma pad2_facts:
  "0 \<le> n \<Longrightarrow> n < 100 \<Longrightarrow>
   length (pad2 n) = 2 \<and> list_all is_digit (pad2 n) \<and> digits_val (pad2 n) = n"
  by (simp add: pad2_def is_digit_dig digit_val_dig digits_val_def)

lemma digits_val_append:
  "digits_val (a @ b) = digits_val a * 10 ^ length b + digits_val b"
proof (induction b rule: rev_induct)
  case (snoc c b)
  then show ?case
    using digits_val_snoc[of "a @ b" c] digits_val_snoc[of b c] by (simp add: algebra_simps)
qed (simp add: digits_val_def)

lemma pad4_facts:
  assumes "0 \<le> n" "n < 10000"
  shows "length (pad4 n) = 4 \<and> list_all is_digit (pad4 n) \<and> digits_val (pad4 n) = n"
proof -
  have "0 \<le> n div 100" "n div 100 < 100" using assms by simp_all
  with pad2_facts[of "n div 100"] pad2_facts[of "n mod 100"] show ?thesis
    by (simp add: pad4_def digits_val_append)
qed

lemma pad9_parts:
  assumes "0 \<le> a" "a < 10" "0 \<le> b" "b < 10000" "0 \<le> c" "c < 10000"
  shows "length (dig a # pad4 b @ pad4 c) = 9 \<and> list_all is_digit (dig a # pad4 b @ pad4 c) \<and>
    digits_val (dig a # pad4 b @ pad4 c) = a * 100000000 + b * 10000 + c"
  using pad4_facts[of b] pad4_facts[of c] assms
    digits_val_append[of "[dig a]" "pad4 b @ pad4 c"] digits_val_append[of "pad4 b" "pad4 c"]
  by (simp add: is_digit_dig digits_val_def[of "[dig a]"] digit_val_dig)

lemma pad9_facts:
  assumes "0 \<le> n" "n < second"
  shows "length (pad9 n) = 9 \<and> list_all is_digit (pad9 n) \<and> digits_val (pad9 n) = n"
proof -
  let ?a = "n div 100000000" and ?b = "n div 10000 mod 10000" and ?c = "n mod 10000"
  have "?a = n div 10000 div 10000" by (simp add: zdiv_zmult2_eq[symmetric])
  then have n: "?a * 100000000 + ?b * 10000 + ?c = n"
    using div_mult_mod_eq[of n 10000] div_mult_mod_eq[of "n div 10000" 10000] by linarith
  have "0 \<le> ?a" "?a < 10" using assms by simp_all
  then show ?thesis
    unfolding pad9_def using pad9_parts[of ?a ?b ?c, unfolded n] by simp
qed

lemma dropWhile_zeros:
  "\<exists>k. s = rev (dropWhile (\<lambda>c. c = CHR ''0'') (rev s)) @ replicate k (CHR ''0'')"
proof (induction s rule: rev_induct)
  case (snoc c s)
  show ?case
  proof (cases "c = CHR ''0''")
    case True
    from snoc obtain k where
      k: "s = rev (dropWhile (\<lambda>c. c = CHR ''0'') (rev s)) @ replicate k (CHR ''0'')" ..
    then have "s @ [c] = rev (dropWhile (\<lambda>c. c = CHR ''0'') (rev s)) @ (replicate k (CHR ''0'') @ [CHR ''0''])"
      using True by (metis append_assoc)
    also have "replicate k (CHR ''0'') @ [CHR ''0''] = replicate (Suc k) (CHR ''0'')"
      by (simp add: replicate_append_same)
    finally have calc: "s @ [c] =
      rev (dropWhile (\<lambda>c. c = CHR ''0'') (rev s)) @ replicate (Suc k) (CHR ''0'')" .
    have "dropWhile (\<lambda>c. c = CHR ''0'') (rev (s @ [c])) = dropWhile (\<lambda>c. c = CHR ''0'') (rev s)"
      using True by simp
    then show ?thesis using calc by (intro exI[of _ "Suc k"]) (simp only:)
  qed (auto intro: exI[of _ 0])
qed simp

lemma take_drop_while_snoc:
  "list_all P t \<Longrightarrow> \<not> P z \<Longrightarrow> takeWhile P (t @ [z]) = t \<and> dropWhile P (t @ [z]) = [z]"
  by (induction t) auto

lemma parse_fraction_format:
  assumes "0 \<le> n" "n < second"
  shows "parse_fraction (format_fraction n @ ''Z'') = Some (n, ''Z'')"
proof (cases "n = 0")
  case True
  then show ?thesis by (simp add: parse_fraction_def format_fraction_def)
next
  case False
  let ?t = "rev (dropWhile (\<lambda>c. c = CHR ''0'') (rev (pad9 n)))"
  note p = pad9_facts[OF assms]
  obtain k where k: "pad9 n = ?t @ replicate k (CHR ''0'')" using dropWhile_zeros by blast
  have digits: "list_all is_digit ?t" using p k by (metis list_all_append)
  have ne: "?t \<noteq> []"
  proof
    assume "?t = []"
    then have "\<forall>c \<in> set (pad9 n). c = CHR ''0''" by (simp add: dropWhile_eq_Nil_conv)
    moreover have "\<forall>c \<in> set s. c = CHR ''0'' \<Longrightarrow> digits_val s = 0" for s
      by (induction s rule: rev_induct) (auto simp: digits_val_def digit_val_def)
    ultimately show False using p False by simp
  qed
  have z: "\<not> is_digit CHR ''Z''" by (simp add: is_digit_def)
  have tw: "takeWhile is_digit (?t @ ''Z'') = ?t" "dropWhile is_digit (?t @ ''Z'') = ''Z''"
    using take_drop_while_snoc[OF digits z] by simp_all
  have len: "length ?t + k = 9" using p k by (metis length_append length_replicate)
  then have "take 9 (?t @ replicate 9 (CHR ''0'')) = ?t @ replicate k (CHR ''0'')"
    by (simp add: min_def)
  then have "digits_val (take 9 (?t @ replicate 9 (CHR ''0''))) = n" using k p by simp
  with False tw ne show ?thesis
    by (simp add: parse_fraction_def format_fraction_def Let_def)
qed

lemma parse_digits_pad2: "0 \<le> n \<Longrightarrow> n < 100 \<Longrightarrow> parse_digits (pad2 n) = Some n"
  using pad2_facts[of n] by (auto simp: parse_digits_def pad2_def)

lemma parse_digits_pad4: "0 \<le> n \<Longrightarrow> n < 10000 \<Longrightarrow> parse_digits (pad4 n) = Some n"
  using pad4_facts[of n] by (auto simp: parse_digits_def pad4_def pad2_def)

lemma parse_time_format_civil:
  assumes "civil_ok c"
  shows "parse_time (format_civil c) = Some (time_of c)"
proof -
  have le: "c_day c \<le> 31"
  proof -
    have "l \<le> 31" if "l \<in> set (month_lengths (c_year c))" for l
      using that by (auto simp: month_lengths_def split: if_splits)
    moreover have "nat (c_month c - 1) < length (month_lengths (c_year c))"
      using assms unfolding civil_ok_def by (subst month_lengths_length) auto
    ultimately show ?thesis using assms unfolding civil_ok_def by (meson nth_mem order_trans)
  qed
  obtain y1 y2 y3 y4 where y: "pad4 (c_year c) = [y1, y2, y3, y4]" by (simp add: pad4_def pad2_def)
  obtain m1 m2 where m: "pad2 (c_month c) = [m1, m2]" by (simp add: pad2_def)
  obtain d1 d2 where d: "pad2 (c_day c) = [d1, d2]" by (simp add: pad2_def)
  obtain h1 h2 where h: "pad2 (c_hour c) = [h1, h2]" by (simp add: pad2_def)
  obtain n1 n2 where n: "pad2 (c_min c) = [n1, n2]" by (simp add: pad2_def)
  obtain s1 s2 where s: "pad2 (c_sec c) = [s1, s2]" by (simp add: pad2_def)
  note shape = y m d h n s
  have fields: "parse_digits [y1, y2, y3, y4] = Some (c_year c)"
    "parse_digits [m1, m2] = Some (c_month c)" "parse_digits [d1, d2] = Some (c_day c)"
    "parse_digits [h1, h2] = Some (c_hour c)" "parse_digits [n1, n2] = Some (c_min c)"
    "parse_digits [s1, s2] = Some (c_sec c)"
    using assms le unfolding shape[symmetric]
    by (simp_all add: civil_ok_def parse_digits_pad2 parse_digits_pad4)
  have frac: "parse_fraction (format_fraction (c_nsec c) @ ''Z'') = Some (c_nsec c, ''Z'')"
    using assms by (intro parse_fraction_format) (simp_all add: civil_ok_def)
  have eq: "\<lparr>c_year = c_year c, c_month = c_month c, c_day = c_day c, c_hour = c_hour c,
      c_min = c_min c, c_sec = c_sec c, c_nsec = c_nsec c\<rparr> = c"
    by (cases c) simp
  show ?thesis
    using assms fields frac
    by (simp add: eq parse_time_def format_civil_def shape parse_zone_def numeral_eq_Suc Let_def)
qed

text \<open>What \<open>MarshalJSON\<close> writes, \<open>UnmarshalJSON\<close> reads back.\<close>

lemma parse_format_time: "format_time t = Inr s \<Longrightarrow> parse_time s = Some t"
  using parse_time_format_civil[of "civil_of t"] civil_of_ok[of t]
  by (auto simp: format_time_def Let_def time_of_civil_of split: if_splits)

section \<open>The times that can be written\<close>

text \<open>\<open>format_time\<close> works exactly from January 1 of year 0 to the end of year 9999.\<close>

definition year_start :: "int \<Rightarrow> time" where
  "year_start y = days_before_year y * day_ns"

lemma days_before_year_mono: "y \<le> z \<Longrightarrow> days_before_year y \<le> days_before_year z"
proof (induction z rule: int_ge_induct)
  case (step z)
  then show ?case
    using days_before_year_Suc [of z] by (auto split: if_splits)
qed simp

lemma year_of_days_less: "year_of_days d < y \<longleftrightarrow> d < days_before_year y"
proof
  assume "year_of_days d < y"
  then have "days_before_year (year_of_days d + 1) \<le> days_before_year y"
    by (intro days_before_year_mono) simp
  with year_of_days_bounds [of d] show "d < days_before_year y"
    by linarith
next
  assume "d < days_before_year y"
  show "year_of_days d < y"
  proof (rule ccontr)
    assume "\<not> year_of_days d < y"
    then have "days_before_year y \<le> days_before_year (year_of_days d)"
      by (intro days_before_year_mono) simp
    with year_of_days_bounds [of d] \<open>d < days_before_year y\<close> show False
      by linarith
  qed
qed

lemma civil_year_less: "c_year (civil_of t) < y \<longleftrightarrow> t < year_start y"
proof -
  have "c_year (civil_of t) = year_of_days (t div day_ns)"
    by (simp add: civil_of_def Let_def split: prod.split)
  moreover obtain q where "t div day_ns = q" "day_ns * q \<le> t" "t < day_ns * q + day_ns"
    using div_bracket [of day_ns t] by auto
  ultimately show ?thesis
    by (auto simp: year_of_days_less year_start_def)
qed

lemma format_time_ok_iff: "(\<exists>s. format_time t = Inr s) \<longleftrightarrow> year_start 0 \<le> t \<and> t < year_start 10000"
  using civil_year_less [of t 0] civil_year_less [of t 10000] by (auto simp: format_time_def Let_def)

end
