(* ===== verification/Go_Json.thy ===== *)
theory Go_Json
  imports Go_Time "HOL-Library.AList"
begin

text \<open>
  encoding/json at the level of JSON values: what \<open>Unmarshal\<close> stores into a Go value for each JSON
  value, and the value \<open>Marshal\<close> writes for a Go value. The text syntax is left out: the bytes of a
  message are either not a JSON text or the text of a value (and so is a row of a JSONB column).
  Strings are taken to be valid UTF-8, as the decoder makes them. Struct keys are matched exactly
  first and up to case after that, unknown keys are ignored or refused, \<open>null\<close> leaves a scalar or
  struct untouched and makes a map nil; the first error is the one returned.
\<close>

section \<open>Values\<close>

datatype json =
    JNull
  | JBool bool
  | JInt int
  | JReal string
  | JStr string
  | JArr "json list"
  | JObj "(string \<times> json) list"

datatype bytes = NotJson | Doc json

section \<open>Decoding\<close>

definition type_error :: goerr where
  "type_error = ErrText ''json: cannot unmarshal value into Go value''"

definition syntax_error :: goerr where
  "syntax_error = ErrText ''invalid character in JSON text''"

definition dec_string :: "json \<Rightarrow> string \<Rightarrow> string res" where
  "dec_string j old = (case j of JStr s \<Rightarrow> Inr s | JNull \<Rightarrow> Inr old | _ \<Rightarrow> Inl type_error)"

definition dec_int :: "json \<Rightarrow> int \<Rightarrow> int res" where
  "dec_int j old =
     (case j of
        JInt n \<Rightarrow> if in_int64 n then Inr n else Inl type_error
      | JNull \<Rightarrow> Inr old
      | _ \<Rightarrow> Inl type_error)"

definition dec_bool :: "json \<Rightarrow> bool \<Rightarrow> bool res" where
  "dec_bool j old = (case j of JBool b \<Rightarrow> Inr b | JNull \<Rightarrow> Inr old | _ \<Rightarrow> Inl type_error)"

definition dec_time :: "json \<Rightarrow> time \<Rightarrow> time res" where
  "dec_time j old =
     (case j of
        JStr s \<Rightarrow> (case parse_time s of Some t \<Rightarrow> Inr t | None \<Rightarrow> Inl (ErrText ''parsing time''))
      | JNull \<Rightarrow> Inr old
      | _ \<Rightarrow> Inl (ErrText ''Time.UnmarshalJSON: input is not a JSON string''))"

text \<open>A \<open>map[string]string\<close>: \<open>None\<close> is the nil map.\<close>

type_synonym string_map = "(string \<times> string) list option"

fun dec_map_entries :: "(string \<times> json) list \<Rightarrow> (string \<times> string) list \<Rightarrow> (string \<times> string) list res" where
  "dec_map_entries [] m = Inr m"
| "dec_map_entries ((k, v) # kvs) m =
     (case dec_string v [] of Inl e \<Rightarrow> Inl e | Inr s \<Rightarrow> dec_map_entries kvs (AList.update k s m))"

definition dec_string_map :: "json \<Rightarrow> string_map \<Rightarrow> string_map res" where
  "dec_string_map j old =
     (case j of
        JObj kvs \<Rightarrow>
          (case dec_map_entries kvs (case old of None \<Rightarrow> [] | Some m \<Rightarrow> m) of
             Inl e \<Rightarrow> Inl e | Inr m \<Rightarrow> Inr (Some m))
      | JNull \<Rightarrow> Inr None
      | _ \<Rightarrow> Inl type_error)"

text \<open>Structs: a list of field decoders.\<close>

type_synonym 's fields = "(string \<times> (json \<Rightarrow> 's \<Rightarrow> 's res)) list"

definition lookup_field :: "'s fields \<Rightarrow> string \<Rightarrow> (json \<Rightarrow> 's \<Rightarrow> 's res) option" where
  "lookup_field fs k =
     (case map_of fs k of
        Some d \<Rightarrow> Some d
      | None \<Rightarrow> map_option snd (find (\<lambda>(name, _). equal_fold k name) fs))"

fun dec_fields :: "bool \<Rightarrow> 's fields \<Rightarrow> (string \<times> json) list \<Rightarrow> 's \<Rightarrow> 's res" where
  "dec_fields strict fs [] s = Inr s"
| "dec_fields strict fs ((k, v) # kvs) s =
     (case lookup_field fs k of
        None \<Rightarrow> if strict then Inl (ErrText (''json: unknown field '' @ go_quote k))
                else dec_fields strict fs kvs s
      | Some d \<Rightarrow> (case d v s of Inl e \<Rightarrow> Inl e | Inr s' \<Rightarrow> dec_fields strict fs kvs s'))"

definition dec_struct :: "bool \<Rightarrow> 's fields \<Rightarrow> json \<Rightarrow> 's \<Rightarrow> 's res" where
  "dec_struct strict fs j s =
     (case j of JObj kvs \<Rightarrow> dec_fields strict fs kvs s | JNull \<Rightarrow> Inr s | _ \<Rightarrow> Inl type_error)"

text \<open>A field of type \<open>'a\<close> of a struct, from its selector and its update.\<close>

definition field :: "(json \<Rightarrow> 'a \<Rightarrow> 'a res) \<Rightarrow> ('s \<Rightarrow> 'a) \<Rightarrow> ('a \<Rightarrow> 's \<Rightarrow> 's) \<Rightarrow> json \<Rightarrow> 's \<Rightarrow> 's res" where
  "field d get put j s = (case d j (get s) of Inl e \<Rightarrow> Inl e | Inr a \<Rightarrow> Inr (put a s))"

definition json_Unmarshal :: "(json \<Rightarrow> 's \<Rightarrow> 's res) \<Rightarrow> bytes \<Rightarrow> 's \<Rightarrow> 's res" where
  "json_Unmarshal d b s = (case b of NotJson \<Rightarrow> Inl syntax_error | Doc j \<Rightarrow> d j s)"

section \<open>Encoding\<close>

definition enc_time :: "time \<Rightarrow> json res" where
  "enc_time t = (case format_time t of Inl e \<Rightarrow> Inl e | Inr s \<Rightarrow> Inr (JStr s))"

definition enc_string_map :: "string_map \<Rightarrow> json" where
  "enc_string_map m =
     (case m of None \<Rightarrow> JNull | Some kvs \<Rightarrow> JObj (map (\<lambda>(k, v). (k, JStr v)) kvs))"

section \<open>Facts\<close>

named_theorems json_simps \<open>decoding what was encoded\<close>

lemma dec_scalars [json_simps]:
  "dec_string (JStr s) old = Inr s"
  "dec_string JNull old = Inr old"
  "in_int64 n \<Longrightarrow> dec_int (JInt n) i = Inr n"
  "dec_bool (JBool b) c = Inr b"
  by (simp_all add: dec_string_def dec_int_def dec_bool_def)

lemma dec_enc_time [json_simps]: "enc_time t = Inr j \<Longrightarrow> dec_time j old = Inr t"
  by (auto simp: enc_time_def dec_time_def parse_format_time split: sum.splits)

lemma dec_map_entries_append:
  "distinct (map fst (acc @ kvs)) \<Longrightarrow>
   dec_map_entries (map (\<lambda>(k, v). (k, JStr v)) kvs) acc = Inr (acc @ kvs)"
proof (induction kvs arbitrary: acc)
  case (Cons kv kvs)
  obtain k v where kv: "kv = (k, v)" by (cases kv)
  with Cons.prems have "AList.update k v acc = acc @ [(k, v)]"
    by (induction acc) auto
  with kv Cons show ?case by (simp add: dec_scalars)
qed simp

text \<open>The keys of a Go map are distinct.\<close>

definition map_ok :: "string_map \<Rightarrow> bool" where
  "map_ok m = (case m of None \<Rightarrow> True | Some kvs \<Rightarrow> distinct (map fst kvs))"

lemma dec_enc_string_map [json_simps]:
  "map_ok m \<Longrightarrow> dec_string_map (enc_string_map m) None = Inr m"
  using dec_map_entries_append[of "[]"]
  by (auto simp: map_ok_def dec_string_map_def enc_string_map_def split: option.splits)

lemma dec_fields_append:
  "dec_fields b fs (xs @ ys) s =
     (case dec_fields b fs xs s of Inl e \<Rightarrow> Inl e | Inr s' \<Rightarrow> dec_fields b fs ys s')"
  by (induction b fs xs s rule: dec_fields.induct) (auto split: option.splits sum.splits)

text \<open>What every field decoder keeps, the decoder of the struct keeps.\<close>

lemma lookup_field_mem: "lookup_field fs k = Some d \<Longrightarrow> d \<in> snd ` set fs"
proof -
  have *: "d \<in> snd ` set fs" if "map_of fs k = Some d"
    using map_of_SomeD [OF that] by force
  have "x \<in> set fs" if "find p fs = Some x" for p x
    using that by (auto simp: find_Some_iff)
  note found = this
  assume look: "lookup_field fs k = Some d"
  show "d \<in> snd ` set fs"
  proof (cases "map_of fs k")
    case None
    with look obtain nd where nd: "find (\<lambda>(name, _). equal_fold k name) fs = Some nd" "d = snd nd"
      by (auto simp: lookup_field_def)
    from found [OF nd(1)] show ?thesis
      unfolding nd(2) by (rule imageI)
  qed (use look * in \<open>auto simp: lookup_field_def\<close>)
qed

lemma dec_fields_inv:
  assumes step: "\<And>d v s s'. d \<in> snd ` set fs \<Longrightarrow> P s \<Longrightarrow> d v s = Inr s' \<Longrightarrow> P s'"
  shows "dec_fields b fs kvs s = Inr s' \<Longrightarrow> P s \<Longrightarrow> P s'"
proof (induction kvs arbitrary: s)
  case (Cons kv kvs)
  obtain k v where kv: "kv = (k, v)"
    by fastforce
  show ?case
  proof (cases "lookup_field fs k")
    case None
    with Cons kv show ?thesis
      by (auto split: if_splits)
  next
    case (Some d)
    with Cons.prems kv obtain s1 where s1: "d v s = Inr s1" "dec_fields b fs kvs s1 = Inr s'"
      by (auto split: sum.splits)
    from step [OF lookup_field_mem [OF Some] Cons.prems(2) s1(1)] Cons.IH [OF s1(2)] show ?thesis
      by blast
  qed
qed simp

lemma dec_struct_inv:
  assumes "dec_struct b fs j s = Inr s'" and "P s"
    and step: "\<And>d v s s'. d \<in> snd ` set fs \<Longrightarrow> P s \<Longrightarrow> d v s = Inr s' \<Longrightarrow> P s'"
  shows "P s'"
proof (cases j)
  case (JObj kvs)
  with assms(1) have "dec_fields b fs kvs s = Inr s'"
    by (simp add: dec_struct_def)
  then show ?thesis
    by (rule dec_fields_inv [of fs P, rotated]) (use assms(2) step in blast)+
qed (use assms in \<open>auto simp: dec_struct_def\<close>)

lemma dec_int_range: "dec_int j old = Inr n \<Longrightarrow> in_int64 old \<Longrightarrow> in_int64 n"
  by (auto simp: dec_int_def split: json.splits if_splits)

end
