(* ===== verification/Workload_Types.thy ===== *)
theory Workload_Types
  imports Go_Json
begin

text \<open>
  internal/workload/types.go: the request and response types of scenarios and chaos experiments,
  their \<open>Validate\<close> methods and the JSON forms their field tags give them. A \<open>Validate\<close> returns the
  error, \<open>None\<close> for nil.
\<close>

section \<open>Types\<close>

definition WorkloadTypeCPUBurn :: string where
  "WorkloadTypeCPUBurn = ''cpu_burn''"

definition WorkloadTypeMemAlloc :: string where
  "WorkloadTypeMemAlloc = ''mem_alloc''"

definition WorkloadTypeDBWrite :: string where
  "WorkloadTypeDBWrite = ''db_write''"

definition WorkloadTypeDBRead :: string where
  "WorkloadTypeDBRead = ''db_read''"

definition WorkloadTypeMixed :: string where
  "WorkloadTypeMixed = ''mixed''"

lemmas workload_type_defs =
  WorkloadTypeCPUBurn_def WorkloadTypeMemAlloc_def WorkloadTypeDBWrite_def WorkloadTypeDBRead_def
  WorkloadTypeMixed_def

record LoadProfile =
  lp_RPS :: int
  lp_Duration :: duration
  lp_PayloadSizeBytes :: int
  lp_Concurrency :: int
  lp_TargetQueue :: string
  lp_WorkloadType :: string

record ScenarioRequest =
  sr_Name :: string
  sr_Profile :: LoadProfile
  sr_StopOnError :: bool

record ScenarioResponse =
  sc_ID :: string
  sc_Name :: string
  sc_Profile :: LoadProfile
  sc_Status :: string
  sc_CreatedAt :: time

record ChaosExperimentRequest =
  cr_Name :: string
  cr_Scenario :: string
  cr_Config :: string_map

record ChaosExperimentResponse =
  ce_ID :: string
  ce_Name :: string
  ce_Scenario :: string
  ce_Config :: string_map
  ce_Status :: string
  ce_CreatedAt :: time

section \<open>Validation\<close>

definition LoadProfile_Validate :: "LoadProfile \<Rightarrow> goerr option" where
  "LoadProfile_Validate p =
     (if lp_RPS p \<le> 0 then Some (ErrText ''rps must be greater than zero'')
      else if lp_Duration p \<le> 0 then Some (ErrText ''duration must be greater than zero'')
      else if lp_PayloadSizeBytes p < 0 then Some (ErrText ''payload_size_bytes must be non-negative'')
      else if lp_Concurrency p \<le> 0 then Some (ErrText ''concurrency must be greater than zero'')
      else if lp_TargetQueue p = [] then Some (ErrText ''target_queue is required'')
      else if lp_WorkloadType p \<in> {WorkloadTypeCPUBurn, WorkloadTypeMemAlloc, WorkloadTypeDBWrite,
                                  WorkloadTypeDBRead, WorkloadTypeMixed} then None
      else Some (ErrText ''workload_type is invalid''))"

definition ScenarioRequest_Validate :: "ScenarioRequest \<Rightarrow> goerr option" where
  "ScenarioRequest_Validate r =
     (if sr_Name r = [] then Some (ErrText ''name is required'')
      else map_option (Wrapf ''profile'') (LoadProfile_Validate (sr_Profile r)))"

definition ScenarioResponse_Validate :: "ScenarioResponse \<Rightarrow> goerr option" where
  "ScenarioResponse_Validate r =
     (if sc_ID r = [] then Some (ErrText ''id is required'')
      else if sc_Name r = [] then Some (ErrText ''name is required'')
      else (case LoadProfile_Validate (sc_Profile r) of
              Some e \<Rightarrow> Some (Wrapf ''profile'' e)
            | None \<Rightarrow>
                if sc_Status r = [] then Some (ErrText ''status is required'')
                else if is_zero_time (sc_CreatedAt r) then Some (ErrText ''created_at is required'')
                else None))"

definition ChaosExperimentRequest_Validate :: "ChaosExperimentRequest \<Rightarrow> goerr option" where
  "ChaosExperimentRequest_Validate r =
     (if cr_Name r = [] then Some (ErrText ''name is required'')
      else if cr_Scenario r = [] then Some (ErrText ''scenario is required'')
      else None)"

definition ChaosExperimentResponse_Validate :: "ChaosExperimentResponse \<Rightarrow> goerr option" where
  "ChaosExperimentResponse_Validate r =
     (if ce_ID r = [] then Some (ErrText ''id is required'')
      else if ce_Name r = [] then Some (ErrText ''name is required'')
      else if ce_Scenario r = [] then Some (ErrText ''scenario is required'')
      else if ce_Status r = [] then Some (ErrText ''status is required'')
      else if is_zero_time (ce_CreatedAt r) then Some (ErrText ''created_at is required'')
      else None)"

section \<open>JSON\<close>

definition zero_profile :: LoadProfile where
  "zero_profile = \<lparr>lp_RPS = 0, lp_Duration = 0, lp_PayloadSizeBytes = 0, lp_Concurrency = 0,
     lp_TargetQueue = [], lp_WorkloadType = []\<rparr>"

definition zero_request :: ScenarioRequest where
  "zero_request = \<lparr>sr_Name = [], sr_Profile = zero_profile, sr_StopOnError = False\<rparr>"

definition zero_scenario :: ScenarioResponse where
  "zero_scenario = \<lparr>sc_ID = [], sc_Name = [], sc_Profile = zero_profile, sc_Status = [], sc_CreatedAt = 0\<rparr>"

definition zero_chaos_request :: ChaosExperimentRequest where
  "zero_chaos_request = \<lparr>cr_Name = [], cr_Scenario = [], cr_Config = None\<rparr>"

definition LoadProfile_fields :: "LoadProfile fields" where
  "LoadProfile_fields =
     [(''rps'', field dec_int lp_RPS (\<lambda>x p. p\<lparr>lp_RPS := x\<rparr>)),
      (''duration'', field dec_int lp_Duration (\<lambda>x p. p\<lparr>lp_Duration := x\<rparr>)),
      (''payload_size_bytes'', field dec_int lp_PayloadSizeBytes (\<lambda>x p. p\<lparr>lp_PayloadSizeBytes := x\<rparr>)),
      (''concurrency'', field dec_int lp_Concurrency (\<lambda>x p. p\<lparr>lp_Concurrency := x\<rparr>)),
      (''target_queue'', field dec_string lp_TargetQueue (\<lambda>x p. p\<lparr>lp_TargetQueue := x\<rparr>)),
      (''workload_type'', field dec_string lp_WorkloadType (\<lambda>x p. p\<lparr>lp_WorkloadType := x\<rparr>))]"

definition dec_ScenarioRequest :: "bool \<Rightarrow> json \<Rightarrow> ScenarioRequest \<Rightarrow> ScenarioRequest res" where
  "dec_ScenarioRequest strict = dec_struct strict
     [(''name'', field dec_string sr_Name (\<lambda>x r. r\<lparr>sr_Name := x\<rparr>)),
      (''profile'', field (dec_struct strict LoadProfile_fields) sr_Profile (\<lambda>x r. r\<lparr>sr_Profile := x\<rparr>)),
      (''stop_on_error'', field dec_bool sr_StopOnError (\<lambda>x r. r\<lparr>sr_StopOnError := x\<rparr>))]"

definition dec_ScenarioResponse :: "json \<Rightarrow> ScenarioResponse \<Rightarrow> ScenarioResponse res" where
  "dec_ScenarioResponse = dec_struct False
     [(''id'', field dec_string sc_ID (\<lambda>x r. r\<lparr>sc_ID := x\<rparr>)),
      (''name'', field dec_string sc_Name (\<lambda>x r. r\<lparr>sc_Name := x\<rparr>)),
      (''profile'', field (dec_struct False LoadProfile_fields) sc_Profile (\<lambda>x r. r\<lparr>sc_Profile := x\<rparr>)),
      (''status'', field dec_string sc_Status (\<lambda>x r. r\<lparr>sc_Status := x\<rparr>)),
      (''created_at'', field dec_time sc_CreatedAt (\<lambda>x r. r\<lparr>sc_CreatedAt := x\<rparr>))]"

definition dec_ChaosExperimentRequest ::
    "bool \<Rightarrow> json \<Rightarrow> ChaosExperimentRequest \<Rightarrow> ChaosExperimentRequest res" where
  "dec_ChaosExperimentRequest strict = dec_struct strict
     [(''name'', field dec_string cr_Name (\<lambda>x r. r\<lparr>cr_Name := x\<rparr>)),
      (''scenario'', field dec_string cr_Scenario (\<lambda>x r. r\<lparr>cr_Scenario := x\<rparr>)),
      (''config'', field dec_string_map cr_Config (\<lambda>x r. r\<lparr>cr_Config := x\<rparr>))]"

definition enc_LoadProfile :: "LoadProfile \<Rightarrow> json" where
  "enc_LoadProfile p = JObj
     [(''rps'', JInt (lp_RPS p)), (''duration'', JInt (lp_Duration p)),
      (''payload_size_bytes'', JInt (lp_PayloadSizeBytes p)), (''concurrency'', JInt (lp_Concurrency p)),
      (''target_queue'', JStr (lp_TargetQueue p)), (''workload_type'', JStr (lp_WorkloadType p))]"

definition enc_ScenarioRequest :: "ScenarioRequest \<Rightarrow> json" where
  "enc_ScenarioRequest r = JObj
     [(''name'', JStr (sr_Name r)), (''profile'', enc_LoadProfile (sr_Profile r)),
      (''stop_on_error'', JBool (sr_StopOnError r))]"

definition enc_ScenarioResponse :: "ScenarioResponse \<Rightarrow> json res" where
  "enc_ScenarioResponse r =
     (case enc_time (sc_CreatedAt r) of
        Inl e \<Rightarrow> Inl e
      | Inr t \<Rightarrow> Inr (JObj
          [(''id'', JStr (sc_ID r)), (''name'', JStr (sc_Name r)),
           (''profile'', enc_LoadProfile (sc_Profile r)), (''status'', JStr (sc_Status r)),
           (''created_at'', t)]))"

definition enc_ChaosExperimentRequest :: "ChaosExperimentRequest \<Rightarrow> json" where
  "enc_ChaosExperimentRequest r = JObj
     [(''name'', JStr (cr_Name r)), (''scenario'', JStr (cr_Scenario r)),
      (''config'', enc_string_map (cr_Config r))]"

definition enc_ChaosExperimentResponse :: "ChaosExperimentResponse \<Rightarrow> json res" where
  "enc_ChaosExperimentResponse r =
     (case enc_time (ce_CreatedAt r) of
        Inl e \<Rightarrow> Inl e
      | Inr t \<Rightarrow> Inr (JObj
          [(''id'', JStr (ce_ID r)), (''name'', JStr (ce_Name r)), (''scenario'', JStr (ce_Scenario r)),
           (''config'', enc_string_map (ce_Config r)), (''status'', JStr (ce_Status r)),
           (''created_at'', t)]))"

section \<open>Validated values\<close>

definition profile_valid :: "LoadProfile \<Rightarrow> bool" where
  "profile_valid p \<longleftrightarrow> lp_RPS p > 0 \<and> lp_Duration p > 0 \<and> lp_PayloadSizeBytes p \<ge> 0 \<and>
     lp_Concurrency p > 0 \<and> lp_TargetQueue p \<noteq> [] \<and>
     lp_WorkloadType p \<in> {''cpu_burn'', ''mem_alloc'', ''db_write'', ''db_read'', ''mixed''}"

lemma LoadProfile_Validate_iff: "LoadProfile_Validate p = None \<longleftrightarrow> profile_valid p"
  by (auto simp: LoadProfile_Validate_def profile_valid_def workload_type_defs split: if_splits)

lemma ScenarioRequest_Validate_iff:
  "ScenarioRequest_Validate r = None \<longleftrightarrow> sr_Name r \<noteq> [] \<and> profile_valid (sr_Profile r)"
  by (auto simp: ScenarioRequest_Validate_def LoadProfile_Validate_iff[symmetric] split: if_splits)

lemma ScenarioResponse_Validate_iff:
  "ScenarioResponse_Validate r = None \<longleftrightarrow>
   sc_ID r \<noteq> [] \<and> sc_Name r \<noteq> [] \<and> profile_valid (sc_Profile r) \<and> sc_Status r \<noteq> [] \<and>
   sc_CreatedAt r \<noteq> 0"
  by (auto simp: ScenarioResponse_Validate_def is_zero_time_def LoadProfile_Validate_iff[symmetric]
      split: if_splits option.splits)

lemma ChaosExperimentRequest_Validate_iff:
  "ChaosExperimentRequest_Validate r = None \<longleftrightarrow> cr_Name r \<noteq> [] \<and> cr_Scenario r \<noteq> []"
  by (auto simp: ChaosExperimentRequest_Validate_def split: if_splits)

section \<open>Round trips\<close>

text \<open>What a Go value of the type can hold.\<close>

definition profile_ints :: "LoadProfile \<Rightarrow> bool" where
  "profile_ints p \<longleftrightarrow> in_int64 (lp_RPS p) \<and> in_int64 (lp_Duration p) \<and>
     in_int64 (lp_PayloadSizeBytes p) \<and> in_int64 (lp_Concurrency p)"

lemma dec_enc_LoadProfile [json_simps]:
  "profile_ints p \<Longrightarrow> dec_struct b LoadProfile_fields (enc_LoadProfile p) q = Inr p"
  by (simp add: dec_struct_def LoadProfile_fields_def enc_LoadProfile_def lookup_field_def field_def
      dec_scalars profile_ints_def)

lemma dec_enc_ScenarioRequest:
  "profile_ints (sr_Profile r) \<Longrightarrow> dec_ScenarioRequest b (enc_ScenarioRequest r) q = Inr r"
  by (simp add: dec_ScenarioRequest_def dec_struct_def[of _ "[_, _, _]"] enc_ScenarioRequest_def
      lookup_field_def field_def json_simps)

lemma dec_enc_ChaosExperimentRequest:
  "map_ok (cr_Config r) \<Longrightarrow>
   dec_ChaosExperimentRequest b (enc_ChaosExperimentRequest r) zero_chaos_request = Inr r"
  by (simp add: dec_ChaosExperimentRequest_def dec_struct_def enc_ChaosExperimentRequest_def
      lookup_field_def field_def json_simps zero_chaos_request_def)

lemma dec_enc_ScenarioResponse:
  "profile_ints (sc_Profile r) \<Longrightarrow> enc_ScenarioResponse r = Inr j \<Longrightarrow>
   dec_ScenarioResponse j q = Inr r"
  by (auto simp: dec_ScenarioResponse_def dec_struct_def[of _ "[_, _, _, _, _]"] enc_ScenarioResponse_def
      lookup_field_def field_def json_simps split: sum.splits)

text \<open>A decoded integer is in the range of its type.\<close>

lemma dec_profile_ints:
  "dec_struct b LoadProfile_fields j p = Inr p' \<Longrightarrow> profile_ints p \<Longrightarrow> profile_ints p'"
  by (erule dec_struct_inv [where P = profile_ints])
     (auto simp: LoadProfile_fields_def field_def profile_ints_def split: sum.splits elim!: dec_int_range)

lemma dec_response_ints:
  "dec_ScenarioResponse j s = Inr s' \<Longrightarrow> profile_ints (sc_Profile s) \<Longrightarrow> profile_ints (sc_Profile s')"
  unfolding dec_ScenarioResponse_def
  by (erule dec_struct_inv [where P = "\<lambda>s. profile_ints (sc_Profile s)"])
     (auto simp: field_def split: sum.splits elim!: dec_profile_ints)

lemma unmarshal_ints:
  "json_Unmarshal dec_ScenarioResponse b zero_scenario = Inr sc \<Longrightarrow> profile_ints (sc_Profile sc)"
  by (auto simp: json_Unmarshal_def zero_scenario_def zero_profile_def profile_ints_def in_int64_def
      min_int64_def max_int64_def split: bytes.splits dest!: dec_response_ints)

lemma dec_request_ints:
  "dec_ScenarioRequest b j s = Inr s' \<Longrightarrow> profile_ints (sr_Profile s) \<Longrightarrow> profile_ints (sr_Profile s')"
  unfolding dec_ScenarioRequest_def
  by (erule dec_struct_inv [where P = "\<lambda>s. profile_ints (sr_Profile s)"])
     (auto simp: field_def split: sum.splits elim!: dec_profile_ints)

end
