(* ===== verification/Mixed_Split.thy ===== *)
theory Mixed_Split
  imports Go_Base
begin

text \<open>
  internal/workload/mixed.go: \<open>splitMixedDurations\<close>, the routine that divides the run time of a
  mixed workload between its CPU, database-write and database-read phases. The phases are a list
  of records as in the source, the arithmetic is that of \<open>int64\<close>.
\<close>

section \<open>The code\<close>

record MixedProfile =
  CPUPercent :: int
  DBWritePercent :: int
  DBReadPercent :: int

record mixedDurations =
  cpuMs :: int
  writeMs :: int
  readMs :: int

record mixedPhase =
  ph_name :: string
  percent :: int
  ms :: int

fun sumDurations_from :: "int \<Rightarrow> mixedPhase list \<Rightarrow> int" where
  "sumDurations_from acc [] = acc"
| "sumDurations_from acc (p # ps) = sumDurations_from (wrap64 (acc + ms p)) ps"

definition sumDurations :: "mixedPhase list \<Rightarrow> int" where
  "sumDurations phases = sumDurations_from 0 phases"

text \<open>The first loop: the share of each active phase, at least one millisecond.\<close>

fun share_phases :: "int \<Rightarrow> int \<Rightarrow> mixedPhase list \<Rightarrow> int \<times> mixedPhase list" where
  "share_phases totalMs active [] = (active, [])"
| "share_phases totalMs active (p # ps) =
     (if percent p > 0 then
        let share = go_div (wrap64 (totalMs * percent p)) 100;
            p' = p\<lparr>ms := (if share = 0 then 1 else share)\<rparr>;
            (active', ps') = share_phases totalMs (active + 1) ps
        in (active', p' # ps')
      else
        let (active', ps') = share_phases totalMs active ps
        in (active', p # ps'))"

text \<open>
  The second loop: the sum of the shares, and the index of the first phase with the largest
  percentage (\<open>-1\<close> when there is none).
\<close>

fun find_target :: "int \<Rightarrow> int \<Rightarrow> int \<Rightarrow> int \<Rightarrow> mixedPhase list \<Rightarrow> int \<times> int" where
  "find_target i acc target targetPercent [] = (acc, target)"
| "find_target i acc target targetPercent (p # ps) =
     (let acc' = wrap64 (acc + ms p) in
      if percent p \<le> 0 then find_target (i + 1) acc' target targetPercent ps
      else if percent p > targetPercent then find_target (i + 1) acc' i (percent p) ps
      else find_target (i + 1) acc' target targetPercent ps)"

text \<open>The body of the third loop: take one millisecond off the first phase with more than one.\<close>

fun reduce_first :: "mixedPhase list \<Rightarrow> mixedPhase list option" where
  "reduce_first [] = None"
| "reduce_first (p # ps) =
     (if ms p > 1 then Some (p\<lparr>ms := ms p - 1\<rparr> # ps)
      else map_option (\<lambda>ps'. p # ps') (reduce_first ps))"

lemma reduce_first_measure:
  "reduce_first ps = Some ps' \<Longrightarrow>
   sum_list (map (nat \<circ> ms) ps') < sum_list (map (nat \<circ> ms) ps)"
  by (induction ps arbitrary: ps') (auto split: if_splits)

function trim_phases :: "int \<Rightarrow> mixedPhase list \<Rightarrow> mixedPhase list res" where
  "trim_phases totalMs phases =
     (if sumDurations phases > totalMs then
        (case reduce_first phases of
           None \<Rightarrow> Inl (ErrText ''duration_ms is too short for mixed profile'')
         | Some phases' \<Rightarrow> trim_phases totalMs phases')
      else Inr phases)"
  by pat_completeness auto
termination
  by (relation "measure (\<lambda>(_, ps). sum_list (map (nat \<circ> ms) ps))")
     (auto dest: reduce_first_measure)

declare trim_phases.simps [simp del]

definition splitMixedDurations :: "int \<Rightarrow> MixedProfile \<Rightarrow> mixedDurations res" where
  "splitMixedDurations totalMs profile0 =
     (if totalMs \<le> 0 then Inl (ErrText ''duration_ms must be greater than zero'')
      else if CPUPercent profile0 < 0 \<or> DBWritePercent profile0 < 0 \<or> DBReadPercent profile0 < 0
      then Inl (ErrText ''mixed profile percentages must be non-negative'')
      else
        let totalPercent0 =
              wrap64 (wrap64 (CPUPercent profile0 + DBWritePercent profile0) + DBReadPercent profile0);
            (profile, totalPercent) =
              (if totalPercent0 = 0
               then (\<lparr>CPUPercent = 34, DBWritePercent = 33, DBReadPercent = 33\<rparr>, 100)
               else (profile0, totalPercent0))
        in
        if totalPercent > 100 then Inl (ErrText ''mixed profile percentages must not exceed 100'')
        else
          let phases0 =
                [\<lparr>ph_name = ''cpu'', percent = CPUPercent profile, ms = 0\<rparr>,
                 \<lparr>ph_name = ''db_write'', percent = DBWritePercent profile, ms = 0\<rparr>,
                 \<lparr>ph_name = ''db_read'', percent = DBReadPercent profile, ms = 0\<rparr>];
              (active, phases1) = share_phases totalMs 0 phases0
          in
          if active = 0 then Inl (ErrText ''mixed profile must include at least one workload'')
          else if totalMs < active
          then Inl (ErrText ''duration_ms is too short for mixed profile'')
          else
            let (acc, target) = find_target 0 0 (- 1) (- 1) phases1;
                phases2 =
                  (if acc < totalMs \<and> target \<ge> 0
                   then phases1[nat target :=
                          (phases1 ! nat target)\<lparr>ms := wrap64 (ms (phases1 ! nat target) + (totalMs - acc))\<rparr>]
                   else phases1)
            in
            (case trim_phases totalMs phases2 of
               Inl e \<Rightarrow> Inl e
             | Inr phases3 \<Rightarrow>
                 Inr \<lparr>cpuMs = ms (phases3 ! 0), writeMs = ms (phases3 ! 1), readMs = ms (phases3 ! 2)\<rparr>))"

section \<open>The loops, closed\<close>

definition total_ms :: "mixedPhase list \<Rightarrow> int" where
  "total_ms ps = sum_list (map ms ps)"

definition active_phases :: "mixedPhase list \<Rightarrow> int" where
  "active_phases ps = int (length (filter (\<lambda>p. percent p > 0) ps))"

definition small :: "int \<Rightarrow> bool" where
  "small x \<longleftrightarrow> x \<le> 1000000000000000000"

lemma total_ms_simps [simp]:
  "total_ms [] = 0" "total_ms (p # ps) = ms p + total_ms ps"
  by (simp_all add: total_ms_def)

lemma active_phases_simps [simp]:
  "active_phases [] = 0"
  "active_phases (p # ps) = (if percent p > 0 then 1 else 0) + active_phases ps"
  by (simp_all add: active_phases_def)

lemma active_phases_nonneg [simp]: "0 \<le> active_phases ps"
  by (simp add: active_phases_def)

lemma total_ms_nonneg: "\<forall>p \<in> set ps. 0 \<le> ms p \<Longrightarrow> 0 \<le> total_ms ps"
  by (induction ps) auto

lemma sumDurations_from_total:
  "\<forall>p \<in> set ps. 0 \<le> ms p \<Longrightarrow> 0 \<le> acc \<Longrightarrow> small (acc + total_ms ps) \<Longrightarrow>
   sumDurations_from acc ps = acc + total_ms ps"
proof (induction ps arbitrary: acc)
  case (Cons p ps)
  have "0 \<le> total_ms ps" using Cons.prems(1) by (simp add: total_ms_nonneg)
  with Cons.prems have "wrap64 (acc + ms p) = acc + ms p"
    by (intro wrap64_id in_int64_range) (simp_all add: small_def)
  with Cons show ?case by (simp add: add.assoc)
qed simp

lemma sumDurations_total:
  "\<forall>p \<in> set ps. 0 \<le> ms p \<Longrightarrow> small (total_ms ps) \<Longrightarrow> sumDurations ps = total_ms ps"
  by (simp add: sumDurations_def sumDurations_from_total)

lemma find_target_sum:
  "\<forall>p \<in> set ps. 0 \<le> ms p \<Longrightarrow> 0 \<le> acc \<Longrightarrow> small (acc + total_ms ps) \<Longrightarrow>
   fst (find_target i acc t tp ps) = acc + total_ms ps"
proof (induction ps arbitrary: i acc t tp)
  case (Cons p ps)
  have "0 \<le> total_ms ps" using Cons.prems(1) by (simp add: total_ms_nonneg)
  with Cons.prems have "wrap64 (acc + ms p) = acc + ms p"
    by (intro wrap64_id in_int64_range) (simp_all add: small_def)
  with Cons show ?case by (simp add: add.assoc Let_def)
qed simp

text \<open>The index it returns is the old one, or that of an active phase of the list.\<close>

lemma find_target_index:
  "0 \<le> i \<Longrightarrow>
   snd (find_target i acc t tp ps) = t \<or>
   (\<exists>k < length ps. snd (find_target i acc t tp ps) = i + int k \<and> percent (ps ! k) > 0)"
proof (induction ps arbitrary: i acc t tp)
  case (Cons p ps)
  let ?acc = "wrap64 (acc + ms p)"
  have *: "snd (find_target (i + 1) ?acc t' tp' ps) = t' \<or>
      (\<exists>k < length (p # ps). snd (find_target (i + 1) ?acc t' tp' ps) = i + int k \<and>
        percent ((p # ps) ! k) > 0)" for t' tp'
  proof -
    from Cons.prems have "0 \<le> i + 1" by simp
    from Cons.IH[OF this, of ?acc t' tp'] show ?thesis
    proof (elim disjE exE conjE)
      fix k assume k: "k < length ps"
        "snd (find_target (i + 1) ?acc t' tp' ps) = i + 1 + int k" "0 < percent (ps ! k)"
      then show ?thesis by (intro disjI2 exI[of _ "Suc k"]) simp
    qed simp
  qed
  show ?case
    using *[of t tp] *[of i "percent p"] by (auto simp: Let_def intro: exI[of _ 0])
qed simp

lemma find_target_found:
  assumes "0 \<le> i" "t < i" "tp < 0" "active_phases ps > 0"
  shows "i \<le> snd (find_target i acc t tp ps)"
  using assms
proof (induction ps arbitrary: i acc t tp)
  case (Cons p ps)
  have later: "i \<le> snd (find_target (i + 1) acc' i tp' ps)" for acc' tp'
    using find_target_index[of "i + 1" acc' i tp' ps] Cons.prems(1) by auto
  show ?case
  proof (cases "percent p > 0")
    case True
    with later Cons.prems show ?thesis by (simp add: Let_def)
  next
    case False
    with Cons.prems have "i + 1 \<le> snd (find_target (i + 1) (wrap64 (acc + ms p)) t tp ps)"
      by (intro Cons.IH) simp_all
    with False show ?thesis by (simp add: Let_def)
  qed
qed simp

text \<open>The first loop maps each phase to its share and counts the active ones.\<close>

definition share_of :: "int \<Rightarrow> mixedPhase \<Rightarrow> mixedPhase" where
  "share_of t p =
     (if percent p > 0 then p\<lparr>ms := (let s = go_div (wrap64 (t * percent p)) 100 in if s = 0 then 1 else s)\<rparr>
      else p)"

lemma share_phases_map:
  "share_phases t a ps = (a + active_phases ps, map (share_of t) ps)"
  by (induction ps arbitrary: a) (auto simp: share_of_def Let_def)

lemma percent_share_of [simp]: "percent (share_of t p) = percent p"
  by (simp add: share_of_def)

lemma share_of_bounds:
  assumes "0 < t" "t \<le> max_int64 div 100" "0 < percent p" "percent p \<le> 100"
  shows "1 \<le> ms (share_of t p) \<and> 100 * (ms (share_of t p) - 1) \<le> t * percent p"
proof -
  have "0 \<le> t * percent p" and le: "t * percent p \<le> t * 100"
    using assms by (simp_all add: mult_left_mono)
  moreover have "t * 100 \<le> max_int64"
    using assms(2) by (simp add: max_int64_def)
  ultimately have "wrap64 (t * percent p) = t * percent p"
    by (intro wrap64_id) (simp add: in_int64_def min_int64_def)
  moreover have "go_div (t * percent p) 100 = t * percent p div 100"
    using \<open>0 \<le> t * percent p\<close> by (simp add: go_div_nonneg)
  moreover have "0 \<le> t * percent p div 100"
    using \<open>0 \<le> t * percent p\<close> by (simp add: pos_imp_zdiv_nonneg_iff)
  moreover have "100 * (t * percent p div 100) \<le> t * percent p"
    using mult_div_mod_eq[of 100 "t * percent p"] pos_mod_sign[of 100 "t * percent p"] by linarith
  ultimately show ?thesis
    using assms(3) \<open>0 \<le> t * percent p\<close> by (auto simp: share_of_def Let_def)
qed

text \<open>
  The invariant of the trimming loop: active phases have at least one millisecond, the others
  none, and the total is far from overflow.
\<close>

definition phase_fits :: "mixedPhase \<Rightarrow> bool" where
  "phase_fits p \<longleftrightarrow> (if percent p > 0 then 1 \<le> ms p else ms p = 0)"

definition phases_ok :: "mixedPhase list \<Rightarrow> bool" where
  "phases_ok ps \<longleftrightarrow> list_all phase_fits ps \<and> small (total_ms ps)"

lemma phase_fits_nonneg: "phase_fits p \<Longrightarrow> 0 \<le> ms p"
  by (simp add: phase_fits_def split: if_splits)

lemma phase_fits_dec: "phase_fits p \<Longrightarrow> 1 < ms p \<Longrightarrow> phase_fits (p\<lparr>ms := ms p - 1\<rparr>)"
  by (simp add: phase_fits_def split: if_splits)

lemma phases_ok_nonneg: "phases_ok ps \<Longrightarrow> \<forall>p \<in> set ps. 0 \<le> ms p"
  by (auto simp: phases_ok_def list_all_iff intro: phase_fits_nonneg)

lemma phases_ok_sumDurations: "phases_ok ps \<Longrightarrow> sumDurations ps = total_ms ps"
  using phases_ok_nonneg[of ps] by (intro sumDurations_total) (simp_all add: phases_ok_def)

lemma reduce_first_None:
  "reduce_first ps = None \<Longrightarrow> \<forall>p \<in> set ps. ms p \<le> 1"
  by (induction ps) (auto split: if_splits)

lemma reduce_first_total:
  "reduce_first ps = Some ps' \<Longrightarrow>
   total_ms ps' = total_ms ps - 1 \<and> map percent ps' = map percent ps"
  by (induction ps arbitrary: ps') (auto split: if_splits)

lemma reduce_first_fits:
  "reduce_first ps = Some ps' \<Longrightarrow> list_all phase_fits ps \<Longrightarrow> list_all phase_fits ps'"
  by (induction ps arbitrary: ps') (auto split: if_splits intro: phase_fits_dec)

lemma total_ms_le_active:
  "list_all phase_fits ps \<Longrightarrow> \<forall>p \<in> set ps. ms p \<le> 1 \<Longrightarrow> total_ms ps \<le> active_phases ps"
  by (induction ps) (auto simp: phase_fits_def split: if_splits)

lemma active_phases_percent: "map percent ps = map percent qs \<Longrightarrow> active_phases ps = active_phases qs"
proof -
  have "active_phases ps = int (length (filter (\<lambda>x. x > 0) (map percent ps)))" for ps
    by (induction ps) auto
  then show "map percent ps = map percent qs \<Longrightarrow> ?thesis" by metis
qed

lemma trim_phases_correct:
  assumes "phases_ok ps" "t \<le> total_ms ps" "active_phases ps \<le> t"
  shows "\<exists>ps'. trim_phases t ps = Inr ps' \<and> phases_ok ps' \<and> total_ms ps' = t \<and>
               map percent ps' = map percent ps"
  using assms
proof (induction t ps rule: trim_phases.induct)
  case (1 t ps)
  have sum: "sumDurations ps = total_ms ps" using "1.prems"(1) by (rule phases_ok_sumDurations)
  show ?case
  proof (cases "total_ms ps > t")
    case False
    with "1.prems" sum show ?thesis by (subst trim_phases.simps) simp
  next
    case True
    have "reduce_first ps \<noteq> None"
    proof
      assume "reduce_first ps = None"
      then have "total_ms ps \<le> active_phases ps"
        using total_ms_le_active reduce_first_None "1.prems"(1) by (simp add: phases_ok_def)
      with True "1.prems"(3) show False by simp
    qed
    then obtain ps1 where red: "reduce_first ps = Some ps1" by blast
    note step = reduce_first_total[OF red]
    have ok: "phases_ok ps1"
      using step reduce_first_fits[OF red] "1.prems"(1) by (simp add: phases_ok_def small_def)
    have "active_phases ps1 \<le> t" using step active_phases_percent[of ps1 ps] "1.prems"(3) by simp
    with True step ok sum obtain ps' where "trim_phases t ps1 = Inr ps'" "phases_ok ps'"
      "total_ms ps' = t" "map percent ps' = map percent ps1"
      using "1.IH"[OF _ red] by auto
    with True red sum step show ?thesis by (subst trim_phases.simps) simp
  qed
qed

section \<open>The partition\<close>

text \<open>The profile the routine works with: the default one when all percentages are zero.\<close>

definition effective_profile :: "MixedProfile \<Rightarrow> MixedProfile" where
  "effective_profile q =
     (if CPUPercent q = 0 \<and> DBWritePercent q = 0 \<and> DBReadPercent q = 0
      then \<lparr>CPUPercent = 34, DBWritePercent = 33, DBReadPercent = 33\<rparr> else q)"

definition active_count :: "MixedProfile \<Rightarrow> int" where
  "active_count q =
     (if CPUPercent q > 0 then 1 else 0) + (if DBWritePercent q > 0 then 1 else 0) +
     (if DBReadPercent q > 0 then 1 else 0)"

definition profile_ok :: "MixedProfile \<Rightarrow> bool" where
  "profile_ok q \<longleftrightarrow> 0 \<le> CPUPercent q \<and> 0 \<le> DBWritePercent q \<and> 0 \<le> DBReadPercent q \<and>
     CPUPercent q + DBWritePercent q + DBReadPercent q \<le> 100"

definition mixed_phases :: "MixedProfile \<Rightarrow> mixedPhase list" where
  "mixed_phases q =
     [\<lparr>ph_name = ''cpu'', percent = CPUPercent q, ms = 0\<rparr>,
      \<lparr>ph_name = ''db_write'', percent = DBWritePercent q, ms = 0\<rparr>,
      \<lparr>ph_name = ''db_read'', percent = DBReadPercent q, ms = 0\<rparr>]"

definition top_up :: "int \<Rightarrow> mixedPhase list \<Rightarrow> mixedPhase list" where
  "top_up t ps =
     (let (acc, target) = find_target 0 0 (- 1) (- 1) ps in
      if acc < t \<and> target \<ge> 0
      then ps[nat target := (ps ! nat target)\<lparr>ms := wrap64 (ms (ps ! nat target) + (t - acc))\<rparr>]
      else ps)"

lemma effective_profile_ok:
  "profile_ok q \<Longrightarrow> profile_ok (effective_profile q) \<and> 1 \<le> active_count (effective_profile q)"
  by (auto simp: profile_ok_def effective_profile_def active_count_def)

lemma active_phases_mixed: "active_phases (mixed_phases q) = active_count q"
  by (simp add: mixed_phases_def active_count_def)

lemma splitMixedDurations_unfold:
  assumes "0 < t" "profile_ok q"
  shows "splitMixedDurations t q =
     (let q' = effective_profile q in
      if t < active_count q' then Inl (ErrText ''duration_ms is too short for mixed profile'')
      else case trim_phases t (top_up t (map (share_of t) (mixed_phases q'))) of
             Inl e \<Rightarrow> Inl e
           | Inr ps \<Rightarrow> Inr \<lparr>cpuMs = ms (ps ! 0), writeMs = ms (ps ! 1), readMs = ms (ps ! 2)\<rparr>)"
proof -
  let ?q = "effective_profile q"
  have sum: "wrap64 (wrap64 (CPUPercent q + DBWritePercent q) + DBReadPercent q) =
             CPUPercent q + DBWritePercent q + DBReadPercent q"
    using assms(2) by (simp add: wrap64_id in_int64_range profile_ok_def)
  have eff: "(if CPUPercent q + DBWritePercent q + DBReadPercent q = 0
              then (\<lparr>CPUPercent = 34, DBWritePercent = 33, DBReadPercent = 33\<rparr>, 100)
              else (q, CPUPercent q + DBWritePercent q + DBReadPercent q)) =
             (?q, CPUPercent ?q + DBWritePercent ?q + DBReadPercent ?q)"
    using assms(2) by (auto simp: effective_profile_def profile_ok_def)
  have ok: "profile_ok ?q" "active_count ?q \<noteq> 0"
    using effective_profile_ok[OF assms(2)] by auto
  show ?thesis
    using assms ok
    by (simp add: splitMixedDurations_def sum eff profile_ok_def share_phases_map
        mixed_phases_def[symmetric] active_phases_mixed top_up_def split_def Let_def
        split del: if_split cong: if_cong)
qed

lemma share_of_fits:
  assumes "0 < t" "t \<le> max_int64 div 100" "percent p \<le> 100" "percent p \<le> 0 \<longrightarrow> ms p = 0"
  shows "phase_fits (share_of t p)"
proof (cases "0 < percent p")
  case True
  then show ?thesis using share_of_bounds[OF assms(1,2) True assms(3)] by (simp add: phase_fits_def)
next
  case False
  then show ?thesis using assms(4) by (simp add: phase_fits_def share_of_def)
qed

lemma total_ms_map_le:
  "\<forall>p \<in> set ps. 100 * ms (f p) \<le> t * percent p + 100 \<Longrightarrow>
   100 * total_ms (map f ps) \<le> t * sum_list (map percent ps) + 100 * int (length ps)"
proof (induction ps)
  case (Cons p ps)
  then have "100 * ms (f p) \<le> t * percent p + 100"
    and "100 * total_ms (map f ps) \<le> t * sum_list (map percent ps) + 100 * int (length ps)"
    by simp_all
  then show ?case by (simp add: distrib_left)
qed simp

lemma shares_ok:
  assumes "0 < t" "t \<le> max_int64 div 100" "profile_ok q"
  shows "phases_ok (map (share_of t) (mixed_phases q))"
    and "total_ms (map (share_of t) (mixed_phases q)) \<le> 1000000000000000000 - t"
proof -
  have le: "percent p \<le> 100 \<and> ms p = 0 \<and> 0 \<le> percent p" if "p \<in> set (mixed_phases q)" for p
    using that assms(3) by (auto simp: mixed_phases_def profile_ok_def)
  have up: "100 * ms (share_of t p) \<le> t * percent p + 100" if "p \<in> set (mixed_phases q)" for p
    using share_of_bounds[OF assms(1,2), of p] le[OF that]
    by (cases "0 < percent p") (auto simp: share_of_def)
  have "100 * total_ms (map (share_of t) (mixed_phases q)) \<le>
        t * sum_list (map percent (mixed_phases q)) + 100 * int (length (mixed_phases q))"
    using up by (intro total_ms_map_le) simp
  also have "\<dots> = t * (CPUPercent q + DBWritePercent q + DBReadPercent q) + 300"
    by (simp add: mixed_phases_def add.assoc)
  also have "\<dots> \<le> t * 100 + 300"
    using assms(1,3) by (simp add: profile_ok_def mult_left_mono)
  finally show le_total: "total_ms (map (share_of t) (mixed_phases q)) \<le> 1000000000000000000 - t"
    using assms(1,2) by (simp add: max_int64_def)
  have "list_all phase_fits (map (share_of t) (mixed_phases q))"
    using share_of_fits[OF assms(1,2)] le by (auto simp: list_all_iff)
  then show "phases_ok (map (share_of t) (mixed_phases q))"
    using le_total assms(1) by (simp add: phases_ok_def small_def)
qed

lemma total_ms_update:
  "k < length ps \<Longrightarrow> total_ms (ps[k := (ps ! k)\<lparr>ms := ms (ps ! k) + d\<rparr>]) = total_ms ps + d"
proof (induction ps arbitrary: k)
  case (Cons p ps)
  then show ?case by (cases k) simp_all
qed simp

lemma percent_update:
  "map percent (ps[k := (ps ! k)\<lparr>ms := m\<rparr>]) = map percent ps"
  by (cases "k < length ps") (simp_all add: map_update list_update_beyond list_update_same_conv)

lemma top_up_ok:
  assumes ok: "phases_ok ps" and act: "0 < active_phases ps" and t: "0 < t" "t \<le> 10 ^ 17"
    and le: "total_ms ps \<le> 10 ^ 18 - t"
  shows "phases_ok (top_up t ps) \<and> t \<le> total_ms (top_up t ps) \<and>
         map percent (top_up t ps) = map percent ps"
proof -
  obtain acc target where ft: "find_target 0 0 (- 1) (- 1) ps = (acc, target)"
    by (cases "find_target 0 0 (- 1) (- 1) ps")
  have acc: "acc = total_ms ps"
    using find_target_sum[of ps 0 0 "- 1" "- 1"] phases_ok_nonneg[OF ok] ok ft
    by (simp add: phases_ok_def)
  have pos: "0 \<le> target" using find_target_found[of 0 "- 1" "- 1" ps 0] act ft by simp
  then obtain k where k: "k < length ps" "target = int k" "percent (ps ! k) > 0"
    using find_target_index[of 0 0 "- 1" "- 1" ps] ft by auto
  show ?thesis
  proof (cases "acc < t")
    case False
    with ft acc ok show ?thesis by (simp add: top_up_def)
  next
    case True
    have fit: "phase_fits (ps ! k)" and one: "1 \<le> ms (ps ! k)" and mem: "ps ! k \<in> set ps"
      using ok k by (simp_all add: phases_ok_def list_all_length phase_fits_def split: if_splits)
    have "ms (ps ! k) \<le> total_ms ps"
      using phases_ok_nonneg[OF ok] mem member_le_sum_list[of "ms (ps ! k)" "map ms ps"]
      by (auto simp: total_ms_def)
    with True acc t le one
    have wr: "wrap64 (ms (ps ! k) + (t - acc)) = ms (ps ! k) + (t - acc)"
      by (intro wrap64_id in_int64_range) simp_all
    let ?ps = "ps[k := (ps ! k)\<lparr>ms := ms (ps ! k) + (t - acc)\<rparr>]"
    have eq: "top_up t ps = ?ps" using True pos k ft wr by (simp add: top_up_def)
    have tot: "total_ms ?ps = t" using total_ms_update[OF k(1)] acc by simp
    have "phase_fits ((ps ! k)\<lparr>ms := ms (ps ! k) + (t - acc)\<rparr>)"
      using one True k(3) by (simp add: phase_fits_def)
    then have "list_all phase_fits ?ps"
      using ok by (auto simp: phases_ok_def list_all_iff dest!: set_update_subset_insert[THEN subsetD])
    with tot t have "phases_ok ?ps" by (simp add: phases_ok_def small_def)
    with eq tot percent_update show ?thesis by simp
  qed
qed

lemma map_percent_mixed: "map percent (mixed_phases q) = [CPUPercent q, DBWritePercent q, DBReadPercent q]"
  by (simp add: mixed_phases_def)

lemma three_phases:
  assumes "map percent ps = [a, b, c]"
  obtains x y z where "ps = [x, y, z]" "percent x = a" "percent y = b" "percent z = c"
  using assms by (auto simp: map_eq_Cons_conv)

text \<open>
  C12. On a valid profile and a duration long enough for its active phases, the split succeeds, the
  three durations add up to the whole duration, every active phase gets at least one millisecond
  and an inactive phase gets none.
\<close>

theorem splitMixedDurations_partition:
  assumes t: "0 < t" "t \<le> max_int64 div 100" and q: "profile_ok q"
    and enough: "active_count (effective_profile q) \<le> t"
  shows "\<exists>d. splitMixedDurations t q = Inr d \<and> cpuMs d + writeMs d + readMs d = t \<and>
    (if CPUPercent (effective_profile q) > 0 then 1 \<le> cpuMs d else cpuMs d = 0) \<and>
    (if DBWritePercent (effective_profile q) > 0 then 1 \<le> writeMs d else writeMs d = 0) \<and>
    (if DBReadPercent (effective_profile q) > 0 then 1 \<le> readMs d else readMs d = 0)"
proof -
  let ?q = "effective_profile q"
  let ?ps = "map (share_of t) (mixed_phases ?q)"
  note eff = effective_profile_ok[OF q]
  note shares = shares_ok[OF t conjunct1[OF eff]]
  have per: "map percent ?ps = map percent (mixed_phases ?q)" by simp
  have act: "active_phases ?ps = active_count ?q"
    using active_phases_percent[OF per] by (simp add: active_phases_mixed)
  have "phases_ok (top_up t ?ps) \<and> t \<le> total_ms (top_up t ?ps) \<and>
      map percent (top_up t ?ps) = map percent ?ps"
    using shares t eff act by (intro top_up_ok) (simp_all add: max_int64_def)
  moreover from this have "active_phases (top_up t ?ps) \<le> t"
    using active_phases_percent[of "top_up t ?ps" ?ps] act enough by simp
  ultimately obtain ps where trim: "trim_phases t (top_up t ?ps) = Inr ps" "phases_ok ps"
    "total_ms ps = t" "map percent ps = map percent (mixed_phases ?q)"
    using trim_phases_correct[of "top_up t ?ps" t] per by auto
  then obtain x y z where ps: "ps = [x, y, z]" "percent x = CPUPercent ?q"
    "percent y = DBWritePercent ?q" "percent z = DBReadPercent ?q"
    by (metis three_phases map_percent_mixed)
  show ?thesis
    using trim enough t(1) q ps
    by (simp add: splitMixedDurations_unfold Let_def phases_ok_def phase_fits_def)
qed

theorem splitMixedDurations_partition_witness:
  "\<exists>d. splitMixedDurations 1000 \<lparr>CPUPercent = 0, DBWritePercent = 20, DBReadPercent = 10\<rparr> = Inr d \<and>
       cpuMs d = 0 \<and> writeMs d + readMs d = 1000"
  using splitMixedDurations_partition
    [of 1000 "\<lparr>CPUPercent = 0, DBWritePercent = 20, DBReadPercent = 10\<rparr>"]
  by (auto simp: max_int64_def profile_ok_def effective_profile_def active_count_def)

text \<open>
  The split fails exactly when the duration is not positive, a percentage is negative, the
  percentages add up to more than 100, or the duration has fewer milliseconds than the profile
  has active phases. The bounds keep the sums and products inside int64.
\<close>

theorem splitMixedDurations_fails_iff:
  assumes "t \<le> max_int64 div 100" "CPUPercent q \<le> 10 ^ 17" "DBWritePercent q \<le> 10 ^ 17"
    "DBReadPercent q \<le> 10 ^ 17"
  shows "(\<exists>e. splitMixedDurations t q = Inl e) \<longleftrightarrow>
    t \<le> 0 \<or> CPUPercent q < 0 \<or> DBWritePercent q < 0 \<or> DBReadPercent q < 0 \<or>
    CPUPercent q + DBWritePercent q + DBReadPercent q > 100 \<or>
    t < active_count (effective_profile q)"
proof (cases "0 < t \<and> profile_ok q \<and> active_count (effective_profile q) \<le> t")
  case True
  then have "0 < t" "profile_ok q" "active_count (effective_profile q) \<le> t" by auto
  from splitMixedDurations_partition[OF this(1) assms(1) this(2,3)] this show ?thesis
    by (auto simp: profile_ok_def)
next
  case False
  show ?thesis
  proof (cases "0 < t \<and> profile_ok q")
    case True
    with False show ?thesis by (simp add: splitMixedDurations_unfold Let_def)
  next
    case bad: False
    have "wrap64 (wrap64 (CPUPercent q + DBWritePercent q) + DBReadPercent q) =
        CPUPercent q + DBWritePercent q + DBReadPercent q"
      if "0 \<le> CPUPercent q" "0 \<le> DBWritePercent q" "0 \<le> DBReadPercent q"
      using that assms by (simp add: wrap64_id in_int64_range)
    with bad show ?thesis
      by (auto simp: splitMixedDurations_def profile_ok_def)
  qed
qed

theorem splitMixedDurations_fails_iff_witness:
  "\<exists>e. splitMixedDurations 2 \<lparr>CPUPercent = 0, DBWritePercent = 0, DBReadPercent = 0\<rparr> = Inl e"
  using splitMixedDurations_fails_iff
    [of 2 "\<lparr>CPUPercent = 0, DBWritePercent = 0, DBReadPercent = 0\<rparr>"]
  by (simp add: max_int64_def effective_profile_def active_count_def)

end
