(* ===== verification/Workload_Execute.thy ===== *)
theory Workload_Execute
  imports Workload_Types Mixed_Split
begin

text \<open>
  internal/workload/execute.go: the interfaces a workload runs against, its parameters and its
  result. \<open>'s\<close> is the state of everything outside the generators. What the generators ask of it is
  a record of functions: the clock, the context, the sleeping \<open>select\<close>, randomness, the histogram
  of package otel, and the SQL store. Spans, log lines and attributes carry no state and are left out.
\<close>

section \<open>The environment\<close>

text \<open>A column of a row or an argument of a statement.\<close>

datatype sql_val = VText string | VBytes bytes | VTime time | VInt int

text \<open>Rows: what each \<open>Next\<close>/\<open>Scan\<close> pair yields, and the \<open>Err\<close> after the last.\<close>

record sql_rows =
  rs_rows :: "(goerr + sql_val list) list"
  rs_err :: "goerr option"

record 's sql_store =
  st_Exec :: "string \<Rightarrow> sql_val list \<Rightarrow> 's \<Rightarrow> goerr option \<times> 's"
  st_Query :: "string \<Rightarrow> sql_val list \<Rightarrow> 's \<Rightarrow> (goerr + sql_rows) \<times> 's"
  st_QueryRow :: "string \<Rightarrow> sql_val list \<Rightarrow> 's \<Rightarrow> (goerr + sql_val list) \<times> 's"

text \<open>\<open>Scan\<close> into one \<open>[]byte\<close>.\<close>

definition scan_error :: goerr where
  "scan_error = ErrText ''number or types of columns do not match the scan destinations''"

definition scan_bytes :: "sql_val list \<Rightarrow> bytes res" where
  "scan_bytes row = (case row of [VBytes b] \<Rightarrow> Inr b | _ \<Rightarrow> Inl scan_error)"

text \<open>
  \<open>env_now\<close> is \<open>time.Now().UTC()\<close>; \<open>env_ctx\<close> polls \<open>ctx.Done()\<close> and gives \<open>ctx.Err()\<close>;
  \<open>env_sleep d\<close> is the \<open>select\<close> between \<open>ctx.Done()\<close> and \<open>time.After(d)\<close>, with \<open>ctx.Err()\<close> when the
  first one won; \<open>env_rand n\<close> is \<open>rand.Int\<close> below \<open>n\<close>; \<open>env_uuid\<close> is \<open>uuid.NewString\<close>;
  \<open>env_histogram\<close> gets the latency histogram, made at its first use.
\<close>

record 's env =
  env_now :: "'s \<Rightarrow> time \<times> 's"
  env_ctx :: "'s \<Rightarrow> goerr option \<times> 's"
  env_sleep :: "duration \<Rightarrow> 's \<Rightarrow> goerr option \<times> 's"
  env_rand :: "int \<Rightarrow> 's \<Rightarrow> (goerr + int) \<times> 's"
  env_uuid :: "'s \<Rightarrow> string \<times> 's"
  env_histogram :: "'s \<Rightarrow> goerr option \<times> 's"

section \<open>Parameters and results\<close>

record 's WorkloadParams =
  wp_ScenarioID :: string
  wp_WorkloadType :: string
  wp_DurationMs :: int
  wp_AllocMB :: int
  wp_BatchSize :: int
  wp_ReadLookbackMs :: int
  wp_MixedProfile :: MixedProfile
  wp_Store :: "'s sql_store option"

record Result =
  res_Ops :: int
  res_Duration :: duration
  res_Error :: string

definition zero_result :: Result where
  "zero_result = \<lparr>res_Ops = 0, res_Duration = 0, res_Error = []\<rparr>"

text \<open>
  The interface \<open>Generator\<close>. \<open>Execute\<close> returns a result and an error; \<open>None\<close> is a call that does not
  return (a loop that never ends, or a run-time panic).
\<close>

type_synonym 's outcome = "((Result \<times> goerr option) \<times> 's) option"

type_synonym 's generator = "'s WorkloadParams \<Rightarrow> 's \<Rightarrow> 's outcome"

definition validateDuration :: "'s WorkloadParams \<Rightarrow> goerr option" where
  "validateDuration params =
     (if wp_DurationMs params \<le> 0 then Some (ErrText ''duration_ms must be greater than zero'') else None)"

text \<open>\<open>Result{Ops: ops, Duration: time.Since(start), Error: msg}\<close> next to an error.\<close>

definition finish :: "'s env \<Rightarrow> time \<Rightarrow> int \<Rightarrow> string \<Rightarrow> goerr option \<Rightarrow> 's \<Rightarrow> 's outcome" where
  "finish e start ops msg err s =
     (case env_now e s of (t, s') \<Rightarrow>
        Some ((\<lparr>res_Ops = ops, res_Duration = t - start, res_Error = msg\<rparr>, err), s'))"

text \<open>\<open>start.Add(time.Duration(params.DurationMs) * time.Millisecond)\<close>.\<close>

definition deadline_of :: "time \<Rightarrow> 's WorkloadParams \<Rightarrow> time" where
  "deadline_of start params = start + wrap64 (wp_DurationMs params * millisecond)"

section \<open>The contract of a generator\<close>

text \<open>
  What a caller of \<open>Execute\<close> relies on: a bad duration is refused before anything happens, a nil
  error comes with an empty error text and the other way round, an error has a text, and the count
  of operations is not negative.
\<close>

locale generator =
  fixes Execute :: "'s generator"
  assumes bad_duration:
      "wp_DurationMs p \<le> 0 \<Longrightarrow>
       Execute p s = Some ((zero_result, Some (ErrText ''duration_ms must be greater than zero'')), s)"
    and no_error_text: "Execute p s = Some ((r, None), s') \<Longrightarrow> res_Error r = []"
    and error_has_text: "Execute p s = Some ((r, Some e), s') \<Longrightarrow> error_string e \<noteq> []"
    and ops_nonneg: "Execute p s = Some ((r, err), s') \<Longrightarrow> 0 \<le> res_Ops r"
begin

lemma final_error_text:
  "Execute p s = Some ((r, err), s') \<Longrightarrow>
   (case err of None \<Rightarrow> res_Error r | Some e \<Rightarrow> error_string e) = [] \<longleftrightarrow> err = None"
  using no_error_text error_has_text by (cases err) auto

end

lemma error_string_Wrapf [simp]: "error_string (Wrapf p e) \<noteq> []"
  by simp

lemma finish_eq:
  "finish e start ops msg err s = Some ((r, err'), s') \<Longrightarrow>
   err' = err \<and> res_Ops r = ops \<and> res_Error r = msg"
  by (auto simp: finish_def split: prod.splits)

lemma finish_Some [simp]: "\<exists>x. finish e start ops msg err s = Some x"
  by (simp add: finish_def split: prod.splits)

section \<open>A clock that moves\<close>

text \<open>
  The hypothesis of the termination theorems: reading the clock gives an instant that is not past and takes
  time, and nothing else the generators do turns it back.
\<close>

definition ticking :: "'s env \<Rightarrow> ('s \<Rightarrow> time) \<Rightarrow> bool" where
  "ticking e clk \<longleftrightarrow>
     (\<forall>s. clk s \<le> fst (env_now e s) \<and> clk s < clk (snd (env_now e s))) \<and>
     (\<forall>s. clk s \<le> clk (snd (env_ctx e s))) \<and>
     (\<forall>d s. clk s \<le> clk (snd (env_sleep e d s))) \<and>
     (\<forall>n s. clk s \<le> clk (snd (env_rand e n s))) \<and>
     (\<forall>s. clk s \<le> clk (snd (env_uuid e s))) \<and>
     (\<forall>s. clk s \<le> clk (snd (env_histogram e s)))"

definition store_keeps_time :: "'s sql_store \<Rightarrow> ('s \<Rightarrow> time) \<Rightarrow> bool" where
  "store_keeps_time st clk \<longleftrightarrow>
     (\<forall>q a s. clk s \<le> clk (snd (st_Exec st q a s))) \<and>
     (\<forall>q a s. clk s \<le> clk (snd (st_Query st q a s))) \<and>
     (\<forall>q a s. clk s \<le> clk (snd (st_QueryRow st q a s)))"

lemma tickingD:
  assumes "ticking e clk"
  shows "env_now e s = (t, s') \<Longrightarrow> clk s \<le> t \<and> clk s < clk s'"
    and "env_ctx e s = (c, s') \<Longrightarrow> clk s \<le> clk s'"
    and "env_sleep e d s = (c, s') \<Longrightarrow> clk s \<le> clk s'"
    and "env_rand e n s = (i, s') \<Longrightarrow> clk s \<le> clk s'"
    and "env_uuid e s = (u, s') \<Longrightarrow> clk s \<le> clk s'"
    and "env_histogram e s = (c, s') \<Longrightarrow> clk s \<le> clk s'"
  using assms unfolding ticking_def by (metis fst_conv snd_conv)+

lemma store_keeps_timeD:
  assumes "store_keeps_time st clk"
  shows "st_Exec st q a s = (r, s') \<Longrightarrow> clk s \<le> clk s'"
    and "st_QueryRow st q a s = (r', s') \<Longrightarrow> clk s \<le> clk s'"
    and "st_Query st q a s = (r'', s') \<Longrightarrow> clk s \<le> clk s'"
  using assms unfolding store_keeps_time_def by (metis snd_conv)+

end
