(* ===== verification/Generators.thy ===== *)
theory Generators
  imports Workload_Execute
begin

text \<open>
  internal/workload: the five generators (cpu.go, memory.go, db_write.go, db_read.go, mixed.go).
  The timed loops are partial functions, \<open>None\<close> when they never end; the termination theorems
  show that they return under a clock that moves.
\<close>

section \<open>CPU\<close>

text \<open>The inner loop of a thousand additions; \<open>sink\<close> is a \<open>uint64\<close>.\<close>

fun cpu_batch :: "nat \<Rightarrow> nat \<Rightarrow> 64 word \<Rightarrow> int \<Rightarrow> 64 word \<times> int" where
  "cpu_batch i 0 sink ops = (sink, ops)"
| "cpu_batch i (Suc n) sink ops = cpu_batch (Suc i) n (sink + of_nat i) (ops + 1)"

partial_function (option) cpu_loop ::
    "'s env \<Rightarrow> time \<Rightarrow> time \<Rightarrow> int \<Rightarrow> 64 word \<Rightarrow> 's \<Rightarrow> 's outcome" where
  "cpu_loop e start deadline ops sink s =
     (case env_now e s of (t, s1) \<Rightarrow>
        if t < deadline then
          (case env_ctx e s1 of
             (Some err, s2) \<Rightarrow> finish e start ops (error_string err) (Some (Wrapf ''context'' err)) s2
           | (None, s2) \<Rightarrow>
               (case cpu_batch 0 1000 sink ops of (sink', ops') \<Rightarrow>
                  cpu_loop e start deadline ops' sink' s2))
        else if sink = 0
          then finish e start ops ''cpu loop produced no work''
                 (Some (ErrText ''cpu loop produced no work'')) s1
          else finish e start ops [] None s1)"

definition CPU_Execute :: "'s env \<Rightarrow> 's generator" where
  "CPU_Execute e params s =
     (case validateDuration params of
        Some err \<Rightarrow> Some ((zero_result, Some err), s)
      | None \<Rightarrow>
          (case env_now e s of (start, s1) \<Rightarrow>
             cpu_loop e start (deadline_of start params) 0 0 s1))"

section \<open>Memory\<close>

text \<open>
  \<open>make([]byte, n)\<close> panics when \<open>n\<close> is negative or beyond the address space of the run time
  (\<open>2 ^ 48\<close> bytes on 64-bit Linux). A size within the address space that the machine cannot give ends the
  process from outside; that is not modelled, here every such allocation succeeds.
\<close>

definition make_panics :: "int \<Rightarrow> bool" where
  "make_panics n \<longleftrightarrow> n < 0 \<or> n > 2 ^ 48"

definition Memory_Execute :: "'s env \<Rightarrow> 's generator" where
  "Memory_Execute e params0 s =
     (case validateDuration params0 of
        Some err \<Rightarrow> Some ((zero_result, Some err), s)
      | None \<Rightarrow>
          let params = (if wp_AllocMB params0 \<le> 0 then params0\<lparr>wp_AllocMB := 1\<rparr> else params0) in
          (case env_now e s of (start, s1) \<Rightarrow>
             let n = wrap64 (wrap64 (wp_AllocMB params * 1024) * 1024) in
             if make_panics n then None
             else
               (case env_sleep e (wrap64 (wp_DurationMs params * millisecond)) s1 of (_, s2) \<Rightarrow>
               (case env_now e s2 of (t, s3) \<Rightarrow>
                  let result = \<lparr>res_Ops = n, res_Duration = t - start, res_Error = []\<rparr> in
                  (case env_ctx e s3 of
                     (Some err, s4) \<Rightarrow> Some ((result, Some (Wrapf ''context'' err)), s4)
                   | (None, s4) \<Rightarrow> Some ((result, None), s4))))))"

section \<open>Database writes\<close>

definition insertLoadEventQuery :: string where
  "insertLoadEventQuery = ''INSERT INTO load_events (scenario_id, payload) VALUES ($1, $2)''"

text \<open>The batch: \<open>n\<close> inserts of the same payload, up to the first error.\<close>

fun write_batch ::
    "'s sql_store \<Rightarrow> string \<Rightarrow> bytes \<Rightarrow> nat \<Rightarrow> int \<Rightarrow> 's \<Rightarrow> (goerr option \<times> int) \<times> 's" where
  "write_batch st sid payload 0 ops s = ((None, ops), s)"
| "write_batch st sid payload (Suc n) ops s =
     (case st_Exec st insertLoadEventQuery [VText sid, VBytes payload] s of
        (Some err, s1) \<Rightarrow> ((Some err, ops), s1)
      | (None, s1) \<Rightarrow> write_batch st sid payload n (ops + 1) s1)"

definition load_event_payload :: "string \<Rightarrow> string \<Rightarrow> string \<Rightarrow> time \<Rightarrow> bytes res" where
  "load_event_payload uid sid wt now =
     (case enc_time now of
        Inl e \<Rightarrow> Inl e
      | Inr t \<Rightarrow> Inr (Doc (JObj [(''created_at'', t), (''id'', JStr uid), (''scenario_id'', JStr sid),
                              (''workload'', JStr wt)])))"

partial_function (option) write_loop ::
    "'s env \<Rightarrow> 's sql_store \<Rightarrow> 's WorkloadParams \<Rightarrow> time \<Rightarrow> time \<Rightarrow> int \<Rightarrow> 's \<Rightarrow> 's outcome" where
  "write_loop e st params start deadline ops s =
     (case env_now e s of (t, s1) \<Rightarrow>
        if t < deadline then
          (case env_ctx e s1 of
             (Some err, s2) \<Rightarrow> finish e start ops (error_string err) (Some (Wrapf ''context'' err)) s2
           | (None, s2) \<Rightarrow>
               (case env_uuid e s2 of (uid, s3) \<Rightarrow>
               (case env_now e s3 of (created, s4) \<Rightarrow>
               (case load_event_payload uid (wp_ScenarioID params) (wp_WorkloadType params) created of
                  Inl err \<Rightarrow> finish e start ops (error_string err) (Some (Wrapf ''marshal payload'' err)) s4
                | Inr payload \<Rightarrow>
                    (case write_batch st (wp_ScenarioID params) payload (nat (wp_BatchSize params)) ops s4 of
                       ((Some err, ops'), s5) \<Rightarrow>
                         finish e start ops' (error_string err) (Some (Wrapf ''insert load event'' err)) s5
                     | ((None, ops'), s5) \<Rightarrow> write_loop e st params start deadline ops' s5)))))
        else finish e start ops [] None s1)"

definition DBWrite_Execute :: "'s env \<Rightarrow> 's generator" where
  "DBWrite_Execute e params0 s =
     (case validateDuration params0 of
        Some err \<Rightarrow> Some ((zero_result, Some err), s)
      | None \<Rightarrow>
          (case wp_Store params0 of
             None \<Rightarrow> Some ((zero_result, Some (ErrText ''store is required'')), s)
           | Some st \<Rightarrow>
               let params = (if wp_BatchSize params0 \<le> 0 then params0\<lparr>wp_BatchSize := 10\<rparr> else params0) in
               (case env_now e s of (start, s1) \<Rightarrow>
                  write_loop e st params start (deadline_of start params) 0 s1)))"

section \<open>Database reads\<close>

definition selectLoadEventQuery :: string where
  "selectLoadEventQuery =
     ''SELECT payload FROM load_events WHERE created_at > $1 ORDER BY created_at DESC LIMIT 1''"

definition isNoRowsError :: "goerr \<Rightarrow> bool" where
  "isNoRowsError err \<longleftrightarrow> errors_is err SqlErrNoRows \<or> errors_is err PgxErrNoRows"

definition randomDuration :: "'s env \<Rightarrow> int \<Rightarrow> 's \<Rightarrow> (goerr + duration) \<times> 's" where
  "randomDuration e maxMs s =
     (if maxMs \<le> 0 then (Inl (ErrText ''maxMs must be positive''), s)
      else (case env_rand e maxMs s of
              (Inl err, s1) \<Rightarrow> (Inl (Wrapf ''rand'' err), s1)
            | (Inr n, s1) \<Rightarrow> (Inr (wrap64 (n * millisecond)), s1)))"

text \<open>\<open>QueryRow(...).Scan(&payload)\<close>.\<close>

definition query_bytes :: "'s sql_store \<Rightarrow> string \<Rightarrow> sql_val list \<Rightarrow> 's \<Rightarrow> bytes res \<times> 's" where
  "query_bytes st q args s =
     (case st_QueryRow st q args s of
        (Inl err, s1) \<Rightarrow> (Inl err, s1)
      | (Inr row, s1) \<Rightarrow> (scan_bytes row, s1))"

partial_function (option) read_loop ::
    "'s env \<Rightarrow> 's sql_store \<Rightarrow> 's WorkloadParams \<Rightarrow> time \<Rightarrow> time \<Rightarrow> int \<Rightarrow> 's \<Rightarrow> 's outcome" where
  "read_loop e st params start deadline ops s =
     (case env_now e s of (t, s1) \<Rightarrow>
        if t < deadline then
          (case env_ctx e s1 of
             (Some err, s2) \<Rightarrow> finish e start ops (error_string err) (Some (Wrapf ''context'' err)) s2
           | (None, s2) \<Rightarrow>
               (case randomDuration e (wp_ReadLookbackMs params) s2 of
                  (Inl err, s3) \<Rightarrow> finish e start ops (error_string err) (Some (Wrapf ''jitter'' err)) s3
                | (Inr jitter, s3) \<Rightarrow>
                    (case env_now e s3 of (t2, s4) \<Rightarrow>
                    (case env_now e s4 of (queryStart, s5) \<Rightarrow>
                    (case query_bytes st selectLoadEventQuery [VTime (t2 - jitter)] s5 of
                       (Inl err, s6) \<Rightarrow>
                         if isNoRowsError err then
                           (case env_sleep e (10 * millisecond) s6 of
                              (Some cerr, s7) \<Rightarrow>
                                finish e start ops (error_string cerr) (Some (Wrapf ''context'' cerr)) s7
                            | (None, s7) \<Rightarrow> read_loop e st params start deadline ops s7)
                         else finish e start ops (error_string err) (Some (Wrapf ''select load event'' err)) s6
                     | (Inr payload, s6) \<Rightarrow>
                         (case env_now e s6 of (elapsed, s7) \<Rightarrow>
                            read_loop e st params start deadline (ops + 1) s7))))))
        else finish e start ops [] None s1)"

definition DBRead_Execute :: "'s env \<Rightarrow> 's generator" where
  "DBRead_Execute e params0 s =
     (case validateDuration params0 of
        Some err \<Rightarrow> Some ((zero_result, Some err), s)
      | None \<Rightarrow>
          (case wp_Store params0 of
             None \<Rightarrow> Some ((zero_result, Some (ErrText ''store is required'')), s)
           | Some st \<Rightarrow>
               let params = (if wp_ReadLookbackMs params0 \<le> 0
                             then params0\<lparr>wp_ReadLookbackMs := 300000\<rparr> else params0) in
               (case env_histogram e s of
                  (Some err, s1) \<Rightarrow>
                    Some ((zero_result, Some (Wrapf ''create latency histogram'' err)), s1)
                | (None, s1) \<Rightarrow>
                    (case env_now e s1 of (start, s2) \<Rightarrow>
                       read_loop e st params start (deadline_of start params) 0 s2))))"

declare cpu_loop.simps [code] write_loop.simps [code] read_loop.simps [code]

section \<open>The mixed workload\<close>

record 's MixedGenerator =
  mg_CPU :: "'s generator option"
  mg_DBWrite :: "'s generator option"
  mg_DBRead :: "'s generator option"

text \<open>
  One phase: skipped without milliseconds, else the generator runs on the parameters with the
  phase's duration and its operations are added. \<open>Inl\<close> is the early return on an error.
\<close>

definition mixed_phase ::
    "'s env \<Rightarrow> time \<Rightarrow> string \<Rightarrow> 's generator \<Rightarrow> 's WorkloadParams \<Rightarrow> int \<Rightarrow> int \<Rightarrow> 's \<Rightarrow>
     (((Result \<times> goerr option) + int) \<times> 's) option" where
  "mixed_phase e start label gen params dms ops s =
     (if dms > 0 then
        (case gen (params\<lparr>wp_DurationMs := dms\<rparr>) s of
           None \<Rightarrow> None
         | Some ((r, Some err), s1) \<Rightarrow>
             (case env_now e s1 of (t, s2) \<Rightarrow>
                Some (Inl (\<lparr>res_Ops = ops + res_Ops r, res_Duration = t - start,
                            res_Error = error_string err\<rparr>, Some (Wrapf label err)), s2))
         | Some ((r, None), s1) \<Rightarrow> Some (Inr (ops + res_Ops r), s1))
      else Some (Inr ops, s))"

definition Mixed_Execute :: "'s env \<Rightarrow> 's MixedGenerator \<Rightarrow> 's generator" where
  "Mixed_Execute e g params s =
     (case validateDuration params of
        Some err \<Rightarrow> Some ((zero_result, Some err), s)
      | None \<Rightarrow>
          (case (mg_CPU g, mg_DBWrite g, mg_DBRead g) of
             (Some cpu, Some dbwrite, Some dbread) \<Rightarrow>
               (case env_now e s of (start, s1) \<Rightarrow>
               (case splitMixedDurations (wp_DurationMs params) (wp_MixedProfile params) of
                  Inl err \<Rightarrow> Some ((zero_result, Some err), s1)
                | Inr durations \<Rightarrow>
                    (case mixed_phase e start ''cpu workload'' cpu params (cpuMs durations) 0 s1 of
                       None \<Rightarrow> None
                     | Some (Inl r, s2) \<Rightarrow> Some (r, s2)
                     | Some (Inr ops1, s2) \<Rightarrow>
                         (case mixed_phase e start ''db write workload'' dbwrite params
                                 (writeMs durations) ops1 s2 of
                            None \<Rightarrow> None
                          | Some (Inl r, s3) \<Rightarrow> Some (r, s3)
                          | Some (Inr ops2, s3) \<Rightarrow>
                              (case mixed_phase e start ''db read workload'' dbread params
                                      (readMs durations) ops2 s3 of
                                 None \<Rightarrow> None
                               | Some (Inl r, s4) \<Rightarrow> Some (r, s4)
                               | Some (Inr ops3, s4) \<Rightarrow> finish e start ops3 [] None s4)))))
           | _ \<Rightarrow> Some ((zero_result,
                 Some (ErrText ''mixed generator requires cpu, db_write, and db_read generators'')), s)))"


section \<open>The generators meet their contract\<close>

text \<open>
  What a returning call may look like: the operations are counted from \<open>n\<close> upwards, an error has a
  text, and a result without an error has none.
\<close>

definition sound_outcome :: "int \<Rightarrow> Result \<times> goerr option \<Rightarrow> bool" where
  "sound_outcome n out \<longleftrightarrow>
     n \<le> res_Ops (fst out) \<and>
     (case snd out of None \<Rightarrow> res_Error (fst out) = [] | Some err \<Rightarrow> error_string err \<noteq> [])"

lemma sound_finish:
  "finish e start ops msg err s = Some (out, s') \<Longrightarrow> n \<le> ops \<Longrightarrow>
   (case err of None \<Rightarrow> msg = [] | Some x \<Rightarrow> error_string x \<noteq> []) \<Longrightarrow> sound_outcome n out"
  by (auto simp: finish_def sound_outcome_def split: prod.splits option.splits)

lemma sound_outcome_mono: "sound_outcome n out \<Longrightarrow> m \<le> n \<Longrightarrow> sound_outcome m out"
  by (auto simp: sound_outcome_def)

lemma generatorI:
  assumes "\<And>p s. wp_DurationMs p \<le> 0 \<Longrightarrow>
      E p s = Some ((zero_result, Some (ErrText ''duration_ms must be greater than zero'')), s)"
    and "\<And>p s out s'. E p s = Some (out, s') \<Longrightarrow> sound_outcome 0 out"
  shows "generator E"
proof
  fix p s r err s' e
  show "wp_DurationMs p \<le> 0 \<Longrightarrow>
      E p s = Some ((zero_result, Some (ErrText ''duration_ms must be greater than zero'')), s)"
    by (rule assms(1))
  show "E p s = Some ((r, None), s') \<Longrightarrow> res_Error r = []"
    using assms(2) [of p s "(r, None)" s'] by (simp add: sound_outcome_def)
  show "E p s = Some ((r, Some e), s') \<Longrightarrow> error_string e \<noteq> []"
    using assms(2) [of p s "(r, Some e)" s'] by (simp add: sound_outcome_def)
  show "E p s = Some ((r, err), s') \<Longrightarrow> 0 \<le> res_Ops r"
    using assms(2) [of p s "(r, err)" s'] by (simp add: sound_outcome_def)
qed

lemma validateDuration_None: "validateDuration p = None \<longleftrightarrow> 0 < wp_DurationMs p"
  by (simp add: validateDuration_def not_le)

lemma cpu_batch_eq:
  "cpu_batch i n sink ops = (sink + (\<Sum>j<n. of_nat (i + j)), ops + int n)"
  by (induction n arbitrary: i sink ops)
     (simp_all add: sum.lessThan_Suc_shift algebra_simps del: sum.lessThan_Suc)

lemma cpu_batch_1000: "cpu_batch 0 1000 sink ops = (sink + 499500, ops + 1000)"
proof -
  have "(\<Sum>j<1000. of_nat (0 + j) :: 64 word) = of_nat (\<Sum>j<1000. j)"
    by simp
  also have "(\<Sum>j<1000. j) = (499500 :: nat)"
    by (simp add: lessThan_atLeast0 Sum_Ico_nat)
  finally show ?thesis
    by (simp add: cpu_batch_eq del: of_nat_sum)
qed

lemma sound_outcome_step:
  "sound_outcome (n + 1) out \<Longrightarrow> sound_outcome n out"
  "sound_outcome (n + 1000) out \<Longrightarrow> sound_outcome n out"
  by (simp_all add: sound_outcome_def)

lemma cpu_loop_sound:
  assumes "cpu_loop e start deadline ops sink s = Some y"
  shows "sound_outcome ops (fst y)"
proof (rule cpu_loop.raw_induct [OF _ assms,
    where P = "\<lambda>e start deadline ops sink s y. sound_outcome ops (fst y)"], goal_cases)
  case (1 L e start deadline ops sink s y)
  from 1(2) show ?case
    by (cases y) (auto simp: cpu_batch_1000 split: prod.splits if_splits option.splits
            dest!: 1(1) elim!: sound_finish intro: sound_outcome_step)
qed

lemma write_batch_ops: "write_batch st sid pl n ops s = ((err, ops'), s') \<Longrightarrow> ops \<le> ops'"
  by (induction n arbitrary: ops s) (fastforce split: prod.splits option.splits)+

lemma write_loop_sound:
  assumes "write_loop e st params start deadline ops s = Some y"
  shows "sound_outcome ops (fst y)"
proof (rule write_loop.raw_induct [OF _ assms,
    where P = "\<lambda>e st params start deadline ops s y. sound_outcome ops (fst y)"], goal_cases)
  case (1 L e st params start deadline ops s y)
  from 1(2) show ?case
    by (cases y) (auto split: prod.splits if_splits option.splits sum.splits
            dest!: 1(1) write_batch_ops elim!: sound_finish elim: sound_outcome_mono)
qed

lemma read_loop_sound:
  assumes "read_loop e st params start deadline ops s = Some y"
  shows "sound_outcome ops (fst y)"
proof (rule read_loop.raw_induct [OF _ assms,
    where P = "\<lambda>e st params start deadline ops s y. sound_outcome ops (fst y)"], goal_cases)
  case (1 L e st params start deadline ops s y)
  from 1(2) show ?case
    by (cases y) (auto split: prod.splits if_splits option.splits sum.splits
            dest!: 1(1) elim!: sound_finish intro: sound_outcome_step)
qed

lemma sound_zero_result [simp]:
  "sound_outcome 0 (zero_result, Some err) \<longleftrightarrow> error_string err \<noteq> []"
  by (simp add: sound_outcome_def zero_result_def)

lemma generator_CPU: "generator (CPU_Execute e)"
  by (rule generatorI)
     (auto simp: CPU_Execute_def validateDuration_def split: if_splits prod.splits dest!: cpu_loop_sound)

lemma generator_Memory: "generator (Memory_Execute e)"
  by (rule generatorI)
     (auto simp: Memory_Execute_def validateDuration_def Let_def make_panics_def sound_outcome_def
        zero_result_def split: if_splits prod.splits option.splits)

lemma generator_DBWrite: "generator (DBWrite_Execute e)"
  by (rule generatorI)
     (auto simp: DBWrite_Execute_def validateDuration_def Let_def
        split: if_splits prod.splits option.splits dest!: write_loop_sound)

lemma generator_DBRead: "generator (DBRead_Execute e)"
  by (rule generatorI)
     (auto simp: DBRead_Execute_def validateDuration_def Let_def
        split: if_splits prod.splits option.splits dest!: read_loop_sound)

interpretation cpu: generator "CPU_Execute e" for e :: "'s env"
  by (rule generator_CPU)

interpretation memory: generator "Memory_Execute e" for e :: "'s env"
  by (rule generator_Memory)

interpretation dbwrite: generator "DBWrite_Execute e" for e :: "'s env"
  by (rule generator_DBWrite)

interpretation dbread: generator "DBRead_Execute e" for e :: "'s env"
  by (rule generator_DBRead)

lemma mixed_phase_sound:
  assumes "generator gen" and "mixed_phase e start label gen params dms ops s = Some (out, s')"
    and "0 \<le> ops"
  shows "case out of Inl r \<Rightarrow> sound_outcome 0 r | Inr ops' \<Rightarrow> ops \<le> ops'"
  using assms(2,3) generator.ops_nonneg [OF assms(1)] 
  by (fastforce simp: mixed_phase_def sound_outcome_def split: if_splits prod.splits option.splits)

lemma trim_phases_error_text: "trim_phases t ps = Inl err \<Longrightarrow> error_string err \<noteq> []"
proof (induction t ps rule: trim_phases.induct)
  case (1 t ps)
  from 1(2) show ?case
    by (subst (asm) trim_phases.simps) (auto split: if_splits option.splits dest: 1(1))
qed

lemma splitMixedDurations_error_text:
  "splitMixedDurations t p = Inl err \<Longrightarrow> error_string err \<noteq> []"
  unfolding splitMixedDurations_def Let_def
  by (auto dest!: trim_phases_error_text simp del: share_phases.simps find_target.simps
        split: if_splits prod.splits sum.splits)

lemma generator_Mixed:
  assumes "generator cpu" "generator w" "generator r"
  shows "generator (Mixed_Execute e \<lparr>mg_CPU = Some cpu, mg_DBWrite = Some w, mg_DBRead = Some r\<rparr>)"
proof (rule generatorI, goal_cases)
  case (2 p s out s')
  then show ?case
    by (auto simp: Mixed_Execute_def validateDuration_def
          split: if_splits prod.splits option.splits sum.splits
          dest!: splitMixedDurations_error_text mixed_phase_sound [OF assms(1)]
            mixed_phase_sound [OF assms(2)] mixed_phase_sound [OF assms(3)]
          elim!: sound_finish sound_outcome_mono)
qed (simp add: Mixed_Execute_def validateDuration_def)

interpretation mixed: generator
  "Mixed_Execute e \<lparr>mg_CPU = Some (CPU_Execute e), mg_DBWrite = Some (DBWrite_Execute e),
     mg_DBRead = Some (DBRead_Execute e)\<rparr>" for e :: "'s env"
  by (rule generator_Mixed [OF generator_CPU generator_DBWrite generator_DBRead])

section \<open>The timed loops return\<close>

text \<open>
  Every iteration reads the clock, so under a clock that moves the distance to the deadline
  shrinks. \<open>returns_later\<close> adds that the call did not turn the clock back, which is what the next
  phase of the mixed workload needs.
\<close>

definition returns_later :: "('s \<Rightarrow> time) \<Rightarrow> 's \<Rightarrow> ('a \<times> 's) option \<Rightarrow> bool" where
  "returns_later clk s ret = (case ret of None \<Rightarrow> False | Some (out, s') \<Rightarrow> clk s \<le> clk s')"

lemma returns_later_trans:
  "returns_later clk s1 ret \<Longrightarrow> clk s \<le> clk s1 \<Longrightarrow> returns_later clk s ret"
  by (auto simp: returns_later_def split: option.splits)

lemma returns_later_Some [simp]: "returns_later clk s (Some (out, s')) \<longleftrightarrow> clk s \<le> clk s'"
  by (simp add: returns_later_def)

lemma finish_later: "ticking e clk \<Longrightarrow> returns_later clk s (finish e start ops msg err s)"
  by (auto simp: finish_def split: prod.splits dest!: tickingD(1))

lemma cpu_loop_returns:
  assumes tick: "ticking e clk"
  shows "returns_later clk s (cpu_loop e start deadline ops sink s)"
proof (induction "nat (deadline - clk s)" arbitrary: s ops sink rule: less_induct)
  case less
  show ?case
    by (subst cpu_loop.simps)
       (force split: prod.splits option.splits dest!: tickingD [OF tick]
          intro: returns_later_trans [OF finish_later [OF tick]] returns_later_trans [OF less])
qed

lemma write_batch_later:
  "store_keeps_time st clk \<Longrightarrow> write_batch st sid pl n ops s = (r, s') \<Longrightarrow> clk s \<le> clk s'"
  by (induction n arbitrary: ops s)
     (fastforce split: prod.splits option.splits dest: store_keeps_timeD)+

lemma write_loop_returns:
  assumes tick: "ticking e clk" and st: "store_keeps_time st clk"
  shows "returns_later clk s (write_loop e st params start deadline ops s)"
proof (induction "nat (deadline - clk s)" arbitrary: s ops rule: less_induct)
  case less
  show ?case
    by (subst write_loop.simps)
       (force split: prod.splits option.splits sum.splits
          dest!: tickingD [OF tick] write_batch_later [OF st]
          intro: returns_later_trans [OF finish_later [OF tick]] returns_later_trans [OF less])
qed

lemma randomDuration_later:
  "ticking e clk \<Longrightarrow> randomDuration e n s = (r, s') \<Longrightarrow> clk s \<le> clk s'"
  by (auto simp: randomDuration_def split: if_splits prod.splits sum.splits dest!: tickingD(4))

lemma query_bytes_later:
  "store_keeps_time st clk \<Longrightarrow> query_bytes st q args s = (r, s') \<Longrightarrow> clk s \<le> clk s'"
  by (auto simp: query_bytes_def split: prod.splits sum.splits dest!: store_keeps_timeD(2))

lemma read_loop_returns:
  assumes tick: "ticking e clk" and st: "store_keeps_time st clk"
  shows "returns_later clk s (read_loop e st params start deadline ops s)"
proof (induction "nat (deadline - clk s)" arbitrary: s ops rule: less_induct)
  case less
  show ?case
    by (subst read_loop.simps)
       (force split: prod.splits option.splits sum.splits
          dest!: tickingD [OF tick] query_bytes_later [OF st] randomDuration_later [OF tick]
          intro: returns_later_trans [OF finish_later [OF tick]] returns_later_trans [OF less])
qed

definition store_ok :: "('s \<Rightarrow> time) \<Rightarrow> 's WorkloadParams \<Rightarrow> bool" where
  "store_ok clk params = (case wp_Store params of None \<Rightarrow> True | Some st \<Rightarrow> store_keeps_time st clk)"

lemma store_ok_duration [simp]: "store_ok clk (params\<lparr>wp_DurationMs := d\<rparr>) = store_ok clk params"
  by (simp add: store_ok_def)

lemma CPU_returns:
  assumes tick: "ticking e clk"
  shows "returns_later clk s (CPU_Execute e params s)"
  by (auto simp: CPU_Execute_def split: option.splits prod.splits dest!: tickingD(1) [OF tick]
        intro: returns_later_trans [OF cpu_loop_returns [OF tick]])

lemma DBWrite_returns:
  assumes tick: "ticking e clk" and st: "store_ok clk params"
  shows "returns_later clk s (DBWrite_Execute e params s)"
  using st
  by (auto simp: DBWrite_Execute_def store_ok_def Let_def split: option.splits prod.splits
        dest!: tickingD(1) [OF tick] intro: returns_later_trans [OF write_loop_returns [OF tick]])

lemma DBRead_returns:
  assumes tick: "ticking e clk" and st: "store_ok clk params"
  shows "returns_later clk s (DBRead_Execute e params s)"
  using st
  by (auto simp: DBRead_Execute_def store_ok_def Let_def split: option.splits prod.splits
        dest!: tickingD(1,6) [OF tick] intro: returns_later_trans [OF read_loop_returns [OF tick]])

lemma mixed_phase_returns:
  assumes tick: "ticking e clk" and "\<And>p s. store_ok clk p \<Longrightarrow> returns_later clk s (gen p s)"
    and "store_ok clk params"
  shows "returns_later clk s (mixed_phase e start label gen params dms ops s)"
  using assms(2) [of "params\<lparr>wp_DurationMs := dms\<rparr>" s] assms(3)
  by (auto simp: mixed_phase_def returns_later_def split: option.splits prod.splits
        dest!: tickingD(1) [OF tick])

lemma returns_later_cases:
  assumes "returns_later clk s ret"
  obtains out s' where "ret = Some (out, s')" and "clk s \<le> clk s'"
  using assms by (auto simp: returns_later_def split: option.splits)

text \<open>The mixed workload, as the worker composes it.\<close>

definition mixed_generators :: "'s env \<Rightarrow> 's MixedGenerator" where
  "mixed_generators e =
     \<lparr>mg_CPU = Some (CPU_Execute e), mg_DBWrite = Some (DBWrite_Execute e),
      mg_DBRead = Some (DBRead_Execute e)\<rparr>"

lemma Mixed_returns:
  assumes tick: "ticking e clk" and st: "store_ok clk params"
  shows "returns_later clk s (Mixed_Execute e (mixed_generators e) params s)"
proof -
  have cpu: "returns_later clk s (mixed_phase e start label (CPU_Execute e) params d ops s)"
    and dbw: "returns_later clk s (mixed_phase e start label (DBWrite_Execute e) params d ops s)"
    and dbr: "returns_later clk s (mixed_phase e start label (DBRead_Execute e) params d ops s)"
    for start label d ops s
    by (auto intro!: mixed_phase_returns CPU_returns DBWrite_returns DBRead_returns tick st)
  show ?thesis
  proof (cases "validateDuration params")
    case None
    obtain start s1 where now: "env_now e s = (start, s1)"
      by fastforce
    with tick have le: "clk s \<le> clk s1"
      using tickingD(1) by fastforce
    show ?thesis
    proof (cases "splitMixedDurations (wp_DurationMs params) (wp_MixedProfile params)")
      case (Inr d)
      show ?thesis
        apply (simp add: Mixed_Execute_def mixed_generators_def None now Inr)
        apply (rule cpu [of s1 start "''cpu workload''" "cpuMs d" 0, THEN returns_later_cases])
        subgoal for out2 s2
          apply (cases out2)
          subgoal using le by simp
          subgoal for ops1
            apply (rule dbw [of s2 start "''db write workload''" "writeMs d" ops1,
                THEN returns_later_cases])
            subgoal for out3 s3
              apply (cases out3)
              subgoal using le by simp
              subgoal for ops2
                using dbr [of s3 start "''db read workload''" "readMs d" ops2] le
                by (auto elim!: returns_later_cases split: sum.splits
                      intro!: returns_later_trans [OF finish_later [OF tick]])
              done
            done
          done
        done
    qed (simp add: Mixed_Execute_def mixed_generators_def None now le)
  qed (simp add: Mixed_Execute_def)
qed

section \<open>What the operations count\<close>

text \<open>
  \<open>counts cnt st\<close>: \<open>cnt\<close> is a number of rows which every successful insert of a load event
  raises by one and nothing else the write generator does changes.
\<close>

definition counts_rows :: "'s env \<Rightarrow> 's sql_store \<Rightarrow> ('s \<Rightarrow> int) \<Rightarrow> bool" where
  "counts_rows e st cnt \<longleftrightarrow>
     (\<forall>a s. cnt (snd (st_Exec st insertLoadEventQuery a s)) =
            (if fst (st_Exec st insertLoadEventQuery a s) = None then cnt s + 1 else cnt s)) \<and>
     (\<forall>s. cnt (snd (env_now e s)) = cnt s) \<and> (\<forall>s. cnt (snd (env_ctx e s)) = cnt s) \<and>
     (\<forall>s. cnt (snd (env_uuid e s)) = cnt s)"

lemma counts_rowsD:
  assumes "counts_rows e st cnt"
  shows "st_Exec st insertLoadEventQuery a s = (None, s') \<Longrightarrow> cnt s' = cnt s + 1"
    and "st_Exec st insertLoadEventQuery a s = (Some err, s') \<Longrightarrow> cnt s' = cnt s"
    and "env_now e s = (t, s') \<Longrightarrow> cnt s' = cnt s"
    and "env_ctx e s = (c, s') \<Longrightarrow> cnt s' = cnt s"
    and "env_uuid e s = (u, s') \<Longrightarrow> cnt s' = cnt s"
  using assms unfolding counts_rows_def by (metis fst_conv snd_conv option.distinct(1))+

lemma write_batch_counts:
  assumes "counts_rows e st cnt"
  shows "write_batch st sid pl n ops s = ((err, ops'), s') \<Longrightarrow> cnt s' = cnt s + (ops' - ops)"
proof (induction n arbitrary: ops s)
  case (Suc n)
  obtain r s1 where ex: "st_Exec st insertLoadEventQuery [VText sid, VBytes pl] s = (r, s1)"
    by (cases "st_Exec st insertLoadEventQuery [VText sid, VBytes pl] s") simp
  show ?case
  proof (cases r)
    case None
    with ex Suc.prems have "write_batch st sid pl n (ops + 1) s1 = ((err, ops'), s')"
      by simp
    from Suc.IH [OF this] counts_rowsD(1) [OF assms, of _ s s1] ex None show ?thesis
      by simp
  next
    case (Some x)
    with ex Suc.prems counts_rowsD(2) [OF assms, of _ s x s1] show ?thesis
      by simp
  qed
qed simp

lemma finish_rows:
  assumes "counts_rows e st cnt" and "finish e start ops msg err s = Some y"
  shows "res_Ops (fst (fst y)) = ops \<and> cnt (snd y) = cnt s"
  using assms(2) counts_rowsD(3) [OF assms(1)]
  by (auto simp: finish_def split: prod.splits)

lemma write_loop_rows:
  assumes "write_loop e st params start deadline ops s = Some y" and "counts_rows e st cnt"
  shows "res_Ops (fst (fst y)) - ops = cnt (snd y) - cnt s"
  using assms(2)
proof (rule write_loop.raw_induct [OF _ assms(1),
    where P = "\<lambda>e st params start deadline ops s y. counts_rows e st cnt \<longrightarrow>
      res_Ops (fst (fst y)) - ops = cnt (snd y) - cnt s", THEN mp, rotated], goal_cases)
  case (1 L e st params start deadline ops s y)
  show ?case
  proof
    assume cr: "counts_rows e st cnt"
    note d = counts_rowsD(3-5) [OF cr] write_batch_counts [OF cr] finish_rows [OF cr]
    from 1(2) show "res_Ops (fst (fst y)) - ops = cnt (snd y) - cnt s"
      by (auto split: prod.splits if_splits option.splits sum.splits
            dest!: d 1(1) [rule_format, OF _ cr])
  qed
qed

text \<open>
  C26. The write generator reports exactly the rows it inserted: whatever way \<open>Execute\<close> returns
  (deadline, cancelled context, payload that does not encode, failing insert), \<open>Ops\<close> is the number
  of rows the call added to the store.
\<close>

theorem DBWrite_Execute_counts_rows:
  assumes "DBWrite_Execute e params s = Some ((r, err), s')"
    and "\<And>st. wp_Store params = Some st \<Longrightarrow> counts_rows e st cnt"
  shows "res_Ops r = cnt s' - cnt s"
proof (cases "wp_Store params")
  case None
  with assms(1) show ?thesis
    by (auto simp: DBWrite_Execute_def zero_result_def split: option.splits)
next
  case (Some st)
  with assms(2) have cr: "counts_rows e st cnt"
    by blast
  from assms(1) Some show ?thesis
    by (auto simp: DBWrite_Execute_def zero_result_def Let_def split: option.splits prod.splits
          dest!: write_loop_rows [OF _ cr] counts_rowsD(3) [OF cr])
qed

text \<open>
  A small world for the witnesses: a clock that advances a millisecond whenever it is read, and a
  list of rows that takes a row in ten milliseconds.
\<close>

type_synonym tick_world = "time \<times> sql_val list list"

definition tick_env :: "tick_world env" where
  "tick_env =
     \<lparr>env_now = \<lambda>(t, rows). (t, t + millisecond, rows),
      env_ctx = \<lambda>s. (None, s),
      env_sleep = \<lambda>d (t, rows). (None, t + max 0 d, rows),
      env_rand = \<lambda>n s. (Inr (n div 2), s),
      env_uuid = \<lambda>s. (''6ba7b810-9dad-11d1-80b4-00c04fd430c8'', s),
      env_histogram = \<lambda>s. (None, s)\<rparr>"

definition tick_store :: "tick_world sql_store" where
  "tick_store =
     \<lparr>st_Exec = \<lambda>q args (t, rows).
        if length rows < 3 then (None, t + 10 * millisecond, rows @ [args])
        else (Some (ErrText ''disk full''), t, rows),
      st_Query = \<lambda>q args s. (Inr \<lparr>rs_rows = [], rs_err = None\<rparr>, s),
      st_QueryRow = \<lambda>q args s. (Inl PgxErrNoRows, s)\<rparr>"

definition tick_params :: "int \<Rightarrow> tick_world WorkloadParams" where
  "tick_params dur =
     \<lparr>wp_ScenarioID = ''s1'', wp_WorkloadType = ''db_write'', wp_DurationMs = dur, wp_AllocMB = 1,
      wp_BatchSize = 2, wp_ReadLookbackMs = 300000,
      wp_MixedProfile = \<lparr>CPUPercent = 0, DBWritePercent = 0, DBReadPercent = 0\<rparr>,
      wp_Store = Some tick_store\<rparr>"

lemma tick_env_simps [simp]:
  "env_now tick_env (t, rows) = (t, t + millisecond, rows)"
  "env_ctx tick_env w = (None, w)"
  "env_sleep tick_env d (t, rows) = (None, t + max 0 d, rows)"
  "env_rand tick_env n w = (Inr (n div 2), w)"
  "env_uuid tick_env w = (''6ba7b810-9dad-11d1-80b4-00c04fd430c8'', w)"
  "env_histogram tick_env w = (None, w)"
  by (simp_all add: tick_env_def)

lemma tick_store_simps [simp]:
  "st_Exec tick_store q args (t, rows) =
     (if length rows < 3 then (None, t + 10 * millisecond, rows @ [args])
      else (Some (ErrText ''disk full''), t, rows))"
  "st_QueryRow tick_store q args w = (Inl PgxErrNoRows, w)"
  by (simp_all add: tick_store_def)

lemma ticking_tick_env: "ticking tick_env fst"
  by (auto simp: ticking_def tick_env_def)

lemma store_ok_tick: "store_ok fst (tick_params dur)"
  by (auto simp: store_ok_def store_keeps_time_def tick_params_def tick_store_def)

lemma counts_rows_tick: "counts_rows tick_env tick_store (\<lambda>s. int (length (snd s)))"
  by (auto simp: counts_rows_def tick_env_def tick_store_def)

theorem DBWrite_Execute_counts_rows_witness:
  "\<exists>r s'. DBWrite_Execute tick_env (tick_params 100) (0, []) =
       Some ((r, Some (Wrapf ''insert load event'' (ErrText ''disk full''))), s') \<and> res_Ops r = 3"
proof -
  let ?r = "DBWrite_Execute tick_env (tick_params 100) (0, [])"
  have "\<not> isl (format_time 2000000)" "\<not> isl (format_time 24000000)"
    by code_simp+
  then obtain x y where fmt: "format_time 2000000 = Inr x" "format_time 24000000 = Inr y"
    by (cases "format_time 2000000"; cases "format_time 24000000") auto
  let ?loop = "write_loop tick_env tick_store (tick_params 100) 0 (100 * millisecond)"
  have second: "?loop 2 (23 * millisecond, [a, b]) =
      finish tick_env 0 3 ''disk full'' (Some (Wrapf ''insert load event'' (ErrText ''disk full'')))
        (35 * millisecond, [a, b, [VText ''s1'', VBytes p]])"
    if "load_event_payload (fst (env_uuid tick_env (0, []))) ''s1'' ''db_write'' 24000000 = Inr p" for a b p
    using that by (subst write_loop.simps) (simp add: tick_params_def numeral_2_eq_2)
  have first: "\<exists>a b. ?loop 0 (millisecond, []) = ?loop 2 (23 * millisecond, [a, b])"
    by (subst write_loop.simps) (simp add: tick_params_def numeral_2_eq_2 load_event_payload_def enc_time_def fmt,
        intro exI, rule refl)
  from first second obtain q where
    "?loop 0 (millisecond, []) =
      finish tick_env 0 3 ''disk full'' (Some (Wrapf ''insert load event'' (ErrText ''disk full'')))
        (35 * millisecond, q)" and "length q = 3"
    by (auto simp: load_event_payload_def enc_time_def fmt)
  then obtain r s' where
    ret: "?r = Some ((r, Some (Wrapf ''insert load event'' (ErrText ''disk full''))), s')"
    and len: "length (snd s') = 3"
    by (auto simp: DBWrite_Execute_def validateDuration_def tick_params_def deadline_of_def wrap64_def
          finish_def)
  have "res_Ops r = int (length (snd s')) - int (length (snd (0 :: time, [] :: sql_val list list)))"
    by (rule DBWrite_Execute_counts_rows [OF ret, where cnt = "\<lambda>s. int (length (snd s))"])
       (simp add: tick_params_def counts_rows_tick)
  with ret len show ?thesis
    by simp
qed

section \<open>CPU work and memory\<close>

definition cpu_report :: "int \<Rightarrow> 64 word \<Rightarrow> Result \<times> goerr option \<Rightarrow> nat \<Rightarrow> bool" where
  "cpu_report ops sink out k \<longleftrightarrow>
     res_Ops (fst out) = ops + 1000 * int k \<and>
     ((\<exists>c. snd out = Some (Wrapf ''context'' c)) \<or>
      snd out = Some (ErrText ''cpu loop produced no work'') \<and> sink + 499500 * of_nat k = 0 \<or>
      snd out = None \<and> sink + 499500 * of_nat k \<noteq> 0)"

lemma cpu_report_Suc: "cpu_report (ops + 1000) (sink + 499500) out k \<Longrightarrow> cpu_report ops sink out (Suc k)"
  by (auto simp: cpu_report_def algebra_simps)

lemma cpu_loop_batches:
  assumes "cpu_loop e start deadline ops sink s = Some y"
  shows "\<exists>k. cpu_report ops sink (fst y) k"
proof (rule cpu_loop.raw_induct [OF _ assms,
    where P = "\<lambda>e start deadline ops sink s y. \<exists>k. cpu_report ops sink (fst y) k"], goal_cases)
  case (1 L e start deadline ops sink s y)
  obtain t s1 where now: "env_now e s = (t, s1)" by fastforce
  obtain c s2 where ctx: "env_ctx e s1 = (c, s2)" by fastforce
  show ?case
  proof (cases "t < deadline \<and> c = None")
    case True
    with 1(2) now ctx have "L e start deadline (ops + 1000) (sink + 499500) s2 = Some y"
      by (simp add: cpu_batch_1000)
    from 1(1) [OF this] show ?thesis
      by (blast intro: cpu_report_Suc)
  next
    case False
    with 1(2) now ctx show ?thesis
      by (intro exI [of _ 0]) (auto simp: cpu_report_def finish_def split: if_splits prod.splits)
  qed
qed

lemma batches_not_zero:
  assumes "0 < k" and "k < 2 ^ 62"
  shows "499500 * of_nat k \<noteq> (0 :: 64 word)"
proof
  assume "499500 * of_nat k = (0 :: 64 word)"
  then have "of_nat (499500 * k) = (0 :: 64 word)"
    by simp
  then have "(2 :: nat) ^ 64 dvd 499500 * k"
    by (simp only: word_of_nat_eq_0_iff len_of_numeral_defs) simp
  then have "(4 :: nat) * 2 ^ 62 dvd 4 * (124875 * k)"
    by simp
  then have "(2 :: nat) ^ 62 dvd 124875 * k"
    by (simp only: nat_mult_dvd_cancel_disj) simp
  moreover have "coprime ((2 :: nat) ^ 62) 124875"
    by (subst coprime_power_left_iff) simp
  ultimately have "(2 :: nat) ^ 62 dvd k"
    by (simp only: coprime_dvd_mult_right_iff)
  with assms show False
    by (auto dest: dvd_imp_le)
qed

text \<open>
  The CPU generator does whole batches of a thousand additions, and it reports ``no work'' only
  when the 64-bit sum is zero, that is after a multiple of 2 ^ 62 batches: a run that found time for
  one batch (and for fewer than 2 ^ 62) either succeeds or was cancelled.
\<close>

theorem CPU_Execute_batches:
  assumes "CPU_Execute e params s = Some ((r, err), s')" and "0 < wp_DurationMs params"
  shows "\<exists>k :: nat. res_Ops r = 1000 * int k \<and>
     (err = None \<or> (\<exists>c. err = Some (Wrapf ''context'' c)) \<or>
      err = Some (ErrText ''cpu loop produced no work'')) \<and>
     (0 < k \<and> k < 2 ^ 62 \<longrightarrow> err \<noteq> Some (ErrText ''cpu loop produced no work'')) \<and>
     (k = 0 \<longrightarrow> err \<noteq> None)"
proof -
  from assms have "\<exists>k. cpu_report 0 0 (r, err) k"
    by (auto simp: CPU_Execute_def validateDuration_def split: prod.splits dest!: cpu_loop_batches)
  then obtain k where k: "cpu_report 0 0 (r, err) k" ..
  with batches_not_zero [of k] show ?thesis
    by (intro exI [of _ k]) (auto simp: cpu_report_def)
qed

theorem CPU_Execute_batches_witness:
  "\<exists>r err s'. CPU_Execute tick_env (tick_params 5) (0, []) = Some ((r, err), s') \<and>
     (\<exists>k :: nat. res_Ops r = 1000 * int k)"
proof -
  obtain out s' where "CPU_Execute tick_env (tick_params 5) (0, []) = Some (out, s')"
    using CPU_returns [OF ticking_tick_env] by (rule returns_later_cases)
  moreover obtain r err where "out = (r, err)"
    by fastforce
  ultimately have "CPU_Execute tick_env (tick_params 5) (0, []) = Some ((r, err), s')"
    by simp
  from this CPU_Execute_batches [OF this] show ?thesis
    by (auto simp: tick_params_def)
qed

lemma wrap64_mult: "wrap64 (wrap64 x * y) = wrap64 (x * y)"
proof -
  have "wrap64 x mod 2 ^ 64 = x mod 2 ^ 64"
    by (simp add: wrap64_def mod_diff_left_eq)
  then have "(wrap64 x * y) mod 2 ^ 64 = (x * y) mod 2 ^ 64"
    by (rule mod_mult_cong) simp
  then have "(wrap64 x * y + 2 ^ 63) mod 2 ^ 64 = (x * y + 2 ^ 63) mod 2 ^ 64"
    by (rule mod_add_cong) simp
  then show ?thesis
    by (simp only: wrap64_def)
qed

text \<open>
  The memory generator takes the size it is given: it allocates \<open>AllocMB\<close> mebibytes (one, when the size
  is not positive) and panics exactly when that is more than the run time can address.
\<close>

lemma Memory_Execute_panics_iff:
  assumes "0 < wp_DurationMs params"
  shows "Memory_Execute e params s = None \<longleftrightarrow>
     (let n = wrap64 ((if wp_AllocMB params \<le> 0 then 1 else wp_AllocMB params) * 1048576)
      in n < 0 \<or> 2 ^ 48 < n)"
  using assms(1)
  by (simp add: Memory_Execute_def validateDuration_def Let_def wrap64_mult make_panics_def mult.assoc
        split: prod.splits option.splits)

end
