(* ===== verification/Postgres.thy ===== *)
theory Postgres
  imports Generators "HOL-Library.Product_Lexorder"
begin

text \<open>
  The PostgreSQL side of the program: the tables of internal/db/schema/postgres.sql and what each SQL
  statement of the program (the constants of cmd/api/handlers/scenarios.go, cmd/api/handlers/status.go,
  cmd/worker/reporting.go, internal/workload/db_write.go and db_read.go) does to them. A statement is
  atomic, \<open>NOW()\<close> is the clock of the statement, \<open>BIGSERIAL\<close> numbers the rows from 1. A payload is
  kept as the JSON value it was sent as; a payload that is not JSON is refused, as by JSONB.
\<close>

section \<open>Tables\<close>

record event_row =
  ev_id :: int
  ev_scenario_id :: string
  ev_payload :: bytes
  ev_created_at :: time

record pg =
  load_events :: "event_row list"
  scenario_events :: "event_row list"
  metrics_snapshots :: "event_row list"
  load_seq :: int
  scenario_seq :: int
  snapshot_seq :: int

definition empty_pg :: pg where
  "empty_pg = \<lparr>load_events = [], scenario_events = [], metrics_snapshots = [],
     load_seq = 0, scenario_seq = 0, snapshot_seq = 0\<rparr>"

definition row_key :: "event_row \<Rightarrow> int \<times> int" where
  "row_key r = (ev_created_at r, ev_id r)"

text \<open>\<open>ORDER BY created_at ASC, id ASC\<close>, and the first row of the descending order.\<close>

definition in_order :: "event_row list \<Rightarrow> event_row list" where
  "in_order rows = sort_key row_key rows"

definition of_scenario :: "string \<Rightarrow> event_row list \<Rightarrow> event_row list" where
  "of_scenario sid rows = filter (\<lambda>r. ev_scenario_id r = sid) rows"

definition latest_row :: "string \<Rightarrow> pg \<Rightarrow> event_row option" where
  "latest_row sid db =
     (case in_order (of_scenario sid (scenario_events db)) of [] \<Rightarrow> None | rs \<Rightarrow> Some (last rs))"

text \<open>\<open>SELECT DISTINCT ON (scenario_id) ... ORDER BY scenario_id, created_at DESC, id DESC\<close>.\<close>

definition latest_rows :: "pg \<Rightarrow> event_row list" where
  "latest_rows db =
     List.map_filter (\<lambda>sid. latest_row sid db) (remdups (map ev_scenario_id (scenario_events db)))"

text \<open>\<open>payload->>'status'\<close>: the text of the member, \<open>None\<close> for SQL NULL.\<close>

definition payload_status :: "bytes \<Rightarrow> string option" where
  "payload_status b =
     (case b of
        Doc (JObj kvs) \<Rightarrow> (case map_of (rev kvs) ''status'' of Some (JStr s) \<Rightarrow> Some s | _ \<Rightarrow> None)
      | _ \<Rightarrow> None)"

section \<open>Statements\<close>

definition insertScenarioQuery :: string where
  "insertScenarioQuery = ''INSERT INTO scenario_events (scenario_id, payload) VALUES ($1, $2)''"

definition latestScenarioQuery :: string where
  "latestScenarioQuery =
     ''SELECT payload FROM scenario_events WHERE scenario_id=$1 '' @
     ''ORDER BY created_at DESC, id DESC LIMIT 1''"

definition metricsSnapshotInsert :: string where
  "metricsSnapshotInsert = ''INSERT INTO metrics_snapshots (snapshot) VALUES ($1)''"

definition getScenarioQuery :: string where
  "getScenarioQuery =
     ''SELECT scenario_id, payload, created_at FROM scenario_events '' @
     ''WHERE scenario_id=$1 ORDER BY created_at DESC, id DESC LIMIT 1''"

definition listScenarioQuery :: string where
  "listScenarioQuery =
     ''SELECT scenario_id, payload, created_at FROM ('' @
     ''SELECT DISTINCT ON (scenario_id) scenario_id, payload, created_at, id FROM scenario_events '' @
     ''ORDER BY scenario_id, created_at DESC, id DESC'' @
     '') latest ORDER BY created_at DESC LIMIT 50''"

definition listScenarioEventsQuery :: string where
  "listScenarioEventsQuery =
     ''SELECT scenario_id, payload, created_at FROM scenario_events '' @
     ''WHERE scenario_id=$1 ORDER BY created_at ASC, id ASC''"

definition metricsSnapshotQuery :: string where
  "metricsSnapshotQuery =
     ''SELECT snapshot, created_at FROM metrics_snapshots ORDER BY created_at DESC LIMIT 1''"

definition scenarioCountsQuery :: string where
  "scenarioCountsQuery =
     ''SELECT '' @
     ''COUNT(*) FILTER (WHERE payload->>'status' = 'running'), '' @
     ''COUNT(*) FILTER (WHERE payload->>'status' = 'completed') '' @
     ''FROM ('' @
     ''SELECT DISTINCT ON (scenario_id) payload FROM scenario_events '' @
     ''ORDER BY scenario_id, created_at DESC, id DESC'' @
     '') latest''"

lemmas query_defs = insertLoadEventQuery_def selectLoadEventQuery_def insertScenarioQuery_def
  latestScenarioQuery_def metricsSnapshotInsert_def getScenarioQuery_def listScenarioQuery_def
  listScenarioEventsQuery_def metricsSnapshotQuery_def scenarioCountsQuery_def

text \<open>The statements are told apart by their texts.\<close>

lemma queries_distinct [simp]:
  "insertScenarioQuery \<noteq> insertLoadEventQuery" "metricsSnapshotInsert \<noteq> insertLoadEventQuery"
  "metricsSnapshotInsert \<noteq> insertScenarioQuery" "insertLoadEventQuery \<noteq> insertScenarioQuery"
  "latestScenarioQuery \<noteq> getScenarioQuery" "getScenarioQuery \<noteq> latestScenarioQuery"
  "metricsSnapshotQuery \<noteq> latestScenarioQuery" "metricsSnapshotQuery \<noteq> getScenarioQuery"
  "selectLoadEventQuery \<noteq> latestScenarioQuery" "selectLoadEventQuery \<noteq> getScenarioQuery"
  "selectLoadEventQuery \<noteq> metricsSnapshotQuery" "scenarioCountsQuery \<noteq> latestScenarioQuery"
  "scenarioCountsQuery \<noteq> getScenarioQuery" "scenarioCountsQuery \<noteq> metricsSnapshotQuery"
  "scenarioCountsQuery \<noteq> selectLoadEventQuery" "listScenarioQuery \<noteq> listScenarioEventsQuery"
  "listScenarioEventsQuery \<noteq> listScenarioQuery"
  unfolding query_defs by simp_all

text \<open>Inserts: a JSONB column takes a JSON text and nothing else.\<close>

definition json_error :: goerr where
  "json_error = ErrText ''ERROR: invalid input syntax for type json (SQLSTATE 22P02)''"

definition statement_error :: goerr where
  "statement_error = ErrText ''ERROR: syntax error (SQLSTATE 42601)''"

definition insert_scenario_event :: "time \<Rightarrow> string \<Rightarrow> bytes \<Rightarrow> pg \<Rightarrow> pg" where
  "insert_scenario_event now sid payload db =
     db\<lparr>scenario_events := scenario_events db @
          [\<lparr>ev_id = scenario_seq db + 1, ev_scenario_id = sid, ev_payload = payload, ev_created_at = now\<rparr>],
        scenario_seq := scenario_seq db + 1\<rparr>"

definition insert_load_event :: "time \<Rightarrow> string \<Rightarrow> bytes \<Rightarrow> pg \<Rightarrow> pg" where
  "insert_load_event now sid payload db =
     db\<lparr>load_events := load_events db @
          [\<lparr>ev_id = load_seq db + 1, ev_scenario_id = sid, ev_payload = payload, ev_created_at = now\<rparr>],
        load_seq := load_seq db + 1\<rparr>"

definition insert_snapshot :: "time \<Rightarrow> bytes \<Rightarrow> pg \<Rightarrow> pg" where
  "insert_snapshot now payload db =
     db\<lparr>metrics_snapshots := metrics_snapshots db @
          [\<lparr>ev_id = snapshot_seq db + 1, ev_scenario_id = [], ev_payload = payload, ev_created_at = now\<rparr>],
        snapshot_seq := snapshot_seq db + 1\<rparr>"

definition pg_Exec :: "time \<Rightarrow> string \<Rightarrow> sql_val list \<Rightarrow> pg \<Rightarrow> goerr option \<times> pg" where
  "pg_Exec now q args db =
     (if q = insertScenarioQuery then
        (case args of
           [VText sid, VBytes (Doc j)] \<Rightarrow> (None, insert_scenario_event now sid (Doc j) db)
         | _ \<Rightarrow> (Some json_error, db))
      else if q = insertLoadEventQuery then
        (case args of
           [VText sid, VBytes (Doc j)] \<Rightarrow> (None, insert_load_event now sid (Doc j) db)
         | _ \<Rightarrow> (Some json_error, db))
      else if q = metricsSnapshotInsert then
        (case args of
           [VBytes (Doc j)] \<Rightarrow> (None, insert_snapshot now (Doc j) db)
         | _ \<Rightarrow> (Some json_error, db))
      else (Some statement_error, db))"

text \<open>Queries. \<open>event_cols\<close> is the column list \<open>scenario_id, payload, created_at\<close>.\<close>

definition event_cols :: "event_row \<Rightarrow> sql_val list" where
  "event_cols r = [VText (ev_scenario_id r), VBytes (ev_payload r), VTime (ev_created_at r)]"

definition one_row :: "sql_val list option \<Rightarrow> sql_val list res" where
  "one_row r = (case r of None \<Rightarrow> Inl PgxErrNoRows | Some vs \<Rightarrow> Inr vs)"

definition last_option :: "'a list \<Rightarrow> 'a option" where
  "last_option xs = (if xs = [] then None else Some (last xs))"

definition pg_QueryRow :: "string \<Rightarrow> sql_val list \<Rightarrow> pg \<Rightarrow> sql_val list res" where
  "pg_QueryRow q args db =
     (if q = latestScenarioQuery then
        (case args of
           [VText sid] \<Rightarrow> one_row (map_option (\<lambda>r. [VBytes (ev_payload r)]) (latest_row sid db))
         | _ \<Rightarrow> Inl statement_error)
      else if q = getScenarioQuery then
        (case args of
           [VText sid] \<Rightarrow> one_row (map_option event_cols (latest_row sid db))
         | _ \<Rightarrow> Inl statement_error)
      else if q = selectLoadEventQuery then
        (case args of
           [VTime since] \<Rightarrow>
             one_row (map_option (\<lambda>r. [VBytes (ev_payload r)])
               (last_option (in_order (filter (\<lambda>r. ev_created_at r > since) (load_events db)))))
         | _ \<Rightarrow> Inl statement_error)
      else if q = metricsSnapshotQuery then
        one_row (map_option (\<lambda>r. [VBytes (ev_payload r), VTime (ev_created_at r)])
          (last_option (in_order (metrics_snapshots db))))
      else if q = scenarioCountsQuery then
        (let count = (\<lambda>s. int (length (filter (\<lambda>r. payload_status (ev_payload r) = Some s) (latest_rows db))))
         in Inr [VInt (count ''running''), VInt (count ''completed'')])
      else Inl statement_error)"

definition pg_Query :: "string \<Rightarrow> sql_val list \<Rightarrow> pg \<Rightarrow> sql_rows res" where
  "pg_Query q args db =
     (if q = listScenarioQuery then
        Inr \<lparr>rs_rows = map (\<lambda>r. Inr (event_cols r)) (take 50 (rev (in_order (latest_rows db)))), rs_err = None\<rparr>
      else if q = listScenarioEventsQuery then
        (case args of
           [VText sid] \<Rightarrow>
             Inr \<lparr>rs_rows = map (\<lambda>r. Inr (event_cols r)) (in_order (of_scenario sid (scenario_events db))),
                  rs_err = None\<rparr>
         | _ \<Rightarrow> Inl statement_error)
      else Inl statement_error)"

section \<open>The order of the rows\<close>

text \<open>
  The tables only grow at their end, with a fresh number and the present time. As long as the clock
  does not turn back, the order of insertion is the order of the queries.
\<close>

definition table_ok :: "time \<Rightarrow> int \<Rightarrow> event_row list \<Rightarrow> bool" where
  "table_ok now seq rows \<longleftrightarrow>
     sorted (map ev_created_at rows) \<and> sorted_wrt (<) (map ev_id rows) \<and>
     (\<forall>r \<in> set rows. ev_created_at r \<le> now \<and> ev_id r \<le> seq)"

definition pg_ok :: "time \<Rightarrow> pg \<Rightarrow> bool" where
  "pg_ok now db \<longleftrightarrow> table_ok now (scenario_seq db) (scenario_events db) \<and>
     table_ok now (load_seq db) (load_events db) \<and>
     table_ok now (snapshot_seq db) (metrics_snapshots db)"

lemma table_ok_Nil [simp]: "table_ok now seq []"
  by (simp add: table_ok_def)

lemma table_ok_insert:
  "table_ok now seq rows \<Longrightarrow> now \<le> t \<Longrightarrow> ev_created_at r = t \<Longrightarrow> ev_id r = seq + 1 \<Longrightarrow>
   table_ok t (seq + 1) (rows @ [r])"
  by (auto simp: table_ok_def sorted_append sorted_wrt_append)

lemma table_ok_mono: "table_ok now seq rows \<Longrightarrow> now \<le> t \<Longrightarrow> table_ok t seq rows"
  by (auto simp: table_ok_def)

lemma pg_ok_empty [simp]: "pg_ok now empty_pg"
  by (simp add: pg_ok_def empty_pg_def)

lemma pg_ok_mono: "pg_ok now db \<Longrightarrow> now \<le> t \<Longrightarrow> pg_ok t db"
  by (auto simp: pg_ok_def intro: table_ok_mono)

lemma pg_ok_inserts:
  assumes "pg_ok now db" and "now \<le> t"
  shows "pg_ok t (insert_scenario_event t sid b db)" and "pg_ok t (insert_load_event t sid b db)"
    and "pg_ok t (insert_snapshot t b db)"
  using assms
  by (auto simp: pg_ok_def insert_scenario_event_def insert_load_event_def insert_snapshot_def
      intro: table_ok_insert table_ok_mono)

lemma pg_ok_Exec: "pg_ok now db \<Longrightarrow> now \<le> t \<Longrightarrow> pg_ok t (snd (pg_Exec t q args db))"
  by (auto simp: pg_Exec_def intro: pg_ok_inserts pg_ok_mono
      split: list.splits sql_val.splits bytes.splits)

lemma in_order_id:
  assumes "sorted (map ev_created_at rows)" and "sorted_wrt (<) (map ev_id rows)"
  shows "in_order rows = rows"
proof -
  have "sorted (map row_key rows)"
    using assms by (induction rows) (auto simp: row_key_def less_eq_prod_def dest: less_imp_le)
  then show ?thesis
    by (simp add: in_order_def sort_key_id_if_sorted)
qed

lemma of_scenario_sorted:
  "sorted (map ev_created_at rows) \<Longrightarrow> sorted (map ev_created_at (of_scenario sid rows))"
  "sorted_wrt (<) (map ev_id rows) \<Longrightarrow> sorted_wrt (<) (map ev_id (of_scenario sid rows))"
  by (induction rows) (auto simp: of_scenario_def)

lemma in_order_scenario:
  "pg_ok now db \<Longrightarrow>
   in_order (of_scenario sid (scenario_events db)) = of_scenario sid (scenario_events db)"
  by (simp add: pg_ok_def table_ok_def in_order_id of_scenario_sorted)

lemma latest_row_eq:
  "pg_ok now db \<Longrightarrow> latest_row sid db = last_option (of_scenario sid (scenario_events db))"
  by (simp add: latest_row_def in_order_scenario last_option_def split: list.splits)

lemma last_option_snoc [simp]: "last_option (xs @ [x]) = Some x"
  by (simp add: last_option_def)

section \<open>An event log\<close>

text \<open>
  What the program relies on: \<open>scenario_events\<close> is an append-only log of which it asks the last entry
  of a scenario. A client sees its own last write unless somebody wrote after it.
\<close>

locale event_log =
  fixes append :: "string \<Rightarrow> bytes \<Rightarrow> 's \<Rightarrow> 's"
    and latest :: "string \<Rightarrow> 's \<Rightarrow> bytes option"
    and good :: "'s \<Rightarrow> bool"
  assumes good_append: "good s \<Longrightarrow> good (append i b s)"
    and latest_append: "good s \<Longrightarrow> latest i (append i b s) = Some b"
    and latest_other: "good s \<Longrightarrow> i \<noteq> j \<Longrightarrow> latest j (append i b s) = latest j s"
begin

lemma good_fold: "good s \<Longrightarrow> good (fold (\<lambda>(i, b). append i b) es s)"
  by (induction es arbitrary: s) (auto intro: good_append)

lemma latest_fold:
  "good s \<Longrightarrow> latest i (fold (\<lambda>(i, b). append i b) es s) =
     (case last_option (filter (\<lambda>e. fst e = i) es) of None \<Rightarrow> latest i s | Some e \<Rightarrow> Some (snd e))"
proof (induction es rule: rev_induct)
  case (snoc e es)
  with good_fold [of s es] show ?case
    by (cases e; cases "fst e = i") (auto simp: latest_append latest_other)
qed (simp add: last_option_def)

lemma latest_kept:
  "good s \<Longrightarrow> \<forall>e \<in> set es. fst e \<noteq> i \<Longrightarrow> latest i (fold (\<lambda>(i, b). append i b) es s) = latest i s"
  by (subst latest_fold) (auto simp: last_option_def filter_empty_conv)

end

definition put_event :: "string \<Rightarrow> bytes \<Rightarrow> time \<times> pg \<Rightarrow> time \<times> pg" where
  "put_event sid b s = (fst s, insert_scenario_event (fst s) sid b (snd s))"

definition latest_payload :: "string \<Rightarrow> time \<times> pg \<Rightarrow> bytes option" where
  "latest_payload sid s = map_option ev_payload (latest_row sid (snd s))"

lemma of_scenario_insert:
  "of_scenario sid (scenario_events (insert_scenario_event t sid' b db)) =
     of_scenario sid (scenario_events db) @
     (if sid' = sid then [\<lparr>ev_id = scenario_seq db + 1, ev_scenario_id = sid', ev_payload = b,
                          ev_created_at = t\<rparr>] else [])"
  by (simp add: of_scenario_def insert_scenario_event_def)

interpretation events: event_log put_event latest_payload "\<lambda>s. pg_ok (fst s) (snd s)"
  by unfold_locales
     (auto simp: put_event_def latest_payload_def pg_ok_inserts latest_row_eq [OF pg_ok_inserts(1)]
        latest_row_eq of_scenario_insert)

end
