(* ===== verification/Db_Clients.thy ===== *)
theory Db_Clients
  imports Workload_Execute
begin

text \<open>
  internal/db (postgres.go, redis.go, mongo.go) and the adapters of cmd/api/main.go and
  cmd/worker/main.go: the connection loops with their backoff, the clients that wrap the errors of
  the drivers, and the split of the embedded schema. The drivers (pgxpool, go-redis, the Mongo
  driver) are parameters: a function from the state of the outside to an answer and a new state.
\<close>

section \<open>Connecting\<close>

text \<open>
  The three loops have one shape. \<open>try_connect\<close> makes a client and pings it, closing what it opened
  when the ping fails; \<open>ctx\<close> is \<open>ctx.Err()\<close>; \<open>wait\<close> is the \<open>select\<close> between \<open>ctx.Done()\<close> and the
  timer, with the error of the context when it won. \<open>n\<close> counts the attempts that are left.
\<close>

fun connect_retry ::
    "string \<Rightarrow> ('w \<Rightarrow> 'c res \<times> 'w) \<Rightarrow> ('w \<Rightarrow> goerr option \<times> 'w) \<Rightarrow> (duration \<Rightarrow> 'w \<Rightarrow> goerr option \<times> 'w) \<Rightarrow>
     duration \<Rightarrow> nat \<Rightarrow> goerr \<Rightarrow> 'w \<Rightarrow> 'c res \<times> 'w" where
  "connect_retry db try_connect ctx wait backoff 0 lastErr w =
     (Inl (Wrapf (db @ '' connect failed after retries'') lastErr), w)"
| "connect_retry db try_connect ctx wait backoff (Suc n) lastErr w =
     (case try_connect w of
        (Inr c, w1) \<Rightarrow> (Inr c, w1)
      | (Inl err, w1) \<Rightarrow>
          (case ctx w1 of
             (cerr, w2) \<Rightarrow>
               if cerr \<noteq> None \<and>
                  (errors_is (the cerr) ContextCanceled \<or> errors_is (the cerr) ContextDeadlineExceeded)
               then (Inl (Wrapf (db @ '' connect canceled'') (the cerr)), w2)
               else if n > 0 then
                 (case wait backoff w2 of
                    (Some werr, w3) \<Rightarrow> (Inl (Wrapf (db @ '' connect canceled'') werr), w3)
                  | (None, w3) \<Rightarrow>
                      connect_retry db try_connect ctx wait
                        (if backoff < 5 * second then backoff * 2 else backoff) n err w3)
               else connect_retry db try_connect ctx wait backoff n err w2))"

definition pg_try :: "('w \<Rightarrow> 'c res \<times> 'w) \<Rightarrow> ('c \<Rightarrow> 'w \<Rightarrow> goerr option \<times> 'w) \<Rightarrow> ('c \<Rightarrow> 'w \<Rightarrow> 'w) \<Rightarrow>
    'w \<Rightarrow> 'c res \<times> 'w" where
  "pg_try newPool ping close w =
     (case newPool w of
        (Inl err, w1) \<Rightarrow> (Inl err, w1)
      | (Inr pool, w1) \<Rightarrow>
          (case ping pool w1 of
             (Some err, w2) \<Rightarrow> (Inl err, close pool w2)
           | (None, w2) \<Rightarrow> (Inr pool, w2)))"

definition connectPostgresWithRetry where
  "connectPostgresWithRetry newPool ping close ctx wait w =
     connect_retry ''postgres'' (pg_try newPool ping close) ctx wait (200 * millisecond) 10 (ErrText []) w"

definition connectMongoWithRetry where
  "connectMongoWithRetry connect ping disconnect ctx wait w =
     connect_retry ''mongo'' (pg_try connect ping disconnect) ctx wait (200 * millisecond) 10 (ErrText []) w"

text \<open>\<open>redis.NewClient\<close> does not fail.\<close>

definition connectRedisWithRetry where
  "connectRedisWithRetry newClient ping close ctx wait w =
     connect_retry ''redis''
       (pg_try (\<lambda>w. case newClient w of (c, w1) \<Rightarrow> (Inr c, w1)) ping close) ctx wait (200 * millisecond) 10
       (ErrText []) w"

definition NewPostgres where
  "NewPostgres parseConfig connect dsn maxConns w =
     (if trim_space dsn = [] then (Inl (ErrText ''postgres dsn is required''), w)
      else if maxConns \<le> (0 :: int) then (Inl (ErrText ''postgres maxConns must be greater than zero''), w)
      else (case parseConfig dsn of
              Inl err \<Rightarrow> (Inl (Wrapf ''parse postgres dsn'' err), w)
            | Inr cfg \<Rightarrow> connect (cfg, maxConns) w))"

definition NewRedis where
  "NewRedis connect addr password (db :: int) w =
     (if trim_space addr = [] then (Inl (ErrText ''redis addr is required''), w)
      else connect (addr, password, db) w)"

definition NewMongo where
  "NewMongo connect uri database w =
     (if trim_space uri = [] then (Inl (ErrText ''mongo uri is required''), w)
      else if trim_space database = [] then (Inl (ErrText ''mongo database is required''), w)
      else connect uri w)"

text \<open>
  \<open>newRedisClient\<close> of both binaries: a URL is parsed into its parts (\<open>redis.ParseURL\<close>, a parameter),
  anything else is the address itself.
\<close>

definition newRedisClient where
  "newRedisClient parseURL connect dsn w =
     (if has_prefix dsn ''redis://'' \<or> has_prefix dsn ''rediss://'' then
        (case parseURL dsn of
           Inl err \<Rightarrow> (Inl (Wrapf ''parse redis url'' err), w)
         | Inr (addr, password, db) \<Rightarrow>
             (case NewRedis connect addr password db w of
                (Inl err, w1) \<Rightarrow> (Inl (Wrapf ''redis client'' err), w1)
              | (Inr c, w1) \<Rightarrow> (Inr c, w1)))
      else
        (case NewRedis connect dsn [] 0 w of
           (Inl err, w1) \<Rightarrow> (Inl (Wrapf ''redis client'' err), w1)
         | (Inr c, w1) \<Rightarrow> (Inr c, w1)))"

text \<open>\<open>mongoDatabaseFromURI\<close>: \<open>urlPath\<close> is \<open>url.Parse\<close> and its \<open>Path\<close>.\<close>

definition mongoDatabaseFromURI :: "(string \<Rightarrow> string res) \<Rightarrow> string \<Rightarrow> string" where
  "mongoDatabaseFromURI urlPath uri =
     (case urlPath uri of
        Inl err \<Rightarrow> ''clusterprobe''
      | Inr path \<Rightarrow> if path = [] \<or> path = ''/'' then ''clusterprobe'' else trim_prefix path ''/'')"

section \<open>The clients and their adapters\<close>

definition wrap_err :: "string \<Rightarrow> goerr option \<times> 'w \<Rightarrow> goerr option \<times> 'w" where
  "wrap_err label r = (map_option (Wrapf label) (fst r), snd r)"

definition wrap_res :: "string \<Rightarrow> 'a res \<times> 'w \<Rightarrow> 'a res \<times> 'w" where
  "wrap_res label r = (map_sum (Wrapf label) id (fst r), snd r)"

definition PostgresClient :: "'w sql_store \<Rightarrow> 'w sql_store" where
  "PostgresClient pool =
     \<lparr>st_Exec = \<lambda>q args w. wrap_err ''postgres exec'' (st_Exec pool q args w),
      st_Query = \<lambda>q args w. wrap_res ''postgres query'' (st_Query pool q args w),
      st_QueryRow = st_QueryRow pool\<rparr>"

definition rowsAdapter :: "sql_rows \<Rightarrow> sql_rows" where
  "rowsAdapter rows =
     \<lparr>rs_rows = map (map_sum (Wrapf ''rows scan'') id) (rs_rows rows),
      rs_err = map_option (Wrapf ''rows err'') (rs_err rows)\<rparr>"

definition postgresAdapter :: "'w sql_store \<Rightarrow> 'w sql_store" where
  "postgresAdapter client =
     \<lparr>st_Exec = \<lambda>q args w. wrap_err ''postgres exec'' (st_Exec client q args w),
      st_Query = \<lambda>q args w.
        (case st_Query client q args w of
           (Inl err, w1) \<Rightarrow> (Inl (Wrapf ''postgres query'' err), w1)
         | (Inr rows, w1) \<Rightarrow> (Inr (rowsAdapter rows), w1)),
      st_QueryRow = st_QueryRow client\<rparr>"

record 'w redis_cmds =
  rd_Get :: "string \<Rightarrow> 'w \<Rightarrow> string res \<times> 'w"
  rd_Incr :: "string \<Rightarrow> 'w \<Rightarrow> int res \<times> 'w"

definition Redis_Get :: "'w redis_cmds \<Rightarrow> string \<Rightarrow> 'w \<Rightarrow> string res \<times> 'w" where
  "Redis_Get c key w = wrap_res ''redis get'' (rd_Get c key w)"

definition Redis_Incr :: "'w redis_cmds \<Rightarrow> string \<Rightarrow> 'w \<Rightarrow> int res \<times> 'w" where
  "Redis_Incr c key w = wrap_res ''redis incr'' (rd_Incr c key w)"

definition RedisClient :: "'w redis_cmds \<Rightarrow> 'w redis_cmds" where
  "RedisClient c = \<lparr>rd_Get = Redis_Get c, rd_Incr = Redis_Incr c\<rparr>"

definition redisAdapter_Get :: "'w redis_cmds \<Rightarrow> string \<Rightarrow> 'w \<Rightarrow> string res \<times> 'w" where
  "redisAdapter_Get c key w = wrap_res ''redis get'' (rd_Get c key w)"

definition redisAdapter_Incr :: "'w redis_cmds \<Rightarrow> string \<Rightarrow> 'w \<Rightarrow> goerr option \<times> 'w" where
  "redisAdapter_Incr c key w =
     (case rd_Incr c key w of
        (Inl err, w1) \<Rightarrow> (Some (Wrapf ''redis incr'' err), w1)
      | (Inr n, w1) \<Rightarrow> (None, w1))"

section \<open>The schema\<close>

definition splitSQLStatements :: "string \<Rightarrow> string list" where
  "splitSQLStatements sql = filter (\<lambda>s. s \<noteq> []) (map trim_space (split_on (CHR '';'') sql))"

fun apply_schema :: "'w sql_store \<Rightarrow> string list \<Rightarrow> 'w \<Rightarrow> goerr option \<times> 'w" where
  "apply_schema st [] w = (None, w)"
| "apply_schema st (stmt # rest) w =
     (case st_Exec st stmt [] w of
        (Some err, w1) \<Rightarrow> (Some (Wrapf ''apply postgres schema'' err), w1)
      | (None, w1) \<Rightarrow> apply_schema st rest w1)"

text \<open>\<open>InitSchema\<close>, with the embedded file as an argument.\<close>

definition InitSchema :: "string res \<Rightarrow> 'w sql_store \<Rightarrow> 'w \<Rightarrow> goerr option \<times> 'w" where
  "InitSchema file st w =
     (case file of
        Inl err \<Rightarrow> (Some (Wrapf ''read postgres schema'' err), w)
      | Inr sql \<Rightarrow> apply_schema st (splitSQLStatements sql) w)"

text \<open>internal/db/schema/postgres.sql, line by line.\<close>

definition postgres_sql :: "string list" where
  "postgres_sql =
    [''CREATE TABLE IF NOT EXISTS load_events ('',
     ''    id BIGSERIAL PRIMARY KEY,'',
     ''    scenario_id TEXT NOT NULL,'',
     ''    payload JSONB NOT NULL,'',
     ''    created_at TIMESTAMPTZ NOT NULL DEFAULT NOW()'',
     '');'',
     [],
     ''CREATE TABLE IF NOT EXISTS scenario_events ('',
     ''    id BIGSERIAL PRIMARY KEY,'',
     ''    scenario_id TEXT NOT NULL,'',
     ''    payload JSONB NOT NULL,'',
     ''    created_at TIMESTAMPTZ NOT NULL DEFAULT NOW()'',
     '');'',
     [],
     ''INSERT INTO scenario_events (scenario_id, payload, created_at)'',
     ''SELECT load_events.scenario_id, load_events.payload, load_events.created_at'',
     ''FROM load_events'',
     ''WHERE load_events.payload ? 'status'' @ [CHR 0x27],
     ''  AND NOT EXISTS ('',
     ''      SELECT 1'',
     ''      FROM scenario_events'',
     ''      WHERE scenario_events.scenario_id = load_events.scenario_id'',
     ''        AND scenario_events.payload = load_events.payload'',
     ''        AND scenario_events.created_at = load_events.created_at'',
     ''  );'',
     [],
     ''CREATE TABLE IF NOT EXISTS chaos_events ('',
     ''    id BIGSERIAL PRIMARY KEY,'',
     ''    experiment_name TEXT NOT NULL,'',
     ''    payload JSONB NOT NULL,'',
     ''    created_at TIMESTAMPTZ NOT NULL DEFAULT NOW()'',
     '');'',
     [],
     ''CREATE TABLE IF NOT EXISTS metrics_snapshots ('',
     ''    id BIGSERIAL PRIMARY KEY,'',
     ''    snapshot JSONB NOT NULL,'',
     ''    created_at TIMESTAMPTZ NOT NULL DEFAULT NOW()'',
     '');'']"

definition schema_text :: string where
  "schema_text = concat (map (\<lambda>l. l @ [CHR 0x0A]) postgres_sql)"

section \<open>What the loops and the split do\<close>

text \<open>
  A scripted outside for the connection loop: the answers of the attempts in order, and the waits so
  far.
\<close>

definition next_attempt :: "'c res list \<times> duration list \<Rightarrow> 'c res \<times> 'c res list \<times> duration list" where
  "next_attempt w = (case w of (r # rs, ds) \<Rightarrow> (r, rs, ds) | ([], ds) \<Rightarrow> (Inl (ErrText ''end of script''), [], ds))"

definition log_wait :: "duration \<Rightarrow> 'c res list \<times> duration list \<Rightarrow> goerr option \<times> 'c res list \<times> duration list" where
  "log_wait d w = (None, fst w, snd w @ [d])"

fun backoffs :: "duration \<Rightarrow> nat \<Rightarrow> duration list" where
  "backoffs b 0 = []"
| "backoffs b (Suc n) = b # backoffs (if b < 5 * second then b * 2 else b) n"

lemma script_simps [simp]:
  "next_attempt (r # rs, ds) = (r, rs, ds)" "log_wait d (rs, ds) = (None, rs, ds @ [d])"
  by (simp_all add: next_attempt_def log_wait_def)

lemma connect_retry_script:
  assumes "n \<le> length rs"
  shows "connect_retry db next_attempt (\<lambda>w. (None, w)) log_wait b n e (rs, ds) =
    (case dropWhile isl (take n rs) of
       c # _ \<Rightarrow> (Inr (projr c), drop (Suc (length (takeWhile isl (take n rs)))) rs,
                 ds @ backoffs b (length (takeWhile isl (take n rs))))
     | [] \<Rightarrow> (Inl (Wrapf (db @ '' connect failed after retries'') (last (e # map projl (take n rs)))),
              drop n rs, ds @ backoffs b (n - 1)))"
  using assms
proof (induction n arbitrary: rs ds b e)
  case (Suc n)
  then obtain r rs' where rs: "rs = r # rs'" "n \<le> length rs'"
    by (cases rs) auto
  note IH = Suc.IH [OF rs(2)]
  show ?case
  proof (cases r)
    case (Inl err)
    show ?thesis
    proof (cases n)
      case 0
      with rs Inl show ?thesis
        by simp
    next
      case (Suc m)
      have "connect_retry db next_attempt (\<lambda>w. (None, w)) log_wait b (Suc n) e (rs, ds) =
          connect_retry db next_attempt (\<lambda>w. (None, w)) log_wait (if b < 5 * second then b * 2 else b) n err
            (rs', ds @ [b])"
        using Suc rs(1) Inl by (subst connect_retry.simps) simp
      with IH Inl rs Suc show ?thesis
        by (cases "dropWhile isl (take n rs')")
           (simp_all del: connect_retry.simps dropWhile_eq_Nil_conv)
    qed
  next
    case (Inr c)
    with rs show ?thesis
      by simp
  qed
qed simp

text \<open>
  The connection loop: it makes at most ten attempts and returns the first that succeeds, after
  waits of 200 ms, doubled while they are below five seconds; when all ten fail it gives the last
  error.
\<close>

theorem connectPostgresWithRetry_attempts:
  assumes "10 \<le> length rs"
  shows "connectPostgresWithRetry next_attempt (\<lambda>c w. (None, w)) (\<lambda>c w. w) (\<lambda>w. (None, w)) log_wait (rs, []) =
    (case dropWhile isl (take 10 rs) of
       c # _ \<Rightarrow> (Inr (projr c), drop (Suc (length (takeWhile isl (take 10 rs)))) rs,
                 map (\<lambda>d. d * millisecond)
                   (take (length (takeWhile isl (take 10 rs))) [200, 400, 800, 1600, 3200, 6400, 6400, 6400, 6400]))
     | [] \<Rightarrow> (Inl (Wrapf ''postgres connect failed after retries'' (projl (rs ! 9))), drop 10 rs,
              map (\<lambda>d. d * millisecond) [200, 400, 800, 1600, 3200, 6400, 6400, 6400, 6400]))"
proof -
  let ?b = "[200, 400, 800, 1600, 3200, 6400, 6400, 6400, 6400] :: int list"
  have attempt: "pg_try next_attempt (\<lambda>c w. (None, w)) (\<lambda>c w. w) = (next_attempt :: 'a res list \<times> int list \<Rightarrow> _)"
    by (auto simp: pg_try_def next_attempt_def fun_eq_iff split: list.splits sum.splits)
  have waits: "backoffs (200 * millisecond) n = map (\<lambda>d. d * millisecond) (take n ?b)" if "n \<le> 9" for n
  proof -
    from that have "n \<in> {0,1,2,3,4,5,6,7,8,9}"
      by auto
    then show ?thesis
      by (elim insertE) (simp_all add: eval_nat_numeral)
  qed
  have short: "length (takeWhile isl (take 10 rs)) \<le> 9" if "dropWhile isl (take 10 rs) \<noteq> []"
  proof -
    from that have "length (takeWhile isl (take 10 rs)) \<noteq> 10"
      using assms by (metis append_Nil2 length_append length_take min.absorb2 takeWhile_dropWhile_id
          add_cancel_right_right length_0_conv)
    moreover have "length (takeWhile isl (take 10 rs)) \<le> 10"
      using length_takeWhile_le [of isl "take 10 rs"] by simp
    ultimately show ?thesis
      by simp
  qed
  have last: "last (ErrText [] # map projl (take 10 rs)) = projl (rs ! 9)"
  proof -
    have "take 10 rs \<noteq> []" and "length (take 10 rs) = 10"
      using assms by auto
    then show ?thesis
      by (simp add: last_conv_nth)
  qed
  show ?thesis
    unfolding connectPostgresWithRetry_def attempt connect_retry_script [OF assms]
    using waits [of 9] waits [OF short] last
    by (cases "dropWhile isl (take 10 rs)") (simp_all del: dropWhile_eq_Nil_conv backoffs.simps)
qed

theorem connectPostgresWithRetry_attempts_witness:
  "fst (connectPostgresWithRetry next_attempt (\<lambda>c w. (None, w)) (\<lambda>c w. w) (\<lambda>w. (None, w)) log_wait
     (replicate 2 (Inl (ErrText ''refused'')) @ [Inr (7 :: nat)] @ replicate 7 (Inl (ErrText ''refused'')), [])) =
   Inr 7"
  by (subst connectPostgresWithRetry_attempts) (simp_all add: eval_nat_numeral)

lemma trim_space_subset: "set (trim_space s) \<subseteq> set s"
proof -
  obtain p q where "s = p @ trim_space s @ q"
    using trim_space_slice by blast
  then have "set s = set p \<union> set (trim_space s) \<union> set q"
    by (metis set_append Un_assoc)
  then show ?thesis
    by blast
qed

text \<open>
  The split of the schema: every statement is non-empty, has no space around it and no
  semicolon inside, and the embedded file falls into its five statements.
\<close>

theorem splitSQLStatements_clean:
  "list_all (\<lambda>stmt. stmt \<noteq> [] \<and> trim_space stmt = stmt \<and> CHR '';'' \<notin> set stmt) (splitSQLStatements sql) \<and>
   map (take 12) (splitSQLStatements schema_text) =
     [''CREATE TABLE'', ''CREATE TABLE'', ''INSERT INTO '', ''CREATE TABLE'', ''CREATE TABLE'']"
proof
  show "list_all (\<lambda>stmt. stmt \<noteq> [] \<and> trim_space stmt = stmt \<and> CHR '';'' \<notin> set stmt) (splitSQLStatements sql)"
    using split_on_no_sep trim_space_subset
    by (fastforce simp: splitSQLStatements_def list_all_iff trim_space_idem)
  show "map (take 12) (splitSQLStatements schema_text) =
     [''CREATE TABLE'', ''CREATE TABLE'', ''INSERT INTO '', ''CREATE TABLE'', ''CREATE TABLE'']"
    by code_simp
qed

end
