(* ===== verification/Worker.thy ===== *)
theory Worker
  imports Postgres Db_Clients
begin

text \<open>
  cmd/worker/main.go and cmd/worker/reporting.go: what the worker does with a message. The outside is
  a record of functions on a state \<open>'w\<close>. \<open>handleMessage\<close> runs a generator and, beside it, a goroutine
  that polls the scenario's status and cancels the generator's context. Both share the outside, so the
  generator runs on \<open>'w \<times> watch\<close>: before each of its calls (and during a sleep) the ticker delivers some
  number of ticks, chosen by the outside, and the goroutine handles them.
\<close>

section \<open>The outside of the worker\<close>

record 'w worker_ports =
  wk_store :: "'w sql_store"
  wk_store_canceled :: "'w sql_store"
  wk_Incr :: "string \<Rightarrow> 'w \<Rightarrow> goerr option \<times> 'w"
  wk_Publish :: "string \<Rightarrow> string \<Rightarrow> bytes \<Rightarrow> 'w \<Rightarrow> goerr option \<times> 'w"
  wk_now :: "'w \<Rightarrow> time \<times> 'w"
  wk_sleep :: "duration \<Rightarrow> 'w \<Rightarrow> 'w"
  wk_rand :: "int \<Rightarrow> 'w \<Rightarrow> int res \<times> 'w"
  wk_uuid :: "'w \<Rightarrow> string \<times> 'w"
  wk_histogram :: "'w \<Rightarrow> goerr option \<times> 'w"
  wk_ticks :: "duration \<Rightarrow> 'w \<Rightarrow> nat \<times> 'w"

section \<open>Scenario status\<close>

definition queueHigh :: string where "queueHigh = ''workload.high''"
definition queueLow :: string where "queueLow = ''workload.low''"
definition resultsExchange :: string where "resultsExchange = ''clusterprobe.events''"
definition stopWatchInterval :: duration where "stopWatchInterval = 500 * millisecond"

definition appendScenarioStatus ::
    "('w \<Rightarrow> time \<times> 'w) \<Rightarrow> 'w sql_store \<Rightarrow> ScenarioResponse \<Rightarrow> string \<Rightarrow> 'w \<Rightarrow> goerr option \<times> 'w" where
  "appendScenarioStatus now store scenario status w =
     (let scenario1 = scenario\<lparr>sc_Status := status\<rparr> in
      case (if is_zero_time (sc_CreatedAt scenario1)
            then (case now w of (t, w1) \<Rightarrow> (scenario1\<lparr>sc_CreatedAt := t\<rparr>, w1))
            else (scenario1, w)) of
        (scenario2, w1) \<Rightarrow>
          (case enc_ScenarioResponse scenario2 of
             Inl err \<Rightarrow> (Some (Wrapf ''marshal scenario status'' err), w1)
           | Inr encoded \<Rightarrow>
               (case st_Exec store insertScenarioQuery
                       [VText (sc_ID scenario2), VBytes (Doc encoded)] w1 of
                  (Some err, w2) \<Rightarrow> (Some (Wrapf ''insert scenario status'' err), w2)
                | (None, w2) \<Rightarrow> (None, w2))))"

definition latestScenarioStatus :: "'w sql_store \<Rightarrow> string \<Rightarrow> 'w \<Rightarrow> string res \<times> 'w" where
  "latestScenarioStatus store sid w =
     (case query_bytes store latestScenarioQuery [VText sid] w of
        (Inl err, w1) \<Rightarrow> (Inl (Wrapf ''select latest scenario status'' err), w1)
      | (Inr payload, w1) \<Rightarrow>
          (case json_Unmarshal dec_ScenarioResponse payload zero_scenario of
             Inl err \<Rightarrow> (Inl (Wrapf ''decode latest scenario status'' err), w1)
           | Inr scenario \<Rightarrow> (Inr (sc_Status scenario), w1)))"

definition isStoppedScenarioStatus :: "string \<Rightarrow> bool" where
  "isStoppedScenarioStatus status \<longleftrightarrow> equal_fold (trim_space status) ''stopped''"

section \<open>The watcher\<close>

record watch =
  wt_done :: bool
  wt_canceled :: bool

definition new_watch :: watch where
  "new_watch = \<lparr>wt_done = False, wt_canceled = False\<rparr>"

text \<open>One tick: nothing once the goroutine returned or the context is done; a failing query is skipped.\<close>

definition watcher_tick :: "'w sql_store \<Rightarrow> string \<Rightarrow> 'w \<times> watch \<Rightarrow> 'w \<times> watch" where
  "watcher_tick store sid s =
     (if wt_done (snd s) \<or> wt_canceled (snd s) then s
      else (case latestScenarioStatus store sid (fst s) of
              (Inl err, w1) \<Rightarrow> (w1, snd s)
            | (Inr status, w1) \<Rightarrow>
                if isStoppedScenarioStatus status then (w1, \<lparr>wt_done = True, wt_canceled = True\<rparr>)
                else (w1, snd s)))"

text \<open>\<open>watchScenarioStop\<close> up to the next call of the generator: the ticks that came.\<close>

definition watchScenarioStop :: "'w worker_ports \<Rightarrow> string \<Rightarrow> duration \<Rightarrow> 'w \<times> watch \<Rightarrow> 'w \<times> watch" where
  "watchScenarioStop po sid interval s =
     (case wk_ticks po (if interval \<le> 0 then 500 * millisecond else interval) (fst s) of
        (n, w1) \<Rightarrow> (watcher_tick (wk_store po) sid ^^ n) (w1, snd s))"

text \<open>The generator's calls: \<open>beside po sid f\<close> is \<open>f\<close> with the watcher running beside it.\<close>

definition beside :: "'w worker_ports \<Rightarrow> string \<Rightarrow> (bool \<Rightarrow> 'w \<Rightarrow> 'a \<times> 'w) \<Rightarrow> 'w \<times> watch \<Rightarrow> 'a \<times> 'w \<times> watch" where
  "beside po sid f s =
     (case watchScenarioStop po sid stopWatchInterval s of
        (w1, c) \<Rightarrow> (case f (wt_canceled c) w1 of (a, w2) \<Rightarrow> (a, w2, c)))"

definition ctx_err :: "watch \<Rightarrow> goerr option" where
  "ctx_err c = (if wt_canceled c then Some ContextCanceled else None)"

definition work_env :: "'w worker_ports \<Rightarrow> string \<Rightarrow> ('w \<times> watch) env" where
  "work_env po sid =
     \<lparr>env_now = beside po sid (\<lambda>c. wk_now po),
      env_ctx = beside po sid (\<lambda>c w. (if c then Some ContextCanceled else None, w)),
      env_sleep = (\<lambda>d s.
        case watchScenarioStop po sid stopWatchInterval s of
          (w1, c1) \<Rightarrow>
            if wt_canceled c1 then (Some ContextCanceled, w1, c1)
            else (case watchScenarioStop po sid stopWatchInterval (wk_sleep po d w1, c1) of
                    (w2, c2) \<Rightarrow> (ctx_err c2, w2, c2))),
      env_rand = (\<lambda>n. beside po sid (\<lambda>c. wk_rand po n)),
      env_uuid = beside po sid (\<lambda>c. wk_uuid po),
      env_histogram = beside po sid (\<lambda>c. wk_histogram po)\<rparr>"

definition ctx_store :: "'w worker_ports \<Rightarrow> bool \<Rightarrow> 'w sql_store" where
  "ctx_store po canceled = (if canceled then wk_store_canceled po else wk_store po)"

definition work_store :: "'w worker_ports \<Rightarrow> string \<Rightarrow> ('w \<times> watch) sql_store" where
  "work_store po sid =
     \<lparr>st_Exec = (\<lambda>q args. beside po sid (\<lambda>c. st_Exec (ctx_store po c) q args)),
      st_Query = (\<lambda>q args. beside po sid (\<lambda>c. st_Query (ctx_store po c) q args)),
      st_QueryRow = (\<lambda>q args. beside po sid (\<lambda>c. st_QueryRow (ctx_store po c) q args))\<rparr>"

section \<open>Generators by type\<close>

definition buildGenerators :: "'s env \<Rightarrow> string \<Rightarrow> 's generator option" where
  "buildGenerators e = map_of
     [(WorkloadTypeCPUBurn, CPU_Execute e), (WorkloadTypeMemAlloc, Memory_Execute e),
      (WorkloadTypeDBWrite, DBWrite_Execute e), (WorkloadTypeDBRead, DBRead_Execute e),
      (WorkloadTypeMixed, Mixed_Execute e (mixed_generators e))]"

section \<open>Reporting\<close>

definition snapshot_json :: "ScenarioResponse \<Rightarrow> Result \<Rightarrow> time \<Rightarrow> json res" where
  "snapshot_json scenario result now =
     (case enc_time now of
        Inl err \<Rightarrow> Inl err
      | Inr t \<Rightarrow> Inr (JObj
          [(''duration_ms'', JInt (milliseconds (res_Duration result))),
           (''error'', JStr (res_Error result)), (''ops'', JInt (res_Ops result)),
           (''scenario_id'', JStr (sc_ID scenario)), (''timestamp'', t),
           (''workload'', JStr (lp_WorkloadType (sc_Profile scenario)))]))"

definition reportResult ::
    "'w worker_ports \<Rightarrow> ScenarioResponse \<Rightarrow> Result \<Rightarrow> 'w \<Rightarrow> goerr option \<times> 'w" where
  "reportResult po scenario result w =
     (case wk_now po w of (now, w0) \<Rightarrow>
      case snapshot_json scenario result now of
        Inl err \<Rightarrow> (Some (Wrapf ''marshal snapshot'' err), w0)
      | Inr encoded \<Rightarrow>
      case st_Exec (wk_store po) metricsSnapshotInsert [VBytes (Doc encoded)] w0 of
        (Some err, w1) \<Rightarrow> (Some (Wrapf ''insert metrics snapshot'' err), w1)
      | (None, w1) \<Rightarrow>
      case wk_Incr po ''cp:ops:total'' w1 of
        (Some err, w2) \<Rightarrow> (Some (Wrapf ''increment ops total'' err), w2)
      | (None, w2) \<Rightarrow>
      case wk_Incr po (''cp:ops:'' @ lp_WorkloadType (sc_Profile scenario)) w2 of
        (Some err, w3) \<Rightarrow> (Some (Wrapf ''increment ops by type'' err), w3)
      | (None, w3) \<Rightarrow>
      case (if res_Error result \<noteq> [] then wk_Incr po ''cp:errors:total'' w3 else (None, w3)) of
        (Some err, w4) \<Rightarrow> (Some (Wrapf ''increment errors total'' err), w4)
      | (None, w4) \<Rightarrow>
      case wk_Publish po resultsExchange (''results.'' @ sc_ID scenario) (Doc encoded) w4 of
        (Some err, w5) \<Rightarrow> (Some (Wrapf ''publish result'' err), w5)
      | (None, w5) \<Rightarrow> (None, w5))"

section \<open>Handling a message\<close>

definition scenario_params :: "'s sql_store \<Rightarrow> ScenarioResponse \<Rightarrow> 's WorkloadParams" where
  "scenario_params store scenario =
     (let p = sc_Profile scenario;
          allocMB0 = go_div (lp_PayloadSizeBytes p) (1024 * 1024);
          allocMB = (if allocMB0 \<le> 0 then 1 else allocMB0)
      in \<lparr>wp_ScenarioID = sc_ID scenario, wp_WorkloadType = lp_WorkloadType p,
          wp_DurationMs = milliseconds (lp_Duration p), wp_AllocMB = allocMB,
          wp_BatchSize = lp_Concurrency p, wp_ReadLookbackMs = 300000,
          wp_MixedProfile = \<lparr>CPUPercent = 0, DBWritePercent = 0, DBReadPercent = 0\<rparr>,
          wp_Store = Some store\<rparr>)"

text \<open>
  The end of the handler, after the generator returned: report, and append the terminal status unless
  the scenario was stopped meanwhile.
\<close>

definition finishScenario ::
    "'w worker_ports \<Rightarrow> ScenarioResponse \<Rightarrow> Result \<Rightarrow> 'w \<Rightarrow> goerr option \<times> 'w" where
  "finishScenario po scenario result w =
     (case reportResult po scenario result w of
        (Some err, w1) \<Rightarrow> (Some (Wrapf ''report result'' err), w1)
      | (None, w1) \<Rightarrow>
          let status = (if res_Error result \<noteq> [] then ''failed'' else ''completed'') in
          (case latestScenarioStatus (wk_store po) (sc_ID scenario) w1 of
             (Inl err, w2) \<Rightarrow> (Some (Wrapf ''load latest scenario status'' err), w2)
           | (Inr latest, w2) \<Rightarrow>
               if isStoppedScenarioStatus latest then (None, w2)
               else (case appendScenarioStatus (wk_now po) (wk_store po) scenario status w2 of
                       (Some err, w3) \<Rightarrow> (Some (Wrapf (''mark scenario '' @ status) err), w3)
                     | (None, w3) \<Rightarrow> (None, w3))))"

text \<open>From the start of the watcher on: the run, and what follows it.\<close>

definition runScenario ::
    "'w worker_ports \<Rightarrow> ('w \<times> watch) generator \<Rightarrow> ScenarioResponse \<Rightarrow> 'w \<Rightarrow> (goerr option \<times> 'w) option" where
  "runScenario po gen scenario w2 =
     (case gen (scenario_params (work_store po (sc_ID scenario)) scenario) (w2, new_watch) of
        None \<Rightarrow> None
      | Some ((result, None), w3, c) \<Rightarrow> Some (finishScenario po scenario result w3)
      | Some ((result, Some err), w3, c) \<Rightarrow>
          if errors_is err ContextCanceled then
            (case latestScenarioStatus (wk_store po) (sc_ID scenario) w3 of
               (Inl serr, w4) \<Rightarrow> Some (Some (Wrapf ''load latest scenario status'' serr), w4)
             | (Inr latest, w4) \<Rightarrow>
                 if isStoppedScenarioStatus latest then Some (None, w4)
                 else Some (finishScenario po scenario (result\<lparr>res_Error := error_string err\<rparr>) w4))
          else Some (finishScenario po scenario (result\<lparr>res_Error := error_string err\<rparr>) w3))"

definition handleMessage ::
    "'w worker_ports \<Rightarrow> (string \<Rightarrow> (string \<Rightarrow> ('w \<times> watch) generator option)) \<Rightarrow> bytes \<Rightarrow> 'w \<Rightarrow>
     (goerr option \<times> 'w) option" where
  "handleMessage po gens body w =
     (case json_Unmarshal dec_ScenarioResponse body zero_scenario of
        Inl err \<Rightarrow> Some (Some (UnrecoverableError (Wrapf ''decode scenario'' err)), w)
      | Inr scenario \<Rightarrow>
     (case gens (sc_ID scenario) (lp_WorkloadType (sc_Profile scenario)) of
        None \<Rightarrow> Some (Some (UnrecoverableError
                  (ErrText (''unknown workload type: '' @ lp_WorkloadType (sc_Profile scenario)))), w)
      | Some gen \<Rightarrow>
     (case latestScenarioStatus (wk_store po) (sc_ID scenario) w of
        (Inl err, w1) \<Rightarrow> Some (Some (Wrapf ''load latest scenario status'' err), w1)
      | (Inr latest, w1) \<Rightarrow>
     if isStoppedScenarioStatus latest then Some (None, w1)
     else
     (case appendScenarioStatus (wk_now po) (wk_store po) scenario ''running'' w1 of
        (Some err, w2) \<Rightarrow> Some (Some (Wrapf ''mark scenario running'' err), w2)
      | (None, w2) \<Rightarrow> runScenario po gen scenario w2))))"

text \<open>The handler as \<open>main\<close> builds it.\<close>

definition worker_handler :: "'w worker_ports \<Rightarrow> bytes \<Rightarrow> 'w \<Rightarrow> (goerr option \<times> 'w) option" where
  "worker_handler po = handleMessage po (\<lambda>sid. buildGenerators (work_env po sid))"

end
