(* ===== verification/Api_Http.thy ===== *)
theory Api_Http
  imports Db_Clients
begin

text \<open>
  net/http as the handlers use it, and cmd/api/handlers/helpers.go. A response is the header map, the
  status line once it was sent (with the headers of that moment) and the chunks written after it. The
  first \<open>WriteHeader\<close> counts, later ones are ignored; a write without one sends 200.
\<close>

section \<open>Responses\<close>

datatype chunk = CJson json | CText string

record http_response =
  hr_header :: "(string \<times> string) list"
  hr_sent :: "(int \<times> (string \<times> string) list) option"
  hr_body :: "chunk list"

definition new_response :: http_response where
  "new_response = \<lparr>hr_header = [], hr_sent = None, hr_body = []\<rparr>"

definition set_header :: "string \<Rightarrow> string \<Rightarrow> http_response \<Rightarrow> http_response" where
  "set_header k v h = h\<lparr>hr_header := AList.update k v (hr_header h)\<rparr>"

definition WriteHeader :: "int \<Rightarrow> http_response \<Rightarrow> http_response" where
  "WriteHeader code h =
     (case hr_sent h of None \<Rightarrow> h\<lparr>hr_sent := Some (code, hr_header h)\<rparr> | Some x \<Rightarrow> h)"

definition write_chunk :: "chunk \<Rightarrow> http_response \<Rightarrow> http_response" where
  "write_chunk c h = (let h1 = WriteHeader 200 h in h1\<lparr>hr_body := hr_body h1 @ [c]\<rparr>)"

definition StatusOK :: int where "StatusOK = 200"
definition StatusAccepted :: int where "StatusAccepted = 202"
definition StatusNoContent :: int where "StatusNoContent = 204"
definition StatusSeeOther :: int where "StatusSeeOther = 303"
definition StatusBadRequest :: int where "StatusBadRequest = 400"
definition StatusNotFound :: int where "StatusNotFound = 404"
definition StatusInternalServerError :: int where "StatusInternalServerError = 500"
definition StatusBadGateway :: int where "StatusBadGateway = 502"
definition StatusServiceUnavailable :: int where "StatusServiceUnavailable = 503"

lemmas status_defs = StatusOK_def StatusAccepted_def StatusNoContent_def StatusSeeOther_def
  StatusBadRequest_def StatusNotFound_def StatusInternalServerError_def StatusBadGateway_def
  StatusServiceUnavailable_def

definition response_code :: "http_response \<Rightarrow> int option" where
  "response_code h = map_option fst (hr_sent h)"

section \<open>The helpers\<close>

text \<open>
  The payload is given as what \<open>json\<close> makes of it: the encoder writes nothing when encoding fails.
  A client that went away makes the write itself fail; that error is dropped everywhere, and so is
  left out.
\<close>

definition writeJSON :: "int \<Rightarrow> json res \<Rightarrow> http_response \<Rightarrow> goerr option \<times> http_response" where
  "writeJSON status payload h =
     (let h1 = WriteHeader status (set_header ''Content-Type'' ''application/json'' h) in
      case payload of
        Inl err \<Rightarrow> (Some (Wrapf ''encode json'' err), h1)
      | Inr j \<Rightarrow> (None, write_chunk (CJson j) h1))"

definition errorResponse :: "int \<Rightarrow> string \<Rightarrow> http_response \<Rightarrow> http_response" where
  "errorResponse status message h = snd (writeJSON status (Inr (JObj [(''error'', JStr message)])) h)"

text \<open>\<open>if err := writeJSON(...); err != nil { errorResponse(w, 500, err.Error()) }\<close>\<close>

definition respond :: "int \<Rightarrow> json res \<Rightarrow> http_response \<Rightarrow> http_response" where
  "respond status payload h =
     (case writeJSON status payload h of
        (Some err, h1) \<Rightarrow> errorResponse StatusInternalServerError (error_string err) h1
      | (None, h1) \<Rightarrow> h1)"

text \<open>
  \<open>Decode\<close> reads the first value of the body and leaves the rest; unknown fields are refused.
\<close>

definition decodeJSON :: "(json \<Rightarrow> 's \<Rightarrow> 's res) \<Rightarrow> bytes \<Rightarrow> 's \<Rightarrow> 's res" where
  "decodeJSON dec body dest =
     (case json_Unmarshal dec body dest of Inl err \<Rightarrow> Inl (Wrapf ''decode json'' err) | Inr x \<Rightarrow> Inr x)"

definition http_Error :: "string \<Rightarrow> int \<Rightarrow> http_response \<Rightarrow> http_response" where
  "http_Error message code h =
     write_chunk (CText (message @ [CHR 0x0A]))
       (WriteHeader code (set_header ''X-Content-Type-Options'' ''nosniff''
         (set_header ''Content-Type'' ''text/plain; charset=utf-8'' h)))"

definition error_json :: "string \<Rightarrow> chunk" where
  "error_json message = CJson (JObj [(''error'', JStr message)])"

section \<open>Facts\<close>

lemma response_code_new [simp]: "response_code new_response = None" "hr_body new_response = []"
  by (simp_all add: response_code_def new_response_def)

lemma errorResponse_new [simp]:
  "response_code (errorResponse status message new_response) = Some status"
  "hr_body (errorResponse status message new_response) = [error_json message]"
  by (simp_all add: errorResponse_def writeJSON_def Let_def write_chunk_def WriteHeader_def set_header_def
      new_response_def response_code_def error_json_def)

lemma respond_new_Inr [simp]:
  "response_code (respond status (Inr j) new_response) = Some status"
  "hr_body (respond status (Inr j) new_response) = [CJson j]"
  by (simp_all add: respond_def writeJSON_def Let_def write_chunk_def WriteHeader_def set_header_def
      new_response_def response_code_def)

text \<open>When encoding fails the status line is out already, so the error goes out under it.\<close>

lemma respond_new_Inl:
  "response_code (respond status (Inl e) new_response) = Some status"
  "hr_body (respond status (Inl e) new_response) = [error_json (''encode json: '' @ error_string e)]"
  by (simp_all add: respond_def writeJSON_def errorResponse_def Let_def write_chunk_def WriteHeader_def
      set_header_def new_response_def response_code_def error_json_def)

end
