(* ===== verification/Api_Scenarios.thy ===== *)
theory Api_Scenarios
  imports Postgres Api_Http
begin

text \<open>
  cmd/api/handlers/scenarios.go and status.go: the scenario endpoints and the status endpoints. A
  handler takes what it reads of the request (the body, the URL parameter), an empty response and
  the outside, and gives both back.
\<close>

record 'w api_ports =
  ap_store :: "'w sql_store"
  ap_Publish :: "string \<Rightarrow> string \<Rightarrow> bytes \<Rightarrow> 'w \<Rightarrow> goerr option \<times> 'w"
  ap_Get :: "string \<Rightarrow> 'w \<Rightarrow> string res \<times> 'w"
  ap_now :: "'w \<Rightarrow> time \<times> 'w"
  ap_uuid :: "'w \<Rightarrow> string \<times> 'w"

definition scenariosExchange :: string where
  "scenariosExchange = ''clusterprobe.events''"

section \<open>Rows\<close>

definition scan_event :: "sql_val list \<Rightarrow> (string \<times> bytes \<times> time) res" where
  "scan_event row =
     (case row of [VText sid, VBytes payload, VTime created] \<Rightarrow> Inr (sid, payload, created)
      | _ \<Rightarrow> Inl scan_error)"

definition query_event :: "'w sql_store \<Rightarrow> string \<Rightarrow> sql_val list \<Rightarrow> 'w \<Rightarrow> (string \<times> bytes \<times> time) res \<times> 'w" where
  "query_event store q args w =
     (case st_QueryRow store q args w of
        (Inl err, w1) \<Rightarrow> (Inl err, w1)
      | (Inr row, w1) \<Rightarrow> (scan_event row, w1))"

text \<open>The payload of a row, with the columns for what it leaves empty.\<close>

definition row_response :: "string \<times> bytes \<times> time \<Rightarrow> ScenarioResponse res" where
  "row_response row =
     (case row of (sid, payload, created) \<Rightarrow>
      case json_Unmarshal dec_ScenarioResponse payload zero_scenario of
        Inl err \<Rightarrow> Inl err
      | Inr resp \<Rightarrow>
          let resp1 = (if sc_ID resp = [] then resp\<lparr>sc_ID := sid\<rparr> else resp);
              resp2 = (if is_zero_time (sc_CreatedAt resp1) then resp1\<lparr>sc_CreatedAt := created\<rparr> else resp1)
          in Inr resp2)"

text \<open>The loop over \<open>rows\<close>; the left side is the message of the error response.\<close>

fun collect_rows :: "string \<Rightarrow> string \<Rightarrow> sql_val list res list \<Rightarrow> ScenarioResponse list \<Rightarrow>
    string + ScenarioResponse list" where
  "collect_rows scan_msg decode_msg [] acc = Inr acc"
| "collect_rows scan_msg decode_msg (r # rs) acc =
     (case (case r of Inl err \<Rightarrow> Inl err | Inr vs \<Rightarrow> scan_event vs) of
        Inl err \<Rightarrow> Inl scan_msg
      | Inr row \<Rightarrow>
          (case row_response row of
             Inl err \<Rightarrow> Inl decode_msg
           | Inr resp \<Rightarrow> collect_rows scan_msg decode_msg rs (acc @ [resp])))"

fun enc_list :: "('a \<Rightarrow> json res) \<Rightarrow> 'a list \<Rightarrow> json list res" where
  "enc_list enc [] = Inr []"
| "enc_list enc (x # xs) =
     (case enc x of Inl err \<Rightarrow> Inl err
      | Inr j \<Rightarrow> (case enc_list enc xs of Inl err \<Rightarrow> Inl err | Inr js \<Rightarrow> Inr (j # js)))"

definition enc_array :: "('a \<Rightarrow> json res) \<Rightarrow> 'a list \<Rightarrow> json res" where
  "enc_array enc xs = map_sum id JArr (enc_list enc xs)"

section \<open>The scenario endpoints\<close>

definition CreateScenario :: "'w api_ports \<Rightarrow> bytes \<Rightarrow> http_response \<Rightarrow> 'w \<Rightarrow> http_response \<times> 'w" where
  "CreateScenario po body h w =
     (case decodeJSON (dec_ScenarioRequest True) body zero_request of
        Inl err \<Rightarrow> (errorResponse StatusBadRequest (error_string err) h, w)
      | Inr req \<Rightarrow>
     (case ScenarioRequest_Validate req of
        Some err \<Rightarrow> (errorResponse StatusBadRequest (error_string err) h, w)
      | None \<Rightarrow>
     (case ap_uuid po w of (uid, w1) \<Rightarrow>
      case ap_now po w1 of (now, w2) \<Rightarrow>
      let resp = \<lparr>sc_ID = uid, sc_Name = sr_Name req, sc_Profile = sr_Profile req,
                  sc_Status = ''queued'', sc_CreatedAt = now\<rparr> in
     (case enc_ScenarioResponse resp of
        Inl err \<Rightarrow> (errorResponse StatusInternalServerError ''marshal scenario'' h, w2)
      | Inr j \<Rightarrow>
     (case st_Exec (ap_store po) insertScenarioQuery [VText uid, VBytes (Doc j)] w2 of
        (Some err, w3) \<Rightarrow> (errorResponse StatusInternalServerError ''store scenario'' h, w3)
      | (None, w3) \<Rightarrow>
     (case ap_Publish po scenariosExchange (lp_TargetQueue (sr_Profile req)) (Doc j) w3 of
        (Some err, w4) \<Rightarrow> (errorResponse StatusBadGateway ''publish scenario'' h, w4)
      | (None, w4) \<Rightarrow> (respond StatusAccepted (enc_ScenarioResponse resp) h, w4)))))))"

definition ListScenarios :: "'w api_ports \<Rightarrow> http_response \<Rightarrow> 'w \<Rightarrow> http_response \<times> 'w" where
  "ListScenarios po h w =
     (case st_Query (ap_store po) listScenarioQuery [] w of
        (Inl err, w1) \<Rightarrow> (errorResponse StatusInternalServerError ''list scenarios'' h, w1)
      | (Inr rows, w1) \<Rightarrow>
     (case collect_rows ''scan scenario'' ''decode scenario'' (rs_rows rows) [] of
        Inl msg \<Rightarrow> (errorResponse StatusInternalServerError msg h, w1)
      | Inr responses \<Rightarrow>
     (case rs_err rows of
        Some err \<Rightarrow> (errorResponse StatusInternalServerError ''list scenarios'' h, w1)
      | None \<Rightarrow> (respond StatusOK (enc_array enc_ScenarioResponse responses) h, w1))))"

definition GetScenario :: "'w api_ports \<Rightarrow> string \<Rightarrow> http_response \<Rightarrow> 'w \<Rightarrow> http_response \<times> 'w" where
  "GetScenario po sid h w =
     (if sid = [] then (errorResponse StatusBadRequest ''id is required'' h, w)
      else
     (case query_event (ap_store po) getScenarioQuery [VText sid] w of
        (Inl err, w1) \<Rightarrow> (errorResponse StatusNotFound ''scenario not found'' h, w1)
      | (Inr row, w1) \<Rightarrow>
     (case row_response row of
        Inl err \<Rightarrow> (errorResponse StatusInternalServerError ''decode scenario'' h, w1)
      | Inr resp \<Rightarrow> (respond StatusOK (enc_ScenarioResponse resp) h, w1))))"

definition ListScenarioEvents :: "'w api_ports \<Rightarrow> string \<Rightarrow> http_response \<Rightarrow> 'w \<Rightarrow> http_response \<times> 'w" where
  "ListScenarioEvents po sid h w =
     (if sid = [] then (errorResponse StatusBadRequest ''id is required'' h, w)
      else
     (case st_Query (ap_store po) listScenarioEventsQuery [VText sid] w of
        (Inl err, w1) \<Rightarrow> (errorResponse StatusInternalServerError ''list scenario events'' h, w1)
      | (Inr rows, w1) \<Rightarrow>
     (case collect_rows ''scan scenario event'' ''decode scenario event'' (rs_rows rows) [] of
        Inl msg \<Rightarrow> (errorResponse StatusInternalServerError msg h, w1)
      | Inr responses \<Rightarrow>
     (case rs_err rows of
        Some err \<Rightarrow> (errorResponse StatusInternalServerError ''list scenario events'' h, w1)
      | None \<Rightarrow>
          if responses = [] then (errorResponse StatusNotFound ''scenario not found'' h, w1)
          else (respond StatusOK (enc_array enc_ScenarioResponse responses) h, w1)))))"

definition StopScenario :: "'w api_ports \<Rightarrow> string \<Rightarrow> http_response \<Rightarrow> 'w \<Rightarrow> http_response \<times> 'w" where
  "StopScenario po sid h w =
     (if sid = [] then (errorResponse StatusBadRequest ''id is required'' h, w)
      else
     (case query_event (ap_store po) getScenarioQuery [VText sid] w of
        (Inl err, w1) \<Rightarrow> (errorResponse StatusNotFound ''scenario not found'' h, w1)
      | (Inr (scenarioID, payload, created), w1) \<Rightarrow>
     (case json_Unmarshal dec_ScenarioResponse payload zero_scenario of
        Inl err \<Rightarrow> (errorResponse StatusInternalServerError ''decode scenario'' h, w1)
      | Inr resp0 \<Rightarrow>
     (let resp1 = (if sc_ID resp0 = [] then resp0\<lparr>sc_ID := scenarioID\<rparr> else resp0);
          resp2 = (if sc_ID resp1 = [] then resp1\<lparr>sc_ID := sid\<rparr> else resp1) in
      case ap_now po w1 of (now, w2) \<Rightarrow>
      let resp = resp2\<lparr>sc_Status := ''stopped'', sc_CreatedAt := now\<rparr> in
     (case enc_ScenarioResponse resp of
        Inl err \<Rightarrow> (errorResponse StatusInternalServerError ''marshal scenario'' h, w2)
      | Inr j \<Rightarrow>
     (case st_Exec (ap_store po) insertScenarioQuery [VText sid, VBytes (Doc j)] w2 of
        (Some err, w3) \<Rightarrow> (errorResponse StatusInternalServerError ''store scenario'' h, w3)
      | (None, w3) \<Rightarrow>
     (case ap_Publish po scenariosExchange ''scenario.stop'' (Doc j) w3 of
        (Some err, w4) \<Rightarrow> (errorResponse StatusBadGateway ''publish stop'' h, w4)
      | (None, w4) \<Rightarrow> (respond StatusOK (enc_ScenarioResponse resp) h, w4))))))))"

section \<open>The status endpoints\<close>

definition statusKeys :: "string \<Rightarrow> string" where
  "statusKeys key =
     (case map_of [(''scenarios_running'', ''scenarios.running''),
                   (''scenarios_completed'', ''scenarios.completed''),
                   (''chaos_running'', ''chaos.running'')] key of None \<Rightarrow> [] | Some k \<Rightarrow> k)"

definition redisCounter :: "'w api_ports \<Rightarrow> string \<Rightarrow> 'w \<Rightarrow> int \<times> 'w" where
  "redisCounter po key w =
     (case ap_Get po (statusKeys key) w of
        (Inl err, w1) \<Rightarrow> (0, w1)
      | (Inr v, w1) \<Rightarrow> (case parse_int v of Inl err \<Rightarrow> (0, w1) | Inr n \<Rightarrow> (n, w1)))"

definition scenarioCounts :: "'w api_ports \<Rightarrow> 'w \<Rightarrow> (int \<times> int) res \<times> 'w" where
  "scenarioCounts po w =
     (case st_QueryRow (ap_store po) scenarioCountsQuery [] w of
        (Inl err, w1) \<Rightarrow> (Inl (Wrapf ''scan scenario counts'' err), w1)
      | (Inr row, w1) \<Rightarrow>
          (case row of
             [VInt running, VInt completed] \<Rightarrow> (Inr (running, completed), w1)
           | _ \<Rightarrow> (Inl (Wrapf ''scan scenario counts'' scan_error), w1)))"

definition Status :: "'w api_ports \<Rightarrow> http_response \<Rightarrow> 'w \<Rightarrow> http_response \<times> 'w" where
  "Status po h w =
     (case (case scenarioCounts po w of
              (Inr (running, completed), w1) \<Rightarrow> ((running, completed), w1)
            | (Inl err, w1) \<Rightarrow>
                (case redisCounter po ''scenarios_running'' w1 of (running, w2) \<Rightarrow>
                 case redisCounter po ''scenarios_completed'' w2 of (completed, w3) \<Rightarrow>
                   ((running, completed), w3))) of
        ((running, completed), w4) \<Rightarrow>
      case redisCounter po ''chaos_running'' w4 of (chaos, w5) \<Rightarrow>
      case ap_now po w5 of (now, w6) \<Rightarrow>
        (respond StatusOK
           (case enc_time now of
              Inl err \<Rightarrow> Inl err
            | Inr t \<Rightarrow> Inr (JObj
                [(''counters'', JObj [(''chaos_running'', JInt chaos),
                                     (''scenarios_completed'', JInt completed),
                                     (''scenarios_running'', JInt running)]),
                 (''status'', JStr ''ok''), (''time'', t)])) h, w6))"

definition Healthz :: "http_response \<Rightarrow> http_response" where
  "Healthz h = respond StatusOK (Inr (JObj [(''status'', JStr ''ok'')])) h"

definition MetricsSnapshot :: "'w api_ports \<Rightarrow> http_response \<Rightarrow> 'w \<Rightarrow> http_response \<times> 'w" where
  "MetricsSnapshot po h w =
     (case st_QueryRow (ap_store po) metricsSnapshotQuery [] w of
        (Inl err, w1) \<Rightarrow> (errorResponse StatusNotFound ''no metrics snapshot'' h, w1)
      | (Inr row, w1) \<Rightarrow>
          (case row of
             [VBytes payload, VTime created] \<Rightarrow>
               (case payload of
                  NotJson \<Rightarrow> (errorResponse StatusInternalServerError ''decode snapshot'' h, w1)
                | Doc decoded \<Rightarrow>
                    (respond StatusOK
                       (case enc_time created of
                          Inl err \<Rightarrow> Inl err
                        | Inr t \<Rightarrow> Inr (JObj [(''created_at'', t), (''snapshot'', decoded)])) h, w1))
           | _ \<Rightarrow> (errorResponse StatusNotFound ''no metrics snapshot'' h, w1)))"

end
