(* ===== verification/Generator_Frame.thy ===== *)
theory Generator_Frame
  imports Generators
begin

text \<open>
  What a run of a generator may do to the outside: whatever relation every call it makes keeps, from
  the state before the call to the state after it, the whole run keeps. The calls are those of the
  environment, the insert of a load event and the reading of one row; no other statement is issued.
\<close>

definition env_keeps :: "('s \<Rightarrow> 's \<Rightarrow> bool) \<Rightarrow> 's env \<Rightarrow> bool" where
  "env_keeps R e \<longleftrightarrow>
     (\<forall>s. R s (snd (env_now e s))) \<and> (\<forall>s. R s (snd (env_ctx e s))) \<and>
     (\<forall>d s. R s (snd (env_sleep e d s))) \<and> (\<forall>n s. R s (snd (env_rand e n s))) \<and>
     (\<forall>s. R s (snd (env_uuid e s))) \<and> (\<forall>s. R s (snd (env_histogram e s)))"

definition store_keeps :: "('s \<Rightarrow> 's \<Rightarrow> bool) \<Rightarrow> 's sql_store \<Rightarrow> bool" where
  "store_keeps R st \<longleftrightarrow>
     (\<forall>a s. R s (snd (st_Exec st insertLoadEventQuery a s))) \<and>
     (\<forall>a s. R s (snd (st_QueryRow st selectLoadEventQuery a s)))"

text \<open>A preorder on the states.\<close>

locale frame =
  fixes R :: "'s \<Rightarrow> 's \<Rightarrow> bool"
  assumes refl: "R s s" and trans: "R s s1 \<Longrightarrow> R s1 s2 \<Longrightarrow> R s s2"
begin

definition kept :: "'s \<Rightarrow> ('a \<times> 's) option \<Rightarrow> bool" where
  "kept s ret = (case ret of None \<Rightarrow> True | Some (a, s') \<Rightarrow> R s s')"

lemma kept_Some [simp]: "kept s (Some (a, s')) = R s s'"
  and kept_None [simp]: "kept s None"
  by (simp_all add: kept_def)

lemma kept_trans: "kept s1 ret \<Longrightarrow> R s s1 \<Longrightarrow> kept s ret"
  by (auto simp: kept_def split: option.splits intro: trans)

lemma env_keepsD:
  assumes "env_keeps R e"
  shows "env_now e s = (t, s') \<Longrightarrow> R s s'" and "env_ctx e s = (c, s') \<Longrightarrow> R s s'"
    and "env_sleep e d s = (c, s') \<Longrightarrow> R s s'" and "env_rand e n s = (i, s') \<Longrightarrow> R s s'"
    and "env_uuid e s = (u, s') \<Longrightarrow> R s s'" and "env_histogram e s = (c, s') \<Longrightarrow> R s s'"
  using assms unfolding env_keeps_def by (metis snd_conv)+

lemma store_keepsD:
  assumes "store_keeps R st"
  shows "st_Exec st insertLoadEventQuery a s = (r, s') \<Longrightarrow> R s s'"
    and "st_QueryRow st selectLoadEventQuery a s = (r', s') \<Longrightarrow> R s s'"
  using assms unfolding store_keeps_def by (metis snd_conv)+

lemma finish_kept: "env_keeps R e \<Longrightarrow> kept s (finish e start ops msg err s)"
  by (auto simp: finish_def split: prod.splits dest: env_keepsD(1))

lemma cpu_loop_kept:
  assumes "env_keeps R e"
  shows "kept s (cpu_loop e start deadline ops sink s)"
proof (cases "cpu_loop e start deadline ops sink s")
  case (Some y)
  have "env_keeps R e \<longrightarrow> R s (snd y)"
  proof (rule cpu_loop.raw_induct [OF _ Some,
      where P = "\<lambda>e start deadline ops sink s y. env_keeps R e \<longrightarrow> R s (snd y)"], goal_cases)
    case (1 L e start deadline ops sink s y)
    show ?case
    proof
      assume e: "env_keeps R e"
      from 1(2) show "R s (snd y)"
        by (auto simp: finish_def split: prod.splits if_splits option.splits
              dest!: env_keepsD [OF e] 1(1) [THEN mp, OF _ e] intro: trans)
    qed
  qed
  with Some assms show ?thesis
    by (cases y) simp
qed simp

lemma write_batch_kept:
  assumes st: "store_keeps R st"
  shows "write_batch st sid pl n ops s = (r, s') \<Longrightarrow> R s s'"
proof (induction n arbitrary: ops s)
  case (Suc n)
  then show ?case
    by (auto split: prod.splits option.splits dest: store_keepsD [OF st] intro: trans)
qed (simp add: refl)

lemma write_loop_kept:
  assumes "env_keeps R e" and "store_keeps R st"
  shows "kept s (write_loop e st params start deadline ops s)"
proof (cases "write_loop e st params start deadline ops s")
  case (Some y)
  have "env_keeps R e \<and> store_keeps R st \<longrightarrow> R s (snd y)"
  proof (rule write_loop.raw_induct [OF _ Some, where
      P = "\<lambda>e st params start deadline ops s y. env_keeps R e \<and> store_keeps R st \<longrightarrow> R s (snd y)"], goal_cases)
    case (1 L e st params start deadline ops s y)
    show ?case
    proof
      assume k: "env_keeps R e \<and> store_keeps R st"
      then have e: "env_keeps R e" and st: "store_keeps R st"
        by auto
      from 1(2) show "R s (snd y)"
        by (auto simp: finish_def split: prod.splits if_splits option.splits sum.splits
              dest!: env_keepsD [OF e] write_batch_kept [OF st] 1(1) [THEN mp, OF _ k])
           ((assumption | erule trans)+)
    qed
  qed
  with Some assms show ?thesis
    by (cases y) simp
qed simp

lemma randomDuration_kept: "env_keeps R e \<Longrightarrow> randomDuration e n s = (r, s') \<Longrightarrow> R s s'"
  by (auto simp: randomDuration_def refl split: if_splits prod.splits sum.splits dest: env_keepsD)

lemma query_bytes_kept:
  "store_keeps R st \<Longrightarrow> query_bytes st selectLoadEventQuery args s = (r, s') \<Longrightarrow> R s s'"
  by (auto simp: query_bytes_def split: prod.splits sum.splits dest: store_keepsD)

lemma read_loop_kept:
  assumes "env_keeps R e" and "store_keeps R st"
  shows "kept s (read_loop e st params start deadline ops s)"
proof (cases "read_loop e st params start deadline ops s")
  case (Some y)
  have "env_keeps R e \<and> store_keeps R st \<longrightarrow> R s (snd y)"
  proof (rule read_loop.raw_induct [OF _ Some, where
      P = "\<lambda>e st params start deadline ops s y. env_keeps R e \<and> store_keeps R st \<longrightarrow> R s (snd y)"], goal_cases)
    case (1 L e st params start deadline ops s y)
    show ?case
    proof
      assume k: "env_keeps R e \<and> store_keeps R st"
      then have e: "env_keeps R e" and st: "store_keeps R st"
        by auto
      from 1(2) show "R s (snd y)"
        by (auto simp: finish_def split: prod.splits if_splits option.splits sum.splits
              dest!: env_keepsD [OF e] query_bytes_kept [OF st] randomDuration_kept [OF e]
                1(1) [THEN mp, OF _ k])
           ((assumption | erule trans)+)
    qed
  qed
  with Some assms show ?thesis
    by (cases y) simp
qed simp

lemma CPU_kept: "env_keeps R e \<Longrightarrow> kept s (CPU_Execute e params s)"
  by (auto simp: CPU_Execute_def refl split: option.splits prod.splits dest: env_keepsD(1)
        intro: kept_trans [OF cpu_loop_kept])

lemma Memory_kept:
  assumes "env_keeps R e"
  shows "kept s (Memory_Execute e params s)"
  by (auto simp: Memory_Execute_def Let_def refl split: option.splits prod.splits
        dest!: env_keepsD [OF assms]) ((assumption | erule trans)+)

definition store_option_keeps :: "'s WorkloadParams \<Rightarrow> bool" where
  "store_option_keeps params = (case wp_Store params of None \<Rightarrow> True | Some st \<Rightarrow> store_keeps R st)"

lemma DBWrite_kept:
  assumes "env_keeps R e" and "store_option_keeps params"
  shows "kept s (DBWrite_Execute e params s)"
  using assms
  by (auto simp: DBWrite_Execute_def store_option_keeps_def Let_def refl split: option.splits prod.splits
        dest: env_keepsD(1) intro: kept_trans [OF write_loop_kept])

lemma DBRead_kept:
  assumes "env_keeps R e" and "store_option_keeps params"
  shows "kept s (DBRead_Execute e params s)"
  using assms(2)
  by (auto simp: DBRead_Execute_def store_option_keeps_def Let_def refl split: option.splits prod.splits
        dest!: env_keepsD(1,6) [OF assms(1)] intro!: kept_trans [OF read_loop_kept [OF assms(1)]])
     ((assumption | erule trans)+)

lemma mixed_phase_kept:
  assumes e: "env_keeps R e" and "\<And>d s. kept s (gen (params\<lparr>wp_DurationMs := d\<rparr>) s)"
  shows "kept s (mixed_phase e start label gen params dms ops s)"
  using assms(2) [of s dms]
  by (auto simp: mixed_phase_def refl split: option.splits prod.splits
        dest!: env_keepsD(1) [OF e] intro: trans)

lemma Mixed_kept:
  assumes e: "env_keeps R e" and st: "store_option_keeps params"
  shows "kept s (Mixed_Execute e (mixed_generators e) params s)"
proof -
  have "store_option_keeps (params\<lparr>wp_DurationMs := d\<rparr>)" for d
    using st by (simp add: store_option_keeps_def)
  then have phases: "kept s (mixed_phase e start label (CPU_Execute e) params d ops s)"
    "kept s (mixed_phase e start label (DBWrite_Execute e) params d ops s)"
    "kept s (mixed_phase e start label (DBRead_Execute e) params d ops s)" for s start label d ops
    by (auto intro!: mixed_phase_kept CPU_kept DBWrite_kept DBRead_kept e)
  have D: "mixed_phase e start label (CPU_Execute e) params d ops s = Some (x, s') \<Longrightarrow> R s s'"
    "mixed_phase e start label (DBWrite_Execute e) params d ops s = Some (x, s') \<Longrightarrow> R s s'"
    "mixed_phase e start label (DBRead_Execute e) params d ops s = Some (x, s') \<Longrightarrow> R s s'"
    for start label d ops s x s'
    using phases [of s start label d ops] by (metis kept_Some)+
  show ?thesis
    by (auto simp: Mixed_Execute_def mixed_generators_def finish_def refl
          split: option.splits prod.splits sum.splits dest!: D env_keepsD(1) [OF e]) ((assumption | erule trans)+)
qed

end

text \<open>The clock that does not turn back is such a relation.\<close>

interpretation clock_frame: frame "\<lambda>s s' :: 's. (clk :: 's \<Rightarrow> time) s \<le> clk s'" for clk
  by unfold_locales auto

end
