(* ===== verification/Cluster.thy ===== *)
theory Cluster
  imports Worker Api_Scenarios Generator_Frame
begin

text \<open>
  One outside for both processes: the database, the Redis counters, the published messages, the
  clock. Other clients of the database act between the statements (\<open>cl_others\<close>: the rows they insert
  before each statement of ours, in turn), statements may fail (\<open>cl_faults\<close>), and the watcher's ticks
  come as the list \<open>cl_ticks\<close> says. \<open>cl_log\<close> is a ghost: the statements that took effect, with their
  arguments.
\<close>

record cluster =
  cl_pg :: pg
  cl_clock :: time
  cl_redis :: "string \<Rightarrow> int"
  cl_published :: "(string \<times> string \<times> bytes) list"
  cl_others :: "(string \<times> bytes) list list"
  cl_faults :: "goerr option list"
  cl_ticks :: "nat list"
  cl_uuids :: "string list"
  cl_log :: "(string \<times> sql_val list) list"

definition tick_clock :: "duration \<Rightarrow> cluster \<Rightarrow> cluster" where
  "tick_clock d w = w\<lparr>cl_clock := cl_clock w + d\<rparr>"

definition others_act :: "cluster \<Rightarrow> cluster" where
  "others_act w =
     (case cl_others w of
        [] \<Rightarrow> w
      | es # rest \<Rightarrow>
          w\<lparr>cl_pg := fold (\<lambda>(i, b). insert_scenario_event (cl_clock w) i b) es (cl_pg w), cl_others := rest\<rparr>)"

definition next_fault :: "cluster \<Rightarrow> goerr option \<times> cluster" where
  "next_fault w = (case cl_faults w of [] \<Rightarrow> (None, w) | f # fs \<Rightarrow> (f, w\<lparr>cl_faults := fs\<rparr>))"

text \<open>A statement takes a millisecond.\<close>

definition cluster_Exec :: "string \<Rightarrow> sql_val list \<Rightarrow> cluster \<Rightarrow> goerr option \<times> cluster" where
  "cluster_Exec q args w =
     (case next_fault (others_act w) of
        (Some err, w1) \<Rightarrow> (Some err, tick_clock millisecond w1)
      | (None, w1) \<Rightarrow>
          (case pg_Exec (cl_clock w1) q args (cl_pg w1) of
             (Some err, db) \<Rightarrow> (Some err, tick_clock millisecond w1)
           | (None, db) \<Rightarrow>
               (None, tick_clock millisecond (w1\<lparr>cl_pg := db, cl_log := cl_log w1 @ [(q, args)]\<rparr>))))"

definition cluster_read :: "(pg \<Rightarrow> 'a res) \<Rightarrow> cluster \<Rightarrow> 'a res \<times> cluster" where
  "cluster_read f w =
     (case next_fault (others_act w) of
        (Some err, w1) \<Rightarrow> (Inl err, tick_clock millisecond w1)
      | (None, w1) \<Rightarrow> (f (cl_pg w1), tick_clock millisecond w1))"

definition cluster_pool :: "cluster sql_store" where
  "cluster_pool =
     \<lparr>st_Exec = cluster_Exec,
      st_Query = (\<lambda>q args. cluster_read (pg_Query q args)),
      st_QueryRow = (\<lambda>q args. cluster_read (pg_QueryRow q args))\<rparr>"

text \<open>Under a canceled context pgx gives the error of the context and sends nothing.\<close>

definition canceled_pool :: "'w sql_store" where
  "canceled_pool =
     \<lparr>st_Exec = (\<lambda>q args w. (Some ContextCanceled, w)),
      st_Query = (\<lambda>q args w. (Inl ContextCanceled, w)),
      st_QueryRow = (\<lambda>q args w. (Inl ContextCanceled, w))\<rparr>"

definition cluster_store :: "cluster sql_store" where
  "cluster_store = postgresAdapter (PostgresClient cluster_pool)"

definition cluster_now :: "cluster \<Rightarrow> time \<times> cluster" where
  "cluster_now w = (cl_clock w, tick_clock 1 w)"

definition cluster_Publish :: "string \<Rightarrow> string \<Rightarrow> bytes \<Rightarrow> cluster \<Rightarrow> goerr option \<times> cluster" where
  "cluster_Publish exchange key body w =
     (case next_fault w of
        (Some err, w1) \<Rightarrow> (Some (Wrapf ''rabbitmq publish'' err), w1)
      | (None, w1) \<Rightarrow> (None, w1\<lparr>cl_published := cl_published w1 @ [(exchange, key, body)]\<rparr>))"

definition cluster_redis :: "cluster redis_cmds" where
  "cluster_redis = RedisClient
     \<lparr>rd_Get = (\<lambda>key w. (Inr (itoa (cl_redis w key)), w)),
      rd_Incr = (\<lambda>key w.
        case next_fault w of
          (Some err, w1) \<Rightarrow> (Inl err, w1)
        | (None, w1) \<Rightarrow>
            (Inr (cl_redis w1 key + 1), w1\<lparr>cl_redis := (cl_redis w1)(key := cl_redis w1 key + 1)\<rparr>))\<rparr>"

definition next_ticks :: "cluster \<Rightarrow> nat \<times> cluster" where
  "next_ticks w = (case cl_ticks w of [] \<Rightarrow> (0, w) | n # ns \<Rightarrow> (n, w\<lparr>cl_ticks := ns\<rparr>))"

definition next_uuid :: "cluster \<Rightarrow> string \<times> cluster" where
  "next_uuid w = (case cl_uuids w of [] \<Rightarrow> ([], w) | u # us \<Rightarrow> (u, w\<lparr>cl_uuids := us\<rparr>))"

definition cluster_worker :: "cluster worker_ports" where
  "cluster_worker =
     \<lparr>wk_store = cluster_store,
      wk_store_canceled = postgresAdapter (PostgresClient canceled_pool),
      wk_Incr = redisAdapter_Incr cluster_redis,
      wk_Publish = cluster_Publish,
      wk_now = cluster_now,
      wk_sleep = (\<lambda>d. tick_clock (max 0 d)),
      wk_rand = (\<lambda>n w. (Inr (n div 2), w)),
      wk_uuid = next_uuid,
      wk_histogram = (\<lambda>w. (None, w)),
      wk_ticks = (\<lambda>d. next_ticks)\<rparr>"

definition cluster_api :: "cluster api_ports" where
  "cluster_api =
     \<lparr>ap_store = cluster_store,
      ap_Publish = cluster_Publish,
      ap_Get = redisAdapter_Get cluster_redis,
      ap_now = cluster_now,
      ap_uuid = next_uuid\<rparr>"

section \<open>Quiet moments\<close>

text \<open>No other client, no faults: what the process does is all that happens.\<close>

definition quiet :: "cluster \<Rightarrow> bool" where
  "quiet w \<longleftrightarrow> cl_others w = [] \<and> cl_faults w = []"

definition cluster_ok :: "cluster \<Rightarrow> bool" where
  "cluster_ok w \<longleftrightarrow> pg_ok (cl_clock w) (cl_pg w)"

text \<open>The statuses of a scenario, in the order of its events.\<close>

definition event_status :: "event_row \<Rightarrow> string option" where
  "event_status r =
     (case json_Unmarshal dec_ScenarioResponse (ev_payload r) zero_scenario of
        Inl err \<Rightarrow> None | Inr sc \<Rightarrow> Some (sc_Status sc))"

definition statuses :: "string \<Rightarrow> cluster \<Rightarrow> string option list" where
  "statuses sid w = map event_status (of_scenario sid (scenario_events (cl_pg w)))"

definition latest_status :: "string \<Rightarrow> cluster \<Rightarrow> string option" where
  "latest_status sid w = (case last_option (statuses sid w) of None \<Rightarrow> None | Some s \<Rightarrow> s)"

named_theorems cluster_defs

lemmas [cluster_defs] = cluster_worker_def cluster_api_def cluster_store_def cluster_pool_def
  postgresAdapter_def PostgresClient_def wrap_err_def wrap_res_def cluster_Publish_def cluster_now_def
  cluster_redis_def redisAdapter_Incr_def redisAdapter_Get_def RedisClient_def Redis_Get_def Redis_Incr_def

lemma quiet_steps [simp]:
  "quiet w \<Longrightarrow> others_act w = w" "quiet w \<Longrightarrow> next_fault w = (None, w)"
  "quiet (tick_clock d w) = quiet w" "quiet (w\<lparr>cl_pg := db\<rparr>) = quiet w" "quiet (w\<lparr>cl_log := l\<rparr>) = quiet w"
  "quiet (w\<lparr>cl_published := p\<rparr>) = quiet w" "quiet (w\<lparr>cl_redis := c\<rparr>) = quiet w"
  "quiet (w\<lparr>cl_uuids := us\<rparr>) = quiet w" "quiet (w\<lparr>cl_ticks := ns\<rparr>) = quiet w"
  by (simp_all add: quiet_def others_act_def next_fault_def tick_clock_def)

section \<open>The steps of the worker in a quiet moment\<close>

lemma cluster_ok_tick: "cluster_ok w \<Longrightarrow> 0 \<le> d \<Longrightarrow> cluster_ok (tick_clock d w)"
  by (auto simp: cluster_ok_def tick_clock_def intro: pg_ok_mono)

lemma tick_clock_simps [simp]:
  "cl_pg (tick_clock d w) = cl_pg w" "cl_redis (tick_clock d w) = cl_redis w"
  "cl_published (tick_clock d w) = cl_published w" "cl_log (tick_clock d w) = cl_log w"
  "cl_clock (tick_clock d w) = cl_clock w + d" "cl_ticks (tick_clock d w) = cl_ticks w"
  "cl_uuids (tick_clock d w) = cl_uuids w" "cl_others (tick_clock d w) = cl_others w"
  "cl_faults (tick_clock d w) = cl_faults w" "statuses sid (tick_clock d w) = statuses sid w"
  "latest_status sid (tick_clock d w) = latest_status sid w"
  by (simp_all add: tick_clock_def statuses_def latest_status_def)

lemma latest_status_row:
  assumes "cluster_ok w"
  shows "latest_status sid w =
    (case latest_row sid (cl_pg w) of None \<Rightarrow> None | Some r \<Rightarrow> event_status r)"
  using assms by (simp add: cluster_ok_def latest_row_eq latest_status_def statuses_def last_option_def last_map)

lemma query_bytes_quiet:
  "quiet w \<Longrightarrow> query_bytes cluster_store latestScenarioQuery [VText sid] w =
     (case latest_row sid (cl_pg w) of
        None \<Rightarrow> (Inl PgxErrNoRows, tick_clock millisecond w)
      | Some r \<Rightarrow> (Inr (ev_payload r), tick_clock millisecond w))"
  by (simp add: query_bytes_def cluster_defs cluster_read_def pg_QueryRow_def one_row_def scan_bytes_def
      split: option.splits)

lemma latestScenarioStatus_quiet:
  assumes "quiet w" and "cluster_ok w" and "latest_status sid w = Some s"
  shows "latestScenarioStatus cluster_store sid w = (Inr s, tick_clock millisecond w)"
  using assms
  by (auto simp: latestScenarioStatus_def query_bytes_quiet latest_status_row event_status_def
      split: option.splits sum.splits)

lemma fold_ok: "pg_ok t db \<Longrightarrow> pg_ok t (fold (\<lambda>(i, b). insert_scenario_event t i b) es db)"
  by (induction es arbitrary: db) (auto intro: pg_ok_inserts)

text \<open>What one of our inserts into \<open>scenario_events\<close> does.\<close>

definition put_row :: "string \<Rightarrow> json \<Rightarrow> cluster \<Rightarrow> cluster" where
  "put_row sid j w = tick_clock millisecond
     (w\<lparr>cl_pg := insert_scenario_event (cl_clock w) sid (Doc j) (cl_pg w),
       cl_log := cl_log w @ [(insertScenarioQuery, [VText sid, VBytes (Doc j)])]\<rparr>)"

lemma put_row_simps [simp]:
  "cl_redis (put_row sid j w) = cl_redis w" "cl_published (put_row sid j w) = cl_published w"
  "cl_clock (put_row sid j w) = cl_clock w + millisecond" "quiet (put_row sid j w) = quiet w"
  "cl_uuids (put_row sid j w) = cl_uuids w" "cl_ticks (put_row sid j w) = cl_ticks w"
  by (simp_all add: put_row_def quiet_def)

lemma put_row_ok: "cluster_ok w \<Longrightarrow> cluster_ok (put_row sid j w)"
  unfolding put_row_def
  by (rule cluster_ok_tick) (auto simp: cluster_ok_def intro: pg_ok_inserts)

lemma put_row_statuses:
  "statuses i (put_row sid j w) =
   statuses i w @ (if sid = i then [map_option sc_Status
     (case dec_ScenarioResponse j zero_scenario of Inl e \<Rightarrow> None | Inr sc \<Rightarrow> Some sc)] else [])"
  by (simp add: put_row_def statuses_def of_scenario_insert event_status_def json_Unmarshal_def
      split: sum.splits)

lemma Exec_scenario_quiet:
  "quiet w \<Longrightarrow> st_Exec cluster_store insertScenarioQuery [VText sid, VBytes (Doc j)] w = (None, put_row sid j w)"
  by (simp add: cluster_defs cluster_Exec_def pg_Exec_def put_row_def)

lemma enc_response_created:
  "(\<exists>j. enc_ScenarioResponse sc = Inr j) \<longleftrightarrow> (\<exists>s. format_time (sc_CreatedAt sc) = Inr s)"
  by (auto simp: enc_ScenarioResponse_def enc_time_def split: sum.splits)

lemma appendScenarioStatus_quiet:
  assumes "quiet w" and "sc_CreatedAt sc \<noteq> 0" and "format_time (sc_CreatedAt sc) = Inr ts"
    and "profile_ints (sc_Profile sc)"
  shows "\<exists>j. appendScenarioStatus cluster_now cluster_store sc status w = (None, put_row (sc_ID sc) j w) \<and>
     dec_ScenarioResponse j zero_scenario = Inr (sc\<lparr>sc_Status := status\<rparr>)"
proof -
  obtain j where j: "enc_ScenarioResponse (sc\<lparr>sc_Status := status\<rparr>) = Inr j"
    using assms(3) enc_response_created [of "sc\<lparr>sc_Status := status\<rparr>"] by auto
  with assms have "dec_ScenarioResponse j zero_scenario = Inr (sc\<lparr>sc_Status := status\<rparr>)"
    by (intro dec_enc_ScenarioResponse) simp_all
  with j assms show ?thesis
    by (intro exI [of _ j]) (simp add: appendScenarioStatus_def is_zero_time_def Exec_scenario_quiet)
qed

end
