(* ===== verification/Cluster_Worker.thy ===== *)
theory Cluster_Worker
  imports Cluster
begin

text \<open>
  The worker on the cluster: what a handled message leaves behind, when nobody interferes, when a
  stop request arrives, and whatever happens.
\<close>

section \<open>Reporting\<close>

definition bump :: "string \<Rightarrow> (string \<Rightarrow> int) \<Rightarrow> string \<Rightarrow> int" where
  "bump key c = c(key := c key + 1)"

definition counted :: "ScenarioResponse \<Rightarrow> Result \<Rightarrow> (string \<Rightarrow> int) \<Rightarrow> string \<Rightarrow> int" where
  "counted sc r c =
     (let c1 = bump (''cp:ops:'' @ lp_WorkloadType (sc_Profile sc)) (bump ''cp:ops:total'' c)
      in if res_Error r = [] then c1 else bump ''cp:errors:total'' c1)"

definition reported :: "ScenarioResponse \<Rightarrow> Result \<Rightarrow> cluster \<Rightarrow> cluster \<Rightarrow> bool" where
  "reported sc r w w' \<longleftrightarrow>
     scenario_events (cl_pg w') = scenario_events (cl_pg w) \<and>
     cl_redis w' = counted sc r (cl_redis w) \<and>
     (\<exists>snap. metrics_snapshots (cl_pg w') = metrics_snapshots (cl_pg w) @
            [\<lparr>ev_id = snapshot_seq (cl_pg w) + 1, ev_scenario_id = [], ev_payload = Doc snap,
              ev_created_at = cl_clock w + 1\<rparr>] \<and>
        snapshot_json sc r (cl_clock w) = Inr snap \<and>
        cl_published w' = cl_published w @ [(resultsExchange, ''results.'' @ sc_ID sc, Doc snap)])"

lemma Incr_quiet:
  "quiet w \<Longrightarrow> wk_Incr cluster_worker key w = (None, w\<lparr>cl_redis := bump key (cl_redis w)\<rparr>)"
  by (simp add: cluster_defs bump_def)

lemma Publish_quiet:
  "quiet w \<Longrightarrow> wk_Publish cluster_worker ex key b w =
     (None, w\<lparr>cl_published := cl_published w @ [(ex, key, b)]\<rparr>)"
  by (simp add: cluster_defs)

lemma cluster_ok_fields [simp]:
  "cluster_ok (w\<lparr>cl_redis := c\<rparr>) = cluster_ok w" "cluster_ok (w\<lparr>cl_published := p\<rparr>) = cluster_ok w"
  "cluster_ok (w\<lparr>cl_log := l\<rparr>) = cluster_ok w"
  by (simp_all add: cluster_ok_def)

lemma reportResult_quiet:
  assumes q: "quiet w" and ok: "cluster_ok w" and ts: "format_time (cl_clock w) = Inr ts"
  obtains w' where "reportResult cluster_worker sc r w = (None, w')" and "quiet w'" and "cluster_ok w'"
    and "reported sc r w w'" and "cl_clock w \<le> cl_clock w'"
proof -
  obtain snap where snap: "snapshot_json sc r (cl_clock w) = Inr snap"
    using ts by (simp add: snapshot_json_def enc_time_def)
  define w1 where "w1 = tick_clock 1 w"
  define w2 where "w2 = tick_clock millisecond
    (w1\<lparr>cl_pg := insert_snapshot (cl_clock w1) (Doc snap) (cl_pg w1),
        cl_log := cl_log w1 @ [(metricsSnapshotInsert, [VBytes (Doc snap)])]\<rparr>)"
  define w3 where "w3 = w2\<lparr>cl_redis := counted sc r (cl_redis w2)\<rparr>"
  define w4 where "w4 = w3\<lparr>cl_published :=
    cl_published w3 @ [(resultsExchange, ''results.'' @ sc_ID sc, Doc snap)]\<rparr>"
  have now: "wk_now cluster_worker w = (cl_clock w, w1)"
    by (simp add: cluster_defs w1_def)
  have ins: "st_Exec (wk_store cluster_worker) metricsSnapshotInsert [VBytes (Doc snap)] w1 = (None, w2)"
    using q by (simp add: w2_def w1_def cluster_defs cluster_Exec_def pg_Exec_def)
  have q1: "quiet w1" "quiet w2" "quiet w3"
    using q by (simp_all add: w1_def w2_def w3_def)
  have ok2: "cluster_ok w2"
    unfolding w2_def using cluster_ok_tick [OF ok, of 1]
    by (intro cluster_ok_tick) (auto simp: cluster_ok_def w1_def intro: pg_ok_inserts)
  have "reportResult cluster_worker sc r w = (None, w4)"
    using q1
    by (simp add: reportResult_def now snap ins Incr_quiet Publish_quiet counted_def Let_def
        w3_def w4_def)
  moreover have "reported sc r w w4"
    using snap by (simp add: reported_def w4_def w3_def w2_def w1_def insert_snapshot_def)
  moreover have "quiet w4" "cluster_ok w4" "cl_clock w \<le> cl_clock w4"
    using q1 ok2 by (simp_all add: w4_def w3_def w2_def w1_def)
  ultimately show ?thesis
    by (blast intro: that)
qed

lemma reported_statuses [simp]: "reported sc r w w' \<Longrightarrow> statuses sid w' = statuses sid w"
  by (simp add: reported_def statuses_def)

section \<open>The end of a run\<close>

definition terminal_status :: "Result \<Rightarrow> string" where
  "terminal_status r = (if res_Error r \<noteq> [] then ''failed'' else ''completed'')"

lemma finishScenario_quiet:
  assumes "quiet w" and "cluster_ok w" and "format_time (cl_clock w) = Inr ts"
    and st: "latest_status (sc_ID sc) w = Some s"
    and sc: "sc_CreatedAt sc \<noteq> 0" "format_time (sc_CreatedAt sc) = Inr ts'" "profile_ints (sc_Profile sc)"
  obtains w1 w' where "finishScenario cluster_worker sc r w = (None, w')"
    and "reported sc r w w1" and "cl_redis w' = cl_redis w1" and "cl_published w' = cl_published w1"
    and "statuses (sc_ID sc) w' = statuses (sc_ID sc) w @
      (if isStoppedScenarioStatus s then [] else [Some (terminal_status r)])"
    and "quiet w'" and "cluster_ok w'"
proof -
  obtain w1 where rep: "reportResult cluster_worker sc r w = (None, w1)" and q: "quiet w1"
    and ok: "cluster_ok w1" and r: "reported sc r w w1"
    using reportResult_quiet [OF assms(1-3)] by blast
  from st r have st1: "latest_status (sc_ID sc) w1 = Some s"
    by (simp add: latest_status_def)
  let ?w2 = "tick_clock millisecond w1"
  have latest: "latestScenarioStatus (wk_store cluster_worker) (sc_ID sc) w1 = (Inr s, ?w2)"
    using latestScenarioStatus_quiet [OF q ok st1] by (simp add: cluster_worker_def)
  show ?thesis
  proof (cases "isStoppedScenarioStatus s")
    case True
    with rep latest have "finishScenario cluster_worker sc r w = (None, ?w2)"
      by (simp add: finishScenario_def)
    then show ?thesis
      by (rule that [OF _ r]) (use True r q ok in \<open>auto intro: cluster_ok_tick\<close>)
  next
    case False
    obtain j where j: "appendScenarioStatus cluster_now cluster_store sc (terminal_status r) ?w2 =
        (None, put_row (sc_ID sc) j ?w2)"
      "dec_ScenarioResponse j zero_scenario = Inr (sc\<lparr>sc_Status := terminal_status r\<rparr>)"
      using appendScenarioStatus_quiet [of ?w2 sc ts' "terminal_status r"] q sc by auto
    then have "finishScenario cluster_worker sc r w = (None, put_row (sc_ID sc) j ?w2)"
      using False rep latest by (simp add: finishScenario_def terminal_status_def cluster_worker_def Let_def)
    then show ?thesis
      by (rule that [OF _ r])
         (use False r q ok j(2) in \<open>auto simp: put_row_statuses intro!: cluster_ok_tick put_row_ok\<close>)
  qed
qed

section \<open>What a generator leaves alone\<close>

definition calm_step :: "cluster \<Rightarrow> cluster \<Rightarrow> bool" where
  "calm_step w w' \<longleftrightarrow> (quiet w \<and> cluster_ok w \<longrightarrow>
     quiet w' \<and> cluster_ok w' \<and> cl_clock w \<le> cl_clock w' \<and>
     scenario_events (cl_pg w') = scenario_events (cl_pg w) \<and>
     metrics_snapshots (cl_pg w') = metrics_snapshots (cl_pg w) \<and>
     cl_redis w' = cl_redis w \<and> cl_published w' = cl_published w)"

definition calm_run :: "cluster \<times> watch \<Rightarrow> cluster \<times> watch \<Rightarrow> bool" where
  "calm_run s s' \<longleftrightarrow> calm_step (fst s) (fst s')"

lemma calm_refl [simp]: "calm_step w w"
  by (simp add: calm_step_def)

lemma calm_trans: "calm_step w w1 \<Longrightarrow> calm_step w1 w2 \<Longrightarrow> calm_step w w2"
  by (auto simp: calm_step_def)

interpretation calm: frame calm_run
  by unfold_locales (auto simp: calm_run_def intro: calm_trans)

lemma calm_tick [simp]: "0 \<le> d \<Longrightarrow> calm_step w (tick_clock d w)"
  by (auto simp: calm_step_def intro: cluster_ok_tick)

lemma calm_ticks [simp]: "next_ticks w = (n, w1) \<Longrightarrow> calm_step w w1"
  by (auto simp: calm_step_def next_ticks_def cluster_ok_def split: list.splits)

lemma calm_read: "cluster_read f w = (x, w') \<Longrightarrow> calm_step w w'"
  using calm_tick [of millisecond w] by (auto simp: calm_step_def cluster_read_def)

lemma calm_query: "query_bytes cluster_store q args w = (x, w') \<Longrightarrow> calm_step w w'"
  by (auto simp: query_bytes_def cluster_defs split: prod.splits sum.splits dest: calm_read)

lemma calm_latest: "latestScenarioStatus cluster_store sid w = (x, w') \<Longrightarrow> calm_step w w'"
  by (auto simp: latestScenarioStatus_def split: prod.splits sum.splits dest!: calm_query)

lemma calm_watcher: "calm_run s (watcher_tick cluster_store sid s)"
  by (auto simp: watcher_tick_def calm_run_def split: prod.splits sum.splits dest: calm_latest)

lemma calm_watchers: "calm_run s ((watcher_tick cluster_store sid ^^ n) s)"
  by (induction n) (auto intro: calm.refl calm.trans [OF _ calm_watcher])

lemma calm_watch: "calm_run s (watchScenarioStop cluster_worker sid i s)"
proof -
  obtain n w1 where t: "next_ticks (fst s) = (n, w1)"
    by fastforce
  then have "calm_run s (w1, snd s)"
    by (simp add: calm_run_def)
  with t calm_watchers [of "(w1, snd s)" n sid] show ?thesis
    by (auto simp: watchScenarioStop_def cluster_worker_def intro: calm.trans)
qed

lemma calm_beside:
  assumes "\<And>c w. calm_step w (snd (f c w))"
  shows "calm_run s (snd (beside cluster_worker sid f s))"
proof -
  obtain w1 c where s1: "watchScenarioStop cluster_worker sid stopWatchInterval s = (w1, c)"
    by fastforce
  have "calm_run (w1, c) (snd (f (wt_canceled c) w1), c)"
    using assms by (simp add: calm_run_def)
  with calm_watch [of s sid stopWatchInterval] show ?thesis
    by (auto simp: beside_def s1 split: prod.splits intro: calm.trans)
qed

lemma calm_load_event: "calm_step w (snd (cluster_Exec insertLoadEventQuery args w))"
  using calm_tick [of millisecond w]
  by (auto simp: calm_step_def cluster_Exec_def pg_Exec_def cluster_ok_def insert_load_event_def tick_clock_def
      quiet_def next_fault_def others_act_def split: list.splits sql_val.splits bytes.splits intro: pg_ok_inserts(2) [unfolded insert_load_event_def] pg_ok_mono)

lemma calm_env: "env_keeps calm_run (work_env cluster_worker sid)"
proof -
  have sleep: "calm_run s (snd (env_sleep (work_env cluster_worker sid) d s))" for d s
  proof -
    obtain w1 c1 where s1: "watchScenarioStop cluster_worker sid stopWatchInterval s = (w1, c1)"
      by fastforce
    have r1: "calm_run s (w1, c1)"
      using calm_watch [of s sid stopWatchInterval] s1 by simp
    let ?t = "(wk_sleep cluster_worker d w1, c1)"
    obtain w2 c2 where s2: "watchScenarioStop cluster_worker sid stopWatchInterval ?t = (w2, c2)"
      by fastforce
    have "calm_run (w1, c1) ?t"
      by (simp add: calm_run_def cluster_worker_def)
    moreover have "calm_run ?t (w2, c2)"
      using calm_watch [of ?t sid stopWatchInterval] s2 by simp
    ultimately have r2: "calm_run s (w2, c2)"
      using r1 by (blast intro: calm.trans)
    show ?thesis
      using r1 r2 by (simp add: work_env_def s1 s2)
  qed
  have "calm_step w (snd (next_uuid w))" for w
    by (auto simp: next_uuid_def calm_step_def cluster_ok_def split: list.splits)
  then show ?thesis
    unfolding env_keeps_def
    by (auto intro!: sleep)
       (auto simp: work_env_def cluster_worker_def [symmetric] intro!: calm_beside,
        auto simp: cluster_worker_def cluster_now_def)
qed

lemma calm_store: "store_keeps calm_run (work_store cluster_worker sid)"
proof -
  have exec: "calm_step w (snd (st_Exec (ctx_store cluster_worker c) insertLoadEventQuery a w))" for c w a
    using calm_load_event [of w a] by (simp add: ctx_store_def cluster_defs canceled_pool_def)
  have row: "calm_step w (snd (st_QueryRow (ctx_store cluster_worker c) selectLoadEventQuery a w))" for c w a
    using calm_read [of "pg_QueryRow selectLoadEventQuery a" w, OF surjective_pairing]
    by (simp add: ctx_store_def cluster_defs canceled_pool_def)
  show ?thesis
    unfolding store_keeps_def work_store_def by (auto intro!: calm_beside exec row)
qed

lemma calm_generators:
  assumes "buildGenerators (work_env cluster_worker sid) wt = Some gen"
  shows "calm.kept s (gen (scenario_params (work_store cluster_worker sid) sc) s)"
proof -
  have "calm.store_option_keeps (scenario_params (work_store cluster_worker sid) sc)"
    using calm_store by (simp add: calm.store_option_keeps_def scenario_params_def Let_def)
  with assms calm_env [of sid] show ?thesis
    by (auto simp: buildGenerators_def intro: calm.CPU_kept calm.Memory_kept calm.DBWrite_kept
        calm.DBRead_kept calm.Mixed_kept split: if_splits)
qed

lemma generators_contract:
  "buildGenerators e wt = Some gen \<Longrightarrow> generator gen"
  using generator_Mixed [OF generator_CPU generator_DBWrite generator_DBRead, of e e e e]
  by (auto simp: buildGenerators_def mixed_generators_def intro: generator_CPU generator_Memory
      generator_DBWrite generator_DBRead split: if_splits)

section \<open>The handler returns\<close>

lemma cluster_worker_sel [simp]:
  "wk_store cluster_worker = cluster_store" "wk_now cluster_worker = cluster_now"
  "wk_sleep cluster_worker d = tick_clock (max 0 d)" "wk_rand cluster_worker n w = (Inr (n div 2), w)"
  "wk_uuid cluster_worker = next_uuid" "wk_histogram cluster_worker w = (None, w)"
  "wk_ticks cluster_worker d = next_ticks"
  by (simp_all add: cluster_worker_def)

text \<open>Whatever the other clients and the faults do, no call turns the clock back.\<close>

lemma clock_helpers [simp]:
  "cl_clock (others_act w) = cl_clock w" "next_fault w = (f, w1) \<Longrightarrow> cl_clock w1 = cl_clock w"
  "next_ticks w = (n, w1) \<Longrightarrow> cl_clock w1 = cl_clock w" "cl_clock (snd (next_uuid w)) = cl_clock w"
  by (auto simp: others_act_def next_fault_def next_ticks_def next_uuid_def split: list.splits)

lemma clock_read: "cluster_read f w = (x, w') \<Longrightarrow> cl_clock w \<le> cl_clock w'"
  by (auto simp: cluster_read_def split: prod.splits option.splits dest!: clock_helpers(2))

lemma clock_Exec: "cluster_Exec q args w = (x, w') \<Longrightarrow> cl_clock w \<le> cl_clock w'"
  by (auto simp: cluster_Exec_def split: prod.splits option.splits dest!: clock_helpers(2))

lemma clock_latest: "latestScenarioStatus cluster_store sid w = (x, w') \<Longrightarrow> cl_clock w \<le> cl_clock w'"
  by (auto simp: latestScenarioStatus_def query_bytes_def cluster_defs split: prod.splits sum.splits
      dest: clock_read)

abbreviation run_clock :: "cluster \<times> watch \<Rightarrow> time" where
  "run_clock s \<equiv> cl_clock (fst s)"

lemma clock_watchers: "run_clock s \<le> run_clock ((watcher_tick cluster_store sid ^^ n) s)"
proof (induction n)
  case (Suc n)
  have "run_clock s' \<le> run_clock (watcher_tick cluster_store sid s')" for s'
    by (auto simp: watcher_tick_def split: prod.splits sum.splits dest: clock_latest)
  from order_trans [OF Suc this] show ?case
    by simp
qed simp

lemma clock_watch: "watchScenarioStop cluster_worker sid i s = (w', c) \<Longrightarrow> run_clock s \<le> cl_clock w'"
proof -
  assume a: "watchScenarioStop cluster_worker sid i s = (w', c)"
  obtain n w1 where n: "next_ticks (fst s) = (n, w1)"
    by fastforce
  with a clock_watchers [of "(w1, snd s)" n sid] clock_helpers(3) [OF n] show ?thesis
    by (simp add: watchScenarioStop_def cluster_worker_def)
qed

lemma clock_beside:
  assumes "\<And>c w. cl_clock w \<le> cl_clock (snd (f c w))"
  shows "run_clock s \<le> run_clock (snd (beside cluster_worker sid f s))"
proof -
  obtain w1 c where s1: "watchScenarioStop cluster_worker sid stopWatchInterval s = (w1, c)"
    by fastforce
  from clock_watch [OF s1] assms [of w1 "wt_canceled c"] show ?thesis
    by (auto simp: beside_def s1 split: prod.splits)
qed

lemma ticking_work: "ticking (work_env cluster_worker sid) run_clock"
  unfolding ticking_def
proof (intro conjI allI)
  fix s d n
  let ?e = "work_env cluster_worker sid"
  obtain w1 c1 where s1: "watchScenarioStop cluster_worker sid stopWatchInterval s = (w1, c1)"
    by fastforce
  obtain w2 c2 where s2: "watchScenarioStop cluster_worker sid stopWatchInterval
      (wk_sleep cluster_worker d w1, c1) = (w2, c2)"
    by fastforce
  from clock_watch [OF s1] show "run_clock s \<le> fst (env_now ?e s)" "run_clock s < run_clock (snd (env_now ?e s))"
    by (simp_all add: work_env_def beside_def s1 cluster_now_def)
  from clock_watch [OF s1] clock_watch [OF s2] show "run_clock s \<le> run_clock (snd (env_sleep ?e d s))"
    using s2 by (auto simp: work_env_def s1)
  show "run_clock s \<le> run_clock (snd (env_ctx ?e s))" "run_clock s \<le> run_clock (snd (env_rand ?e n s))"
    "run_clock s \<le> run_clock (snd (env_uuid ?e s))" "run_clock s \<le> run_clock (snd (env_histogram ?e s))"
    by (simp_all add: work_env_def clock_beside)
qed

lemma work_store_time: "store_ok run_clock (scenario_params (work_store cluster_worker sid) sc)"
proof -
  have exec: "cl_clock w \<le> cl_clock (snd (st_Exec (ctx_store cluster_worker c) q a w))" for c w q a
    using clock_Exec [of q a w, OF surjective_pairing]
    by (simp add: ctx_store_def cluster_defs canceled_pool_def)
  have row: "cl_clock w \<le> cl_clock (snd (st_QueryRow (ctx_store cluster_worker c) q a w))" for c w q a
    using clock_read [of "pg_QueryRow q a" w, OF surjective_pairing]
    by (simp add: ctx_store_def cluster_defs canceled_pool_def)
  have rows: "cl_clock w \<le> cl_clock (snd (st_Query (ctx_store cluster_worker c) q a w))" for c w q a
    using clock_read [of "pg_Query q a" w, OF surjective_pairing]
    by (auto simp: ctx_store_def cluster_defs canceled_pool_def split: prod.splits sum.splits)
  show ?thesis
    unfolding store_ok_def scenario_params_def Let_def store_keeps_time_def work_store_def
    by (simp only: WorkloadParams.select_convs sql_store.select_convs option.case)
       (intro conjI allI clock_beside exec row rows)
qed

lemma generators_return:
  assumes "buildGenerators (work_env cluster_worker sid) (lp_WorkloadType (sc_Profile sc)) = Some gen"
    and "lp_WorkloadType (sc_Profile sc) = ''mem_alloc'' \<longrightarrow>
      lp_PayloadSizeBytes (sc_Profile sc) < 2 ^ 48"
  shows "gen (scenario_params (work_store cluster_worker sid) sc) s \<noteq> None"
proof -
  let ?p = "scenario_params (work_store cluster_worker sid) sc"
  let ?e = "work_env cluster_worker sid"
  note later = CPU_returns [OF ticking_work] DBWrite_returns [OF ticking_work work_store_time]
    DBRead_returns [OF ticking_work work_store_time] Mixed_returns [OF ticking_work work_store_time]
  have some: "ret \<noteq> None" if "returns_later run_clock s ret" for ret :: "((Result \<times> goerr option) \<times> cluster \<times> watch) option"
    using that by (cases ret) (auto simp: returns_later_def)
  have mem: "Memory_Execute ?e ?p s \<noteq> None" if "lp_PayloadSizeBytes (sc_Profile sc) < 2 ^ 48"
  proof -
    let ?m = "wp_AllocMB ?p"
    have m: "1 \<le> ?m" "?m < 2 ^ 28"
      using that by (auto simp: scenario_params_def Let_def go_div_def sgn_if)
    have "wrap64 (?m * 1024) = ?m * 1024" "wrap64 (?m * 1024 * 1024) = ?m * 1024 * 1024"
      using m by (auto intro!: wrap64_id in_int64_range)
    with m show ?thesis
      by (auto simp: Memory_Execute_def validateDuration_def Let_def make_panics_def split: prod.splits option.splits)
  qed
  show ?thesis
  proof -
    have "CPU_Execute ?e ?p s \<noteq> None" "DBWrite_Execute ?e ?p s \<noteq> None" "DBRead_Execute ?e ?p s \<noteq> None"
      "Mixed_Execute ?e (mixed_generators ?e) ?p s \<noteq> None"
      by (rule some, rule later)+
    with assms mem show ?thesis
      by (auto simp: buildGenerators_def workload_type_defs simp del: not_None_eq split: if_splits)
  qed
qed

lemma handler_returns:
  assumes "\<And>sc. json_Unmarshal dec_ScenarioResponse body zero_scenario = Inr sc \<Longrightarrow>
      lp_WorkloadType (sc_Profile sc) = ''mem_alloc'' \<Longrightarrow> lp_PayloadSizeBytes (sc_Profile sc) < 2 ^ 48"
  shows "\<exists>r w'. worker_handler cluster_worker body w = Some (r, w')"
proof -
  have "worker_handler cluster_worker body w \<noteq> None"
  proof (cases "json_Unmarshal dec_ScenarioResponse body zero_scenario")
    case (Inr sc)
    show ?thesis
    proof (cases "buildGenerators (work_env cluster_worker (sc_ID sc)) (lp_WorkloadType (sc_Profile sc))")
      case (Some gen)
      have "gen (scenario_params (work_store cluster_worker (sc_ID sc)) sc) s \<noteq> None" for s
        using assms Inr by (intro generators_return [OF Some]) simp
      with Inr Some show ?thesis
        by (auto simp: worker_handler_def handleMessage_def runScenario_def simp del: not_None_eq
              split: sum.splits option.splits prod.splits if_splits)
    qed (simp add: worker_handler_def handleMessage_def Inr)
  qed (simp add: worker_handler_def handleMessage_def)
  then show ?thesis
    by auto
qed


text \<open>
  C19. The worker always finishes a message: with any body, any interference by other clients, any
  failing calls and any stop requests, \<open>handleMessage\<close> returns (every timed loop ends), unless a memory
  scenario asks for 2 ^ 48 bytes or more, which makes the allocation panic.
\<close>

theorem worker_handler_returns:
  assumes "\<And>sc. json_Unmarshal dec_ScenarioResponse body zero_scenario = Inr sc \<Longrightarrow>
      lp_WorkloadType (sc_Profile sc) = ''mem_alloc'' \<Longrightarrow> lp_PayloadSizeBytes (sc_Profile sc) < 2 ^ 48"
  shows "\<exists>r w'. worker_handler cluster_worker body w = Some (r, w')"
  using assms by (rule handler_returns)

section \<open>A run that nobody disturbs\<close>

lemma reportResult_late:
  assumes "format_time (cl_clock w) = Inl e"
  shows "finishScenario cluster_worker sc r w =
    (Some (Wrapf ''report result'' (Wrapf ''marshal snapshot'' e)), tick_clock 1 w)"
  using assms
  by (simp add: finishScenario_def reportResult_def snapshot_json_def enc_time_def cluster_now_def)

text \<open>
  The end of a run: a nil error, one terminal status, the run counted, and one result published, which
  says what the result said and at what time.
\<close>

definition run_ends :: "ScenarioResponse \<Rightarrow> cluster \<Rightarrow> goerr option \<times> cluster \<Rightarrow> bool" where
  "run_ends sc w out \<longleftrightarrow>
     (\<exists>res snap now. fst out = None \<and>
        statuses (sc_ID sc) (snd out) = statuses (sc_ID sc) w @ [Some (terminal_status res)] \<and>
        cl_redis (snd out) = counted sc res (cl_redis w) \<and>
        cl_published (snd out) = cl_published w @ [(resultsExchange, ''results.'' @ sc_ID sc, Doc snap)] \<and>
        snapshot_json sc res now = Inr snap \<and> cl_clock w \<le> now)"

text \<open>Until the end of year 9999 the snapshot can be written, so a run that ends by then ends so.\<close>

definition run_ends_in_time :: "ScenarioResponse \<Rightarrow> cluster \<Rightarrow> goerr option \<times> cluster \<Rightarrow> bool" where
  "run_ends_in_time sc w out \<longleftrightarrow> (cl_clock (snd out) < year_start 10000 \<longrightarrow> run_ends sc w out)"

lemma finishScenario_ends:
  assumes "quiet w" and "cluster_ok w" and "latest_status (sc_ID sc) w = Some s"
    and "\<not> isStoppedScenarioStatus s"
    and "sc_CreatedAt sc \<noteq> 0" "format_time (sc_CreatedAt sc) = Inr ts'" "profile_ints (sc_Profile sc)"
    and "year_start 0 \<le> cl_clock w"
  shows "run_ends_in_time sc w (finishScenario cluster_worker sc r w)"
proof (cases "format_time (cl_clock w)")
  case (Inl e)
  with assms(8) have "year_start 10000 \<le> cl_clock w"
    using format_time_ok_iff [of "cl_clock w"] by auto
  with reportResult_late [OF Inl] show ?thesis
    by (simp add: run_ends_in_time_def)
next
  case (Inr ts)
  obtain w1 w' where "finishScenario cluster_worker sc r w = (None, w')" and "reported sc r w w1"
    and "cl_redis w' = cl_redis w1" and "cl_published w' = cl_published w1"
    and "statuses (sc_ID sc) w' = statuses (sc_ID sc) w @ [Some (terminal_status r)]"
    by (rule finishScenario_quiet [OF assms(1,2) Inr assms(3,5-7), of r]) (use assms(4) in simp)
  then show ?thesis
    by (fastforce simp: run_ends_in_time_def run_ends_def reported_def)
qed

lemma run_ends_same:
  assumes "run_ends_in_time sc w3 out" and "statuses (sc_ID sc) w3 = statuses (sc_ID sc) w"
    and "cl_redis w3 = cl_redis w" and "cl_published w3 = cl_published w" and "cl_clock w \<le> cl_clock w3"
  shows "run_ends_in_time sc w out"
  using assms unfolding run_ends_in_time_def run_ends_def by (auto dest: order_trans)

lemma runScenario_ends:
  assumes gen: "buildGenerators (work_env cluster_worker (sc_ID sc)) (lp_WorkloadType (sc_Profile sc)) = Some gen"
    and q: "quiet w" and ok: "cluster_ok w" and st: "latest_status (sc_ID sc) w = Some s"
    and s: "\<not> isStoppedScenarioStatus s"
    and sc: "sc_CreatedAt sc \<noteq> 0" "format_time (sc_CreatedAt sc) = Inr ts'" "profile_ints (sc_Profile sc)"
    and late: "year_start 0 \<le> cl_clock w"
    and run: "runScenario cluster_worker gen sc w = Some out"
  shows "run_ends_in_time sc w out"
proof -
  let ?p = "scenario_params (work_store cluster_worker (sc_ID sc)) sc"
  obtain result err w3 c where g: "gen ?p (w, new_watch) = Some ((result, err), w3, c)"
    using run by (cases "gen ?p (w, new_watch)") (auto simp: runScenario_def)
  have "calm_step w w3"
    using calm_generators [OF gen, of "(w, new_watch)" sc] g by (simp add: calm_run_def)
  with q ok have w3: "quiet w3" "cluster_ok w3" "scenario_events (cl_pg w3) = scenario_events (cl_pg w)"
    "cl_redis w3 = cl_redis w" "cl_published w3 = cl_published w" "cl_clock w \<le> cl_clock w3"
    by (auto simp: calm_step_def)
  with late have late3: "year_start 0 \<le> cl_clock w3"
    by simp
  have same: "statuses (sc_ID sc) w3 = statuses (sc_ID sc) w"
    by (simp add: statuses_def w3(3))
  with st have st3: "latest_status (sc_ID sc) w3 = Some s"
    by (simp add: latest_status_def)
  let ?w4 = "tick_clock millisecond w3"
  have latest: "latestScenarioStatus cluster_store (sc_ID sc) w3 = (Inr s, ?w4)"
    by (rule latestScenarioStatus_quiet [OF w3(1,2) st3])
  have ends3: "run_ends_in_time sc w (finishScenario cluster_worker sc r w3)" for r
    by (rule run_ends_same [OF finishScenario_ends [OF w3(1,2) st3 s sc late3] same w3(4-6)])
  have ends4: "run_ends_in_time sc w (finishScenario cluster_worker sc r ?w4)" for r
    by (rule run_ends_same [OF finishScenario_ends [OF _ _ _ s sc]])
       (use w3 st3 same late3 in \<open>auto intro: cluster_ok_tick\<close>)
  show ?thesis
  proof (cases err)
    case None
    with run g have "out = finishScenario cluster_worker sc result w3"
      by (simp add: runScenario_def)
    then show ?thesis
      by (simp add: ends3)
  next
    case (Some e)
    let ?r = "result\<lparr>res_Error := error_string e\<rparr>"
    from run g Some latest s
    have "out = finishScenario cluster_worker sc ?r w3 \<or> out = finishScenario cluster_worker sc ?r ?w4"
      by (simp add: runScenario_def split: if_splits)
    then show ?thesis
      using ends3 ends4 by blast
  qed
qed

lemma handler_runs:
  assumes "json_Unmarshal dec_ScenarioResponse body zero_scenario = Inr sc"
    and "lp_WorkloadType (sc_Profile sc) \<in> {''cpu_burn'', ''mem_alloc'', ''db_write'', ''db_read'', ''mixed''}"
    and "lp_PayloadSizeBytes (sc_Profile sc) < 2 ^ 48"
    and q: "quiet w" and ok: "cluster_ok w"
    and st: "latest_status (sc_ID sc) w = Some s" "\<not> isStoppedScenarioStatus s"
    and sc: "sc_CreatedAt sc \<noteq> 0" "format_time (sc_CreatedAt sc) = Inr ts"
    and late: "year_start 0 \<le> cl_clock w"
  shows "\<exists>out w1. worker_handler cluster_worker body w = Some out \<and>
     statuses (sc_ID sc) w1 = statuses (sc_ID sc) w @ [Some ''running''] \<and>
     cl_redis w1 = cl_redis w \<and> cl_published w1 = cl_published w \<and> cl_clock w \<le> cl_clock w1 \<and>
     run_ends_in_time sc w1 out"
proof -
  obtain gen where gen: "buildGenerators (work_env cluster_worker (sc_ID sc)) (lp_WorkloadType (sc_Profile sc)) = Some gen"
    using assms(2) by (auto simp: buildGenerators_def workload_type_defs)
  have ints: "profile_ints (sc_Profile sc)"
    using assms(1) by (rule unmarshal_ints)
  let ?w1 = "tick_clock millisecond w"
  obtain j where j: "appendScenarioStatus cluster_now cluster_store sc ''running'' ?w1 = (None, put_row (sc_ID sc) j ?w1)"
    "dec_ScenarioResponse j zero_scenario = Inr (sc\<lparr>sc_Status := ''running''\<rparr>)"
    using appendScenarioStatus_quiet [of ?w1 sc ts "''running''"] q sc ints by auto
  let ?w2 = "put_row (sc_ID sc) j ?w1"
  have st2: "statuses (sc_ID sc) ?w2 = statuses (sc_ID sc) w @ [Some ''running'']"
    by (simp add: put_row_statuses j(2))
  have handler: "worker_handler cluster_worker body w = runScenario cluster_worker gen sc ?w2"
    using assms(1) gen latestScenarioStatus_quiet [OF q ok st(1)] st(2) j(1)
    by (simp add: worker_handler_def handleMessage_def)
  moreover obtain out where out: "runScenario cluster_worker gen sc ?w2 = Some out"
    using handler_returns [of body w] assms(1,3) handler by auto
  moreover have "run_ends_in_time sc ?w2 out"
  proof (rule runScenario_ends [OF gen _ _ _ _ sc ints _ out])
    show "latest_status (sc_ID sc) ?w2 = Some ''running''"
      by (simp add: latest_status_def st2)
    show "\<not> isStoppedScenarioStatus ''running''"
      by code_simp
  qed (use q ok late in \<open>auto intro!: put_row_ok cluster_ok_tick\<close>)
  ultimately show ?thesis
    using st2 by (intro exI [of _ out] exI [of _ ?w2]) simp
qed

lemma year_start_0: "year_start 0 \<le> 0"
  by code_simp


text \<open>
  C20. A scenario that is not stopped runs to its end: when no other client interferes and nothing
  fails, the handler of its message appends \<open>running\<close> and then one terminal status, counts the run
  in Redis (and the error, if there was one), publishes one result, and returns nil, so that the
  message is acknowledged; all of this under the one condition that the handler is done before the
  clock reaches year 10000, which the snapshot of the result cannot hold.
\<close>

theorem worker_runs_to_the_end:
  assumes "json_Unmarshal dec_ScenarioResponse body zero_scenario = Inr sc"
    and "lp_WorkloadType (sc_Profile sc) \<in> {''cpu_burn'', ''mem_alloc'', ''db_write'', ''db_read'', ''mixed''}"
    and "lp_PayloadSizeBytes (sc_Profile sc) < 2 ^ 48"
    and q: "quiet w" and ok: "cluster_ok w"
    and st: "latest_status (sc_ID sc) w = Some s" "\<not> isStoppedScenarioStatus s"
    and sc: "sc_CreatedAt sc \<noteq> 0" "format_time (sc_CreatedAt sc) = Inr ts"
    and "0 \<le> cl_clock w"
  shows "\<exists>out w1. worker_handler cluster_worker body w = Some out \<and>
     statuses (sc_ID sc) w1 = statuses (sc_ID sc) w @ [Some ''running''] \<and>
     cl_redis w1 = cl_redis w \<and> cl_published w1 = cl_published w \<and>
     (cl_clock (snd out) < year_start 10000 \<longrightarrow> run_ends sc w1 out)"
  using handler_runs [OF assms(1-9)] assms(10) year_start_0 by (auto simp: run_ends_in_time_def)

section \<open>Stop requests\<close>

text \<open>
  What the watcher's status query meets when it is made at \<open>w\<close>: the other clients act first, the query
  may fail, and otherwise it reads the latest status. \<open>sees_stop\<close> is a query that succeeds and shows a
  stop, \<open>after_query\<close> what it leaves behind.
\<close>

definition sees_stop :: "string \<Rightarrow> cluster \<Rightarrow> bool" where
  "sees_stop sid w \<longleftrightarrow> fst (next_fault (others_act w)) = None \<and>
     (case latest_status sid (others_act w) of None \<Rightarrow> False | Some s \<Rightarrow> isStoppedScenarioStatus s)"

definition after_query :: "cluster \<Rightarrow> cluster" where
  "after_query w = tick_clock millisecond (snd (next_fault (others_act w)))"

lemma others_ok: "cluster_ok w \<Longrightarrow> cluster_ok (others_act w)"
  by (cases "cl_others w") (simp_all add: others_act_def cluster_ok_def fold_ok)

lemma after_query_ok: "cluster_ok w \<Longrightarrow> cluster_ok (after_query w)"
  unfolding after_query_def
  by (rule cluster_ok_tick, drule others_ok, cases "cl_faults (others_act w)")
     (simp_all add: next_fault_def cluster_ok_def)

lemma latest_at:
  assumes "cluster_ok w"
  shows "\<exists>x. latestScenarioStatus cluster_store sid w = (x, after_query w) \<and>
    ((\<exists>s. x = Inr s \<and> isStoppedScenarioStatus s) \<longleftrightarrow> sees_stop sid w)"
proof -
  obtain f w1 where f: "next_fault (others_act w) = (f, w1)"
    by fastforce
  then have pg: "cl_pg w1 = cl_pg (others_act w)"
    by (auto simp: next_fault_def split: list.splits)
  have row: "latest_status sid (others_act w) =
      (case latest_row sid (cl_pg (others_act w)) of None \<Rightarrow> None | Some r \<Rightarrow> event_status r)"
    by (rule latest_status_row [OF others_ok [OF assms]])
  have query: "query_bytes cluster_store latestScenarioQuery [VText sid] w =
      (case f of Some err \<Rightarrow> Inl err
       | None \<Rightarrow> (case latest_row sid (cl_pg (others_act w)) of None \<Rightarrow> Inl PgxErrNoRows | Some r \<Rightarrow> Inr (ev_payload r)),
       after_query w)"
    by (cases f; cases "latest_row sid (cl_pg (others_act w))")
       (simp_all add: query_bytes_def cluster_defs cluster_read_def f after_query_def pg pg_QueryRow_def one_row_def
        scan_bytes_def)
  show ?thesis
  proof (cases f)
    case (Some err)
    then show ?thesis
      by (simp add: latestScenarioStatus_def query sees_stop_def f)
  next
    case None
    show ?thesis
    proof (cases "latest_row sid (cl_pg (others_act w))")
      case (Some r)
      with None show ?thesis
        by (cases "json_Unmarshal dec_ScenarioResponse (ev_payload r) zero_scenario")
           (simp_all add: latestScenarioStatus_def query sees_stop_def f row event_status_def)
    qed (simp add: None latestScenarioStatus_def query sees_stop_def f row)
  qed
qed

lemma watcher_tick_sees:
  assumes "cluster_ok w" and "\<not> wt_done c" and "\<not> wt_canceled c"
  shows "watcher_tick cluster_store sid (w, c) =
    (after_query w, if sees_stop sid w then \<lparr>wt_done = True, wt_canceled = True\<rparr> else c)"
  using latest_at [OF assms(1), of sid] assms(2,3) by (auto simp: watcher_tick_def split: sum.splits)

lemma watcher_done: "wt_done (snd s) \<Longrightarrow> (watcher_tick store sid ^^ n) s = s"
  by (induction n) (simp_all add: watcher_tick_def)

lemma watcher_ticks_see:
  assumes "cluster_ok w" and "\<not> wt_done c" and "\<not> wt_canceled c"
  shows "wt_canceled (snd ((watcher_tick cluster_store sid ^^ n) (w, c))) \<longleftrightarrow>
    (\<exists>k < n. sees_stop sid ((after_query ^^ k) w))"
  using assms(1)
proof (induction n arbitrary: w)
  case (Suc n)
  have ticks: "(watcher_tick cluster_store sid ^^ Suc n) (w, c) =
      (watcher_tick cluster_store sid ^^ n) (watcher_tick cluster_store sid (w, c))"
    by (simp only: funpow_Suc_right o_apply)
  show ?case
  proof (cases "sees_stop sid w")
    case True
    then show ?thesis
      unfolding ticks watcher_tick_sees [OF Suc.prems assms(2,3)]
      by (auto simp: watcher_done intro!: exI [of _ 0])
  next
    case False
    have "(\<exists>k < Suc n. sees_stop sid ((after_query ^^ k) w)) \<longleftrightarrow>
        (\<exists>k < n. sees_stop sid ((after_query ^^ k) (after_query w)))"
      using False by (auto simp: Ex_less_Suc2 funpow_swap1)
    with False Suc.IH [OF after_query_ok [OF Suc.prems]] show ?thesis
      unfolding ticks watcher_tick_sees [OF Suc.prems assms(2,3)] by simp
  qed
qed (simp add: assms)

text \<open>
  C28. The stop watcher cancels exactly when it should: when the generator polls its context, it gets
  \<open>context.Canceled\<close> if and only if the watcher canceled it before, or one of the ticks since then came
  with a status query that succeeded and showed a stop as the latest status. A query that fails is
  skipped, the ticks after it count, and the other clients may change the scenario between two ticks.
\<close>

theorem watcher_cancels_iff:
  assumes "cluster_ok w" and "next_ticks w = (n, w1)" and "wt_done c = wt_canceled c"
  shows "fst (env_ctx (work_env cluster_worker sid) (w, c)) =
    (if wt_canceled c \<or> (\<exists>k < n. sees_stop sid ((after_query ^^ k) w1)) then Some ContextCanceled else None)"
proof -
  have ok: "cluster_ok w1"
    using assms(1,2) by (cases "cl_ticks w") (auto simp: next_ticks_def cluster_ok_def)
  have "wt_canceled (snd ((watcher_tick cluster_store sid ^^ n) (w1, c))) \<longleftrightarrow>
      wt_canceled c \<or> (\<exists>k < n. sees_stop sid ((after_query ^^ k) w1))"
    using assms(3) watcher_ticks_see [OF ok, where c = c and n = n and sid = sid]
      watcher_done [where s = "(w1, c)" and n = n and store = cluster_store and sid = sid]
    by (cases "wt_canceled c") auto
  moreover obtain w2 c2 where s2: "(watcher_tick cluster_store sid ^^ n) (w1, c) = (w2, c2)"
    by fastforce
  moreover have "watchScenarioStop cluster_worker sid stopWatchInterval (w, c) = (w2, c2)"
    using assms(2) s2 by (simp add: watchScenarioStop_def)
  ultimately show ?thesis
    by (simp add: work_env_def beside_def)
qed

text \<open>
  C7. A stop that is visible when the generator returns wins: whatever the generator did and returned,
  the handler appends no terminal status after it.
\<close>

theorem stop_during_run_wins:
  assumes "gen (scenario_params (work_store cluster_worker (sc_ID sc)) sc) (w, new_watch) =
      Some ((result, err), w3, c)"
    and "quiet w3" and "cluster_ok w3"
    and "latest_status (sc_ID sc) w3 = Some s" and "isStoppedScenarioStatus s"
  shows "\<exists>out. runScenario cluster_worker gen sc w = Some out \<and>
     statuses (sc_ID sc) (snd out) = statuses (sc_ID sc) w3"
proof -
  have fin: "statuses (sc_ID sc) (snd (finishScenario cluster_worker sc r w3)) = statuses (sc_ID sc) w3" for r
  proof (cases "format_time (cl_clock w3)")
    case (Inl e)
    then show ?thesis
      by (simp add: reportResult_late)
  next
    case (Inr ts)
    obtain w1 where rep: "reportResult cluster_worker sc r w3 = (None, w1)" and w1: "quiet w1" "cluster_ok w1"
      "reported sc r w3 w1"
      using reportResult_quiet [OF assms(2,3) Inr] by blast
    have "latest_status (sc_ID sc) w1 = Some s"
      using assms(4) w1(3) by (simp add: latest_status_def)
    with rep latestScenarioStatus_quiet [OF w1(1,2) this] assms(5) w1(3) show ?thesis
      by (simp add: finishScenario_def)
  qed
  have latest: "latestScenarioStatus cluster_store (sc_ID sc) w3 = (Inr s, tick_clock millisecond w3)"
    by (rule latestScenarioStatus_quiet [OF assms(2-4)])
  show ?thesis
    using assms(1,5) fin latest by (cases err) (auto simp: runScenario_def simp del: split_paired_Ex)
qed

text \<open>
  C18. A stop that arrives between the first status check and the \<open>running\<close> event is lost: the handler
  appends \<open>running\<close> after it, the run is not canceled, and, if the handler is done before the clock
  reaches year 10000, a terminal status follows, although the request was stored first.
\<close>

theorem stop_before_running_is_lost:
  assumes "json_Unmarshal dec_ScenarioResponse body zero_scenario = Inr sc"
    and "lp_WorkloadType (sc_Profile sc) \<in> {''cpu_burn'', ''mem_alloc'', ''db_write'', ''db_read'', ''mixed''}"
    and "lp_PayloadSizeBytes (sc_Profile sc) < 2 ^ 48"
    and "cl_faults w = []" and "cl_others w = [[], [(sc_ID sc, Doc stop)]]" and ok: "cluster_ok w"
    and st: "latest_status (sc_ID sc) w = Some s" "\<not> isStoppedScenarioStatus s"
    and stop: "dec_ScenarioResponse stop zero_scenario = Inr stopped" "isStoppedScenarioStatus (sc_Status stopped)"
    and sc: "sc_CreatedAt sc \<noteq> 0" "format_time (sc_CreatedAt sc) = Inr ts"
    and late: "0 \<le> cl_clock w"
  shows "\<exists>out w1. worker_handler cluster_worker body w = Some out \<and>
     statuses (sc_ID sc) w1 = statuses (sc_ID sc) w @ [Some (sc_Status stopped), Some ''running''] \<and>
     (cl_clock (snd out) < year_start 10000 \<longrightarrow> run_ends sc w1 out)"
proof -
  let ?sid = "sc_ID sc"
  obtain gen where gen: "buildGenerators (work_env cluster_worker ?sid) (lp_WorkloadType (sc_Profile sc)) = Some gen"
    using assms(2) by (auto simp: buildGenerators_def workload_type_defs)
  have ints: "profile_ints (sc_Profile sc)"
    using assms(1) by (rule unmarshal_ints)
  let ?calm = "w\<lparr>cl_others := []\<rparr>"
  have calm: "quiet ?calm" "cluster_ok ?calm" "latest_status ?sid ?calm = Some s"
    using assms by (simp_all add: quiet_def cluster_ok_def latest_status_def statuses_def)
  let ?w1 = "(tick_clock millisecond ?calm)\<lparr>cl_others := [[(?sid, Doc stop)]]\<rparr>"
  have first: "latestScenarioStatus cluster_store ?sid w = (Inr s, ?w1)"
    using calm(2,3) assms(4,5)
    by (auto simp: latestScenarioStatus_def query_bytes_def cluster_defs cluster_read_def others_act_def
        next_fault_def pg_QueryRow_def one_row_def scan_bytes_def latest_status_row event_status_def
        tick_clock_def split: option.splits sum.splits)
  let ?w2 = "(tick_clock millisecond ?calm)\<lparr>cl_pg :=
      insert_scenario_event (cl_clock w + millisecond) ?sid (Doc stop) (cl_pg w)\<rparr>"
  obtain j where j: "enc_ScenarioResponse (sc\<lparr>sc_Status := ''running''\<rparr>) = Inr j"
    using sc(2) enc_response_created [of "sc\<lparr>sc_Status := ''running''\<rparr>"] by auto
  have second: "appendScenarioStatus cluster_now cluster_store sc ''running'' ?w1 = (None, put_row ?sid j ?w2)"
    using j sc(1) assms(4)
    by (simp add: appendScenarioStatus_def is_zero_time_def cluster_defs cluster_Exec_def others_act_def
        next_fault_def pg_Exec_def put_row_def tick_clock_def)
  let ?w3 = "put_row ?sid j ?w2"
  have dec: "dec_ScenarioResponse j zero_scenario = Inr (sc\<lparr>sc_Status := ''running''\<rparr>)"
    using j ints by (intro dec_enc_ScenarioResponse) simp_all
  have st3: "statuses ?sid ?w3 = statuses ?sid w @ [Some (sc_Status stopped), Some ''running'']"
    using stop(1) by (simp add: put_row_statuses dec)
      (simp add: statuses_def of_scenario_insert event_status_def json_Unmarshal_def)
  have w3: "quiet ?w3" "cluster_ok ?w3"
  proof -
    show "quiet ?w3"
      using assms(4) by (simp add: quiet_def put_row_def)
    have "cluster_ok ?w2"
      using ok by (auto simp: cluster_ok_def intro!: pg_ok_inserts)
    then show "cluster_ok ?w3"
      by (rule put_row_ok)
  qed
  have handler: "worker_handler cluster_worker body w = runScenario cluster_worker gen sc ?w3"
    using assms(1) gen first st(2) second by (simp add: worker_handler_def handleMessage_def)
  moreover obtain out where out: "runScenario cluster_worker gen sc ?w3 = Some out"
    using handler_returns [of body w] assms(1,3) handler by auto
  moreover have "run_ends_in_time sc ?w3 out"
  proof (rule runScenario_ends [OF gen w3 _ _ sc ints _ out])
    show "latest_status ?sid ?w3 = Some ''running''"
      by (simp add: latest_status_def st3 last_option_def)
    show "\<not> isStoppedScenarioStatus ''running''"
      by code_simp
    show "year_start 0 \<le> cl_clock ?w3"
      using late year_start_0 by simp
  qed
  ultimately show ?thesis
    using st3 by (intro exI [of _ out] exI [of _ ?w3]) (simp add: run_ends_in_time_def)
qed

section \<open>Concrete runs\<close>

text \<open>One scenario, queued at noon of the first day of 2025, and its message.\<close>

definition demo_profile :: "string \<Rightarrow> LoadProfile" where
  "demo_profile wt = \<lparr>lp_RPS = 1, lp_Duration = second, lp_PayloadSizeBytes = 0, lp_Concurrency = 1,
     lp_TargetQueue = ''workload.high'', lp_WorkloadType = wt\<rparr>"

definition demo_scenario :: "string \<Rightarrow> string \<Rightarrow> ScenarioResponse" where
  "demo_scenario wt status = \<lparr>sc_ID = ''s1'', sc_Name = ''demo'', sc_Profile = demo_profile wt,
     sc_Status = status, sc_CreatedAt = 63871329600 * second\<rparr>"

definition demo_json :: "string \<Rightarrow> string \<Rightarrow> json" where
  "demo_json wt status = projr (enc_ScenarioResponse (demo_scenario wt status))"

definition demo_cluster :: "string \<Rightarrow> string list \<Rightarrow> cluster" where
  "demo_cluster wt history =
     \<lparr>cl_pg = fold (\<lambda>st. insert_scenario_event (63871329600 * second) ''s1'' (Doc (demo_json wt st))) history empty_pg,
      cl_clock = 63871329601 * second, cl_redis = (\<lambda>k. 0), cl_published = [], cl_others = [], cl_faults = [],
      cl_ticks = [], cl_uuids = [''s1''], cl_log = []\<rparr>"

lemma demo_time: "\<exists>ts. format_time (63871329600 * second) = Inr ts"
proof -
  have "\<not> isl (format_time (63871329600 * second))"
    by code_simp
  then show ?thesis
    by (cases "format_time (63871329600 * second)") auto
qed

lemma demo_decodes:
  "json_Unmarshal dec_ScenarioResponse (Doc (demo_json wt st)) zero_scenario = Inr (demo_scenario wt st)"
proof -
  obtain ts where "format_time (63871329600 * second) = Inr ts"
    using demo_time ..
  then have "enc_ScenarioResponse (demo_scenario wt st) = Inr (demo_json wt st)"
    by (simp add: demo_json_def enc_ScenarioResponse_def enc_time_def demo_scenario_def)
  then have "dec_ScenarioResponse (demo_json wt st) zero_scenario = Inr (demo_scenario wt st)"
    by (rule dec_enc_ScenarioResponse [rotated])
       (simp add: demo_scenario_def demo_profile_def profile_ints_def in_int64_def min_int64_def max_int64_def)
  then show ?thesis
    by (simp add: json_Unmarshal_def)
qed

lemma demo_ok [simp]: "quiet (demo_cluster wt [st])" "cluster_ok (demo_cluster wt [st])"
  by (auto simp: demo_cluster_def quiet_def cluster_ok_def intro!: pg_ok_mono [OF pg_ok_inserts(1) [OF pg_ok_empty]])

lemma demo_statuses [simp]: "statuses ''s1'' (demo_cluster wt [st]) = [Some st]"
  by (simp add: demo_cluster_def statuses_def insert_scenario_event_def of_scenario_def empty_pg_def
      event_status_def demo_decodes) (simp add: demo_scenario_def)

lemma demo_latest [simp]: "latest_status ''s1'' (demo_cluster wt [st]) = Some st"
  by (simp add: latest_status_def last_option_def)

lemma demo_fields [simp]:
  "sc_ID (demo_scenario wt st) = ''s1''" "lp_WorkloadType (sc_Profile (demo_scenario wt st)) = wt"
  "lp_PayloadSizeBytes (sc_Profile (demo_scenario wt st)) = 0" "sc_CreatedAt (demo_scenario wt st) = 63871329600 * second"
  "sc_Status (demo_scenario wt st) = st"
  by (simp_all add: demo_scenario_def demo_profile_def)

lemma stopped_words [simp]:
  "isStoppedScenarioStatus ''stopped''" "\<not> isStoppedScenarioStatus ''queued''"
  "\<not> isStoppedScenarioStatus ''running''"
  by code_simp+

theorem worker_handler_returns_witness:
  "\<exists>r w'. worker_handler cluster_worker (Doc (demo_json ''mem_alloc'' ''queued'')) (demo_cluster ''mem_alloc'' [''queued'']) =
     Some (r, w')"
  by (rule worker_handler_returns) (simp add: demo_decodes)

lemma demo_done:
  "cl_clock (snd (the (worker_handler cluster_worker (Doc (demo_json ''mem_alloc'' ''queued'')) (demo_cluster ''mem_alloc'' [''queued''])))) < year_start 10000"
  "0 \<le> cl_clock (demo_cluster ''mem_alloc'' [''queued''])"
  by code_simp+

theorem worker_runs_to_the_end_witness:
  "\<exists>out w1. worker_handler cluster_worker (Doc (demo_json ''mem_alloc'' ''queued'')) (demo_cluster ''mem_alloc'' [''queued'']) = Some out \<and>
     statuses ''s1'' w1 = [Some ''queued'', Some ''running''] \<and> run_ends (demo_scenario ''mem_alloc'' ''queued'') w1 out"
proof -
  obtain ts where ts: "format_time (63871329600 * second) = Inr ts"
    using demo_time ..
  from worker_runs_to_the_end [OF demo_decodes [of "''mem_alloc''" "''queued''"],
      where w = "demo_cluster ''mem_alloc'' [''queued'']" and s = "''queued''" and ts = ts]
  obtain out w1 where out: "worker_handler cluster_worker (Doc (demo_json ''mem_alloc'' ''queued'')) (demo_cluster ''mem_alloc'' [''queued'']) = Some out"
    and w1: "statuses ''s1'' w1 = [Some ''queued'', Some ''running'']"
    and ends: "cl_clock (snd out) < year_start 10000 \<longrightarrow> run_ends (demo_scenario ''mem_alloc'' ''queued'') w1 out"
    using ts demo_done(2) by auto
  from demo_done(1) have "cl_clock (snd out) < year_start 10000"
    by (simp only: out option.sel)
  with out w1 ends show ?thesis
    by blast
qed

lemma demo_ticking:
  "cluster_ok ((demo_cluster wt [st])\<lparr>cl_ticks := ts, cl_faults := fs, cl_others := os\<rparr>)"
  using demo_ok(2) [of wt st] by (simp add: cluster_ok_def)

theorem watcher_cancels_iff_witness:
  "fst (env_ctx (work_env cluster_worker ''s1'')
     ((demo_cluster ''mixed'' [''running''])\<lparr>cl_ticks := [2], cl_faults := [Some PgxErrNoRows],
        cl_others := [[], [(''s1'', Doc (demo_json ''mixed'' ''stopped''))]]\<rparr>, new_watch)) = Some ContextCanceled \<and>
   fst (env_ctx (work_env cluster_worker ''s1'')
     ((demo_cluster ''mixed'' [''stopped''])\<lparr>cl_ticks := [1], cl_faults := [Some PgxErrNoRows], cl_others := []\<rparr>, new_watch)) = None"
proof
  let ?w = "(demo_cluster ''mixed'' [''running''])\<lparr>cl_ticks := [2], cl_faults := [Some PgxErrNoRows],
        cl_others := [[], [(''s1'', Doc (demo_json ''mixed'' ''stopped''))]]\<rparr>"
  have sees: "sees_stop ''s1'' ((after_query ^^ 1) (?w\<lparr>cl_ticks := []\<rparr>))"
    by code_simp
  show "fst (env_ctx (work_env cluster_worker ''s1'') (?w, new_watch)) = Some ContextCanceled"
    using sees watcher_cancels_iff [of ?w 2 "?w\<lparr>cl_ticks := []\<rparr>" new_watch "''s1''", OF demo_ticking]
    by (auto simp: next_ticks_def new_watch_def split: if_splits intro: exI [of _ 1])
next
  let ?w = "(demo_cluster ''mixed'' [''stopped''])\<lparr>cl_ticks := [1], cl_faults := [Some PgxErrNoRows], cl_others := []\<rparr>"
  show "fst (env_ctx (work_env cluster_worker ''s1'') (?w, new_watch)) = None"
    using watcher_cancels_iff [of ?w 1 "?w\<lparr>cl_ticks := []\<rparr>" new_watch "''s1''", OF demo_ticking]
    by (simp add: next_ticks_def new_watch_def sees_stop_def others_act_def next_fault_def)
qed

text \<open>A generator that is canceled by a stop which arrives while it runs.\<close>

definition stopped_generator :: "(cluster \<times> watch) generator" where
  "stopped_generator params s =
     Some ((\<lparr>res_Ops = 1000, res_Duration = second, res_Error = ''context canceled''\<rparr>,
            Some (Wrapf ''context'' ContextCanceled)),
           put_row ''s1'' (demo_json ''cpu_burn'' ''stopped'') (fst s), snd s)"

theorem stop_during_run_wins_witness:
  "\<exists>out. runScenario cluster_worker stopped_generator (demo_scenario ''cpu_burn'' ''queued'')
       (demo_cluster ''cpu_burn'' [''running'']) = Some out \<and>
     statuses ''s1'' (snd out) = [Some ''running'', Some ''stopped'']"
proof -
  let ?w = "demo_cluster ''cpu_burn'' [''running'']"
  let ?w3 = "put_row ''s1'' (demo_json ''cpu_burn'' ''stopped'') ?w"
  have st: "statuses ''s1'' ?w3 = [Some ''running'', Some ''stopped'']"
    using demo_decodes [of "''cpu_burn''" "''stopped''"] by (simp add: put_row_statuses json_Unmarshal_def)
  have "cluster_ok ?w3" "latest_status ''s1'' ?w3 = Some ''stopped''"
    using st by (auto simp: latest_status_def last_option_def intro: put_row_ok)
  then show ?thesis
    using stop_during_run_wins [of stopped_generator "demo_scenario ''cpu_burn'' ''queued''" ?w _ _ ?w3 new_watch
        "''stopped''"] st
    by (simp add: stopped_generator_def)
qed

lemma demo_done_stopped:
  "cl_clock (snd (the (worker_handler cluster_worker (Doc (demo_json ''mem_alloc'' ''queued''))
       ((demo_cluster ''mem_alloc'' [''queued''])\<lparr>cl_others := [[], [(''s1'', Doc (demo_json ''mem_alloc'' ''stopped''))]]\<rparr>)))) < year_start 10000"
  by code_simp

theorem stop_before_running_is_lost_witness:
  "\<exists>out w1. worker_handler cluster_worker (Doc (demo_json ''mem_alloc'' ''queued''))
       ((demo_cluster ''mem_alloc'' [''queued''])\<lparr>cl_others := [[], [(''s1'', Doc (demo_json ''mem_alloc'' ''stopped''))]]\<rparr>) = Some out \<and>
     statuses ''s1'' w1 = [Some ''queued'', Some ''stopped'', Some ''running''] \<and>
     run_ends (demo_scenario ''mem_alloc'' ''queued'') w1 out"
proof -
  let ?w = "(demo_cluster ''mem_alloc'' [''queued''])\<lparr>cl_others := [[], [(''s1'', Doc (demo_json ''mem_alloc'' ''stopped''))]]\<rparr>"
  obtain ts where ts: "format_time (63871329600 * second) = Inr ts"
    using demo_time ..
  have "cluster_ok ?w" "latest_status ''s1'' ?w = Some ''queued''" "statuses ''s1'' ?w = [Some ''queued'']" "cl_faults ?w = []"
    using demo_ok(2) [of "''mem_alloc''" "''queued''"] demo_latest [of "''mem_alloc''" "''queued''"]
      demo_statuses [of "''mem_alloc''" "''queued''"]
    by (simp_all add: cluster_ok_def latest_status_def statuses_def) (simp add: demo_cluster_def)
  moreover have "dec_ScenarioResponse (demo_json ''mem_alloc'' ''stopped'') zero_scenario =
      Inr (demo_scenario ''mem_alloc'' ''stopped'')"
    using demo_decodes [of "''mem_alloc''" "''stopped''"] by (simp add: json_Unmarshal_def)
  moreover have "0 \<le> cl_clock ?w"
    by (simp add: demo_cluster_def)
  ultimately obtain out w1 where out: "worker_handler cluster_worker (Doc (demo_json ''mem_alloc'' ''queued'')) ?w = Some out"
    and w1: "statuses ''s1'' w1 = [Some ''queued'', Some ''stopped'', Some ''running'']"
    and ends: "cl_clock (snd out) < year_start 10000 \<longrightarrow> run_ends (demo_scenario ''mem_alloc'' ''queued'') w1 out"
    using stop_before_running_is_lost [OF demo_decodes [of "''mem_alloc''" "''queued''"], where w = ?w and
        stop = "demo_json ''mem_alloc'' ''stopped''" and s = "''queued''" and ts = ts] ts
    by auto
  from demo_done_stopped have "cl_clock (snd out) < year_start 10000"
    by (simp only: out option.sel)
  with out w1 ends show ?thesis
    by blast
qed

end
