(* ===== verification/Worker_Protocol.thy ===== *)
theory Worker_Protocol
  imports Cluster_Worker
begin

text \<open>
  What holds of the worker whatever the outside does: which messages are dead-lettered, and which
  statements a handled message may leave behind, in which order.
\<close>

section \<open>Dead letters\<close>

definition plain :: "goerr option \<Rightarrow> bool" where
  "plain r = (case r of None \<Rightarrow> True | Some e \<Rightarrow> \<not> errors_as_unrecoverable e)"

text \<open>The clients never return an \<open>UnrecoverableError\<close>: the type is private to the handlers.\<close>

definition plain_ports :: "'w worker_ports \<Rightarrow> bool" where
  "plain_ports po \<longleftrightarrow>
     (\<forall>q a w. plain (fst (st_Exec (wk_store po) q a w))) \<and>
     (\<forall>q a w. case fst (st_QueryRow (wk_store po) q a w) of Inl e \<Rightarrow> \<not> errors_as_unrecoverable e | Inr r \<Rightarrow> True) \<and>
     (\<forall>k w. plain (fst (wk_Incr po k w))) \<and> (\<forall>x k b w. plain (fst (wk_Publish po x k b w)))"

lemma plain_portsD:
  assumes "plain_ports po"
  shows "st_Exec (wk_store po) q a w = (Some e, w') \<Longrightarrow> \<not> errors_as_unrecoverable e"
    and "st_QueryRow (wk_store po) q a w = (Inl e, w') \<Longrightarrow> \<not> errors_as_unrecoverable e"
    and "wk_Incr po k w = (Some e, w') \<Longrightarrow> \<not> errors_as_unrecoverable e"
    and "wk_Publish po x k b w = (Some e, w') \<Longrightarrow> \<not> errors_as_unrecoverable e"
  using assms unfolding plain_ports_def plain_def
  by (metis fst_conv option.simps(5), metis fst_conv sum.simps(5), metis fst_conv option.simps(5),
      metis fst_conv option.simps(5))

lemma dec_fields_error:
  assumes step: "\<And>d v s e. d \<in> snd ` set fs \<Longrightarrow> d v s = Inl e \<Longrightarrow> \<not> errors_as_unrecoverable e"
  shows "dec_fields b fs kvs s = Inl e \<Longrightarrow> \<not> errors_as_unrecoverable e"
proof (induction kvs arbitrary: s)
  case (Cons kv kvs)
  obtain k v where kv: "kv = (k, v)"
    by fastforce
  with Cons show ?case
    by (auto split: option.splits if_splits sum.splits dest!: step [OF lookup_field_mem])
qed simp

lemma dec_struct_error:
  assumes "dec_struct b fs j s = Inl e"
    and step: "\<And>d v s e. d \<in> snd ` set fs \<Longrightarrow> d v s = Inl e \<Longrightarrow> \<not> errors_as_unrecoverable e"
  shows "\<not> errors_as_unrecoverable e"
proof (cases j)
  case (JObj kvs)
  with assms(1) have "dec_fields b fs kvs s = Inl e"
    by (simp add: dec_struct_def)
  then show ?thesis
    by (rule dec_fields_error [rotated]) (rule step)
qed (use assms in \<open>auto simp: dec_struct_def type_error_def\<close>)

lemma scalar_errors:
  "dec_string j x = Inl e \<Longrightarrow> \<not> errors_as_unrecoverable e" "dec_int j i = Inl e \<Longrightarrow> \<not> errors_as_unrecoverable e"
  "dec_time j t = Inl e \<Longrightarrow> \<not> errors_as_unrecoverable e"
  by (auto simp: dec_string_def dec_int_def dec_time_def type_error_def
      split: json.splits if_splits option.splits)

lemma dec_profile_error: "dec_struct b LoadProfile_fields j p = Inl e \<Longrightarrow> \<not> errors_as_unrecoverable e"
  by (erule dec_struct_error)
     (auto simp: LoadProfile_fields_def field_def split: sum.splits dest: scalar_errors)

lemma dec_plain: "dec_ScenarioResponse j s = Inl e \<Longrightarrow> \<not> errors_as_unrecoverable e"
  unfolding dec_ScenarioResponse_def
  by (erule dec_struct_error) (auto simp: field_def split: sum.splits dest: scalar_errors dec_profile_error)

lemma enc_plain:
  "enc_time t = Inl e \<Longrightarrow> \<not> errors_as_unrecoverable e"
  "enc_ScenarioResponse sc = Inl e \<Longrightarrow> \<not> errors_as_unrecoverable e"
  by (auto simp: enc_ScenarioResponse_def enc_time_def format_time_def Let_def split: sum.splits if_splits)

lemma latest_plain:
  "plain_ports po \<Longrightarrow> latestScenarioStatus (wk_store po) sid w = (Inl e, w') \<Longrightarrow> \<not> errors_as_unrecoverable e"
  by (auto simp: latestScenarioStatus_def query_bytes_def scan_bytes_def scan_error_def json_Unmarshal_def
      syntax_error_def split: prod.splits sum.splits list.splits sql_val.splits bytes.splits
      dest: plain_portsD dec_plain)

lemma append_plain:
  "plain_ports po \<Longrightarrow> appendScenarioStatus now (wk_store po) sc st w = (Some e, w') \<Longrightarrow> \<not> errors_as_unrecoverable e"
  by (auto simp: appendScenarioStatus_def Let_def split: prod.splits sum.splits option.splits if_splits
      dest: plain_portsD enc_plain)

lemma report_plain:
  "plain_ports po \<Longrightarrow> reportResult po sc res w = (Some e, w') \<Longrightarrow> \<not> errors_as_unrecoverable e"
  by (auto simp: reportResult_def snapshot_json_def split: prod.splits sum.splits option.splits if_splits
      dest: plain_portsD enc_plain)

lemma finish_plain:
  "plain_ports po \<Longrightarrow> finishScenario po sc res w = (Some e, w') \<Longrightarrow> \<not> errors_as_unrecoverable e"
  by (auto simp: finishScenario_def Let_def split: prod.splits sum.splits option.splits if_splits
      dest: report_plain append_plain latest_plain)

lemma run_plain:
  "plain_ports po \<Longrightarrow> runScenario po gen sc w = Some (Some e, w') \<Longrightarrow> \<not> errors_as_unrecoverable e"
  by (auto simp: runScenario_def split: prod.splits sum.splits option.splits if_splits
      dest: finish_plain latest_plain)

definition undeliverable :: "(string \<Rightarrow> string \<Rightarrow> 'g option) \<Rightarrow> bytes \<Rightarrow> bool" where
  "undeliverable gens body =
     (case json_Unmarshal dec_ScenarioResponse body zero_scenario of
        Inl e \<Rightarrow> True | Inr sc \<Rightarrow> gens (sc_ID sc) (lp_WorkloadType (sc_Profile sc)) = None)"

lemma handleMessage_unrecoverable:
  assumes "plain_ports po" and "handleMessage po gens body w = Some (r, w')"
  shows "((\<exists>e. r = Some e \<and> errors_as_unrecoverable e) \<longleftrightarrow> undeliverable gens body) \<and>
    (undeliverable gens body \<longrightarrow> w' = w)"
proof
  show "undeliverable gens body \<longrightarrow> w' = w"
    using assms(2) by (auto simp: undeliverable_def handleMessage_def split: sum.splits option.splits)
  show "(\<exists>e. r = Some e \<and> errors_as_unrecoverable e) \<longleftrightarrow> undeliverable gens body"
    using assms(2) latest_plain [OF assms(1)] append_plain [OF assms(1)] run_plain [OF assms(1)]
    by (auto simp: undeliverable_def handleMessage_def split: sum.splits option.splits prod.splits if_splits)
qed

text \<open>
  C21. The handler asks for a dead letter exactly for the messages that can never be handled, the
  undecodable ones and those of an unknown workload type, and then nothing was touched. Every other
  error, of the database, of Redis, of the broker, is of the kind that is tried again.
\<close>

theorem handleMessage_dead_letters:
  assumes "plain_ports po" and "handleMessage po gens body w = Some (r, w')"
  shows "((\<exists>e. r = Some e \<and> errors_as_unrecoverable e) \<longleftrightarrow> undeliverable gens body) \<and>
    (undeliverable gens body \<longrightarrow> w' = w)"
  using assms by (rule handleMessage_unrecoverable)

text \<open>Ports whose database is unreachable.\<close>

definition dark_worker :: "cluster worker_ports" where
  "dark_worker = cluster_worker\<lparr>wk_store := canceled_pool, wk_Incr := \<lambda>k w. (None, w),
     wk_Publish := \<lambda>x k b w. (None, w)\<rparr>"

definition no_generators :: "string \<Rightarrow> string \<Rightarrow> (cluster \<times> watch) generator option" where
  "no_generators sid wt = None"

theorem handleMessage_dead_letters_witness:
  "(\<forall>w. handleMessage dark_worker no_generators NotJson w =
      Some (Some (UnrecoverableError (Wrapf ''decode scenario'' syntax_error)), w)) \<and>
   undeliverable no_generators NotJson \<and>
   (\<exists>e. errors_as_unrecoverable e \<and> e = UnrecoverableError (Wrapf ''decode scenario'' syntax_error))"
proof -
  have po: "plain_ports dark_worker"
    by (simp add: plain_ports_def plain_def dark_worker_def canceled_pool_def)
  have run: "handleMessage dark_worker no_generators NotJson w =
      Some (Some (UnrecoverableError (Wrapf ''decode scenario'' syntax_error)), w)" for w
    by (simp add: handleMessage_def json_Unmarshal_def)
  from handleMessage_dead_letters [OF po run] run show ?thesis
    by auto
qed

section \<open>The statements a message leaves behind\<close>

text \<open>The statements of the handler itself, that is all but the load events of the write generator.\<close>

definition own_log :: "cluster \<Rightarrow> (string \<times> sql_val list) list" where
  "own_log w = filter (\<lambda>e. fst e \<noteq> insertLoadEventQuery) (cl_log w)"

definition same_log :: "cluster \<times> watch \<Rightarrow> cluster \<times> watch \<Rightarrow> bool" where
  "same_log s s' \<longleftrightarrow> own_log (fst s') = own_log (fst s)"

interpretation log: frame same_log
  by unfold_locales (simp_all add: same_log_def)

lemma log_helpers [simp]:
  "own_log (tick_clock d w) = own_log w" "cl_log (others_act w) = cl_log w"
  "own_log (others_act w) = own_log w"
  by (simp_all add: own_log_def others_act_def split: list.splits)

lemma log_fault: "next_fault w = (f, w') \<Longrightarrow> own_log w' = own_log w \<and> cl_log w' = cl_log w"
  by (auto simp: next_fault_def own_log_def split: list.splits)

lemma log_read: "cluster_read f w = (x, w') \<Longrightarrow> own_log w' = own_log w"
  by (auto simp: cluster_read_def split: prod.splits option.splits dest!: log_fault)

lemma log_Exec_load: "own_log (snd (cluster_Exec insertLoadEventQuery args w)) = own_log w"
  by (auto simp: cluster_Exec_def split: prod.splits option.splits dest!: log_fault)
     (simp_all add: own_log_def)

lemma log_Exec:
  "cluster_Exec q args w = (r, w') \<Longrightarrow> q \<noteq> insertLoadEventQuery \<Longrightarrow>
   own_log w' = own_log w @ (if r = None then [(q, args)] else [])"
  by (auto simp: cluster_Exec_def split: prod.splits option.splits dest!: log_fault)
     (simp_all add: own_log_def)

lemma log_latest: "latestScenarioStatus cluster_store sid w = (x, w') \<Longrightarrow> own_log w' = own_log w"
  by (auto simp: latestScenarioStatus_def query_bytes_def cluster_defs split: prod.splits sum.splits
      dest: log_read)

lemma log_watchers: "own_log (fst ((watcher_tick cluster_store sid ^^ n) s)) = own_log (fst s)"
proof (induction n)
  case (Suc n)
  have "own_log (fst (watcher_tick cluster_store sid s')) = own_log (fst s')" for s'
    by (auto simp: watcher_tick_def split: prod.splits sum.splits dest: log_latest)
  with Suc show ?case
    by simp
qed simp

lemma log_watch: "watchScenarioStop cluster_worker sid i s = (w', c) \<Longrightarrow> own_log w' = own_log (fst s)"
proof -
  assume a: "watchScenarioStop cluster_worker sid i s = (w', c)"
  obtain n w1 where n: "next_ticks (fst s) = (n, w1)"
    by fastforce
  then have "own_log w1 = own_log (fst s)"
    by (auto simp: next_ticks_def own_log_def split: list.splits)
  with a n log_watchers [of n sid "(w1, snd s)"] show ?thesis
    by (simp add: watchScenarioStop_def)
qed

lemma log_beside:
  assumes "\<And>c w. own_log (snd (f c w)) = own_log w"
  shows "same_log s (snd (beside cluster_worker sid f s))"
proof -
  obtain w1 c where s1: "watchScenarioStop cluster_worker sid stopWatchInterval s = (w1, c)"
    by fastforce
  from log_watch [OF s1] assms [of "wt_canceled c" w1] show ?thesis
    by (auto simp: beside_def s1 same_log_def split: prod.splits)
qed

lemma log_env: "env_keeps same_log (work_env cluster_worker sid)"
proof -
  have sleep: "same_log s (snd (env_sleep (work_env cluster_worker sid) d s))" for d s
  proof -
    obtain w1 c1 where s1: "watchScenarioStop cluster_worker sid stopWatchInterval s = (w1, c1)"
      by fastforce
    obtain w2 c2 where s2: "watchScenarioStop cluster_worker sid stopWatchInterval
        (tick_clock (max 0 d) w1, c1) = (w2, c2)"
      by fastforce
    from log_watch [OF s1] log_watch [OF s2] s2 show ?thesis
      by (simp add: work_env_def s1 same_log_def)
  qed
  have uid: "own_log (snd (next_uuid w)) = own_log w" for w
    by (auto simp: next_uuid_def own_log_def split: list.splits)
  show ?thesis
    unfolding env_keeps_def
    by (intro conjI allI sleep) (simp_all add: work_env_def log_beside uid cluster_now_def)
qed

lemma log_generators:
  assumes "buildGenerators (work_env cluster_worker sid) wt = Some gen"
  shows "log.kept s (gen (scenario_params (work_store cluster_worker sid) sc) s)"
proof -
  have exec: "own_log (snd (st_Exec (ctx_store cluster_worker c) insertLoadEventQuery a w)) = own_log w" for c w a
    by (simp add: ctx_store_def cluster_defs canceled_pool_def log_Exec_load)
  have row: "own_log (snd (st_QueryRow (ctx_store cluster_worker c) selectLoadEventQuery a w)) = own_log w" for c w a
    using log_read [of "pg_QueryRow selectLoadEventQuery a" w, OF surjective_pairing]
    by (simp add: ctx_store_def cluster_defs canceled_pool_def)
  have "store_keeps same_log (work_store cluster_worker sid)"
    unfolding store_keeps_def work_store_def by (auto intro!: log_beside exec row)
  then have "log.store_option_keeps (scenario_params (work_store cluster_worker sid) sc)"
    by (simp add: log.store_option_keeps_def scenario_params_def Let_def)
  with assms log_env [of sid] show ?thesis
    by (auto simp: buildGenerators_def intro: log.CPU_kept log.Memory_kept log.DBWrite_kept
        log.DBRead_kept log.Mixed_kept split: if_splits)
qed

definition status_write :: "ScenarioResponse \<Rightarrow> string \<Rightarrow> string \<times> sql_val list \<Rightarrow> bool" where
  "status_write sc status e \<longleftrightarrow>
     (\<exists>j t. e = (insertScenarioQuery, [VText (sc_ID sc), VBytes (Doc j)]) \<and>
        dec_ScenarioResponse j zero_scenario = Inr (sc\<lparr>sc_Status := status, sc_CreatedAt := t\<rparr>))"

definition snapshot_write :: "string \<times> sql_val list \<Rightarrow> bool" where
  "snapshot_write e \<longleftrightarrow> (\<exists>j. e = (metricsSnapshotInsert, [VBytes (Doc j)]))"

lemma log_append:
  assumes "appendScenarioStatus cluster_now cluster_store sc status w = (r, w')"
    and "profile_ints (sc_Profile sc)"
  shows "if r = None then \<exists>e. status_write sc status e \<and> own_log w' = own_log w @ [e]
    else own_log w' = own_log w"
proof -
  obtain sc2 w1 where step: "(if is_zero_time (sc_CreatedAt sc)
        then (case cluster_now w of (t, w1) \<Rightarrow> (sc\<lparr>sc_Status := status, sc_CreatedAt := t\<rparr>, w1))
        else (sc\<lparr>sc_Status := status\<rparr>, w)) = (sc2, w1)"
    by fastforce
  define t where "t = sc_CreatedAt sc2"
  from step have sc2: "sc2 = sc\<lparr>sc_Status := status, sc_CreatedAt := t\<rparr>" and w1: "own_log w1 = own_log w"
    by (auto simp: cluster_now_def t_def split: if_splits)
  show ?thesis
  proof (cases "enc_ScenarioResponse sc2")
    case (Inl err)
    with assms(1) step w1 show ?thesis
      by (auto simp: appendScenarioStatus_def Let_def split: if_splits)
  next
    case (Inr j)
    have "dec_ScenarioResponse j zero_scenario = Inr sc2"
      by (rule dec_enc_ScenarioResponse [OF _ Inr]) (simp add: sc2 assms(2))
    then have sw: "status_write sc status (insertScenarioQuery, [VText (sc_ID sc), VBytes (Doc j)])"
      by (auto simp: status_write_def sc2)
    obtain r' w2 where ex: "cluster_Exec insertScenarioQuery [VText (sc_ID sc2), VBytes (Doc j)] w1 = (r', w2)"
      by fastforce
    have "w' = w2 \<and> (r = None \<longleftrightarrow> r' = None)"
      using assms(1) step Inr ex
      by (cases r') (auto simp: appendScenarioStatus_def Let_def cluster_defs split: if_splits)
    with log_Exec [OF ex] w1 sw show ?thesis
      by (auto simp: sc2)
  qed
qed

lemma log_other [simp]:
  "own_log (snd (wk_Incr cluster_worker k w)) = own_log w"
  "own_log (snd (wk_Publish cluster_worker x k b w)) = own_log w"
  by (auto simp: cluster_defs split: prod.splits option.splits dest!: log_fault) (simp_all add: own_log_def)

lemma log_report:
  assumes "reportResult cluster_worker sc res w = (r, w')"
  shows "own_log w' = own_log w \<and> r \<noteq> None \<or> (\<exists>e. snapshot_write e \<and> own_log w' = own_log w @ [e])"
proof -
  obtain now w0 where now: "cluster_now w = (now, w0)"
    by fastforce
  then have w0: "own_log w0 = own_log w"
    by (auto simp: cluster_now_def)
  show ?thesis
  proof (cases "snapshot_json sc res now")
    case (Inl e)
    with assms now w0 show ?thesis
      by (auto simp: reportResult_def)
  next
    case (Inr snap)
    obtain r1 w1 where ex: "cluster_Exec metricsSnapshotInsert [VBytes (Doc snap)] w0 = (r1, w1)"
      by fastforce
    note l = log_Exec [OF ex]
    have st: "st_Exec cluster_store metricsSnapshotInsert [VBytes (Doc snap)] w0 =
        (map_option (Wrapf ''postgres exec'') (map_option (Wrapf ''postgres exec'') r1), w1)"
      by (simp add: cluster_defs ex)
    show ?thesis
    proof (cases r1)
      case (Some e)
      with assms now Inr st l w0 show ?thesis
        by (auto simp: reportResult_def)
    next
      case None
      have "own_log w' = own_log w1"
        using assms now Inr st None log_other(1) [of _ w1] 
        by (auto simp: reportResult_def split: prod.splits option.splits if_splits
            dest!: arg_cong [of "wk_Incr _ _ _" _ "\<lambda>x. own_log (snd x)"]
              arg_cong [of "wk_Publish _ _ _ _ _" _ "\<lambda>x. own_log (snd x)"])
      with l None w0 show ?thesis
        by (auto simp: snapshot_write_def)
    qed
  qed
qed

text \<open>
  The order of the handler's own statements: \<open>running\<close>, then the snapshot, then one terminal status,
  each only after the one before it took effect.
\<close>

definition allowed_writes :: "ScenarioResponse \<Rightarrow> goerr option \<Rightarrow> (string \<times> sql_val list) list \<Rightarrow> bool" where
  "allowed_writes sc r ws \<longleftrightarrow>
     (case ws of
        [] \<Rightarrow> True
      | [a] \<Rightarrow> status_write sc ''running'' a
      | [a, b] \<Rightarrow> status_write sc ''running'' a \<and> snapshot_write b
      | [a, b, c] \<Rightarrow> status_write sc ''running'' a \<and> snapshot_write b \<and> r = None \<and>
          (status_write sc ''completed'' c \<or> status_write sc ''failed'' c)
      | _ \<Rightarrow> False)"

lemma log_finish:
  assumes "finishScenario cluster_worker sc res w = (r, w')" and "profile_ints (sc_Profile sc)"
    and "own_log w = l @ [a]" and "status_write sc ''running'' a"
  shows "\<exists>ws. own_log w' = l @ ws \<and> allowed_writes sc r ws"
proof -
  obtain r1 w1 where rep: "reportResult cluster_worker sc res w = (r1, w1)"
    by fastforce
  consider "own_log w1 = own_log w" "r1 \<noteq> None" | e where "snapshot_write e" "own_log w1 = own_log w @ [e]"
    using log_report [OF rep] by blast
  then show ?thesis
  proof cases
    case 1
    with assms rep show ?thesis
      by (intro exI [of _ "[a]"]) (auto simp: finishScenario_def allowed_writes_def)
  next
    case 2
    have two: ?thesis if "own_log w' = own_log w1"
      using that 2 assms(3,4) by (intro exI [of _ "[a, e]"]) (simp add: allowed_writes_def)
    obtain st w2 where latest: "latestScenarioStatus cluster_store (sc_ID sc) w1 = (st, w2)"
      by fastforce
    note w2 = log_latest [OF latest]
    let ?t = "if res_Error res \<noteq> [] then ''failed'' else ''completed''"
    obtain r3 w3 where app: "appendScenarioStatus cluster_now cluster_store sc ?t w2 = (r3, w3)"
      by fastforce
    show ?thesis
    proof (cases "r1 = None \<and> (\<exists>s. st = Inr s \<and> \<not> isStoppedScenarioStatus s) \<and> r3 = None")
      case True
      then obtain e2 where e2: "status_write sc ?t e2" "own_log w3 = own_log w2 @ [e2]"
        using log_append [OF app assms(2)] by auto
      from True assms(1) rep latest app have "r = None" "w' = w3"
        by (auto simp: finishScenario_def Let_def split: if_splits)
      with e2 2 w2 assms(3,4) show ?thesis
        by (intro exI [of _ "[a, e, e2]"]) (auto simp: allowed_writes_def split: if_splits)
    next
      case False
      have "own_log w' = own_log w1"
        using False assms(1) rep latest app w2 log_append [OF app assms(2)]
        by (auto simp: finishScenario_def Let_def split: if_splits option.splits sum.splits)
      then show ?thesis
        by (rule two)
    qed
  qed
qed

lemma log_run:
  assumes gen: "buildGenerators (work_env cluster_worker (sc_ID sc)) (lp_WorkloadType (sc_Profile sc)) = Some gen"
    and run: "runScenario cluster_worker gen sc w = Some (r, w')" and ints: "profile_ints (sc_Profile sc)"
    and l: "own_log w = l @ [a]" and a: "status_write sc ''running'' a"
  shows "\<exists>ws. own_log w' = l @ ws \<and> allowed_writes sc r ws"
proof -
  let ?p = "scenario_params (work_store cluster_worker (sc_ID sc)) sc"
  obtain result err w3 c where g: "gen ?p (w, new_watch) = Some ((result, err), w3, c)"
    using run by (cases "gen ?p (w, new_watch)") (auto simp: runScenario_def)
  have l3: "own_log w3 = l @ [a]"
    using log_generators [OF gen, of "(w, new_watch)" sc] g l by (simp add: same_log_def)
  obtain st w4 where latest: "latestScenarioStatus cluster_store (sc_ID sc) w3 = (st, w4)"
    by fastforce
  with log_latest l3 have l4: "own_log w4 = l @ [a]"
    by fastforce
  have alone: ?thesis if "w' = w4"
    using that l4 a by (intro exI [of _ "[a]"]) (simp add: allowed_writes_def)
  note fin = log_finish [OF _ ints l3 a] log_finish [OF _ ints l4 a]
  show ?thesis
  proof (cases err)
    case None
    with run g have "finishScenario cluster_worker sc result w3 = (r, w')"
      by (simp add: runScenario_def)
    then show ?thesis
      by (rule fin(1))
  next
    case (Some e)
    let ?r = "result\<lparr>res_Error := error_string e\<rparr>"
    from run g Some latest have "w' = w4 \<or> finishScenario cluster_worker sc ?r w3 = (r, w') \<or>
        finishScenario cluster_worker sc ?r w4 = (r, w')"
      by (auto simp: runScenario_def split: if_splits sum.splits)
    with alone fin show ?thesis
      by blast
  qed
qed

lemma handler_protocol:
  assumes "worker_handler cluster_worker body w = Some (r, w')"
  shows "case json_Unmarshal dec_ScenarioResponse body zero_scenario of
      Inl e \<Rightarrow> own_log w' = own_log w
    | Inr sc \<Rightarrow> \<exists>ws. own_log w' = own_log w @ ws \<and> allowed_writes sc r ws"
proof (cases "json_Unmarshal dec_ScenarioResponse body zero_scenario")
  case (Inl e)
  with assms show ?thesis
    by (auto simp: worker_handler_def handleMessage_def)
next
  case (Inr sc)
  note ints = unmarshal_ints [OF Inr]
  obtain st w1 where latest: "latestScenarioStatus cluster_store (sc_ID sc) w = (st, w1)"
    by fastforce
  note l1 = log_latest [OF latest]
  obtain r2 w2 where app: "appendScenarioStatus cluster_now cluster_store sc ''running'' w1 = (r2, w2)"
    by fastforce
  note l2 = log_append [OF app ints]
  show ?thesis
  proof (cases "buildGenerators (work_env cluster_worker (sc_ID sc)) (lp_WorkloadType (sc_Profile sc))")
    case None
    with assms Inr have "own_log w' = own_log w"
      by (auto simp: worker_handler_def handleMessage_def)
    with Inr show ?thesis
      by (simp add: allowed_writes_def exI [of _ "[]"])
  next
    case (Some gen)
    show ?thesis
    proof (cases "(\<exists>s. st = Inr s \<and> \<not> isStoppedScenarioStatus s) \<and> r2 = None")
      case True
      with assms Inr Some latest app have run: "runScenario cluster_worker gen sc w2 = Some (r, w')"
        by (auto simp: worker_handler_def handleMessage_def)
      from True l2 l1 obtain a where "status_write sc ''running'' a" "own_log w2 = own_log w @ [a]"
        by auto
      from log_run [OF Some run ints this(2,1)] show ?thesis
        using Inr by simp
    next
      case False
      with assms Inr Some latest app l1 l2 have "own_log w' = own_log w"
        by (auto simp: worker_handler_def handleMessage_def split: sum.splits option.splits if_splits)
      with Inr show ?thesis
        by (simp add: allowed_writes_def exI [of _ "[]"])
    qed
  qed
qed

text \<open>
  C5. The protocol of a handled message: with any body, any interleaving with other clients, any
  failing statements and any stop requests, the handler's own statements are a prefix of \<open>running\<close>,
  snapshot, one terminal status, in this order and for this scenario; the terminal status is there
  only when the message is acknowledged. No message is ever both completed and failed.
\<close>

theorem worker_statement_protocol:
  assumes "worker_handler cluster_worker body w = Some (r, w')"
  shows "case json_Unmarshal dec_ScenarioResponse body zero_scenario of
      Inl e \<Rightarrow> own_log w' = own_log w
    | Inr sc \<Rightarrow> \<exists>ws. own_log w' = own_log w @ ws \<and> allowed_writes sc r ws"
  using assms by (rule handler_protocol)

theorem worker_statement_protocol_witness:
  "\<exists>r w' ws. worker_handler cluster_worker (Doc (demo_json ''mem_alloc'' ''queued'')) (demo_cluster ''mem_alloc'' [''queued'']) =
     Some (r, w') \<and> own_log w' = ws \<and> allowed_writes (demo_scenario ''mem_alloc'' ''queued'') r ws"
proof -
  obtain r w' where run: "worker_handler cluster_worker (Doc (demo_json ''mem_alloc'' ''queued''))
      (demo_cluster ''mem_alloc'' [''queued'']) = Some (r, w')"
    using handler_returns [of "Doc (demo_json ''mem_alloc'' ''queued'')" "demo_cluster ''mem_alloc'' [''queued'']"]
    by (simp add: demo_decodes) blast
  have "own_log (demo_cluster ''mem_alloc'' [''queued'']) = []"
    by (simp add: own_log_def demo_cluster_def)
  with worker_statement_protocol [OF run] run show ?thesis
    by (auto simp: demo_decodes)
qed

end
