(* ===== verification/Cluster_Api.thy ===== *)
theory Cluster_Api
  imports Worker_Protocol
begin

text \<open>
  The scenario endpoints on the cluster: what each answer says about the database and the broker, and
  how the endpoints and the worker work together.
\<close>

lemma cluster_api_sel [simp]:
  "ap_store cluster_api = cluster_store" "ap_now cluster_api = cluster_now"
  "ap_uuid cluster_api = next_uuid" "ap_Publish cluster_api = cluster_Publish"
  by (simp_all add: cluster_api_def)

lemma wk_Publish_cluster [simp]: "wk_Publish cluster_worker = cluster_Publish"
  by (simp add: cluster_worker_def)

section \<open>Creating\<close>

definition rejected :: "bytes \<Rightarrow> bool" where
  "rejected body =
     (case decodeJSON (dec_ScenarioRequest True) body zero_request of
        Inl e \<Rightarrow> True | Inr req \<Rightarrow> ScenarioRequest_Validate req \<noteq> None)"

definition queued_scenario :: "ScenarioRequest \<Rightarrow> string \<Rightarrow> time \<Rightarrow> ScenarioResponse" where
  "queued_scenario req uid now =
     \<lparr>sc_ID = uid, sc_Name = sr_Name req, sc_Profile = sr_Profile req, sc_Status = ''queued'',
      sc_CreatedAt = now\<rparr>"

lemma next_uuid_frame:
  "next_uuid w = (u, w1) \<Longrightarrow> cl_log w1 = cl_log w \<and> cl_published w1 = cl_published w \<and>
     cl_clock w1 = cl_clock w \<and> cl_pg w1 = cl_pg w \<and> quiet w1 = quiet w"
  by (auto simp: next_uuid_def split: list.splits)

lemma fault_frame:
  "next_fault w = (f, w') \<Longrightarrow> cl_log w' = cl_log w \<and> cl_published w' = cl_published w"
  by (auto simp: next_fault_def split: list.splits)

lemma others_frame [simp]: "cl_published (others_act w) = cl_published w"
  by (simp add: others_act_def split: list.splits)

lemma cluster_Exec_frame:
  "cluster_Exec q args w = (r, w') \<Longrightarrow>
   cl_published w' = cl_published w \<and> cl_log w' = cl_log w @ (if r = None then [(q, args)] else [])"
  by (auto simp: cluster_Exec_def split: prod.splits option.splits dest!: fault_frame)

lemma Exec_frame:
  assumes "st_Exec cluster_store q args w = (r, w')"
  shows "cl_published w' = cl_published w \<and> cl_log w' = cl_log w @ (if r = None then [(q, args)] else [])"
proof -
  obtain r1 w1 where ex: "cluster_Exec q args w = (r1, w1)"
    by fastforce
  with assms have "w' = w1" "r = None \<longleftrightarrow> r1 = None"
    by (auto simp: cluster_defs)
  with cluster_Exec_frame [OF ex] show ?thesis
    by simp
qed

lemma Publish_frame:
  "cluster_Publish x k b w = (r, w') \<Longrightarrow>
   cl_log w' = cl_log w \<and> cl_published w' = cl_published w @ (if r = None then [(x, k, b)] else [])"
  by (auto simp: cluster_Publish_def split: prod.splits option.splits dest!: fault_frame)

lemma CreateScenario_result:
  assumes "CreateScenario cluster_api body new_response w = (h, w')"
  shows "(rejected body \<longrightarrow> response_code h = Some 400 \<and> w' = w) \<and>
    (\<not> rejected body \<longrightarrow>
      (\<exists>req uid now j.
         decodeJSON (dec_ScenarioRequest True) body zero_request = Inr req \<and> uid = fst (next_uuid w) \<and>
         (response_code h = Some 202 \<and> enc_ScenarioResponse (queued_scenario req uid now) = Inr j \<and>
            hr_body h = [CJson j] \<and>
            cl_log w' = cl_log w @ [(insertScenarioQuery, [VText uid, VBytes (Doc j)])] \<and>
            cl_published w' = cl_published w @ [(scenariosExchange, lp_TargetQueue (sr_Profile req), Doc j)] \<or>
          response_code h = Some 502 \<and> enc_ScenarioResponse (queued_scenario req uid now) = Inr j \<and>
            cl_log w' = cl_log w @ [(insertScenarioQuery, [VText uid, VBytes (Doc j)])] \<and>
            cl_published w' = cl_published w \<or>
          response_code h = Some 500 \<and> cl_log w' = cl_log w \<and> cl_published w' = cl_published w)))"
proof (cases "decodeJSON (dec_ScenarioRequest True) body zero_request")
  case (Inl e)
  with assms show ?thesis
    by (auto simp: CreateScenario_def rejected_def status_defs)
next
  case (Inr req)
  show ?thesis
  proof (cases "ScenarioRequest_Validate req")
    case (Some e)
    with assms Inr show ?thesis
      by (auto simp: CreateScenario_def rejected_def status_defs)
  next
    case None
    obtain uid w1 where uid: "next_uuid w = (uid, w1)"
      by fastforce
    define w2 where "w2 = tick_clock 1 w1"
    have now: "cluster_now w1 = (cl_clock w1, w2)"
      by (simp add: cluster_now_def w2_def)
    have w2: "cl_log w2 = cl_log w" "cl_published w2 = cl_published w"
      using next_uuid_frame [OF uid] by (simp_all add: w2_def)
    have u: "fst (next_uuid w) = uid"
      by (simp add: uid)
    have not: "\<not> rejected body"
      using Inr None by (simp add: rejected_def)
    note run = assms [unfolded CreateScenario_def Inr sum.case None option.case cluster_api_sel uid now prod.case Let_def,
        folded queued_scenario_def]
    show ?thesis
    proof (cases "enc_ScenarioResponse (queued_scenario req uid (cl_clock w1))")
      case (Inl e)
      with run w2 not \<open>decodeJSON _ _ _ = Inr req\<close> show ?thesis
        by (auto simp: status_defs u)
    next
      case j: (Inr j)
      obtain r3 w3 where ex: "st_Exec cluster_store insertScenarioQuery [VText uid, VBytes (Doc j)] w2 = (r3, w3)"
        by fastforce
      obtain r4 w4 where pub: "cluster_Publish scenariosExchange (lp_TargetQueue (sr_Profile req)) (Doc j) w3 = (r4, w4)"
        by fastforce
      show ?thesis
        using run j ex pub Exec_frame [OF ex] Publish_frame [OF pub] w2 not \<open>decodeJSON _ _ _ = Inr req\<close>
        by (cases r3; cases r4) (auto simp: status_defs u)
    qed
  qed
qed

text \<open>
  C10. What the answer to a create request means, with any interleaving and any failures: 400 exactly
  for a body that does not decode or validate, and then nothing happened; 202 when the \<open>queued\<close> event
  is stored and the same JSON is published to the target queue and returned; 502 when it is stored but
  not published (a scenario that stays queued); 500 when it is neither.
\<close>

theorem CreateScenario_outcomes:
  assumes "CreateScenario cluster_api body new_response w = (h, w')"
  shows "(rejected body \<longrightarrow> response_code h = Some 400 \<and> w' = w) \<and>
    (\<not> rejected body \<longrightarrow>
      (\<exists>req uid now j.
         decodeJSON (dec_ScenarioRequest True) body zero_request = Inr req \<and> uid = fst (next_uuid w) \<and>
         (response_code h = Some 202 \<and> enc_ScenarioResponse (queued_scenario req uid now) = Inr j \<and>
            hr_body h = [CJson j] \<and>
            cl_log w' = cl_log w @ [(insertScenarioQuery, [VText uid, VBytes (Doc j)])] \<and>
            cl_published w' = cl_published w @ [(scenariosExchange, lp_TargetQueue (sr_Profile req), Doc j)] \<or>
          response_code h = Some 502 \<and> enc_ScenarioResponse (queued_scenario req uid now) = Inr j \<and>
            cl_log w' = cl_log w @ [(insertScenarioQuery, [VText uid, VBytes (Doc j)])] \<and>
            cl_published w' = cl_published w \<or>
          response_code h = Some 500 \<and> cl_log w' = cl_log w \<and> cl_published w' = cl_published w)))"
  using assms by (rule CreateScenario_result)

definition demo_request :: "string \<Rightarrow> ScenarioRequest" where
  "demo_request wt = \<lparr>sr_Name = ''demo'', sr_Profile = demo_profile wt, sr_StopOnError = False\<rparr>"

lemma demo_request_decodes:
  "decodeJSON (dec_ScenarioRequest True) (Doc (enc_ScenarioRequest (demo_request wt))) zero_request = Inr (demo_request wt)"
  by (simp add: decodeJSON_def json_Unmarshal_def dec_enc_ScenarioRequest demo_request_def demo_profile_def
      profile_ints_def in_int64_def min_int64_def max_int64_def)

lemma demo_request_valid:
  "wt \<in> {''cpu_burn'', ''mem_alloc'', ''db_write'', ''db_read'', ''mixed''} \<Longrightarrow>
   \<not> rejected (Doc (enc_ScenarioRequest (demo_request wt)))"
  by (simp add: rejected_def demo_request_decodes ScenarioRequest_Validate_iff profile_valid_def)
     (auto simp: demo_request_def demo_profile_def)

theorem CreateScenario_outcomes_witness:
  "(\<exists>h w'. CreateScenario cluster_api NotJson new_response (demo_cluster ''mixed'' []) = (h, w') \<and>
      response_code h = Some 400 \<and> w' = demo_cluster ''mixed'' []) \<and>
   (\<exists>h w'. CreateScenario cluster_api (Doc (enc_ScenarioRequest (demo_request ''mixed''))) new_response
        (demo_cluster ''mixed'' []) = (h, w') \<and> response_code h \<in> {Some 202, Some 502, Some 500})"
proof
  obtain h w' where bad: "CreateScenario cluster_api NotJson new_response (demo_cluster ''mixed'' []) = (h, w')"
    by fastforce
  moreover have "rejected NotJson"
    by (simp add: rejected_def decodeJSON_def json_Unmarshal_def)
  ultimately show "\<exists>h w'. CreateScenario cluster_api NotJson new_response (demo_cluster ''mixed'' []) = (h, w') \<and>
      response_code h = Some 400 \<and> w' = demo_cluster ''mixed'' []"
    using CreateScenario_outcomes [OF bad] by blast
  obtain h w' where good: "CreateScenario cluster_api (Doc (enc_ScenarioRequest (demo_request ''mixed''))) new_response
      (demo_cluster ''mixed'' []) = (h, w')"
    by fastforce
  from CreateScenario_outcomes [OF good] demo_request_valid [of "''mixed''"] good
  show "\<exists>h w'. CreateScenario cluster_api (Doc (enc_ScenarioRequest (demo_request ''mixed''))) new_response
        (demo_cluster ''mixed'' []) = (h, w') \<and> response_code h \<in> {Some 202, Some 502, Some 500}"
    by auto
qed

section \<open>Reading\<close>

text \<open>A row as the endpoints show it.\<close>

definition shown :: "event_row \<Rightarrow> ScenarioResponse option" where
  "shown r = (case row_response (ev_scenario_id r, ev_payload r, ev_created_at r) of Inl e \<Rightarrow> None | Inr sc \<Rightarrow> Some sc)"

lemma query_event_quiet:
  "quiet w \<Longrightarrow> query_event cluster_store getScenarioQuery [VText sid] w =
     (case latest_row sid (cl_pg w) of
        None \<Rightarrow> (Inl PgxErrNoRows, tick_clock millisecond w)
      | Some r \<Rightarrow> (Inr (ev_scenario_id r, ev_payload r, ev_created_at r), tick_clock millisecond w))"
  by (simp add: query_event_def cluster_defs cluster_read_def pg_QueryRow_def one_row_def scan_event_def
      event_cols_def split: option.splits)

lemma latest_row_sid:
  assumes "cluster_ok w" and "latest_row sid (cl_pg w) = Some r"
  shows "ev_scenario_id r = sid"
proof -
  from assms have "last_option (of_scenario sid (scenario_events (cl_pg w))) = Some r"
    by (simp add: cluster_ok_def latest_row_eq)
  then have "r \<in> set (of_scenario sid (scenario_events (cl_pg w)))"
    by (auto simp: last_option_def split: if_splits)
  then show ?thesis
    by (simp add: of_scenario_def)
qed

text \<open>
  Reading a scenario: \<open>GET /scenarios/{id}\<close> answers 404 exactly when the scenario has no event, and
  otherwise 200 with the payload of its latest event.
\<close>

theorem GetScenario_latest:
  assumes "quiet w" and "sid \<noteq> []"
  shows "case latest_row sid (cl_pg w) of
      None \<Rightarrow> response_code (fst (GetScenario cluster_api sid new_response w)) = Some 404
    | Some r \<Rightarrow> (case shown r of
        None \<Rightarrow> response_code (fst (GetScenario cluster_api sid new_response w)) = Some 500
      | Some sc \<Rightarrow>
          response_code (fst (GetScenario cluster_api sid new_response w)) = Some 200 \<and>
          (\<forall>j. enc_ScenarioResponse sc = Inr j \<longrightarrow>
             hr_body (fst (GetScenario cluster_api sid new_response w)) = [CJson j]))"
  using assms
  by (auto simp: GetScenario_def query_event_quiet shown_def status_defs respond_new_Inl
      split: option.splits sum.splits)
     (metis respond_new_Inl(1) respond_new_Inr(1) sum.exhaust)+

theorem GetScenario_latest_witness:
  "response_code (fst (GetScenario cluster_api ''nope'' new_response (demo_cluster ''mixed'' [''queued'']))) = Some 404"
proof -
  have "latest_row ''nope'' (cl_pg (demo_cluster ''mixed'' [''queued''])) = None"
    by (simp add: latest_row_def in_order_def demo_cluster_def of_scenario_def insert_scenario_event_def empty_pg_def)
  with GetScenario_latest [of "demo_cluster ''mixed'' [''queued'']" "''nope''"] show ?thesis
    by simp
qed

section \<open>Stopping\<close>

lemma quiet_Publish:
  "quiet w \<Longrightarrow> cluster_Publish x k b w = (None, w\<lparr>cl_published := cl_published w @ [(x, k, b)]\<rparr>)"
  by (simp add: cluster_Publish_def)

text \<open>
  What an accepted stop does: the scenario keeps its id, name and profile, gets the status \<open>stopped\<close>
  and the time of the request.
\<close>

definition stopped_scenario :: "ScenarioResponse \<Rightarrow> string \<Rightarrow> time \<Rightarrow> ScenarioResponse" where
  "stopped_scenario sc sid now =
     sc\<lparr>sc_ID := (if sc_ID sc = [] then sid else sc_ID sc), sc_Status := ''stopped'', sc_CreatedAt := now\<rparr>"

lemma StopScenario_quiet:
  assumes q: "quiet w" and ok: "cluster_ok w" and sid: "sid \<noteq> []"
    and row: "latest_row sid (cl_pg w) = Some r"
    and dec: "json_Unmarshal dec_ScenarioResponse (ev_payload r) zero_scenario = Inr sc"
    and ts: "format_time (cl_clock w + millisecond) = Inr ts"
  obtains j h w' where "StopScenario cluster_api sid new_response w = (h, w')"
    and "response_code h = Some 200" and "hr_body h = [CJson j]"
    and "dec_ScenarioResponse j zero_scenario = Inr (stopped_scenario sc sid (cl_clock w + millisecond))"
    and "statuses sid w' = statuses sid w @ [Some ''stopped'']"
    and "cl_published w' = cl_published w @ [(scenariosExchange, ''scenario.stop'', Doc j)]"
    and "quiet w'" and "cluster_ok w'"
proof -
  let ?now = "cl_clock w + millisecond"
  let ?sc = "stopped_scenario sc sid ?now"
  let ?w1 = "tick_clock millisecond w"
  let ?w2 = "tick_clock 1 ?w1"
  have sid_r: "ev_scenario_id r = sid"
    by (rule latest_row_sid [OF ok row])
  obtain j where j: "enc_ScenarioResponse ?sc = Inr j"
    using ts enc_response_created [of ?sc] by (auto simp: stopped_scenario_def)
  have "profile_ints (sc_Profile ?sc)"
    using unmarshal_ints [OF dec] by (simp add: stopped_scenario_def)
  then have d: "dec_ScenarioResponse j zero_scenario = Inr ?sc"
    using j by (rule dec_enc_ScenarioResponse)
  let ?w3 = "put_row sid j ?w2"
  let ?w4 = "?w3\<lparr>cl_published := cl_published ?w3 @ [(scenariosExchange, ''scenario.stop'', Doc j)]\<rparr>"
  have exec: "st_Exec cluster_store insertScenarioQuery [VText sid, VBytes (Doc j)] ?w2 = (None, ?w3)"
    using q by (intro Exec_scenario_quiet) simp
  have pub: "cluster_Publish scenariosExchange ''scenario.stop'' (Doc j) ?w3 = (None, ?w4)"
    using q by (intro quiet_Publish) simp
  have j': "enc_ScenarioResponse (sc\<lparr>sc_ID := if sc_ID sc = [] then sid else sc_ID sc, sc_Status := ''stopped'',
      sc_CreatedAt := ?now\<rparr>) = Inr j"
    using j by (simp add: stopped_scenario_def)
  have run: "StopScenario cluster_api sid new_response w = (respond StatusOK (Inr j) new_response, ?w4)"
  proof (cases "sc_ID sc = []")
    case True
    with j' have "enc_ScenarioResponse (sc\<lparr>sc_ID := sid, sc_Status := ''stopped'', sc_CreatedAt := ?now\<rparr>) = Inr j"
      by simp
    with True show ?thesis
      using sid q row dec exec pub sid_r
      by (simp add: StopScenario_def query_event_quiet cluster_now_def Let_def)
  next
    case False
    have "sc\<lparr>sc_ID := sc_ID sc, sc_Status := ''stopped'', sc_CreatedAt := ?now\<rparr> =
        sc\<lparr>sc_Status := ''stopped'', sc_CreatedAt := ?now\<rparr>"
      by (cases sc) simp
    with False j' have "enc_ScenarioResponse (sc\<lparr>sc_Status := ''stopped'', sc_CreatedAt := ?now\<rparr>) = Inr j"
      by simp
    with False show ?thesis
      using sid q row dec exec pub sid_r
      by (simp add: StopScenario_def query_event_quiet cluster_now_def Let_def)
  qed
  show ?thesis
  proof (rule that [OF run])
    show "statuses sid ?w4 = statuses sid w @ [Some ''stopped'']"
      using d put_row_statuses [of sid sid j ?w2] by (simp add: statuses_def stopped_scenario_def)
    show "quiet ?w4" "cluster_ok ?w4"
      using q ok by (auto intro!: put_row_ok cluster_ok_tick)
  qed (use d in \<open>simp_all add: status_defs\<close>)
qed

text \<open>
  A stop that comes before the message is delivered: the request is answered 200 with the stopped
  scenario, and when the message arrives the worker acknowledges it and touches neither the tables
  nor Redis nor the broker, so the scenario stays stopped.
\<close>

theorem stop_prevents_execution:
  assumes "quiet w" and "cluster_ok w" and "sid \<noteq> []"
    and "latest_row sid (cl_pg w) = Some r"
    and "json_Unmarshal dec_ScenarioResponse (ev_payload r) zero_scenario = Inr sc"
    and "format_time (cl_clock w + millisecond) = Inr ts"
    and msg: "json_Unmarshal dec_ScenarioResponse body zero_scenario = Inr sc'" "sc_ID sc' = sid"
      "lp_WorkloadType (sc_Profile sc') \<in> {''cpu_burn'', ''mem_alloc'', ''db_write'', ''db_read'', ''mixed''}"
  shows "\<exists>h w1 w2. StopScenario cluster_api sid new_response w = (h, w1) \<and> response_code h = Some 200 \<and>
     worker_handler cluster_worker body w1 = Some (None, w2) \<and>
     statuses sid w2 = statuses sid w @ [Some ''stopped''] \<and> own_log w2 = own_log w1 \<and>
     cl_redis w2 = cl_redis w1 \<and> cl_published w2 = cl_published w1"
proof -
  obtain h w1 where stop: "StopScenario cluster_api sid new_response w = (h, w1)" "response_code h = Some 200"
    and st: "statuses sid w1 = statuses sid w @ [Some ''stopped'']" and w1: "quiet w1" "cluster_ok w1"
    using StopScenario_quiet [OF assms(1-6)] by metis
  have "latest_status sid w1 = Some ''stopped''"
    by (simp add: latest_status_def st)
  note latest = latestScenarioStatus_quiet [OF w1 this]
  obtain gen where "buildGenerators (work_env cluster_worker sid) (lp_WorkloadType (sc_Profile sc')) = Some gen"
    using msg(3) by (auto simp: buildGenerators_def workload_type_defs)
  then have "worker_handler cluster_worker body w1 = Some (None, tick_clock millisecond w1)"
    using msg(1,2) latest by (simp add: worker_handler_def handleMessage_def)
  with stop st show ?thesis
    by (intro exI [of _ h] exI [of _ w1] exI [of _ "tick_clock millisecond w1"]) simp
qed

lemma demo_row:
  "\<exists>r. latest_row ''s1'' (cl_pg (demo_cluster wt [st])) = Some r \<and> ev_payload r = Doc (demo_json wt st)"
  by (simp add: latest_row_def in_order_def demo_cluster_def of_scenario_def insert_scenario_event_def empty_pg_def)

lemma demo_stop_time: "\<exists>ts. format_time (cl_clock (demo_cluster wt l) + millisecond) = Inr ts"
proof -
  have "\<not> isl (format_time (63871329601 * second + millisecond))"
    by code_simp
  then show ?thesis
    by (cases "format_time (63871329601 * second + millisecond)") (auto simp: demo_cluster_def)
qed

theorem stop_prevents_execution_witness:
  "\<exists>h w1 w2. StopScenario cluster_api ''s1'' new_response (demo_cluster ''cpu_burn'' [''queued'']) = (h, w1) \<and>
     response_code h = Some 200 \<and>
     worker_handler cluster_worker (Doc (demo_json ''cpu_burn'' ''queued'')) w1 = Some (None, w2) \<and>
     statuses ''s1'' w2 = [Some ''queued'', Some ''stopped'']"
proof -
  let ?w = "demo_cluster ''cpu_burn'' [''queued'']"
  obtain r where r: "latest_row ''s1'' (cl_pg ?w) = Some r" "ev_payload r = Doc (demo_json ''cpu_burn'' ''queued'')"
    using demo_row by blast
  obtain ts where ts: "format_time (cl_clock ?w + millisecond) = Inr ts"
    using demo_stop_time by blast
  have "json_Unmarshal dec_ScenarioResponse (ev_payload r) zero_scenario = Inr (demo_scenario ''cpu_burn'' ''queued'')"
    by (simp add: r(2) demo_decodes)
  from stop_prevents_execution [OF _ _ _ r(1) this ts demo_decodes [of "''cpu_burn''" "''queued''"]]
  show ?thesis
    by auto
qed

section \<open>From the request to the end of the run\<close>

lemma created_runs:
  assumes "quiet w" and "cluster_ok w" and "cl_uuids w = uid # us" and "statuses uid w = []"
    and "\<not> rejected body" and "decodeJSON (dec_ScenarioRequest True) body zero_request = Inr req"
    and "lp_PayloadSizeBytes (sr_Profile req) < 2 ^ 48"
    and "cl_clock w \<noteq> 0" and "format_time (cl_clock w) = Inr ts"
  shows "\<exists>h w1 j w2 out. CreateScenario cluster_api body new_response w = (h, w1) \<and> response_code h = Some 202 \<and>
     cl_published w1 = cl_published w @ [(scenariosExchange, lp_TargetQueue (sr_Profile req), Doc j)] \<and>
     worker_handler cluster_worker (Doc j) w1 = Some out \<and>
     statuses uid w2 = [Some ''queued'', Some ''running''] \<and> cl_published w2 = cl_published w1 \<and>
     run_ends_in_time (queued_scenario req uid (cl_clock w)) w2 out \<and> quiet w1 \<and> statuses uid w1 = [Some ''queued''] \<and>
     cl_clock w1 = cl_clock w + 1 + millisecond"
proof -
  let ?sc = "queued_scenario req uid (cl_clock w)"
  have valid: "ScenarioRequest_Validate req = None"
    using assms(5,6) by (auto simp: rejected_def)
  have ints: "profile_ints (sc_Profile ?sc)"
    using assms(6) by (auto simp: decodeJSON_def json_Unmarshal_def queued_scenario_def zero_request_def
        zero_profile_def profile_ints_def [of "\<lparr>lp_RPS = 0, lp_Duration = 0, lp_PayloadSizeBytes = 0,
          lp_Concurrency = 0, lp_TargetQueue = [], lp_WorkloadType = []\<rparr>"] in_int64_def min_int64_def max_int64_def
        split: bytes.splits sum.splits dest!: dec_request_ints)
  obtain j where j: "enc_ScenarioResponse ?sc = Inr j"
    using assms(9) enc_response_created [of ?sc] by (auto simp: queued_scenario_def)
  have dec: "dec_ScenarioResponse j zero_scenario = Inr ?sc"
    by (rule dec_enc_ScenarioResponse [OF ints j])
  let ?w1 = "tick_clock 1 (w\<lparr>cl_uuids := us\<rparr>)"
  let ?w2 = "put_row uid j ?w1"
  let ?w3 = "?w2\<lparr>cl_published := cl_published ?w2 @ [(scenariosExchange, lp_TargetQueue (sr_Profile req), Doc j)]\<rparr>"
  have "st_Exec cluster_store insertScenarioQuery [VText uid, VBytes (Doc j)] ?w1 = (None, ?w2)"
    using assms(1) by (intro Exec_scenario_quiet) simp
  moreover have "cluster_Publish scenariosExchange (lp_TargetQueue (sr_Profile req)) (Doc j) ?w2 = (None, ?w3)"
    using assms(1) by (intro quiet_Publish) simp
  ultimately have create: "CreateScenario cluster_api body new_response w = (respond StatusAccepted (Inr j) new_response, ?w3)"
    using assms(3,6) valid j
    by (simp add: CreateScenario_def next_uuid_def cluster_now_def Let_def queued_scenario_def)
  have "statuses uid ?w3 = statuses uid (put_row uid j ?w1)"
    by (simp add: statuses_def)
  then have st: "statuses uid ?w3 = [Some ''queued'']"
    using assms(4) dec by (simp add: put_row_statuses queued_scenario_def) (simp add: statuses_def)
  have ok: "cluster_ok ?w1"
    using assms(2) by (intro cluster_ok_tick) (simp_all add: cluster_ok_def)
  have "\<exists>out w4. worker_handler cluster_worker (Doc j) ?w3 = Some out \<and>
     statuses (sc_ID ?sc) w4 = statuses (sc_ID ?sc) ?w3 @ [Some ''running''] \<and>
     cl_redis w4 = cl_redis ?w3 \<and> cl_published w4 = cl_published ?w3 \<and> cl_clock ?w3 \<le> cl_clock w4 \<and>
     run_ends_in_time ?sc w4 out"
  proof (rule handler_runs)
    show "json_Unmarshal dec_ScenarioResponse (Doc j) zero_scenario = Inr ?sc"
      by (simp add: json_Unmarshal_def dec)
    show "lp_WorkloadType (sc_Profile ?sc) \<in> {''cpu_burn'', ''mem_alloc'', ''db_write'', ''db_read'', ''mixed''}"
      using valid by (auto simp: ScenarioRequest_Validate_iff profile_valid_def queued_scenario_def)
    show "latest_status (sc_ID ?sc) ?w3 = Some ''queued''"
      using st by (simp add: latest_status_def last_option_def queued_scenario_def)
    show "\<not> isStoppedScenarioStatus ''queued''"
      by simp
    show "quiet ?w3"
      using assms(1) by simp
    show "cluster_ok ?w3"
      using put_row_ok [OF ok] by simp
    show "lp_PayloadSizeBytes (sc_Profile ?sc) < 2 ^ 48" "sc_CreatedAt ?sc \<noteq> 0"
      "format_time (sc_CreatedAt ?sc) = Inr ts"
      using assms(7-9) by (simp_all add: queued_scenario_def)
    show "year_start 0 \<le> cl_clock ?w3"
      using format_time_ok_iff [of "cl_clock w"] assms(9) by auto
  qed
  then obtain out w4 where out: "worker_handler cluster_worker (Doc j) ?w3 = Some out"
    "statuses uid w4 = [Some ''queued'', Some ''running'']" "cl_published w4 = cl_published ?w3" "run_ends_in_time ?sc w4 out"
    using st by (auto simp: queued_scenario_def)
  with create assms(1) st show ?thesis
    by (intro exI [of _ "respond StatusAccepted (Inr j) new_response"] exI [of _ ?w3] exI [of _ j] exI [of _ w4]
        exI [of _ out]) (simp add: status_defs)
qed

text \<open>
  C4. A created scenario runs: with a fresh id, nobody interfering and nothing failing, the create
  request is answered 202 and publishes the scenario, and the worker that gets this message takes the
  scenario from \<open>queued\<close> through \<open>running\<close> to a terminal status, reports it once and acknowledges the
  message, if it is done before the clock reaches year 10000 (a later time cannot be written into the
  result's snapshot).
\<close>

theorem created_scenario_runs:
  assumes "quiet w" and "cluster_ok w" and "cl_uuids w = uid # us" and "statuses uid w = []"
    and "\<not> rejected body" and "decodeJSON (dec_ScenarioRequest True) body zero_request = Inr req"
    and "lp_PayloadSizeBytes (sr_Profile req) < 2 ^ 48"
    and "cl_clock w \<noteq> 0" and "format_time (cl_clock w) = Inr ts"
  shows "\<exists>h w1 j w2 out. CreateScenario cluster_api body new_response w = (h, w1) \<and> response_code h = Some 202 \<and>
     cl_published w1 = cl_published w @ [(scenariosExchange, lp_TargetQueue (sr_Profile req), Doc j)] \<and>
     worker_handler cluster_worker (Doc j) w1 = Some out \<and>
     statuses uid w2 = [Some ''queued'', Some ''running''] \<and> cl_published w2 = cl_published w1 \<and>
     (cl_clock (snd out) < year_start 10000 \<longrightarrow> run_ends (queued_scenario req uid (cl_clock w)) w2 out)"
  using created_runs [OF assms] by (force simp: run_ends_in_time_def)

lemma demo_empty_ok [simp]: "quiet (demo_cluster wt [])" "cluster_ok (demo_cluster wt [])" "statuses sid (demo_cluster wt []) = []"
  by (auto simp: demo_cluster_def quiet_def cluster_ok_def statuses_def of_scenario_def empty_pg_def [symmetric]
      intro: pg_ok_empty) (simp add: empty_pg_def)

lemma demo_created_done:
  "(case CreateScenario cluster_api (Doc (enc_ScenarioRequest (demo_request ''mem_alloc''))) new_response (demo_cluster ''mem_alloc'' []) of
      (h, w1) \<Rightarrow> cl_clock (snd (the (worker_handler cluster_worker (snd (snd (last (cl_published w1)))) w1)))) < year_start 10000"
  by code_simp

theorem created_scenario_runs_witness:
  "\<exists>h w1 j w2 out. CreateScenario cluster_api (Doc (enc_ScenarioRequest (demo_request ''mem_alloc''))) new_response
       (demo_cluster ''mem_alloc'' []) = (h, w1) \<and> response_code h = Some 202 \<and>
     cl_published w1 = [(scenariosExchange, ''workload.high'', Doc j)] \<and>
     worker_handler cluster_worker (Doc j) w1 = Some out \<and>
     statuses ''s1'' w2 = [Some ''queued'', Some ''running''] \<and>
     run_ends (queued_scenario (demo_request ''mem_alloc'') ''s1'' (63871329601 * second)) w2 out"
proof -
  let ?w = "demo_cluster ''mem_alloc'' []"
  have "\<not> isl (format_time (63871329601 * second))"
    by code_simp
  then obtain ts where ts: "format_time (cl_clock ?w) = Inr ts"
    by (cases "format_time (63871329601 * second)") (auto simp: demo_cluster_def)
  have "cl_uuids ?w = ''s1'' # []"
    by (simp add: demo_cluster_def)
  moreover have "\<not> rejected (Doc (enc_ScenarioRequest (demo_request ''mem_alloc'')))"
    by (rule demo_request_valid) simp
  moreover have "lp_PayloadSizeBytes (sr_Profile (demo_request ''mem_alloc'')) < 2 ^ 48" "cl_clock ?w \<noteq> 0"
    by (simp_all add: demo_request_def demo_profile_def demo_cluster_def)
  ultimately obtain h w1 j w2 out where
    c: "CreateScenario cluster_api (Doc (enc_ScenarioRequest (demo_request ''mem_alloc''))) new_response ?w = (h, w1)"
    and h: "response_code h = Some 202"
    and p: "cl_published w1 = cl_published ?w @ [(scenariosExchange, lp_TargetQueue (sr_Profile (demo_request ''mem_alloc'')), Doc j)]"
    and run: "worker_handler cluster_worker (Doc j) w1 = Some out"
    and st: "statuses ''s1'' w2 = [Some ''queued'', Some ''running'']"
    and ends: "cl_clock (snd out) < year_start 10000 \<longrightarrow> run_ends (queued_scenario (demo_request ''mem_alloc'') ''s1'' (cl_clock ?w)) w2 out"
    using created_scenario_runs [OF demo_empty_ok(1,2) _ demo_empty_ok(3) _ demo_request_decodes _ _ ts] by meson
  from demo_created_done have "cl_clock (snd out) < year_start 10000"
    by (simp add: c p run)
  with c h p run st ends show ?thesis
    by (intro exI [of _ h] exI [of _ w1] exI [of _ j] exI [of _ w2] exI [of _ out])
       (simp add: demo_request_def demo_profile_def demo_cluster_def)
qed

section \<open>What is published can be handled\<close>

lemma profile_ints_zero: "profile_ints zero_profile"
  by (simp add: profile_ints_def zero_profile_def in_int64_def min_int64_def max_int64_def)

lemma decoded_request_ints:
  "decodeJSON (dec_ScenarioRequest b) body zero_request = Inr req \<Longrightarrow> profile_ints (sr_Profile req)"
  by (auto simp: decodeJSON_def json_Unmarshal_def split: bytes.splits sum.splits
      intro: dec_request_ints [where s = zero_request] simp: zero_request_def profile_ints_zero)

text \<open>
  C11. Every message the API publishes for a create request is well-formed for the worker: its body
  decodes to a valid scenario of one of the five workload types, so the worker never takes it for a
  message it cannot handle, and its routing key is the target queue of the request.
\<close>

theorem published_scenarios_are_deliverable:
  assumes "CreateScenario cluster_api body new_response w = (h, w')" and "cl_published w' \<noteq> cl_published w"
  shows "\<exists>sc j. cl_published w' = cl_published w @ [(scenariosExchange, lp_TargetQueue (sc_Profile sc), Doc j)] \<and>
    json_Unmarshal dec_ScenarioResponse (Doc j) zero_scenario = Inr sc \<and>
    sc_Status sc = ''queued'' \<and> profile_valid (sc_Profile sc) \<and> profile_ints (sc_Profile sc) \<and>
    \<not> undeliverable (\<lambda>sid. buildGenerators (work_env cluster_worker sid)) (Doc j)"
proof -
  have not: "\<not> rejected body"
    using CreateScenario_result [OF assms(1)] assms(2) by auto
  then obtain req uid now j where req: "decodeJSON (dec_ScenarioRequest True) body zero_request = Inr req"
    and enc: "enc_ScenarioResponse (queued_scenario req uid now) = Inr j"
    and pub: "cl_published w' = cl_published w @ [(scenariosExchange, lp_TargetQueue (sr_Profile req), Doc j)]"
    using CreateScenario_result [OF assms(1)] assms(2) by auto
  let ?sc = "queued_scenario req uid now"
  have sc: "sc_Profile ?sc = sr_Profile req" "sc_Status ?sc = ''queued''"
    by (simp_all add: queued_scenario_def)
  have ints: "profile_ints (sr_Profile req)"
    using req by (rule decoded_request_ints)
  have valid: "profile_valid (sr_Profile req)"
    using not req by (simp add: rejected_def ScenarioRequest_Validate_iff)
  have dec: "json_Unmarshal dec_ScenarioResponse (Doc j) zero_scenario = Inr ?sc"
    using dec_enc_ScenarioResponse [of ?sc j zero_scenario] enc ints by (simp add: json_Unmarshal_def sc)
  moreover have "\<not> undeliverable (\<lambda>sid. buildGenerators (work_env cluster_worker sid)) (Doc j)"
    using valid by (auto simp: undeliverable_def dec sc profile_valid_def buildGenerators_def workload_type_defs)
  ultimately show ?thesis
    using pub valid ints sc by (intro exI [of _ ?sc] exI [of _ j]) simp
qed

theorem published_scenarios_are_deliverable_witness:
  "\<exists>(sc :: ScenarioResponse) j. cl_published (snd (CreateScenario cluster_api (Doc (enc_ScenarioRequest (demo_request ''mixed''))) new_response
      (demo_cluster ''mixed'' []))) = [(scenariosExchange, lp_TargetQueue (sc_Profile sc), Doc j)] \<and>
    \<not> undeliverable (\<lambda>sid. buildGenerators (work_env cluster_worker sid)) (Doc j)"
proof -
  let ?w = "demo_cluster ''mixed'' []"
  obtain h w' where run: "CreateScenario cluster_api (Doc (enc_ScenarioRequest (demo_request ''mixed''))) new_response ?w = (h, w')"
    by fastforce
  have "length (cl_published (snd (CreateScenario cluster_api (Doc (enc_ScenarioRequest (demo_request ''mixed''))) new_response ?w))) = 1"
    by code_simp
  then have "cl_published w' \<noteq> cl_published ?w"
    using run by (auto simp: demo_cluster_def)
  moreover have "cl_published ?w = []"
    by (simp add: demo_cluster_def)
  moreover note published_scenarios_are_deliverable [OF run]
  ultimately obtain sc :: ScenarioResponse and j where "cl_published w' = [(scenariosExchange, lp_TargetQueue (sc_Profile sc), Doc j)]"
    "\<not> undeliverable (\<lambda>sid. buildGenerators (work_env cluster_worker sid)) (Doc j)"
    by auto
  then show ?thesis
    by (intro exI [of _ sc] exI [of _ j]) (simp add: run)
qed

end
