(* ===== verification/World_Frame.thy ===== *)
theory World_Frame
  imports Cluster_Api
begin

text \<open>
  What the program may do to the outside, once for all of it: a preorder on the cluster that every
  elementary effect keeps (the other clients' turn, a fault, the clock, one statement that took effect,
  a counter, a message, the draws of ticks and ids) is kept by every operation of the worker and of
  the API, whatever fails and whoever interferes. The reading operations need less than the others;
  messages to the workload queues are set apart, since only the create endpoint sends them.
\<close>

section \<open>Reading\<close>

locale outside_frame = frame R for R :: "cluster \<Rightarrow> cluster \<Rightarrow> bool" +
  assumes turn: "R w (others_act w)"
    and fault: "next_fault w = (f, w') \<Longrightarrow> R w w'"
    and pass: "0 \<le> d \<Longrightarrow> R w (tick_clock d w)"
begin

lemma fault_turn: "next_fault (others_act w) = (f, w') \<Longrightarrow> R w w'"
  by (rule trans [OF turn fault])

lemma pass_ms [simp]: "R w (tick_clock millisecond w)"
  by (rule pass) simp

lemma read_kept: "cluster_read f w = (x, w') \<Longrightarrow> R w w'"
  by (auto simp: cluster_read_def split: prod.splits option.splits dest!: fault_turn intro: trans [OF _ pass])

lemma now_kept: "cluster_now w = (t, w') \<Longrightarrow> R w w'"
  by (auto simp: cluster_now_def intro: pass)

lemmas read_snd = read_kept [OF prod.collapse [symmetric]]

lemma QueryRow_kept: "st_QueryRow cluster_store q args w = (x, w') \<Longrightarrow> R w w'"
  by (auto simp: cluster_defs split: prod.splits sum.splits dest: read_kept intro: read_snd)

lemma Query_kept: "st_Query cluster_store q args w = (x, w') \<Longrightarrow> R w w'"
  by (auto simp: cluster_defs split: prod.splits sum.splits dest: read_kept intro: read_snd)

lemma latest_kept: "latestScenarioStatus cluster_store sid w = (x, w') \<Longrightarrow> R w w'"
  by (auto simp: latestScenarioStatus_def query_bytes_def split: prod.splits sum.splits dest: QueryRow_kept)

lemma event_kept: "query_event cluster_store q args w = (x, w') \<Longrightarrow> R w w'"
  by (auto simp: query_event_def split: prod.splits sum.splits dest: QueryRow_kept)

lemma counter_kept: "redisCounter cluster_api key w = (n, w') \<Longrightarrow> R w w'"
  by (auto simp: redisCounter_def cluster_defs refl split: prod.splits sum.splits)

lemma counts_kept: "scenarioCounts cluster_api w = (x, w') \<Longrightarrow> R w w'"
  by (auto simp: scenarioCounts_def split: prod.splits sum.splits list.splits sql_val.splits dest: QueryRow_kept)

lemma List_kept: "ListScenarios cluster_api h w = (h', w') \<Longrightarrow> R w w'"
  by (auto simp: ListScenarios_def split: prod.splits sum.splits option.splits dest: Query_kept)

lemma Get_kept: "GetScenario cluster_api sid h w = (h', w') \<Longrightarrow> R w w'"
  by (auto simp: GetScenario_def refl split: prod.splits sum.splits if_splits dest: event_kept)

lemma Events_kept: "ListScenarioEvents cluster_api sid h w = (h', w') \<Longrightarrow> R w w'"
  by (auto simp: ListScenarioEvents_def refl split: prod.splits sum.splits option.splits if_splits dest: Query_kept)

lemma Metrics_kept: "MetricsSnapshot cluster_api h w = (h', w') \<Longrightarrow> R w w'"
  by (auto simp: MetricsSnapshot_def split: prod.splits sum.splits list.splits sql_val.splits bytes.splits
      dest: QueryRow_kept)

lemma Status_kept: "Status cluster_api h w = (h', w') \<Longrightarrow> R w w'"
  by (auto simp: Status_def split: prod.splits sum.splits dest!: counts_kept counter_kept now_kept)
     ((assumption | erule trans)+)

end

section \<open>Writing\<close>

locale world_frame = outside_frame +
  assumes store: "pg_Exec (cl_clock w) q args (cl_pg w) = (None, db) \<Longrightarrow>
          R w (w\<lparr>cl_pg := db, cl_log := cl_log w @ [(q, args)]\<rparr>)"
    and count: "R w (w\<lparr>cl_redis := c\<rparr>)"
    and send: "k \<noteq> queueHigh \<Longrightarrow> k \<noteq> queueLow \<Longrightarrow> R w (w\<lparr>cl_published := cl_published w @ [(x, k, b)]\<rparr>)"
    and draws: "R w (w\<lparr>cl_ticks := ns\<rparr>)" "R w (w\<lparr>cl_uuids := us\<rparr>)"
begin

lemma exec_kept:
  assumes "cluster_Exec q args w = (r, w')"
  shows "R w w'"
proof -
  obtain f w1 where f: "next_fault (others_act w) = (f, w1)"
    by fastforce
  obtain r1 db where x: "pg_Exec (cl_clock w1) q args (cl_pg w1) = (r1, db)"
    by fastforce
  have "R w1 w'"
    using assms f x trans [OF store pass_ms]
    by (auto simp: cluster_Exec_def split: option.splits)
  with fault_turn [OF f] show ?thesis
    by (rule trans)
qed

lemma publish_kept: "cluster_Publish x k b w = (r, w') \<Longrightarrow> k \<noteq> queueHigh \<Longrightarrow> k \<noteq> queueLow \<Longrightarrow> R w w'"
  by (auto simp: cluster_Publish_def split: prod.splits option.splits dest!: fault intro: trans [OF _ send])

lemma incr_kept: "wk_Incr cluster_worker k w = (r, w') \<Longrightarrow> R w w'"
  by (auto simp: cluster_defs split: prod.splits option.splits dest!: fault intro: trans [OF _ count])

lemma uuid_kept: "next_uuid w = (u, w') \<Longrightarrow> R w w'"
  by (auto simp: next_uuid_def refl split: list.splits intro: draws)

lemma ticks_kept: "next_ticks w = (n, w') \<Longrightarrow> R w w'"
  by (auto simp: next_ticks_def refl split: list.splits intro: draws)

lemmas exec_snd = exec_kept [OF prod.collapse [symmetric]]

lemma Exec_kept: "st_Exec cluster_store q args w = (r, w') \<Longrightarrow> R w w'"
  by (auto simp: cluster_defs split: prod.splits intro: exec_snd)

end

section \<open>The worker\<close>

text \<open>On the pairs of the outside and the watcher, the preorder is one for the generators.\<close>

sublocale world_frame \<subseteq> run: frame "\<lambda>s s'. R (fst s) (fst s')"
  by unfold_locales (auto intro: refl trans)

context world_frame
begin

lemma watchers_kept: "R (fst s) (fst ((watcher_tick cluster_store sid ^^ n) s))"
proof (induction n)
  case (Suc n)
  have "R (fst s') (fst (watcher_tick cluster_store sid s'))" for s'
    by (auto simp: watcher_tick_def refl split: prod.splits sum.splits dest: latest_kept)
  from trans [OF Suc this] show ?case
    by simp
qed (simp add: refl)

lemma watch_kept: "watchScenarioStop cluster_worker sid i s = (w', c) \<Longrightarrow> R (fst s) w'"
proof -
  assume a: "watchScenarioStop cluster_worker sid i s = (w', c)"
  obtain n w1 where n: "next_ticks (fst s) = (n, w1)"
    by fastforce
  with a watchers_kept [of "(w1, snd s)" n sid] ticks_kept [OF n] show ?thesis
    by (auto simp: watchScenarioStop_def intro: trans)
qed

lemma beside_kept:
  assumes "\<And>c w. R w (snd (f c w))"
  shows "R (fst s) (fst (snd (beside cluster_worker sid f s)))"
proof -
  obtain w1 c where s1: "watchScenarioStop cluster_worker sid stopWatchInterval s = (w1, c)"
    by fastforce
  from watch_kept [OF s1] assms [of w1 "wt_canceled c"] show ?thesis
    by (auto simp: beside_def s1 split: prod.splits intro: trans)
qed

lemma work_env_kept: "env_keeps (\<lambda>s s'. R (fst s) (fst s')) (work_env cluster_worker sid)"
proof -
  have sleep: "R (fst s) (fst (snd (env_sleep (work_env cluster_worker sid) d s)))" for d s
  proof -
    obtain w1 c1 where s1: "watchScenarioStop cluster_worker sid stopWatchInterval s = (w1, c1)"
      by fastforce
    let ?t = "tick_clock (max 0 d) w1"
    obtain w2 c2 where s2: "watchScenarioStop cluster_worker sid stopWatchInterval (?t, c1) = (w2, c2)"
      by fastforce
    have "R w1 ?t"
      by (rule pass) simp
    with watch_kept [OF s1] watch_kept [OF s2] have "R (fst s) w2"
      by (auto intro: trans)
    with watch_kept [OF s1] s2 show ?thesis
      by (simp add: work_env_def s1)
  qed
  have uid: "R w (snd (next_uuid w))" and now: "R w (snd (cluster_now w))" for w
    by (auto intro: uuid_kept now_kept prod.collapse [symmetric])
  show ?thesis
    unfolding env_keeps_def
    by (intro conjI allI sleep) (simp_all add: work_env_def beside_kept uid now refl)
qed

lemma generators_kept:
  assumes "buildGenerators (work_env cluster_worker sid) wt = Some gen"
    and "gen (scenario_params (work_store cluster_worker sid) sc) s = Some (a, s')"
  shows "R (fst s) (fst s')"
proof -
  have exec: "R w (snd (st_Exec (ctx_store cluster_worker c) q a w))" for c w q a
    by (cases c) (auto simp: ctx_store_def cluster_worker_def cluster_store_def postgresAdapter_def PostgresClient_def
        cluster_pool_def canceled_pool_def wrap_err_def refl split: prod.splits intro: exec_snd)
  have row: "R w (snd (st_QueryRow (ctx_store cluster_worker c) q a w))" for c w q a
    by (cases c) (auto simp: ctx_store_def cluster_worker_def cluster_store_def postgresAdapter_def PostgresClient_def
        cluster_pool_def canceled_pool_def wrap_res_def refl split: prod.splits intro: read_snd)
  have "store_keeps (\<lambda>s s'. R (fst s) (fst s')) (work_store cluster_worker sid)"
    unfolding store_keeps_def
    by (intro conjI allI) (simp_all add: work_store_def beside_kept exec row)
  then have "run.store_option_keeps (scenario_params (work_store cluster_worker sid) sc)"
    by (simp add: run.store_option_keeps_def scenario_params_def Let_def)
  with assms(1) work_env_kept [of sid]
  have "run.kept s (gen (scenario_params (work_store cluster_worker sid) sc) s)"
    by (auto simp: buildGenerators_def intro: run.CPU_kept run.Memory_kept run.DBWrite_kept
        run.DBRead_kept run.Mixed_kept split: if_splits)
  with assms(2) show ?thesis
    by simp
qed

lemma append_kept: "appendScenarioStatus cluster_now cluster_store sc status w = (r, w') \<Longrightarrow> R w w'"
  by (auto simp: appendScenarioStatus_def Let_def split: prod.splits sum.splits option.splits if_splits
      dest!: now_kept Exec_kept intro: trans refl)

lemma result_key [simp]: "''results.'' @ i \<noteq> queueHigh" "''results.'' @ i \<noteq> queueLow"
  by (simp_all add: Worker.queueHigh_def Worker.queueLow_def)

lemma report_kept: "reportResult cluster_worker sc res w = (r, w') \<Longrightarrow> R w w'"
  by (auto simp: reportResult_def split: prod.splits sum.splits option.splits if_splits
      dest!: now_kept Exec_kept incr_kept publish_kept [OF _ result_key, simplified])
     ((assumption | erule trans)+)

lemma finished_kept: "finishScenario cluster_worker sc res w = (r, w') \<Longrightarrow> R w w'"
  by (auto simp: finishScenario_def Let_def split: prod.splits sum.splits option.splits if_splits
      dest!: report_kept latest_kept append_kept intro: trans)

lemma run_kept:
  assumes "buildGenerators (work_env cluster_worker (sc_ID sc)) (lp_WorkloadType (sc_Profile sc)) = Some gen"
    and "runScenario cluster_worker gen sc w = Some (r, w')"
  shows "R w w'"
  using assms(2) generators_kept [OF assms(1), where s = "(w, new_watch)" and sc = sc]
  by (auto simp: runScenario_def split: option.splits prod.splits sum.splits if_splits
      dest!: finished_kept latest_kept intro: trans)

lemma worker_kept: "worker_handler cluster_worker body w = Some (r, w') \<Longrightarrow> R w w'"
  by (auto simp: worker_handler_def handleMessage_def refl split: option.splits prod.splits sum.splits if_splits
      dest!: latest_kept append_kept run_kept intro: trans)

end

section \<open>The API\<close>

context world_frame
begin

lemma stop_key [simp]: "''scenario.stop'' \<noteq> queueHigh" "''scenario.stop'' \<noteq> queueLow"
  by (simp_all add: Worker.queueHigh_def Worker.queueLow_def)

lemma Stop_kept: "StopScenario cluster_api sid h w = (h', w') \<Longrightarrow> R w w'"
  by (auto simp: StopScenario_def Let_def refl split: prod.splits sum.splits option.splits if_splits
      dest!: event_kept now_kept Exec_kept publish_kept [OF _ stop_key])
     ((assumption | erule trans)+)?

end

text \<open>With the messages to the workload queues the create endpoint is covered, too.\<close>

locale api_frame = world_frame +
  assumes dispatch: "R w (w\<lparr>cl_published := cl_published w @ [(x, k, b)]\<rparr>)"
begin

lemma dispatch_kept: "cluster_Publish x k b w = (r, w') \<Longrightarrow> R w w'"
  by (auto simp: cluster_Publish_def split: prod.splits option.splits dest!: fault intro: trans [OF _ dispatch])

lemma Create_kept: "CreateScenario cluster_api body h w = (h', w') \<Longrightarrow> R w w'"
  by (auto simp: CreateScenario_def Let_def refl split: prod.splits sum.splits option.splits if_splits
      dest!: uuid_kept now_kept Exec_kept dispatch_kept)
     ((assumption | erule trans)+)

end

end
