(* ===== verification/Lifecycle.thy ===== *)
theory Lifecycle
  imports Main
begin

text \<open>
  What the life of a scenario looks like from outside, without the cluster: the statuses its events
  show, in order, and the steps that extend them. A scenario is queued once, a stop may be recorded at
  any time after that, and an attempt to run it, which starts only when the latest status is not a
  stop, records that it is running and at most one outcome, with stops in between. The computable
  \<open>well_formed\<close> accepts exactly the histories these steps lead to; the simulation carries what holds of
  them over to every system whose steps refine them.
\<close>

section \<open>Histories\<close>

datatype phase = Queued | Running | Completed | Failed | Stopped

fun phase_name :: "phase \<Rightarrow> string" where
  "phase_name Queued = ''queued''"
| "phase_name Running = ''running''"
| "phase_name Completed = ''completed''"
| "phase_name Failed = ''failed''"
| "phase_name Stopped = ''stopped''"

lemma phase_name_eq [simp]: "phase_name p = phase_name q \<longleftrightarrow> p = q"
  by (cases p; cases q) simp_all

definition work :: "phase list \<Rightarrow> phase list" where
  "work zs = filter (\<lambda>p. p \<noteq> Stopped) zs"

lemma work_simps [simp]:
  "work [] = []" "work (Stopped # zs) = work zs" "p \<noteq> Stopped \<Longrightarrow> work (p # zs) = p # work zs"
  "work (ys @ zs) = work ys @ work zs" "work (replicate n Stopped) = []"
  by (simp_all add: work_def)

lemma work_Nil: "work zs = [] \<longleftrightarrow> (\<exists>n. zs = replicate n Stopped)"
  unfolding work_def filter_empty_conv
  by (metis in_set_replicate replicate_length_same)

definition attempt_works :: "phase list list" where
  "attempt_works = [[Running], [Running, Completed], [Running, Failed]]"

inductive lifecycle :: "phase list \<Rightarrow> phase list \<Rightarrow> bool" where
  rest: "lifecycle h h"
| queue: "lifecycle [] [Queued]"
| stop: "h \<noteq> [] \<Longrightarrow> lifecycle h (h @ replicate n Stopped)"
| attempt: "h \<noteq> [] \<Longrightarrow> last h \<noteq> Stopped \<Longrightarrow> work zs \<in> set attempt_works \<Longrightarrow> lifecycle h (h @ zs)"

inductive_cases lifecycleE: "lifecycle h h'"
inductive_simps lifecycle_Nil: "lifecycle [] h"

section \<open>The histories that can be reached\<close>

datatype mode = Fresh | Idle | Busy

fun next_mode :: "mode \<Rightarrow> phase \<Rightarrow> mode option" where
  "next_mode Fresh Queued = Some Idle"
| "next_mode Fresh p = None"
| "next_mode m Stopped = Some m"
| "next_mode m Running = Some Busy"
| "next_mode Busy Completed = Some Idle"
| "next_mode Busy Failed = Some Idle"
| "next_mode m p = None"

fun modes :: "mode \<Rightarrow> phase list \<Rightarrow> mode option" where
  "modes m [] = Some m"
| "modes m (p # ps) = (case next_mode m p of None \<Rightarrow> None | Some m' \<Rightarrow> modes m' ps)"

definition well_formed :: "phase list \<Rightarrow> bool" where
  "well_formed h \<longleftrightarrow> modes Fresh h \<noteq> None"

lemma modes_append: "modes m (xs @ ys) = (case modes m xs of None \<Rightarrow> None | Some m' \<Rightarrow> modes m' ys)"
  by (induction xs arbitrary: m) (auto split: option.splits)

lemma next_mode_not_Fresh [simp]: "next_mode m p \<noteq> Some Fresh"
  by (cases m; cases p) simp_all

lemma modes_Fresh: "modes m xs = Some Fresh \<longleftrightarrow> m = Fresh \<and> xs = []"
  by (induction xs arbitrary: m) (auto split: option.splits)

lemma modes_work: "m \<noteq> Fresh \<Longrightarrow> modes m zs = modes m (work zs)"
proof (induction zs arbitrary: m)
  case (Cons p zs)
  show ?case
  proof (cases "p = Stopped")
    case True
    with Cons show ?thesis
      by (cases m) simp_all
  next
    case False
    have "next_mode m p = Some m' \<Longrightarrow> modes m' zs = modes m' (work zs)" for m'
      by (rule Cons.IH) auto
    with False show ?thesis
      by (auto split: option.splits)
  qed
qed simp

lemma modes_attempt: "m \<noteq> Fresh \<Longrightarrow> work zs \<in> set attempt_works \<Longrightarrow> modes m zs \<noteq> None"
  by (cases m; subst modes_work) (auto simp: attempt_works_def)

lemma modes_stops: "m \<noteq> Fresh \<Longrightarrow> modes m (replicate n Stopped) = Some m"
  by (subst modes_work) simp_all

lemma modes_extend:
  assumes "modes Fresh h \<noteq> None" and "h \<noteq> []" and "\<And>m. m \<noteq> Fresh \<Longrightarrow> modes m zs \<noteq> None"
  shows "modes Fresh (h @ zs) \<noteq> None"
proof -
  obtain m where m: "modes Fresh h = Some m"
    using assms(1) by auto
  with assms(2) have "m \<noteq> Fresh"
    using modes_Fresh [of Fresh h] by auto
  with assms(3) m show ?thesis
    by (simp add: modes_append)
qed

lemma lifecycle_modes: "lifecycle h h' \<Longrightarrow> modes Fresh h \<noteq> None \<Longrightarrow> modes Fresh h' \<noteq> None"
proof (induction rule: lifecycle.induct)
  case (stop h n)
  then show ?case
    by (intro modes_extend) (simp_all add: modes_stops)
next
  case (attempt h zs)
  then show ?case
    by (intro modes_extend) (simp_all add: modes_attempt del: not_None_eq)
qed simp_all

lemma reached_modes: "lifecycle\<^sup>*\<^sup>* h h' \<Longrightarrow> modes Fresh h \<noteq> None \<Longrightarrow> modes Fresh h' \<noteq> None"
  by (induction rule: rtranclp_induct) (auto simp del: not_None_eq dest: lifecycle_modes)

text \<open>
  The other way around: the stops before a \<open>Running\<close> are taken into its attempt, so that every attempt
  starts from a status that is not a stop.
\<close>

lemma strip_stops:
  assumes "modes Fresh h = Some m" and "m \<noteq> Fresh"
  obtains g k where "h = g @ replicate k Stopped" and "g \<noteq> []" and "last g \<noteq> Stopped" and "modes Fresh g = Some m"
  using assms
proof (induction h arbitrary: thesis rule: rev_induct)
  case (snoc p h)
  show ?case
  proof (cases "p = Stopped")
    case True
    obtain m1 where m1: "modes Fresh h = Some m1" "next_mode m1 Stopped = Some m"
      using snoc.prems(2) True by (auto simp: modes_append split: option.splits)
    then have h: "modes Fresh h = Some m"
      by (cases m1) simp_all
    show ?thesis
    proof (rule snoc.IH [OF _ h snoc.prems(3)])
      fix g k
      assume "h = g @ replicate k Stopped" and g: "g \<noteq> []" "last g \<noteq> Stopped" "modes Fresh g = Some m"
      then have "h @ [p] = g @ replicate (Suc k) Stopped"
        by (simp add: True replicate_append_same)
      then show thesis
        by (rule snoc.prems(1)) (rule g)+
    qed
  next
    case False
    then show ?thesis
      by (intro snoc.prems(1) [of "h @ [p]" 0]) (use snoc.prems in auto)
  qed
qed simp

lemma open_attempt:
  assumes "modes Fresh h = Some Busy"
  obtains g b m where "h = g @ Running # replicate b Stopped" and "modes Fresh g = Some m" and "m \<noteq> Fresh"
proof -
  obtain g k where g: "h = g @ replicate k Stopped" "g \<noteq> []" "last g \<noteq> Stopped" "modes Fresh g = Some Busy"
    using assms by (rule strip_stops) simp
  then obtain f p where f: "g = f @ [p]"
    by (cases g rule: rev_cases) auto
  then obtain m where m: "modes Fresh f = Some m" "next_mode m p = Some Busy" "p \<noteq> Stopped"
    using g(3,4) by (auto simp: modes_append split: option.splits)
  then have "p = Running" "m \<noteq> Fresh"
    by (cases m; cases p; simp)+
  with f g(1) m(1) show thesis
    by (intro that [of f k m]) simp_all
qed

lemma attempt_after:
  assumes "modes Fresh h = Some m" and "m \<noteq> Fresh" and "work zs \<in> set attempt_works"
    and "\<And>g k. h = g @ replicate k Stopped \<Longrightarrow> modes Fresh g \<noteq> None \<Longrightarrow> lifecycle\<^sup>*\<^sup>* [] g"
  shows "lifecycle\<^sup>*\<^sup>* [] (h @ zs)"
proof -
  obtain g k where g: "h = g @ replicate k Stopped" "g \<noteq> []" "last g \<noteq> Stopped" "modes Fresh g = Some m"
    using assms(1,2) by (rule strip_stops)
  have "lifecycle\<^sup>*\<^sup>* [] g"
    using g(4) by (intro assms(4) [OF g(1)]) simp
  moreover have "lifecycle g (g @ (replicate k Stopped @ zs))"
    using g(2,3) assms(3) by (intro lifecycle.attempt) simp_all
  ultimately show ?thesis
    using g(1) by (simp add: rtranclp.rtrancl_into_rtrancl)
qed

lemma modes_reached: "modes Fresh h \<noteq> None \<Longrightarrow> lifecycle\<^sup>*\<^sup>* [] h"
proof (induction h rule: length_induct)
  case (1 h)
  show ?case
  proof (cases h rule: rev_cases)
    case (snoc g p)
    with 1(2) obtain m m' where g: "modes Fresh g = Some m" and p: "next_mode m p = Some m'"
      by (auto simp: modes_append split: option.splits)
    have IH: "modes Fresh f \<noteq> None \<Longrightarrow> length f \<le> length g \<Longrightarrow> lifecycle\<^sup>*\<^sup>* [] f" for f
      using 1(1) snoc by simp
    note fresh = modes_Fresh [of Fresh g]
    consider "p = Queued" "m = Fresh" | "p = Stopped" "m \<noteq> Fresh" | "p = Running" "m \<noteq> Fresh"
      | "p = Completed \<or> p = Failed" "m = Busy"
      using p by (cases m; cases p) auto
    then show ?thesis
    proof cases
      case 1
      with g fresh snoc lifecycle.queue show ?thesis
        by auto
    next
      case 2
      with g fresh have "g \<noteq> []"
        by auto
      then have "lifecycle g (g @ replicate 1 Stopped)"
        by (rule lifecycle.stop)
      with IH [of g] g 2 snoc show ?thesis
        by (auto intro: rtranclp.rtrancl_into_rtrancl)
    next
      case 3
      have "lifecycle\<^sup>*\<^sup>* [] (g @ [p])"
        by (rule attempt_after [OF g 3(2)]) (auto simp: 3 attempt_works_def intro!: IH)
      with snoc show ?thesis
        by simp
    next
      case 4
      obtain f b n where f: "g = f @ Running # replicate b Stopped" "modes Fresh f = Some n" "n \<noteq> Fresh"
        using g 4(2) by (auto elim: open_attempt)
      have "lifecycle\<^sup>*\<^sup>* [] (f @ (Running # replicate b Stopped @ [p]))"
        by (rule attempt_after [OF f(2,3)]) (use 4(1) f(1) in \<open>auto simp: attempt_works_def intro!: IH\<close>)
      with snoc f show ?thesis
        by simp
    qed
  qed simp
qed

lemma reached_iff: "lifecycle\<^sup>*\<^sup>* [] h \<longleftrightarrow> well_formed h"
  using reached_modes [of "[]" h] modes_reached [of h] by (auto simp: well_formed_def)

section \<open>What every history satisfies\<close>

text \<open>
  An attempt as it shows: running, \<open>i\<close> stops, and possibly an outcome with \<open>j\<close> stops after it. What
  follows \<open>Queued\<close> is some stops and then one attempt after the other.
\<close>

type_synonym attempt = "nat \<times> phase option \<times> nat"

fun attempt_end :: "attempt \<Rightarrow> phase list" where
  "attempt_end (i, out, j) = replicate i Stopped @ (case out of None \<Rightarrow> [] | Some p \<Rightarrow> p # replicate j Stopped)"

definition attempt_phases :: "attempt \<Rightarrow> phase list" where
  "attempt_phases a = Running # attempt_end a"

definition outcomes_ok :: "attempt list \<Rightarrow> bool" where
  "outcomes_ok as \<longleftrightarrow> (\<forall>(i, out, j) \<in> set as. out \<in> {None, Some Completed, Some Failed})"

lemma outcomes_ok_Cons [simp]:
  "outcomes_ok []" "outcomes_ok ((i, out, j) # as) \<longleftrightarrow> out \<in> {None, Some Completed, Some Failed} \<and> outcomes_ok as"
  by (auto simp: outcomes_ok_def)

lemma modes_attempts:
  "(modes Idle zs \<noteq> None \<longrightarrow>
      (\<exists>k as. zs = replicate k Stopped @ concat (map attempt_phases as) \<and> outcomes_ok as)) \<and>
   (modes Busy zs \<noteq> None \<longrightarrow>
      (\<exists>a as. zs = attempt_end a @ concat (map attempt_phases as) \<and> outcomes_ok (a # as)))"
proof (induction zs)
  case Nil
  show ?case
    by (intro conjI impI exI [of _ 0] exI [of _ "[]"] exI [of _ "(0, None, 0)"]) simp_all
next
  case (Cons p zs)
  note idle = conjunct1 [OF Cons.IH, rule_format] and busy = conjunct2 [OF Cons.IH, rule_format]
  have stops: "p = Stopped \<Longrightarrow> zs = replicate k Stopped @ ys \<Longrightarrow> p # zs = replicate (Suc k) Stopped @ ys" for k ys
    by simp
  have stops': "p = Stopped \<Longrightarrow> zs = attempt_end (i, out, j) @ ys \<Longrightarrow> p # zs = attempt_end (Suc i, out, j) @ ys" for i out j ys
    by simp
  have run: "p = Running \<Longrightarrow> zs = attempt_end a @ concat (map attempt_phases as) \<Longrightarrow>
      p # zs = concat (map attempt_phases (a # as))" for a as
    by (simp add: attempt_phases_def)
  show ?case
  proof (intro conjI impI)
    assume m: "modes Idle (p # zs) \<noteq> None"
    then consider "p = Stopped" "modes Idle zs \<noteq> None" | "p = Running" "modes Busy zs \<noteq> None"
      by (cases p) auto
    then show "\<exists>k as. p # zs = replicate k Stopped @ concat (map attempt_phases as) \<and> outcomes_ok as"
    proof cases
      case 1
      then show ?thesis
        using idle stops by metis
    next
      case 2
      then obtain a as where a: "zs = attempt_end a @ concat (map attempt_phases as)" "outcomes_ok (a # as)"
        using busy by blast
      then have "p # zs = replicate 0 Stopped @ concat (map attempt_phases (a # as))"
        using run [OF 2(1)] by simp
      with a(2) show ?thesis
        by blast
    qed
  next
    assume m: "modes Busy (p # zs) \<noteq> None"
    then consider "p = Stopped" "modes Busy zs \<noteq> None" | "p = Running" "modes Busy zs \<noteq> None"
      | "p = Completed \<or> p = Failed" "modes Idle zs \<noteq> None"
      by (cases p) auto
    then show "\<exists>a as. p # zs = attempt_end a @ concat (map attempt_phases as) \<and> outcomes_ok (a # as)"
    proof cases
      case 1
      then obtain i out j as where "zs = attempt_end (i, out, j) @ concat (map attempt_phases as)"
        "outcomes_ok ((i, out, j) # as)"
        using busy by (metis prod_cases3)
      with 1(1) have "p # zs = attempt_end (Suc i, out, j) @ concat (map attempt_phases as) \<and>
          outcomes_ok ((Suc i, out, j) # as)"
        by (metis stops' outcomes_ok_Cons(2))
      then show ?thesis
        by blast
    next
      case 2
      then obtain a as where a: "zs = attempt_end a @ concat (map attempt_phases as)" "outcomes_ok (a # as)"
        using busy by blast
      then have "p # zs = attempt_end (0, None, 0) @ concat (map attempt_phases (a # as))"
        using run [OF 2(1)] by simp
      moreover from a(2) have "outcomes_ok ((0, None, 0) # a # as)"
        by simp
      ultimately show ?thesis
        by blast
    next
      case 3
      then obtain k as where "zs = replicate k Stopped @ concat (map attempt_phases as)" "outcomes_ok as"
        using idle by blast
      with 3(1) have "p # zs = attempt_end (0, Some p, k) @ concat (map attempt_phases as)"
        "outcomes_ok ((0, Some p, k) # as)"
        by auto
      then show ?thesis
        by blast
    qed
  qed
qed

lemma modes_queued: "modes m zs = Some m' \<Longrightarrow> m \<noteq> Fresh \<Longrightarrow> Queued \<notin> set zs"
  by (induction zs arbitrary: m) (auto split: option.splits elim!: next_mode.elims)

lemma well_formed_Cons: "well_formed h \<Longrightarrow> h = [] \<or> (\<exists>zs. h = Queued # zs \<and> Queued \<notin> set zs)"
proof (cases h)
  case (Cons p zs)
  assume "well_formed h"
  with Cons show ?thesis
    by (cases p) (auto simp: well_formed_def dest: modes_queued)
qed simp

lemma well_formed_attempts:
  assumes "well_formed h" and "h \<noteq> []"
  obtains k as where "h = Queued # replicate k Stopped @ concat (map attempt_phases as)" and "outcomes_ok as"
proof -
  obtain zs where h: "h = Queued # zs"
    using well_formed_Cons [OF assms(1)] assms(2) by blast
  with assms(1) have "modes Idle zs \<noteq> None"
    by (simp add: well_formed_def)
  with modes_attempts [of zs] h that show thesis
    by blast
qed

lemma lifecycle_appends: "lifecycle h h' \<Longrightarrow> \<exists>zs. h' = h @ zs"
  by (auto elim!: lifecycleE)

lemma runs_append: "lifecycle\<^sup>*\<^sup>* h h' \<Longrightarrow> \<exists>zs. h' = h @ zs"
  by (induction rule: rtranclp_induct) (auto dest!: lifecycle_appends)

text \<open>A stop that is the latest status between two steps is final.\<close>

lemma stopped_stays:
  assumes "lifecycle h h'" and "h \<noteq> []" and "last h = Stopped"
  shows "\<exists>n. h' = h @ replicate n Stopped"
  using assms
proof (induction rule: lifecycle.induct)
  case (rest h)
  show ?case
    by (intro exI [of _ 0]) simp
qed auto

lemma stopped_forever:
  assumes "lifecycle\<^sup>*\<^sup>* h h'" and "h \<noteq> []" and "last h = Stopped"
  shows "\<exists>n. h' = h @ replicate n Stopped"
  using assms(1)
proof (induction rule: rtranclp_induct)
  case base
  show ?case
    by (intro exI [of _ 0]) simp
next
  case (step h1 h2)
  then obtain n where n: "h1 = h @ replicate n Stopped"
    by blast
  with assms(2,3) have "h1 \<noteq> []" "last h1 = Stopped"
    by (simp_all add: last_append)
  with step.hyps(2) obtain k where "h2 = h1 @ replicate k Stopped"
    using stopped_stays by blast
  with n show ?case
    by (intro exI [of _ "n + k"]) (simp add: replicate_add)
qed

section \<open>Simulation\<close>

text \<open>
  Every step of a system, from a state with its invariant, is a step of the abstract system on what the
  relation says the state shows; then so is every run.
\<close>

locale simulation =
  fixes abs_step :: "'a \<Rightarrow> 'a \<Rightarrow> bool" and sys_step :: "'c \<Rightarrow> 'c \<Rightarrow> bool"
    and shows_as :: "'a \<Rightarrow> 'c \<Rightarrow> bool" and sys_inv :: "'c \<Rightarrow> bool"
  assumes inv_step: "sys_inv c \<Longrightarrow> sys_step c c' \<Longrightarrow> sys_inv c'"
    and sim_step: "sys_inv c \<Longrightarrow> shows_as a c \<Longrightarrow> sys_step c c' \<Longrightarrow> \<exists>a'. abs_step a a' \<and> shows_as a' c'"
begin

lemma inv_run: "sys_step\<^sup>*\<^sup>* c c' \<Longrightarrow> sys_inv c \<Longrightarrow> sys_inv c'"
  by (induction rule: rtranclp_induct) (auto intro: inv_step)

lemma sim_run:
  assumes "sys_step\<^sup>*\<^sup>* c c'" and "sys_inv c" and "shows_as a c"
  shows "\<exists>a'. abs_step\<^sup>*\<^sup>* a a' \<and> shows_as a' c'"
  using assms(1)
proof (induction rule: rtranclp_induct)
  case (step c1 c2)
  then obtain a1 where a1: "abs_step\<^sup>*\<^sup>* a a1" "shows_as a1 c1"
    by blast
  have "sys_inv c1"
    using step.hyps(1) assms(2) by (rule inv_run)
  with a1(2) step.hyps(2) obtain a2 where "abs_step a1 a2" "shows_as a2 c2"
    using sim_step by blast
  with a1(1) show ?case
    by (blast intro: rtranclp.rtrancl_into_rtrancl)
qed (use assms(3) in blast)

end

end
