(* ===== verification/Amqp_Endpoint.thy ===== *)
theory Amqp_Endpoint
  imports Go_Strings
begin

text \<open>
  internal/messaging/rabbitmq.go, the part the producer and the consumer share: the connection, how it
  is opened and replaced, and the goroutine that watches it. The library amqp091-go and the broker are
  the record \<open>amqp\<close>; connections, channels and streams of deliveries are handles of it. The sequential
  operations are functions; the interleaving of the goroutines is the relation \<open>ep_step\<close>, whose steps
  are the sections of the code between two accesses to the fields under the lock.
\<close>

section \<open>The library\<close>

text \<open>
  \<open>amqp_declaration\<close> has the calls \<open>ExchangeDeclare\<close>, \<open>QueueDeclare\<close> and \<open>QueueBind\<close> with their
  arguments, \<open>publishing\<close> the fields of \<open>amqp.Publishing\<close> the code sets (the time stamp apart).
\<close>

datatype amqp_value = AStr string | AOther

type_synonym amqp_table = "string \<rightharpoonup> amqp_value"

datatype amqp_declaration =
    ExchangeDeclare (dc_name: string) (dc_kind: string) (dc_durable: bool) (dc_autoDelete: bool) (dc_internal: bool)
      (dc_noWait: bool) (dc_args: amqp_table)
  | QueueDeclare (dc_name: string) (dc_durable: bool) (dc_autoDelete: bool) (dc_exclusive: bool) (dc_noWait: bool)
      (dc_args: amqp_table)
  | QueueBind (dc_name: string) (dc_key: string) (dc_exchange: string) (dc_noWait: bool) (dc_args: amqp_table)

record 'b publishing =
  pb_ContentType :: string
  pb_Body :: 'b
  pb_Headers :: amqp_table
  pb_DeliveryMode :: nat

record 'b delivery =
  dl_tag :: nat
  dl_RoutingKey :: string
  dl_Headers :: amqp_table
  dl_Body :: 'b

text \<open>What the \<open>select\<close> of the consume loop finds.\<close>

datatype 'b arrival = CtxDone | StreamClosed | Arrived "'b delivery"

record ('b, 'w) amqp =
  am_Dial :: "'w \<Rightarrow> nat res \<times> 'w"
  am_Channel :: "nat \<Rightarrow> 'w \<Rightarrow> nat res \<times> 'w"
  am_ConnClose :: "nat \<Rightarrow> 'w \<Rightarrow> goerr option \<times> 'w"
  am_ChanClose :: "nat \<Rightarrow> 'w \<Rightarrow> goerr option \<times> 'w"
  am_Declare :: "nat \<Rightarrow> amqp_declaration \<Rightarrow> 'w \<Rightarrow> goerr option \<times> 'w"
  am_Publish :: "nat \<Rightarrow> string \<Rightarrow> string \<Rightarrow> 'b publishing \<Rightarrow> 'w \<Rightarrow> goerr option \<times> 'w"
  am_Qos :: "nat \<Rightarrow> int \<Rightarrow> 'w \<Rightarrow> goerr option \<times> 'w"
  am_Consume :: "nat \<Rightarrow> string \<Rightarrow> 'w \<Rightarrow> nat res \<times> 'w"
  am_next :: "nat \<Rightarrow> 'w \<Rightarrow> 'b arrival \<times> 'w"
  am_Ack :: "'b delivery \<Rightarrow> 'w \<Rightarrow> goerr option \<times> 'w"
  am_Nack :: "'b delivery \<Rightarrow> bool \<Rightarrow> 'w \<Rightarrow> goerr option \<times> 'w"
  am_closed :: "nat \<Rightarrow> 'w \<Rightarrow> bool"
  am_ctx_done :: "'w \<Rightarrow> bool"
  am_wait :: "duration \<Rightarrow> 'w \<Rightarrow> bool \<times> 'w"
  am_propagate :: "'w \<Rightarrow> (string \<times> string) list"

text \<open>\<open>realConn\<close> and the dialer that both constructors build.\<close>

definition realConn_Channel :: "('b, 'w) amqp \<Rightarrow> nat \<Rightarrow> 'w \<Rightarrow> nat res \<times> 'w" where
  "realConn_Channel p c w =
     (case am_Channel p c w of
        (Inl err, w1) \<Rightarrow> (Inl (Wrapf ''rabbitmq channel'' err), w1)
      | (Inr ch, w1) \<Rightarrow> (Inr ch, w1))"

definition realConn_Close :: "('b, 'w) amqp \<Rightarrow> nat \<Rightarrow> 'w \<Rightarrow> goerr option \<times> 'w" where
  "realConn_Close p c w =
     (case am_ConnClose p c w of
        (Some err, w1) \<Rightarrow> (Some (Wrapf ''rabbitmq close'' err), w1)
      | (None, w1) \<Rightarrow> (None, w1))"

definition dialer :: "('b, 'w) amqp \<Rightarrow> 'w \<Rightarrow> nat res \<times> 'w" where
  "dialer p w =
     (case am_Dial p w of
        (Inl err, w1) \<Rightarrow> (Inl (Wrapf ''rabbitmq dial'' err), w1)
      | (Inr conn, w1) \<Rightarrow> (Inr conn, w1))"

section \<open>Connecting\<close>

text \<open>The fields the mutex guards.\<close>

record endpoint =
  ep_conn :: "nat option"
  ep_channel :: "nat option"

text \<open>\<open>connect\<close> up to the lock: a connection and a channel on it.\<close>

definition open_channel :: "('b, 'w) amqp \<Rightarrow> 'w \<Rightarrow> (nat \<times> nat) res \<times> 'w" where
  "open_channel p w =
     (case dialer p w of
        (Inl err, w1) \<Rightarrow> (Inl err, w1)
      | (Inr conn, w1) \<Rightarrow>
          (case realConn_Channel p conn w1 of
             (Inl err, w2) \<Rightarrow> (Inl (Wrapf ''rabbitmq channel'' err), snd (realConn_Close p conn w2))
           | (Inr ch, w2) \<Rightarrow> (Inr (conn, ch), w2)))"

text \<open>\<open>connect\<close> under the lock: the old channel and connection are closed, the new ones stored.\<close>

definition install :: "('b, 'w) amqp \<Rightarrow> nat \<Rightarrow> nat \<Rightarrow> endpoint \<times> 'w \<Rightarrow> endpoint \<times> 'w" where
  "install p conn ch s =
     (case s of (ep, w) \<Rightarrow>
       let w1 = (case ep_channel ep of None \<Rightarrow> w | Some old \<Rightarrow> snd (am_ChanClose p old w));
           w2 = (case ep_conn ep of None \<Rightarrow> w1 | Some old \<Rightarrow> snd (realConn_Close p old w1))
       in (ep\<lparr>ep_conn := Some conn, ep_channel := Some ch\<rparr>, w2))"

definition connect :: "('b, 'w) amqp \<Rightarrow> endpoint \<times> 'w \<Rightarrow> goerr option \<times> endpoint \<times> 'w" where
  "connect p s =
     (case open_channel p (snd s) of
        (Inl err, w1) \<Rightarrow> (Some err, fst s, w1)
      | (Inr (conn, ch), w1) \<Rightarrow> (None, install p conn ch (fst s, w1)))"

text \<open>\<open>reconnect\<close>: \<open>n\<close> counts the attempts that are left.\<close>

fun reconnect_loop ::
    "('s \<Rightarrow> goerr option \<times> 's) \<Rightarrow> (duration \<Rightarrow> 's \<Rightarrow> bool \<times> 's) \<Rightarrow> duration \<Rightarrow> nat \<Rightarrow> 's \<Rightarrow> 's" where
  "reconnect_loop conn wait backoff 0 s = s"
| "reconnect_loop conn wait backoff (Suc n) s =
     (case conn s of
        (None, s1) \<Rightarrow> s1
      | (Some err, s1) \<Rightarrow>
          (case wait backoff s1 of
             (True, s2) \<Rightarrow> s2
           | (False, s2) \<Rightarrow>
               reconnect_loop conn wait (if backoff < 5 * second then backoff * 2 else backoff) n s2))"

definition ep_wait :: "('b, 'w) amqp \<Rightarrow> duration \<Rightarrow> endpoint \<times> 'w \<Rightarrow> bool \<times> endpoint \<times> 'w" where
  "ep_wait p d s = (case am_wait p d (snd s) of (done, w1) \<Rightarrow> (done, fst s, w1))"

definition reconnect :: "('b, 'w) amqp \<Rightarrow> endpoint \<times> 'w \<Rightarrow> endpoint \<times> 'w" where
  "reconnect p s = reconnect_loop (connect p) (ep_wait p) (500 * millisecond) 10 s"

section \<open>The goroutines\<close>

text \<open>
  Where a goroutine is: at the top of the loop of \<open>monitorReconnect\<close>, in its \<open>select\<close> on the
  notifications of a connection, in an attempt of \<open>reconnect\<close>, with a new connection in its hands
  before the lock, in the pause after a failure, or returned.
\<close>

datatype task =
    Top
  | Watching nat
  | Dialing duration nat
  | Holding nat nat
  | Pausing duration nat
  | Returned

text \<open>
  The steps. The first task of the list is the monitor; the others are calls of \<open>reconnect\<close> by the
  consume loop, which may call it again once it has returned. \<open>close\<close> is a call of \<open>Close\<close> with the
  given effect, \<open>outside\<close> whatever the broker and the network do.
\<close>

inductive task_step ::
    "('b, 'w) amqp \<Rightarrow> nat \<Rightarrow> task \<Rightarrow> endpoint \<times> 'w \<Rightarrow> task \<Rightarrow> endpoint \<times> 'w \<Rightarrow> bool"
  for p where
  no_conn: "ep_conn ep = None \<Longrightarrow> task_step p 0 Top (ep, w) Returned (ep, w)"
| watch_conn: "ep_conn ep = Some c \<Longrightarrow> task_step p 0 Top (ep, w) (Watching c) (ep, w)"
| watch_done: "am_ctx_done p w \<Longrightarrow> task_step p 0 (Watching c) (ep, w) Returned (ep, w)"
| notified: "am_closed p c w \<Longrightarrow> task_step p 0 (Watching c) (ep, w) (Dialing (500 * millisecond) 10) (ep, w)"
| call_again: "i \<noteq> 0 \<Longrightarrow> task_step p i Top s (Dialing (500 * millisecond) 10) s"
| dialed: "open_channel p w = (Inr (c, ch), w') \<Longrightarrow> task_step p i (Dialing b (Suc n)) (ep, w) (Holding c ch) (ep, w')"
| failed: "open_channel p w = (Inl err, w') \<Longrightarrow> task_step p i (Dialing b (Suc n)) (ep, w) (Pausing b n) (ep, w')"
| stored: "task_step p i (Holding c ch) s Top (install p c ch s)"
| paused_done: "am_wait p b w = (True, w') \<Longrightarrow> task_step p i (Pausing b n) (ep, w) Top (ep, w')"
| paused: "am_wait p b w = (False, w') \<Longrightarrow>
     task_step p i (Pausing b n) (ep, w) (Dialing (if b < 5 * second then b * 2 else b) n) (ep, w')"
| gave_up: "task_step p i (Dialing b 0) s Top s"

inductive ep_step ::
    "('b, 'w) amqp \<Rightarrow> (endpoint \<times> 'w \<Rightarrow> endpoint \<times> 'w) \<Rightarrow> ('w \<Rightarrow> 'w \<Rightarrow> bool) \<Rightarrow>
     task list \<times> endpoint \<times> 'w \<Rightarrow> task list \<times> endpoint \<times> 'w \<Rightarrow> bool"
  for p close outside where
  task: "i < length ts \<Longrightarrow> task_step p i (ts ! i) s t s' \<Longrightarrow> ep_step p close outside (ts, s) (ts[i := t], s')"
| closing: "ep_step p close outside (ts, s) (ts, close s)"
| world: "outside w w' \<Longrightarrow> ep_step p close outside (ts, ep, w) (ts, ep, w')"

abbreviation "ep_steps p close outside \<equiv> (ep_step p close outside)\<^sup>*\<^sup>*"

text \<open>\<open>NewProducer\<close> and \<open>NewConsumer\<close> start the monitor on a connected endpoint.\<close>

definition ep_start :: "endpoint \<times> 'w \<Rightarrow> nat \<Rightarrow> task list \<times> endpoint \<times> 'w" where
  "ep_start s n = (Top # replicate n Top, s)"

section \<open>No connection is lost\<close>

text \<open>
  What the connections of the library promise. \<open>conns w\<close> is the set of the open ones.
\<close>

locale connections =
  fixes p :: "('b, 'w) amqp" and conns :: "'w \<Rightarrow> nat set" and outside :: "'w \<Rightarrow> 'w \<Rightarrow> bool"
  assumes dial_ok: "am_Dial p w = (Inr c, w') \<Longrightarrow> conns w' \<subseteq> insert c (conns w)"
    and dial_err: "am_Dial p w = (Inl e, w') \<Longrightarrow> conns w' \<subseteq> conns w"
    and channel: "am_Channel p c w = (r, w') \<Longrightarrow> conns w' \<subseteq> conns w"
    and conn_close: "am_ConnClose p c w = (r', w') \<Longrightarrow> conns w' \<subseteq> conns w - {c}"
    and chan_close: "am_ChanClose p ch w = (r', w') \<Longrightarrow> conns w' \<subseteq> conns w"
    and waiting: "am_wait p d w = (b, w') \<Longrightarrow> conns w' \<subseteq> conns w"
    and network: "outside w w' \<Longrightarrow> conns w' \<subseteq> conns w"
begin

lemma chan_close_snd: "conns (snd (am_ChanClose p ch w)) \<subseteq> conns w"
  by (cases "am_ChanClose p ch w") (auto dest: chan_close)

lemma realConn_Close_snd: "conns (snd (realConn_Close p c w)) \<subseteq> conns w - {c}"
  by (cases "am_ConnClose p c w") (auto simp: realConn_Close_def dest: conn_close split: option.splits)

lemma realConn_Close_conns: "realConn_Close p c w = (r, w') \<Longrightarrow> conns w' \<subseteq> conns w - {c}"
  using realConn_Close_snd [of c w] by simp

lemma open_channel_ok: "open_channel p w = (Inr (c, ch), w') \<Longrightarrow> conns w' \<subseteq> insert c (conns w)"
  by (fastforce simp: open_channel_def dialer_def realConn_Channel_def
      split: prod.splits sum.splits dest!: dial_ok channel)

lemma open_channel_err:
  assumes "open_channel p w = (Inl e, w')"
  shows "conns w' \<subseteq> conns w"
proof -
  obtain r w1 where d: "am_Dial p w = (r, w1)"
    by fastforce
  show ?thesis
  proof (cases r)
    case (Inl e)
    with d assms dial_err [of w e w1] show ?thesis
      by (auto simp: open_channel_def dialer_def)
  next
    case (Inr c)
    obtain r2 w2 where "am_Channel p c w1 = (r2, w2)"
      by fastforce
    with d Inr assms dial_ok [of w c w1] channel [of c w1 r2 w2] realConn_Close_snd [of c w2] show ?thesis
      by (auto simp: open_channel_def dialer_def realConn_Channel_def split: sum.splits)
  qed
qed

lemma install_conns:
  "install p c ch (ep, w) = (ep', w') \<Longrightarrow> ep_conn ep' = Some c \<and> conns w' \<subseteq> conns w - set_option (ep_conn ep)"
  using realConn_Close_snd chan_close_snd
  by (fastforce simp: install_def Let_def split: option.splits)

text \<open>The connections somebody still has.\<close>

fun held :: "task \<Rightarrow> nat set" where
  "held (Holding c ch) = {c}"
| "held _ = {}"

definition owned :: "task list \<times> endpoint \<times> 'w \<Rightarrow> bool" where
  "owned s = (case s of (ts, ep, w) \<Rightarrow> conns w \<subseteq> set_option (ep_conn ep) \<union> (\<Union>t\<in>set ts. held t))"

lemma held_update:
  assumes "i < length ts" and "x \<in> held u" and "u \<in> set ts"
  shows "x \<in> held (ts ! i) \<or> (\<exists>v\<in>set (ts[i := t']). x \<in> held v)"
proof -
  obtain j where j: "j < length ts" "u = ts ! j"
    using assms(3) by (auto simp: in_set_conv_nth)
  show ?thesis
  proof (cases "j = i")
    case False
    then have "ts[i := t'] ! j = u" "j < length (ts[i := t'])"
      using j by simp_all
    with assms(2) show ?thesis
      by (metis nth_mem)
  qed (use j assms in simp)
qed

lemma held_new: "i < length ts \<Longrightarrow> x \<in> held t' \<Longrightarrow> \<exists>v\<in>set (ts[i := t']). x \<in> held v"
  using set_update_memI by fastforce

text \<open>A step of a task keeps what it holds, or puts it into the fields and closes what was there.\<close>

lemma task_step_owned:
  assumes "task_step p i t (ep, w) t' (ep', w')"
  shows "conns w' \<subseteq> conns w \<union> held t' \<and> ep_conn ep' = ep_conn ep \<and> held t = {} \<or>
    (\<exists>c ch. t = Holding c ch \<and> ep_conn ep' = Some c \<and> conns w' \<subseteq> conns w - set_option (ep_conn ep))"
  using assms
proof cases
  case (dialed c ch b n)
  then show ?thesis
    using open_channel_ok [of w c ch w'] by auto
next
  case (failed err b n)
  then show ?thesis
    using open_channel_err [of w err w'] by auto
next
  case (stored c ch)
  then show ?thesis
    using install_conns [of c ch ep w ep' w'] by simp
next
  case (paused_done b n)
  then show ?thesis
    using waiting [of b w True w'] by auto
next
  case (paused b n)
  then show ?thesis
    using waiting [of b w False w'] by auto
qed auto

lemma owned_step:
  assumes "ep_step p close outside s s'" and "owned s"
    and close: "\<And>ep w ep' w'. close (ep, w) = (ep', w') \<Longrightarrow>
       conns w' \<subseteq> conns w - (set_option (ep_conn ep) - set_option (ep_conn ep'))"
  shows "owned s'"
  using assms(1,2)
proof cases
  case (task i ts s1 t s1')
  obtain ep w ep' w' where s: "s1 = (ep, w)" "s1' = (ep', w')"
    by fastforce
  have before: "x \<in> set_option (ep_conn ep) \<or> (\<exists>u\<in>set ts. x \<in> held u)" if "x \<in> conns w" for x
    using assms(2) that by (auto simp: owned_def task(1) s)
  have "x \<in> set_option (ep_conn ep') \<or> (\<exists>v\<in>set (ts[i := t]). x \<in> held v)" if x: "x \<in> conns w'" for x
    using task_step_owned [OF task(4) [unfolded s]]
  proof (elim disjE exE conjE)
    assume "conns w' \<subseteq> conns w \<union> held t" "ep_conn ep' = ep_conn ep" "held (ts ! i) = {}"
    then show ?thesis
      using x before [of x] held_update [OF task(3), of x _ t] held_new [OF task(3), of x t]
      by (metis UnE empty_iff subsetD)
  next
    fix c ch
    assume "ts ! i = Holding c ch" "ep_conn ep' = Some c" "conns w' \<subseteq> conns w - set_option (ep_conn ep)"
    then show ?thesis
      using x before [of x] held_update [OF task(3), of x _ t]
      by (metis DiffE empty_iff held.simps(1) insert_iff option.set_intros subsetD)
  qed
  then show ?thesis
    by (auto simp: owned_def task(2) s)
next
  case (closing ts s1)
  obtain ep w ep' w' where s: "s1 = (ep, w)" "close s1 = (ep', w')"
    by fastforce
  with close [of ep w ep' w'] assms(2) closing show ?thesis
    by (auto simp: owned_def)
next
  case (world w w' ts ep)
  with assms(2) network [of w w'] show ?thesis
    by (auto simp: owned_def)
qed

lemma owned_steps:
  assumes "ep_steps p close outside s s'" and "owned s"
    and "\<And>ep w ep' w'. close (ep, w) = (ep', w') \<Longrightarrow>
       conns w' \<subseteq> conns w - (set_option (ep_conn ep) - set_option (ep_conn ep'))"
  shows "owned s'"
  using assms(1,2)
proof (induction rule: rtranclp_induct)
  case (step s' s'')
  show ?case
    by (rule owned_step [OF step(2)]) (use step.IH step.prems assms(3) in blast)+
qed

end

text \<open>
  The sequential \<open>reconnect\<close> is one of the runs of the relation: nobody else moves between its steps.
\<close>

lemma ep_task:
  "task_step p i t s t' s' \<Longrightarrow> i < length ts \<Longrightarrow> ep_step p close outside (ts[i := t], s) (ts[i := t'], s')"
  using ep_step.task [of i "ts[i := t]" p s t' s' close outside] by simp

lemma reconnect_loop_steps:
  assumes "i < length ts"
  shows "ep_steps p close outside (ts[i := Dialing b n], s)
     (ts[i := Top], reconnect_loop (connect p) (ep_wait p) b n s)"
proof (induction n arbitrary: b s)
  case 0
  show ?case
    unfolding reconnect_loop.simps by (rule r_into_rtranclp, rule ep_task [OF gave_up assms])
next
  case (Suc n)
  obtain ep w where s: "s = (ep, w)"
    by fastforce
  obtain r w1 where r: "open_channel p w = (r, w1)"
    by fastforce
  show ?case
  proof (cases r)
    case (Inr x)
    then obtain c ch where x: "r = Inr (c, ch)"
      by (cases x) simp
    have "ep_step p close outside (ts[i := Dialing b (Suc n)], ep, w) (ts[i := Holding c ch], ep, w1)"
      by (rule ep_task [OF dialed assms]) (use r x in simp)
    moreover have "ep_step p close outside (ts[i := Holding c ch], ep, w1) (ts[i := Top], install p c ch (ep, w1))"
      by (rule ep_task [OF stored assms])
    moreover have "reconnect_loop (connect p) (ep_wait p) b (Suc n) s = install p c ch (ep, w1)"
      using r x s by (simp add: connect_def)
    ultimately show ?thesis
      by (metis s converse_rtranclp_into_rtranclp r_into_rtranclp)
  next
    case (Inl err)
    let ?b = "if b < 5 * second then b * 2 else b"
    obtain d w2 where wt: "am_wait p b w1 = (d, w2)"
      by fastforce
    have one: "ep_step p close outside (ts[i := Dialing b (Suc n)], ep, w) (ts[i := Pausing b n], ep, w1)"
      by (rule ep_task [OF failed assms]) (use r Inl in simp)
    show ?thesis
    proof (cases d)
      case True
      have "ep_step p close outside (ts[i := Pausing b n], ep, w1) (ts[i := Top], ep, w2)"
        by (rule ep_task [OF paused_done assms]) (use wt True in simp)
      moreover have "reconnect_loop (connect p) (ep_wait p) b (Suc n) s = (ep, w2)"
        using r Inl s wt True by (simp add: connect_def ep_wait_def)
      ultimately show ?thesis
        using one s by (metis converse_rtranclp_into_rtranclp r_into_rtranclp)
    next
      case False
      have "ep_step p close outside (ts[i := Pausing b n], ep, w1) (ts[i := Dialing ?b n], ep, w2)"
        by (rule ep_task [OF paused assms]) (use wt False in simp)
      moreover have "reconnect_loop (connect p) (ep_wait p) b (Suc n) s = reconnect_loop (connect p) (ep_wait p) ?b n (ep, w2)"
        using r Inl s wt False by (simp add: connect_def ep_wait_def)
      ultimately show ?thesis
        using one s Suc.IH [of ?b "(ep, w2)"] by (metis converse_rtranclp_into_rtranclp)
    qed
  qed
qed

end
