(* ===== verification/Producer.thy ===== *)
theory Producer
  imports Amqp_Endpoint Db_Clients
begin

text \<open>
  internal/messaging/rabbitmq.go: the producer, the topology it declares and the carrier for the trace
  context; a concrete broker for the record \<open>amqp\<close>; what the goroutines keep and what the topology
  routes.
\<close>

section \<open>Constants\<close>

definition exchangeName :: string where "exchangeName = ''clusterprobe.events''"
definition dlxName :: string where "dlxName = ''clusterprobe.events.dlx''"
definition queueHigh :: string where "queueHigh = ''workload.high''"
definition queueLow :: string where "queueLow = ''workload.low''"
definition queueChaos :: string where "queueChaos = ''workload.chaos''"
definition routingHigh :: string where "routingHigh = ''workload.high''"
definition routingLow :: string where "routingLow = ''workload.low''"
definition routingChaos :: string where "routingChaos = ''workload.chaos''"

lemmas amqp_names = exchangeName_def dlxName_def queueHigh_def queueLow_def queueChaos_def routingHigh_def
  routingLow_def routingChaos_def

section \<open>The header carrier\<close>

definition amqpHeaderCarrier_Get :: "amqp_table \<Rightarrow> string \<Rightarrow> string" where
  "amqpHeaderCarrier_Get c key = (case c key of Some (AStr str) \<Rightarrow> str | _ \<Rightarrow> [])"

definition amqpHeaderCarrier_Set :: "string \<Rightarrow> string \<Rightarrow> amqp_table \<Rightarrow> amqp_table" where
  "amqpHeaderCarrier_Set key value c = c(key \<mapsto> AStr value)"

text \<open>The propagator sets the entries of the trace context one by one.\<close>

definition inject :: "(string \<times> string) list \<Rightarrow> amqp_table \<Rightarrow> amqp_table" where
  "inject entries c = fold (\<lambda>(k, v). amqpHeaderCarrier_Set k v) entries c"

section \<open>The producer\<close>

record producer =
  pr_ep :: endpoint
  pr_reconnectCh :: bool

definition no_endpoint :: endpoint where
  "no_endpoint = \<lparr>ep_conn = None, ep_channel = None\<rparr>"

text \<open>\<open>connect\<close> with its signal: a send into a buffer of one that is skipped when it is full.\<close>

definition Producer_connect :: "('b, 'w) amqp \<Rightarrow> producer \<times> 'w \<Rightarrow> goerr option \<times> producer \<times> 'w" where
  "Producer_connect p s =
     (case connect p (pr_ep (fst s), snd s) of
        (Some err, ep, w1) \<Rightarrow> (Some err, fst s, w1)
      | (None, ep, w1) \<Rightarrow> (None, \<lparr>pr_ep = ep, pr_reconnectCh = True\<rparr>, w1))"

definition NewProducer :: "('b, 'w) amqp \<Rightarrow> string \<Rightarrow> 'w \<Rightarrow> producer res \<times> 'w" where
  "NewProducer p url w =
     (if url = [] then (Inl (ErrText ''rabbitmq url is required''), w)
      else (case Producer_connect p (\<lparr>pr_ep = no_endpoint, pr_reconnectCh = False\<rparr>, w) of
              (Some err, pr, w1) \<Rightarrow> (Inl err, w1)
            | (None, pr, w1) \<Rightarrow> (Inr pr, w1)))"

definition Producer_Publish ::
    "('b, 'w) amqp \<Rightarrow> producer \<Rightarrow> string \<Rightarrow> string \<Rightarrow> 'b \<Rightarrow> 'w \<Rightarrow> goerr option \<times> 'w" where
  "Producer_Publish p pr exchange routingKey body w =
     (case ep_channel (pr_ep pr) of
        None \<Rightarrow> (Some (ErrText ''rabbitmq channel not available''), w)
      | Some ch \<Rightarrow>
          let msg = \<lparr>pb_ContentType = ''application/json'', pb_Body = body,
                     pb_Headers = inject (am_propagate p w) Map.empty, pb_DeliveryMode = 2\<rparr>
          in (case am_Publish p ch exchange routingKey msg w of
                (Some err, w1) \<Rightarrow> (Some (Wrapf ''rabbitmq publish'' err), w1)
              | (None, w1) \<Rightarrow> (None, w1)))"

text \<open>\<open>DeclareTopology\<close>: the calls in their order, each with the prefix of its error.\<close>

definition declare_queue :: "string \<times> string \<Rightarrow> (string \<times> amqp_declaration) list" where
  "declare_queue q =
     (case q of (name, routingKey) \<Rightarrow>
       let dlqName = name @ ''.dlq'';
           args = [''x-dead-letter-exchange'' \<mapsto> AStr dlxName, ''x-dead-letter-routing-key'' \<mapsto> AStr routingKey]
       in [(''declare dlq '' @ dlqName, QueueDeclare dlqName True False False False Map.empty),
           (''bind dlq '' @ dlqName, QueueBind dlqName routingKey dlxName False Map.empty),
           (''declare queue '' @ name, QueueDeclare name True False False False args),
           (''bind queue '' @ name, QueueBind name routingKey exchangeName False Map.empty)])"

definition topology :: "(string \<times> amqp_declaration) list" where
  "topology =
     [(''declare exchange'', ExchangeDeclare exchangeName ''topic'' True False False False Map.empty),
      (''declare dlx'', ExchangeDeclare dlxName ''topic'' True False False False Map.empty)] @
     concat (map declare_queue [(queueHigh, routingHigh), (queueLow, routingLow), (queueChaos, routingChaos)])"

fun declare_all :: "('b, 'w) amqp \<Rightarrow> nat \<Rightarrow> (string \<times> amqp_declaration) list \<Rightarrow> 'w \<Rightarrow> goerr option \<times> 'w" where
  "declare_all p ch [] w = (None, w)"
| "declare_all p ch ((label, d) # ds) w =
     (case am_Declare p ch d w of
        (Some err, w1) \<Rightarrow> (Some (Wrapf label err), w1)
      | (None, w1) \<Rightarrow> declare_all p ch ds w1)"

definition DeclareTopology :: "('b, 'w) amqp \<Rightarrow> producer \<Rightarrow> 'w \<Rightarrow> goerr option \<times> 'w" where
  "DeclareTopology p pr w =
     (case ep_channel (pr_ep pr) of
        None \<Rightarrow> (Some (ErrText ''rabbitmq channel not available''), w)
      | Some ch \<Rightarrow> declare_all p ch topology w)"

text \<open>\<open>Close\<close>: the first error that is not \<open>amqp.ErrClosed\<close> is reported, and both fields are cleared.\<close>

definition close_error :: "goerr option \<Rightarrow> goerr list" where
  "close_error r = (case r of None \<Rightarrow> [] | Some err \<Rightarrow> if errors_is err AmqpErrClosed then [] else [err])"

definition endpoint_Close :: "('b, 'w) amqp \<Rightarrow> endpoint \<times> 'w \<Rightarrow> goerr option \<times> endpoint \<times> 'w" where
  "endpoint_Close p s =
     (case s of (ep, w) \<Rightarrow>
       case (case ep_channel ep of None \<Rightarrow> (None, w) | Some ch \<Rightarrow> am_ChanClose p ch w) of
         (r1, w1) \<Rightarrow>
           (case (case ep_conn ep of None \<Rightarrow> (None, w1) | Some c \<Rightarrow> realConn_Close p c w1) of
              (r2, w2) \<Rightarrow>
                (case close_error r1 @ close_error r2 of
                   [] \<Rightarrow> None
                 | err # _ \<Rightarrow> Some (Wrapf ''rabbitmq close'' err),
                 ep\<lparr>ep_channel := None, ep_conn := None\<rparr>, w2)))"

definition Producer_Close :: "('b, 'w) amqp \<Rightarrow> producer \<times> 'w \<Rightarrow> goerr option \<times> producer \<times> 'w" where
  "Producer_Close p s =
     (case endpoint_Close p (pr_ep (fst s), snd s) of
        (r, ep, w1) \<Rightarrow> (r, (fst s)\<lparr>pr_ep := ep\<rparr>, w1))"

section \<open>A broker\<close>

text \<open>
  A concrete state for the library and the broker behind it: open connections, a script of failures
  (consumed by every call that can fail), a script of arrivals and of the outcomes of waits, what was
  published, declared and settled. \<open>'u\<close> is the rest of the world.
\<close>

datatype 'b settling = Handled "'b delivery" "goerr option" | Acked "'b delivery" "goerr option"
  | Nacked "'b delivery" bool "goerr option"

record ('b, 'u) broker =
  br_conns :: "nat list"
  br_next :: nat
  br_faults :: "goerr option list"
  br_arrivals :: "'b arrival list"
  br_waits :: "bool list"
  br_canceled :: bool
  br_published :: "(string \<times> string \<times> 'b publishing) list"
  br_declared :: "amqp_declaration list"
  br_trace :: "'b settling list"
  br_paused :: "duration list"
  br_context :: "(string \<times> string) list"
  br_app :: 'u

definition br_fault :: "('b, 'u) broker \<Rightarrow> goerr option \<times> ('b, 'u) broker" where
  "br_fault w = (case br_faults w of [] \<Rightarrow> (None, w) | f # fs \<Rightarrow> (f, w\<lparr>br_faults := fs\<rparr>))"

definition br_call :: "(('b, 'u) broker \<Rightarrow> ('b, 'u) broker) \<Rightarrow> ('b, 'u) broker \<Rightarrow> goerr option \<times> ('b, 'u) broker" where
  "br_call effect w = (case br_fault w of (Some err, w1) \<Rightarrow> (Some err, w1) | (None, w1) \<Rightarrow> (None, effect w1))"

definition br_open :: "(nat \<Rightarrow> ('b, 'u) broker \<Rightarrow> ('b, 'u) broker) \<Rightarrow> ('b, 'u) broker \<Rightarrow> nat res \<times> ('b, 'u) broker" where
  "br_open effect w =
     (case br_fault w of
        (Some err, w1) \<Rightarrow> (Inl err, w1)
      | (None, w1) \<Rightarrow> (Inr (br_next w1), effect (br_next w1) (w1\<lparr>br_next := Suc (br_next w1)\<rparr>)))"

definition broker_amqp :: "('b, ('b, 'u) broker) amqp" where
  "broker_amqp =
     \<lparr>am_Dial = br_open (\<lambda>c w. w\<lparr>br_conns := c # br_conns w\<rparr>),
      am_Channel = (\<lambda>c. br_open (\<lambda>ch w. w)),
      am_ConnClose = (\<lambda>c w. (if c \<in> set (br_conns w) then None else Some AmqpErrClosed,
                             w\<lparr>br_conns := filter (\<lambda>d. d \<noteq> c) (br_conns w)\<rparr>)),
      am_ChanClose = (\<lambda>ch. br_call (\<lambda>w. w)),
      am_Declare = (\<lambda>ch d. br_call (\<lambda>w. w\<lparr>br_declared := br_declared w @ [d]\<rparr>)),
      am_Publish = (\<lambda>ch x k m. br_call (\<lambda>w. w\<lparr>br_published := br_published w @ [(x, k, m)]\<rparr>)),
      am_Qos = (\<lambda>ch n. br_call (\<lambda>w. w)),
      am_Consume = (\<lambda>ch q. br_open (\<lambda>d w. w)),
      am_next = (\<lambda>d w. case br_arrivals w of [] \<Rightarrow> (CtxDone, w) | a # as \<Rightarrow> (a, w\<lparr>br_arrivals := as\<rparr>)),
      am_Ack = (\<lambda>m w. case br_fault w of (r, w1) \<Rightarrow> (r, w1\<lparr>br_trace := br_trace w1 @ [Acked m r]\<rparr>)),
      am_Nack = (\<lambda>m q w. case br_fault w of (r, w1) \<Rightarrow> (r, w1\<lparr>br_trace := br_trace w1 @ [Nacked m q r]\<rparr>)),
      am_closed = (\<lambda>c w. c \<notin> set (br_conns w)),
      am_ctx_done = br_canceled,
      am_wait = (\<lambda>d w. case br_waits w of
                   [] \<Rightarrow> (br_canceled w, w\<lparr>br_paused := br_paused w @ [d]\<rparr>)
                 | b # bs \<Rightarrow> (b, w\<lparr>br_waits := bs, br_paused := br_paused w @ [d]\<rparr>)),
      am_propagate = br_context\<rparr>"

lemma broker_closed: "am_closed broker_amqp c w \<longleftrightarrow> c \<notin> set (br_conns w)"
  by (simp add: broker_amqp_def)

text \<open>What the network does: it drops connections.\<close>

definition network_drop :: "('b, 'u) broker \<Rightarrow> ('b, 'u) broker \<Rightarrow> bool" where
  "network_drop w w' \<longleftrightarrow> (\<exists>c. w' = w\<lparr>br_conns := filter (\<lambda>d. d \<noteq> c) (br_conns w)\<rparr>)"

definition open_conns :: "('b, 'u) broker \<Rightarrow> nat set" where
  "open_conns w = set (br_conns w)"

lemma br_fault_conns: "br_fault w = (r, w') \<Longrightarrow> br_conns w' = br_conns w"
  by (auto simp: br_fault_def split: list.splits)

interpretation brk: connections broker_amqp open_conns network_drop
  by unfold_locales
     (auto simp: broker_amqp_def open_conns_def network_drop_def br_open_def br_call_def
       split: prod.splits option.splits list.splits dest!: br_fault_conns)

section \<open>What the goroutines keep\<close>

lemma endpoint_Close_conns:
  "endpoint_Close broker_amqp (ep, w) = (r, ep', w') \<Longrightarrow>
     ep_conn ep' = None \<and> ep_channel ep' = None \<and> open_conns w' \<subseteq> open_conns w - set_option (ep_conn ep)"
  by (fastforce simp: endpoint_Close_def split: prod.splits option.splits
      dest!: brk.chan_close brk.realConn_Close_conns)

lemma steps_length:
  "ep_steps p close outside (ts, s) (ts', s') \<Longrightarrow> length ts' = length ts"
  by (induction rule: rtranclp_induct2) (auto elim: ep_step.cases)

lemma held_card: "finite (\<Union>t\<in>set ts. brk.held t) \<and> card (\<Union>t\<in>set ts. brk.held t) \<le> length ts"
proof (induction ts)
  case (Cons t ts)
  have "finite (brk.held t) \<and> card (brk.held t) \<le> 1"
    by (cases t) simp_all
  with Cons show ?case
    using card_Un_le [of "brk.held t" "\<Union>t\<in>set ts. brk.held t"] by simp
qed simp

lemma held_holding: "brk.held t = {c. \<exists>ch. t = Holding c ch}"
  by (cases t) auto

lemma connect_conns:
  "connect broker_amqp (no_endpoint, w) = (None, ep, w') \<Longrightarrow> open_conns w = {} \<Longrightarrow> open_conns w' \<subseteq> set_option (ep_conn ep)"
  by (auto simp: connect_def install_def no_endpoint_def Let_def split: prod.splits sum.splits
      dest!: brk.open_channel_ok)

text \<open>
  C9. No connection is lost: whatever the monitor, the \<open>reconnect\<close> calls of \<open>n\<close> other goroutines,
  calls of \<open>Close\<close> and the network do, an open connection is the one in the fields or one a
  \<open>connect\<close> is about to store, so there are at most \<open>n + 2\<close>.
\<close>

theorem open_connections_owned:
  assumes "NewProducer broker_amqp url w = (Inr pr, w1)" and "open_conns w = {}"
    and "ep_steps broker_amqp (\<lambda>s. snd (endpoint_Close broker_amqp s)) network_drop (ep_start (pr_ep pr, w1) n) (ts, ep, w2)"
  shows "open_conns w2 \<subseteq> set_option (ep_conn ep) \<union> {c. \<exists>ch. Holding c ch \<in> set ts} \<and> card (open_conns w2) \<le> n + 2"
proof -
  from assms(1) have "connect broker_amqp (no_endpoint, w) = (None, pr_ep pr, w1)"
    by (auto simp: NewProducer_def Producer_connect_def split: if_splits prod.splits option.splits)
  with assms(2) have "brk.owned (ep_start (pr_ep pr, w1) n)"
    using connect_conns by (force simp: brk.owned_def ep_start_def)
  from brk.owned_steps [OF assms(3) this] have own: "brk.owned (ts, ep, w2)"
    using endpoint_Close_conns by (metis (no_types, lifting) Diff_subset_conv Un_Diff_cancel2 option.set(1) prod.collapse
        sup.commute Diff_empty)
  moreover have "length ts = n + 1"
    using steps_length assms(3) by (fastforce simp: ep_start_def)
  moreover have "card (set_option (ep_conn ep)) \<le> 1"
    by (cases "ep_conn ep") simp_all
  ultimately have "card (set_option (ep_conn ep) \<union> (\<Union>t\<in>set ts. brk.held t)) \<le> n + 2"
    using held_card [of ts] card_Un_le [of "set_option (ep_conn ep)" "\<Union>t\<in>set ts. brk.held t"] by linarith
  with own held_card [of ts] show ?thesis
    using card_mono [of "set_option (ep_conn ep) \<union> (\<Union>t\<in>set ts. brk.held t)" "open_conns w2"]
    by (auto simp: brk.owned_def held_holding)
qed

definition demo_broker :: "(unit, unit) broker" where
  "demo_broker =
     \<lparr>br_conns = [], br_next = 0, br_faults = [], br_arrivals = [], br_waits = [], br_canceled = False,
      br_published = [], br_declared = [], br_trace = [], br_paused = [], br_context = [], br_app = ()\<rparr>"

lemma demo_connect:
  "NewProducer broker_amqp ''amqp://broker'' demo_broker =
     (Inr \<lparr>pr_ep = \<lparr>ep_conn = Some 0, ep_channel = Some 1\<rparr>, pr_reconnectCh = True\<rparr>,
      demo_broker\<lparr>br_conns := [0], br_next := 2\<rparr>)"
  by (simp add: NewProducer_def Producer_connect_def connect_def open_channel_def dialer_def realConn_Channel_def
      install_def broker_amqp_def br_open_def br_fault_def demo_broker_def no_endpoint_def Let_def)

theorem open_connections_owned_witness:
  "card (open_conns (demo_broker\<lparr>br_conns := [0], br_next := 2\<rparr>)) \<le> 2"
  using open_connections_owned [OF demo_connect, where n = 0 and ts = "[Top]"
      and ep = "\<lparr>ep_conn = Some 0, ep_channel = Some 1\<rparr>" and ?w2.0 = "demo_broker\<lparr>br_conns := [0], br_next := 2\<rparr>"]
  by (simp add: ep_start_def open_conns_def demo_broker_def)

text \<open>
  C40. A closed producer connects again: the monitor of a producer is woken by its own \<open>Close\<close>, dials,
  and leaves a new open connection in the fields that \<open>Close\<close> had cleared.
\<close>

theorem closed_producer_dials_again:
  "\<exists>pr w1 w2 w3.
     NewProducer broker_amqp ''amqp://broker'' demo_broker = (Inr pr, w1) \<and>
     ep_steps broker_amqp (\<lambda>s. snd (endpoint_Close broker_amqp s)) network_drop
       (ep_start (pr_ep pr, w1) 0) ([Watching 0], no_endpoint, w2) \<and> open_conns w2 = {} \<and>
     ep_steps broker_amqp (\<lambda>s. s) (\<lambda>w w'. False)
       ([Watching 0], no_endpoint, w2) ([Top], \<lparr>ep_conn = Some 2, ep_channel = Some 3\<rparr>, w3) \<and> open_conns w3 = {2} \<and>
     \<not> am_ctx_done broker_amqp w3"
proof -
  let ?close = "\<lambda>s. snd (endpoint_Close broker_amqp s)"
  let ?ep = "\<lparr>ep_conn = Some 0, ep_channel = Some 1\<rparr>"
  let ?w1 = "demo_broker\<lparr>br_conns := [0], br_next := 2\<rparr>"
  let ?w2 = "demo_broker\<lparr>br_next := 2\<rparr>"
  let ?w3 = "demo_broker\<lparr>br_conns := [2], br_next := 4\<rparr>"
  have "ep_step broker_amqp ?close network_drop ([Top], ?ep, ?w1) ([Top][0 := Watching 0], ?ep, ?w1)"
    by (rule ep_step.task) (simp_all add: task_step.watch_conn)
  moreover have "ep_step broker_amqp ?close network_drop ([Watching 0], ?ep, ?w1) ([Watching 0], ?close (?ep, ?w1))"
    by (rule ep_step.closing)
  moreover have "?close (?ep, ?w1) = (no_endpoint, ?w2)"
    by (simp add: endpoint_Close_def broker_amqp_def br_call_def br_fault_def realConn_Close_def demo_broker_def
        no_endpoint_def)
  ultimately have closed: "ep_steps broker_amqp ?close network_drop ([Top], ?ep, ?w1) ([Watching 0], no_endpoint, ?w2)"
    by (simp add: converse_rtranclp_into_rtranclp)
  have "task_step broker_amqp 0 (Watching 0) (no_endpoint, ?w2) (Dialing (500 * millisecond) 10) (no_endpoint, ?w2)"
    by (rule task_step.notified) (simp add: broker_closed demo_broker_def)
  from ep_task [OF this, of "[Watching 0]"]
  have "ep_step broker_amqp (\<lambda>s. s) (\<lambda>w w'. False) ([Watching 0], no_endpoint, ?w2)
      ([Watching 0][0 := Dialing (500 * millisecond) 10], no_endpoint, ?w2)"
    by simp
  moreover have "reconnect_loop (connect broker_amqp) (ep_wait broker_amqp) (500 * millisecond) 10 (no_endpoint, ?w2) =
      (\<lparr>ep_conn = Some 2, ep_channel = Some 3\<rparr>, ?w3)"
    by (simp add: connect_def open_channel_def dialer_def realConn_Channel_def eval_nat_numeral
        install_def broker_amqp_def br_open_def br_fault_def demo_broker_def no_endpoint_def Let_def)
  ultimately have again: "ep_steps broker_amqp (\<lambda>s. s) (\<lambda>w w'. False) ([Watching 0], no_endpoint, ?w2)
      ([Top], \<lparr>ep_conn = Some 2, ep_channel = Some 3\<rparr>, ?w3)"
    using reconnect_loop_steps [of 0 "[Watching 0]" broker_amqp "\<lambda>s. s" "\<lambda>w w'. False" "500 * millisecond" 10
        "(no_endpoint, ?w2)"]
    by (simp add: converse_rtranclp_into_rtranclp)
  have live: "\<not> am_ctx_done broker_amqp ?w3"
    by (simp add: broker_amqp_def demo_broker_def)
  show ?thesis
    by (intro exI conjI, rule demo_connect)
       (use closed again live in \<open>simp_all add: ep_start_def open_conns_def demo_broker_def\<close>)
qed

section \<open>Reconnecting\<close>

text \<open>A script for the loop of \<open>reconnect\<close>: the results of the attempts, and the pauses so far.\<close>

definition next_result :: "goerr option list \<times> duration list \<Rightarrow> goerr option \<times> goerr option list \<times> duration list" where
  "next_result w = (case w of (r # rs, ds) \<Rightarrow> (r, rs, ds) | ([], ds) \<Rightarrow> (None, [], ds))"

definition log_pause :: "duration \<Rightarrow> goerr option list \<times> duration list \<Rightarrow> bool \<times> goerr option list \<times> duration list" where
  "log_pause d w = (False, fst w, snd w @ [d])"

lemma reconnect_loop_script:
  "n \<le> length rs \<Longrightarrow>
   reconnect_loop next_result log_pause b n (rs, ds) =
     (let k = length (takeWhile (\<lambda>r. r \<noteq> None) (take n rs))
      in (drop (min n (Suc k)) rs, ds @ backoffs b k))"
proof (induction n arbitrary: rs ds b)
  case (Suc n)
  then obtain r rs' where rs: "rs = r # rs'" "n \<le> length rs'"
    by (cases rs) auto
  then show ?case
    using Suc.IH [OF rs(2)] by (cases r) (simp_all add: next_result_def log_pause_def Let_def)
qed simp

text \<open>
Reconnecting after a loss: at most ten attempts, the first success ends it, and every failed one
  is followed by a pause of 500 ms, doubled while it is below five seconds.
\<close>

theorem reconnect_attempts:
  "length rs = 10 \<Longrightarrow>
   reconnect_loop next_result log_pause (500 * millisecond) 10 (rs, []) =
     (let k = length (takeWhile (\<lambda>r. r \<noteq> None) rs)
      in (drop (Suc k) rs,
          map (\<lambda>d. d * millisecond) (take k [500, 1000, 2000, 4000, 8000, 8000, 8000, 8000, 8000, 8000])))"
proof -
  assume len: "length rs = 10"
  let ?k = "length (takeWhile (\<lambda>r. r \<noteq> None) rs)"
  have "?k \<le> 10"
    using length_takeWhile_le [of _ rs] len by simp
  moreover have "backoffs (500 * millisecond) k =
      map (\<lambda>d. d * millisecond) (take k [500, 1000, 2000, 4000, 8000, 8000, 8000, 8000, 8000, 8000])" if "k \<le> 10" for k
  proof -
    have "k \<in> {0, 1, 2, 3, 4, 5, 6, 7, 8, 9, 10}"
      using that unfolding insert_iff empty_iff by presburger
    then show ?thesis
      by (elim insertE) (simp_all add: eval_nat_numeral)
  qed
  moreover have "drop (min 10 (Suc ?k)) rs = drop (Suc ?k) rs"
    using len by (simp add: min_def)
  ultimately show ?thesis
    using reconnect_loop_script [of 10 rs "500 * millisecond" "[]"] len by (simp add: Let_def)
qed

theorem reconnect_attempts_witness:
  "reconnect_loop next_result log_pause (500 * millisecond) 10 (replicate 2 (Some (ErrText ''refused'')) @ replicate 8 None, []) =
     (replicate 7 None, [500 * millisecond, 1000 * millisecond])"
  by (subst reconnect_attempts) (simp_all add: eval_nat_numeral)

section \<open>The topology\<close>

text \<open>
  What a broker does with the bindings: a message with routing key \<open>key\<close> sent to exchange \<open>ex\<close> goes to
  the queues bound there with a matching pattern. How a topic exchange matches is the broker's, the
  parameter \<open>matches\<close>; RabbitMQ documents that a pattern without the wildcards matches itself only.
\<close>

fun bound_queues :: "(string \<Rightarrow> string \<Rightarrow> bool) \<Rightarrow> amqp_declaration list \<Rightarrow> string \<Rightarrow> string \<Rightarrow> string list" where
  "bound_queues matches [] ex key = []"
| "bound_queues matches (QueueBind q pat x nw args # ds) ex key =
     (if x = ex \<and> matches pat key then [q] else []) @ bound_queues matches ds ex key"
| "bound_queues matches (d # ds) ex key = bound_queues matches ds ex key"

text \<open>Where a queue sends what is rejected: its two arguments.\<close>

fun dead_letters :: "amqp_declaration list \<Rightarrow> string \<Rightarrow> (string \<times> string) option" where
  "dead_letters [] q = None"
| "dead_letters (QueueDeclare n du ad ec nw args # ds) q =
     (if n = q \<and> args ''x-dead-letter-exchange'' \<noteq> None then
        Some (amqpHeaderCarrier_Get args ''x-dead-letter-exchange'', amqpHeaderCarrier_Get args ''x-dead-letter-routing-key'')
      else dead_letters ds q)"
| "dead_letters (d # ds) q = dead_letters ds q"

definition documented_match :: "(string \<Rightarrow> string \<Rightarrow> bool) \<Rightarrow> bool" where
  "documented_match matches \<longleftrightarrow>
     (\<forall>pat key. CHR ''*'' \<notin> set pat \<and> CHR ''#'' \<notin> set pat \<longrightarrow> (matches pat key \<longleftrightarrow> key = pat))"

definition workload_queues :: "string list" where
  "workload_queues = [queueHigh, queueLow, queueChaos]"

lemma topology_declarations:
  "map snd topology =
     [ExchangeDeclare exchangeName ''topic'' True False False False Map.empty,
      ExchangeDeclare dlxName ''topic'' True False False False Map.empty] @
     concat (map (\<lambda>q. [QueueDeclare (q @ ''.dlq'') True False False False Map.empty,
                      QueueBind (q @ ''.dlq'') q dlxName False Map.empty,
                      QueueDeclare q True False False False
                        [''x-dead-letter-exchange'' \<mapsto> AStr dlxName, ''x-dead-letter-routing-key'' \<mapsto> AStr q],
                      QueueBind q q exchangeName False Map.empty]) workload_queues)"
  by (simp add: topology_def declare_queue_def workload_queues_def amqp_names Let_def)

lemma topology_bound:
  assumes "documented_match matches"
  shows "bound_queues matches (map snd topology) exchangeName key =
      (if key \<in> set workload_queues then [key] else []) \<and>
    (\<forall>q\<in>set workload_queues. \<exists>x k. dead_letters (map snd topology) q = Some (x, k) \<and>
       bound_queues matches (map snd topology) x k = [q @ ''.dlq''])"
proof -
  have m: "matches ''workload.high'' key \<longleftrightarrow> key = ''workload.high''" "matches ''workload.low'' key \<longleftrightarrow> key = ''workload.low''"
    "matches ''workload.chaos'' key \<longleftrightarrow> key = ''workload.chaos''" for key
    using assms by (simp_all add: documented_match_def)
  show ?thesis
    by (auto simp: topology_declarations workload_queues_def amqp_names m amqpHeaderCarrier_Get_def)
qed

text \<open>
  C17. What the topology routes: a message published with a key reaches the queue of that name if it is
  one of the three and no queue otherwise, and what a queue rejects goes to its own dead-letter queue.
\<close>

theorem topology_routes:
  assumes "documented_match matches"
  shows "bound_queues matches (map snd topology) exchangeName key =
      (if key \<in> set workload_queues then [key] else []) \<and>
    (\<forall>q\<in>set workload_queues. \<exists>x k. dead_letters (map snd topology) q = Some (x, k) \<and>
       bound_queues matches (map snd topology) x k = [q @ ''.dlq''])"
  using assms by (rule topology_bound)

theorem topology_routes_witness:
  "bound_queues (=) (map snd topology) exchangeName ''workload.low'' = [''workload.low''] \<and>
   bound_queues (=) (map snd topology) exchangeName ''workload.medium'' = []"
  using topology_routes [of "(=)" "''workload.low''"] topology_routes [of "(=)" "''workload.medium''"]
  by (auto simp: documented_match_def workload_queues_def amqp_names)

lemma declare_all_broker:
  "declare_all broker_amqp ch ds w = (r, w') \<Longrightarrow>
     \<exists>k\<le>length ds. br_declared w' = br_declared w @ map snd (take k ds) \<and>
       (case r of None \<Rightarrow> k = length ds | Some err \<Rightarrow> k < length ds \<and> (\<exists>e. err = Wrapf (fst (ds ! k)) e))"
proof (induction ds arbitrary: w)
  case (Cons x ds)
  obtain label d where x: "x = (label, d)"
    by fastforce
  obtain r1 w1 where one: "am_Declare broker_amqp ch d w = (r1, w1)"
    by fastforce
  show ?case
  proof (cases r1)
    case (Some e)
    with one have "br_declared w1 = br_declared w"
      by (auto simp: broker_amqp_def br_call_def br_fault_def split: list.splits prod.splits option.splits)
    with Cons.prems x one Some show ?thesis
      by (intro exI [of _ 0]) auto
  next
    case None
    with one have w1: "br_declared w1 = br_declared w @ [d]"
      by (auto simp: broker_amqp_def br_call_def br_fault_def split: list.splits prod.splits option.splits)
    from Cons.prems x one None have "declare_all broker_amqp ch ds w1 = (r, w')"
      by simp
    from Cons.IH [OF this] obtain k where k: "k \<le> length ds" "br_declared w' = br_declared w1 @ map snd (take k ds)"
      "case r of None \<Rightarrow> k = length ds | Some err \<Rightarrow> k < length ds \<and> (\<exists>e. err = Wrapf (fst (ds ! k)) e)"
      by blast
    with x w1 show ?thesis
      by (intro exI [of _ "Suc k"]) (auto split: option.splits)
  qed
qed simp

text \<open>
\<open>DeclareTopology\<close> declares the fourteen objects in their order, stops at the first the broker
  refuses and names it in the error.
\<close>

theorem DeclareTopology_in_order:
  assumes "DeclareTopology broker_amqp pr w = (r, w')" and "ep_channel (pr_ep pr) = Some ch"
  shows "\<exists>k\<le>14. br_declared w' = br_declared w @ map snd (take k topology) \<and>
    (case r of None \<Rightarrow> k = 14 | Some err \<Rightarrow> k < 14 \<and> (\<exists>e. err = Wrapf (fst (topology ! k)) e))"
proof -
  have "length topology = 14"
    by (simp add: topology_def declare_queue_def Let_def)
  with declare_all_broker [of ch topology w r w'] assms show ?thesis
    by (cases r) (simp_all add: DeclareTopology_def)
qed

theorem DeclareTopology_in_order_witness:
  "\<exists>r w' k. DeclareTopology broker_amqp \<lparr>pr_ep = \<lparr>ep_conn = Some 0, ep_channel = Some 1\<rparr>, pr_reconnectCh = True\<rparr>
       (demo_broker\<lparr>br_faults := [None, None, Some AmqpErrClosed]\<rparr>) = (r, w') \<and>
     k \<le> 14 \<and> br_declared w' = map snd (take k topology)"
proof -
  let ?pr = "\<lparr>pr_ep = \<lparr>ep_conn = Some 0, ep_channel = Some 1\<rparr>, pr_reconnectCh = True\<rparr>"
  let ?w = "demo_broker\<lparr>br_faults := [None, None, Some AmqpErrClosed]\<rparr>"
  obtain r w' where run: "DeclareTopology broker_amqp ?pr ?w = (r, w')"
    by fastforce
  from DeclareTopology_in_order [OF this] show ?thesis
    using run by (auto simp: demo_broker_def)
qed

section \<open>The trace context\<close>

lemma inject_get:
  "distinct (map fst es) \<Longrightarrow> (k, v) \<in> set es \<Longrightarrow> amqpHeaderCarrier_Get (inject es c) k = v"
proof (induction es arbitrary: c)
  case (Cons x es)
  have keep: "k \<notin> fst ` set es \<Longrightarrow> inject es c k = c k" for es c
    by (induction es arbitrary: c) (auto simp: inject_def amqpHeaderCarrier_Set_def)
  obtain k' v' where x: "x = (k', v')"
    by fastforce
  have step: "inject (x # es) c = inject es (amqpHeaderCarrier_Set k' v' c)"
    by (simp add: inject_def x)
  show ?case
  proof (cases "(k, v) \<in> set es")
    case True
    with Cons.prems Cons.IH [of "amqpHeaderCarrier_Set k' v' c"] step show ?thesis
      by simp
  next
    case False
    with Cons.prems x have "k' = k" "v' = v" "k \<notin> fst ` set es"
      by auto
    with keep [of es "amqpHeaderCarrier_Set k' v' c"] step show ?thesis
      by (simp add: amqpHeaderCarrier_Get_def amqpHeaderCarrier_Set_def)
  qed
qed simp

text \<open>
  The trace context travels with the message: what the propagator gave to a published message is
  what the carrier of the consumer reads from its headers.
\<close>

theorem published_trace_context:
  assumes "Producer_Publish broker_amqp pr exchange key body w = (None, w')" and "distinct (map fst (br_context w))"
  shows "\<exists>msg. br_published w' = br_published w @ [(exchange, key, msg)] \<and> pb_Body msg = body \<and>
    pb_DeliveryMode msg = 2 \<and>
    (\<forall>(k, v)\<in>set (br_context w). amqpHeaderCarrier_Get (pb_Headers msg) k = v)"
proof -
  obtain ch where ch: "ep_channel (pr_ep pr) = Some ch"
    using assms(1) by (auto simp: Producer_Publish_def split: option.splits)
  let ?msg = "\<lparr>pb_ContentType = ''application/json'', pb_Body = body,
      pb_Headers = inject (am_propagate broker_amqp w) Map.empty, pb_DeliveryMode = 2\<rparr>"
  have "br_published w' = br_published w @ [(exchange, key, ?msg)]"
    using assms(1) ch
    by (auto simp: Producer_Publish_def broker_amqp_def br_call_def br_fault_def Let_def
        split: list.splits prod.splits option.splits)
  moreover have "am_propagate broker_amqp w = br_context w"
    by (simp add: broker_amqp_def)
  ultimately show ?thesis
    using inject_get [OF assms(2)] by auto
qed

theorem published_trace_context_witness:
  "\<exists>w' msg. Producer_Publish broker_amqp \<lparr>pr_ep = \<lparr>ep_conn = Some 0, ep_channel = Some 1\<rparr>, pr_reconnectCh = True\<rparr>
       exchangeName routingHigh () (demo_broker\<lparr>br_context := [(''traceparent'', ''00-1-2-01'')]\<rparr>) = (None, w') \<and>
     br_published w' = [(exchangeName, routingHigh, msg)] \<and>
     amqpHeaderCarrier_Get (pb_Headers msg) ''traceparent'' = ''00-1-2-01''"
proof -
  let ?pr = "\<lparr>pr_ep = \<lparr>ep_conn = Some 0, ep_channel = Some 1\<rparr>, pr_reconnectCh = True\<rparr>"
  let ?w = "demo_broker\<lparr>br_context := [(''traceparent'', ''00-1-2-01'')]\<rparr>"
  obtain w' where run: "Producer_Publish broker_amqp ?pr exchangeName routingHigh () ?w = (None, w')"
    by (simp add: Producer_Publish_def broker_amqp_def br_call_def br_fault_def demo_broker_def Let_def)
  from published_trace_context [OF this] show ?thesis
    using run by (auto simp: demo_broker_def)
qed

end
