(* ===== verification/Consumer.thy ===== *)
theory Consumer
  imports Producer
begin

text \<open>
  internal/messaging/rabbitmq.go: the consumer. \<open>consume_step\<close> is one round of the loops of
  \<open>Consume\<close>; \<open>Consume\<close> runs it to the end as a partial function. The monitor goroutine may replace the
  connection between two rounds, the parameter \<open>monitor\<close>. A handler that panics is \<open>None\<close>.
\<close>

section \<open>The consumer\<close>

record consumer =
  co_ep :: endpoint
  co_queue :: string
  co_prefetch :: int

definition NewConsumer :: "('b, 'w) amqp \<Rightarrow> string \<Rightarrow> int \<Rightarrow> 'w \<Rightarrow> consumer res \<times> 'w" where
  "NewConsumer p url prefetch w =
     (if url = [] then (Inl (ErrText ''rabbitmq url is required''), w)
      else
        (let prefetch = (if prefetch \<le> 0 then 1 else prefetch)
         in case connect p (no_endpoint, w) of
              (Some err, ep, w1) \<Rightarrow> (Inl err, w1)
            | (None, ep, w1) \<Rightarrow> (Inr \<lparr>co_ep = ep, co_queue = [], co_prefetch = prefetch\<rparr>, w1)))"

definition consumeOnce :: "('b, 'w) amqp \<Rightarrow> consumer \<Rightarrow> 'w \<Rightarrow> nat res \<times> 'w" where
  "consumeOnce p co w =
     (case ep_channel (co_ep co) of
        None \<Rightarrow> (Inl (ErrText ''rabbitmq channel not available''), w)
      | Some ch \<Rightarrow>
          (case am_Qos p ch (co_prefetch co) w of
             (Some err, w1) \<Rightarrow> (Inl (Wrapf ''rabbitmq qos'' err), w1)
           | (None, w1) \<Rightarrow>
               (case am_Consume p ch (co_queue co) w1 of
                  (Inl err, w2) \<Rightarrow> (Inl (Wrapf ''rabbitmq consume'' err), w2)
                | (Inr deliveries, w2) \<Rightarrow> (Inr deliveries, w2))))"

datatype consuming = Setup | Receiving nat | Finished "goerr option"

type_synonym ('b, 'w) handler = "'b delivery \<Rightarrow> 'w \<Rightarrow> (goerr option \<times> 'w) option"

text \<open>A delivery: the handler, then exactly one of \<open>Ack\<close> and \<open>Nack\<close>.\<close>

definition consume_delivery ::
    "('b, 'w) amqp \<Rightarrow> ('b, 'w) handler \<Rightarrow> nat \<Rightarrow> 'b delivery \<Rightarrow> 'w \<Rightarrow> (consuming \<times> 'w) option" where
  "consume_delivery p handler deliveries m w =
     (case handler m w of
        None \<Rightarrow> None
      | Some (Some err, w1) \<Rightarrow>
          (case am_Nack p m (\<not> errors_as_unrecoverable err) w1 of
             (Some nackErr, w2) \<Rightarrow> Some (Finished (Some (Wrapf ''nack message'' nackErr)), w2)
           | (None, w2) \<Rightarrow> Some (Receiving deliveries, w2))
      | Some (None, w1) \<Rightarrow>
          (case am_Ack p m w1 of
             (Some err, w2) \<Rightarrow> Some (Finished (Some (Wrapf ''ack message'' err)), w2)
           | (None, w2) \<Rightarrow> Some (Receiving deliveries, w2)))"

definition consume_step ::
    "('b, 'w) amqp \<Rightarrow> (endpoint \<times> 'w \<Rightarrow> endpoint \<times> 'w) \<Rightarrow> ('b, 'w) handler \<Rightarrow>
     consuming \<times> consumer \<times> 'w \<Rightarrow> (consuming \<times> consumer \<times> 'w) option" where
  "consume_step p monitor handler s =
     (case s of
        (Setup, co, w) \<Rightarrow>
          if am_ctx_done p w then Some (Finished None, co, w)
          else
            (case monitor (co_ep co, w) of
               (ep, w1) \<Rightarrow>
                 (case consumeOnce p (co\<lparr>co_ep := ep\<rparr>) w1 of
                    (Inl err, w2) \<Rightarrow>
                      (case reconnect p (monitor (ep, w2)) of
                         (ep3, w3) \<Rightarrow>
                           (case am_wait p (500 * millisecond) w3 of
                              (True, w4) \<Rightarrow> Some (Finished None, co\<lparr>co_ep := ep3\<rparr>, w4)
                            | (False, w4) \<Rightarrow> Some (Setup, co\<lparr>co_ep := ep3\<rparr>, w4)))
                  | (Inr deliveries, w2) \<Rightarrow> Some (Receiving deliveries, co\<lparr>co_ep := ep\<rparr>, w2)))
      | (Receiving deliveries, co, w) \<Rightarrow>
          (case am_next p deliveries w of
             (CtxDone, w1) \<Rightarrow> Some (Finished None, co, w1)
           | (StreamClosed, w1) \<Rightarrow> Some (Setup, co, w1)
           | (Arrived m, w1) \<Rightarrow> map_option (\<lambda>(pc, w2). (pc, co, w2)) (consume_delivery p handler deliveries m w1))
      | (Finished r, co, w) \<Rightarrow> Some (Finished r, co, w))"

partial_function (option) consume_loop ::
    "('b, 'w) amqp \<Rightarrow> (endpoint \<times> 'w \<Rightarrow> endpoint \<times> 'w) \<Rightarrow> ('b, 'w) handler \<Rightarrow>
     consuming \<times> consumer \<times> 'w \<Rightarrow> (goerr option \<times> consumer \<times> 'w) option" where
  "consume_loop p monitor handler s =
     (case s of
        (Finished r, co, w) \<Rightarrow> Some (r, co, w)
      | _ \<Rightarrow> Option.bind (consume_step p monitor handler s) (consume_loop p monitor handler))"

definition Consume ::
    "('b, 'w) amqp \<Rightarrow> (endpoint \<times> 'w \<Rightarrow> endpoint \<times> 'w) \<Rightarrow> string \<Rightarrow> ('b, 'w) handler option \<Rightarrow>
     consumer \<times> 'w \<Rightarrow> (goerr option \<times> consumer \<times> 'w) option" where
  "Consume p monitor queue handler s =
     (if queue = [] then Some (Some (ErrText ''queue is required''), s)
      else (case handler of
              None \<Rightarrow> Some (Some (ErrText ''handler is required''), s)
            | Some h \<Rightarrow> consume_loop p monitor h (Setup, (fst s)\<lparr>co_queue := queue\<rparr>, snd s)))"

text \<open>The first \<open>n\<close> rounds, for the runs that never end.\<close>

fun consume_rounds ::
    "('b, 'w) amqp \<Rightarrow> (endpoint \<times> 'w \<Rightarrow> endpoint \<times> 'w) \<Rightarrow> ('b, 'w) handler \<Rightarrow> nat \<Rightarrow>
     consuming \<times> consumer \<times> 'w \<Rightarrow> (consuming \<times> consumer \<times> 'w) option" where
  "consume_rounds p monitor handler 0 s = Some s"
| "consume_rounds p monitor handler (Suc n) s =
     Option.bind (consume_step p monitor handler s) (consume_rounds p monitor handler n)"

lemma consume_loop_rounds:
  assumes "consume_loop p monitor h s = Some out"
  shows "\<exists>n. consume_rounds p monitor h n s = Some (Finished (fst out), snd out)"
proof (rule consume_loop.raw_induct [OF _ assms,
    where P = "\<lambda>p monitor h s out. \<exists>n. consume_rounds p monitor h n s = Some (Finished (fst out), snd out)"], goal_cases)
  case (1 loop p monitor h s out)
  obtain pc co w where s: "s = (pc, co, w)"
    by (cases s) auto
  show ?case
  proof (cases "\<exists>r. pc = Finished r")
    case True
    with 1(2) s show ?thesis
      by (auto intro!: exI [of _ 0])
  next
    case False
    with 1(2) s obtain s' where s': "consume_step p monitor h s = Some s'" "loop p monitor h s' = Some out"
      by (cases pc) (auto simp: bind_eq_Some_conv)
    from 1(1) [OF s'(2)] obtain n where "consume_rounds p monitor h n s' = Some (Finished (fst out), snd out)"
      by blast
    with s' show ?thesis
      by (intro exI [of _ "Suc n"]) simp
  qed
qed

lemma consume_rounds_loop:
  "consume_rounds p monitor h n s = Some (Finished r, co, w) \<Longrightarrow> consume_loop p monitor h s = Some (r, co, w)"
proof (induction n arbitrary: s)
  case 0
  then show ?case
    by (subst consume_loop.simps) simp
next
  case (Suc n)
  then obtain s' where s': "consume_step p monitor h s = Some s'" "consume_loop p monitor h s' = Some (r, co, w)"
    by (auto simp: bind_eq_Some_conv)
  obtain pc co' w' where s: "s = (pc, co', w')"
    by (cases s) auto
  show ?case
  proof (cases pc)
    case (Finished r')
    with s' s have "s' = s"
      by (simp add: consume_step_def)
    with s' show ?thesis
      by simp
  qed (use s s' in \<open>subst consume_loop.simps, simp\<close>)+
qed

section \<open>Every delivery is settled once\<close>

text \<open>A handler over the rest of the world, with its outcome in the trace of the broker.\<close>

definition traced :: "('b delivery \<Rightarrow> 'u \<Rightarrow> (goerr option \<times> 'u) option) \<Rightarrow> ('b, ('b, 'u) broker) handler" where
  "traced h m w =
     map_option (\<lambda>(r, u). (r, w\<lparr>br_app := u, br_trace := br_trace w @ [Handled m r]\<rparr>)) (h m (br_app w))"

text \<open>What the monitor may do: open and close connections, and no more.\<close>

definition only_connections :: "(endpoint \<times> ('b, 'u) broker \<Rightarrow> endpoint \<times> ('b, 'u) broker) \<Rightarrow> bool" where
  "only_connections monitor \<longleftrightarrow>
     (\<forall>s. br_trace (snd (monitor s)) = br_trace (snd s) \<and> br_arrivals (snd (monitor s)) = br_arrivals (snd s) \<and>
          br_app (snd (monitor s)) = br_app (snd s) \<and>
          length (br_faults (snd (monitor s))) \<le> length (br_faults (snd s)) \<and>
          (ep_channel (fst s) \<noteq> None \<longrightarrow> ep_channel (fst (monitor s)) \<noteq> None))"

definition quietly :: "('b, 'u) broker \<Rightarrow> ('b, 'u) broker \<Rightarrow> bool" where
  "quietly w w' \<longleftrightarrow> br_trace w' = br_trace w \<and> br_arrivals w' = br_arrivals w \<and> br_app w' = br_app w \<and>
     length (br_faults w') \<le> length (br_faults w)"

lemma quietly_refl [simp]: "quietly w w"
  by (simp add: quietly_def)

lemma quietly_trans: "quietly w1 w2 \<Longrightarrow> quietly w2 w3 \<Longrightarrow> quietly w1 w3"
  by (simp add: quietly_def)

lemma quietly_calls:
  "am_Dial broker_amqp w = (rn, w') \<Longrightarrow> quietly w w'" "am_Channel broker_amqp c w = (rn, w') \<Longrightarrow> quietly w w'"
  "am_ConnClose broker_amqp c w = (r, w') \<Longrightarrow> quietly w w'" "am_ChanClose broker_amqp c w = (r, w') \<Longrightarrow> quietly w w'"
  "am_Qos broker_amqp c k w = (r, w') \<Longrightarrow> quietly w w'" "am_Consume broker_amqp c q w = (rn, w') \<Longrightarrow> quietly w w'"
  "am_wait broker_amqp d w = (b, w') \<Longrightarrow> quietly w w'"
  by (auto simp: broker_amqp_def br_open_def br_call_def br_fault_def quietly_def
      split: list.splits prod.splits option.splits)

lemma quietly_realConn_Close: "realConn_Close broker_amqp c w = (r, w') \<Longrightarrow> quietly w w'"
  by (auto simp: realConn_Close_def split: prod.splits option.splits dest: quietly_calls)

lemma quietly_realConn_Close_snd: "quietly w (snd (realConn_Close broker_amqp c w))"
  by (cases "realConn_Close broker_amqp c w") (simp add: quietly_realConn_Close)

lemma quietly_open_channel:
  assumes "open_channel broker_amqp w = (r, w')"
  shows "quietly w w'"
proof -
  obtain r1 w1 where d: "am_Dial broker_amqp w = (r1, w1)"
    by fastforce
  show ?thesis
  proof (cases r1)
    case (Inl e)
    with assms d show ?thesis
      by (auto simp: open_channel_def dialer_def dest: quietly_calls)
  next
    case (Inr c)
    obtain r2 w2 where ch: "am_Channel broker_amqp c w1 = (r2, w2)"
      by fastforce
    obtain r3 w3 where "realConn_Close broker_amqp c w2 = (r3, w3)"
      by fastforce
    with quietly_realConn_Close [OF this] quietly_calls(1) [OF d] quietly_calls(2) [OF ch] assms d ch Inr show ?thesis
      by (auto simp: open_channel_def dialer_def realConn_Channel_def split: sum.splits intro: quietly_trans)
  qed
qed

lemma quietly_install: "install broker_amqp c ch (ep, w) = (ep', w') \<Longrightarrow> quietly w w' \<and> ep_channel ep' = Some ch"
proof -
  assume inst: "install broker_amqp c ch (ep, w) = (ep', w')"
  let ?w1 = "case ep_channel ep of None \<Rightarrow> w | Some old \<Rightarrow> snd (am_ChanClose broker_amqp old w)"
  have "quietly w ?w1"
    using quietly_calls(4) [of _ w] by (auto split: option.splits intro: prod.collapse [symmetric])
  moreover have "quietly ?w1 w'"
    using inst quietly_realConn_Close_snd by (auto simp: install_def Let_def split: option.splits)
  ultimately show ?thesis
    using inst by (auto simp: install_def Let_def intro: quietly_trans)
qed

lemma quietly_connect:
  "connect broker_amqp (ep, w) = (r, ep', w') \<Longrightarrow>
     quietly w w' \<and> (ep_channel ep \<noteq> None \<longrightarrow> ep_channel ep' \<noteq> None)"
  by (auto simp: connect_def split: prod.splits sum.splits dest: quietly_open_channel quietly_install intro: quietly_trans)

lemma quietly_reconnect:
  "reconnect_loop (connect broker_amqp) (ep_wait broker_amqp) b n (ep, w) = (ep', w') \<Longrightarrow>
     quietly w w' \<and> (ep_channel ep \<noteq> None \<longrightarrow> ep_channel ep' \<noteq> None)"
proof (induction n arbitrary: b ep w)
  case (Suc n)
  obtain r ep1 w1 where c: "connect broker_amqp (ep, w) = (r, ep1, w1)"
    by (metis prod.exhaust)
  obtain d w2 where d: "am_wait broker_amqp b w1 = (d, w2)"
    by fastforce
  from Suc.prems c d Suc.IH [of _ ep1 w2] quietly_connect [OF c] quietly_calls(7) [OF d] show ?case
    by (auto simp: ep_wait_def split: option.splits bool.splits if_splits intro: quietly_trans)
qed simp

lemma only_connections_reconnect: "only_connections (reconnect broker_amqp)"
  unfolding only_connections_def
proof
  fix s :: "endpoint \<times> ('a, 'b) broker"
  obtain ep w ep' w' where s: "s = (ep, w)" "reconnect broker_amqp s = (ep', w')"
    by fastforce
  then have "quietly w w' \<and> (ep_channel ep \<noteq> None \<longrightarrow> ep_channel ep' \<noteq> None)"
    using quietly_reconnect [of "500 * millisecond" 10 ep w ep' w'] by (simp add: reconnect_def)
  then show "br_trace (snd (reconnect broker_amqp s)) = br_trace (snd s) \<and>
      br_arrivals (snd (reconnect broker_amqp s)) = br_arrivals (snd s) \<and>
      br_app (snd (reconnect broker_amqp s)) = br_app (snd s) \<and>
      length (br_faults (snd (reconnect broker_amqp s))) \<le> length (br_faults (snd s)) \<and>
      (ep_channel (fst s) \<noteq> None \<longrightarrow> ep_channel (fst (reconnect broker_amqp s)) \<noteq> None)"
    unfolding s(2) unfolding s(1) by (simp add: quietly_def)
qed

lemma quietly_monitor:
  "only_connections monitor \<Longrightarrow> monitor (ep, w) = (ep', w') \<Longrightarrow>
     quietly w w' \<and> (ep_channel ep \<noteq> None \<longrightarrow> ep_channel ep' \<noteq> None)"
  unfolding only_connections_def quietly_def by (metis fst_conv snd_conv)

lemma quietly_consumeOnce:
  assumes "consumeOnce broker_amqp co w = (r, w')"
  shows "quietly w w'" and "ep_channel (co_ep co) \<noteq> None \<Longrightarrow> isl r \<Longrightarrow> length (br_faults w') < length (br_faults w)"
proof -
  show "quietly w w'"
    using assms
    by (auto simp: consumeOnce_def split: option.splits prod.splits sum.splits dest!: quietly_calls(5,6)
        intro: quietly_trans)
  show "ep_channel (co_ep co) \<noteq> None \<Longrightarrow> isl r \<Longrightarrow> length (br_faults w') < length (br_faults w)"
    using assms
    by (auto simp: consumeOnce_def broker_amqp_def br_open_def br_call_def br_fault_def
        split: option.splits prod.splits sum.splits list.splits)
qed

text \<open>A round outside a delivery leaves the trace alone.\<close>

lemma setup_round:
  assumes "only_connections monitor"
    and "consume_step broker_amqp monitor h (Setup, co, w) = Some (pc, co', w')"
  shows "quietly w w' \<and> (\<forall>e. pc \<noteq> Finished (Some e)) \<and> (ep_channel (co_ep co) \<noteq> None \<longrightarrow> ep_channel (co_ep co') \<noteq> None \<and>
    (pc = Setup \<longrightarrow> length (br_faults w') < length (br_faults w)))"
proof (cases "am_ctx_done broker_amqp w")
  case True
  with assms(2) show ?thesis
    by (auto simp: consume_step_def)
next
  case False
  obtain ep w1 where m: "monitor (co_ep co, w) = (ep, w1)"
    by fastforce
  obtain r w2 where c: "consumeOnce broker_amqp (co\<lparr>co_ep := ep\<rparr>) w1 = (r, w2)"
    by fastforce
  note m' = quietly_monitor [OF assms(1) m] and c' = quietly_consumeOnce [OF c]
  show ?thesis
  proof (cases r)
    case (Inr d)
    with assms(2) m c False m' c' show ?thesis
      by (auto simp: consume_step_def intro: quietly_trans)
  next
    case (Inl err)
    obtain ep2 w3 where m2: "monitor (ep, w2) = (ep2, w3)"
      by fastforce
    obtain ep3 w4 where rc: "reconnect broker_amqp (ep2, w3) = (ep3, w4)"
      by fastforce
    obtain b w5 where wt: "am_wait broker_amqp (500 * millisecond) w4 = (b, w5)"
      by fastforce
    have end1: "w' = w5 \<and> co' = co\<lparr>co_ep := ep3\<rparr> \<and> (\<forall>e. pc \<noteq> Finished (Some e))"
      using assms(2) m c m2 rc wt Inl False by (auto simp: consume_step_def split: bool.splits)
    note rc' = quietly_monitor [OF assms(1) m2] quietly_reconnect [OF rc [unfolded reconnect_def]] quietly_calls(7) [OF wt]
    have "length (br_faults w') < length (br_faults w)" if "ep_channel (co_ep co) \<noteq> None"
      using that end1 m' c'(2) rc' Inl by (auto simp: quietly_def)
    moreover have "quietly w w'"
      using end1 m' c'(1) rc' by (simp add: quietly_def)
    ultimately show ?thesis
      using end1 m' rc' by auto
  qed
qed

fun deliveries :: "'b arrival list \<Rightarrow> 'b delivery list" where
  "deliveries [] = []"
| "deliveries (Arrived m # as) = m # deliveries as"
| "deliveries (a # as) = deliveries as"

text \<open>The trace of one delivery: message, outcome of the handler, error of the settlement.\<close>

definition settlement :: "'b delivery \<times> goerr option \<times> goerr option \<Rightarrow> 'b settling list" where
  "settlement x =
     (case x of (m, r, e) \<Rightarrow>
       [Handled m r, case r of None \<Rightarrow> Acked m e | Some err \<Rightarrow> Nacked m (\<not> errors_as_unrecoverable err) e])"

definition settled :: "'b settling list \<Rightarrow> 'b arrival list \<Rightarrow> consuming \<Rightarrow> ('b, 'u) broker \<Rightarrow> bool" where
  "settled trace as pc w \<longleftrightarrow>
     (\<exists>ms. br_trace w = trace @ concat (map settlement ms) \<and>
        deliveries as = map fst ms @ deliveries (br_arrivals w) \<and>
        (if \<exists>e. pc = Finished (Some e)
         then ms \<noteq> [] \<and> snd (snd (last ms)) \<noteq> None \<and> list_all (\<lambda>x. snd (snd x) = None) (butlast ms)
         else list_all (\<lambda>x. snd (snd x) = None) ms))"

lemma settled_quietly:
  "settled trace as pc w \<Longrightarrow> \<forall>e. pc \<noteq> Finished (Some e) \<Longrightarrow> \<forall>e. pc' \<noteq> Finished (Some e) \<Longrightarrow> quietly w w' \<Longrightarrow>
   settled trace as pc' w'"
  unfolding settled_def quietly_def by auto

lemma delivery_round:
  assumes "consume_delivery broker_amqp (traced h) d m w = Some (pc, w')"
  shows "\<exists>r e. br_trace w' = br_trace w @ settlement (m, r, e) \<and> br_arrivals w' = br_arrivals w \<and>
    length (br_faults w') \<le> length (br_faults w) \<and>
    (case e of None \<Rightarrow> pc = Receiving d | Some _ \<Rightarrow> \<exists>e'. pc = Finished (Some e')) \<and>
    (\<exists>u. h m (br_app w) = Some (r, u) \<and> br_app w' = u)"
proof -
  obtain r u where h: "h m (br_app w) = Some (r, u)"
    using assms by (auto simp: consume_delivery_def traced_def split: option.splits)
  let ?w1 = "w\<lparr>br_app := u, br_trace := br_trace w @ [Handled m r]\<rparr>"
  obtain e w2 where f: "br_fault ?w1 = (e, w2)"
    by fastforce
  then have w2: "br_trace w2 = br_trace w @ [Handled m r]" "br_arrivals w2 = br_arrivals w" "br_app w2 = u"
    "length (br_faults w2) \<le> length (br_faults w)"
    by (auto simp: br_fault_def split: list.splits)
  show ?thesis
    using assms h f w2
    by (intro exI [of _ r] exI [of _ e], cases r; cases e)
       (auto simp: consume_delivery_def traced_def settlement_def broker_amqp_def)
qed

lemma receiving_round:
  assumes "settled trace as (Receiving d) w"
    and "consume_step broker_amqp monitor (traced h) (Receiving d, co, w) = Some (pc, co', w')"
  shows "settled trace as pc w'"
proof -
  obtain a w1 where a: "am_next broker_amqp d w = (a, w1)"
    by fastforce
  have same: "br_trace w1 = br_trace w"
    using a by (auto simp: broker_amqp_def split: list.splits)
  obtain ms where ms: "br_trace w = trace @ concat (map settlement ms)"
    "deliveries as = map fst ms @ deliveries (br_arrivals w)" "list_all (\<lambda>x. snd (snd x) = None) ms"
    using assms(1) by (auto simp: settled_def)
  show ?thesis
  proof (cases a)
    case (Arrived m)
    with a have next1: "br_arrivals w = Arrived m # br_arrivals w1"
      by (auto simp: broker_amqp_def split: list.splits)
    from assms(2) a Arrived have "consume_delivery broker_amqp (traced h) d m w1 = Some (pc, w')"
      by (auto simp: consume_step_def)
    from delivery_round [OF this] obtain r e where re: "br_trace w' = br_trace w1 @ settlement (m, r, e)"
      "br_arrivals w' = br_arrivals w1" "case e of None \<Rightarrow> pc = Receiving d | Some _ \<Rightarrow> \<exists>e'. pc = Finished (Some e')"
      by blast
    then show ?thesis
      unfolding settled_def
      by (intro exI [of _ "ms @ [(m, r, e)]"]) (use ms same next1 in \<open>auto split: option.splits\<close>)
  next
    case CtxDone
    with a assms(2) have "pc = Finished None" "w' = w1" "deliveries (br_arrivals w1) = deliveries (br_arrivals w)"
      by (auto simp: consume_step_def broker_amqp_def split: list.splits)
    with ms same show ?thesis
      unfolding settled_def by (intro exI [of _ ms]) auto
  next
    case StreamClosed
    with a assms(2) have "pc = Setup" "w' = w1" "deliveries (br_arrivals w1) = deliveries (br_arrivals w)"
      by (auto simp: consume_step_def broker_amqp_def split: list.splits)
    with ms same show ?thesis
      unfolding settled_def by (intro exI [of _ ms]) auto
  qed
qed

lemma consume_rounds_settled:
  assumes "only_connections monitor"
  shows "settled trace as pc w \<Longrightarrow>
    consume_rounds broker_amqp monitor (traced h) n (pc, co, w) = Some (pc', co', w') \<Longrightarrow> settled trace as pc' w'"
proof (induction n arbitrary: pc co w)
  case (Suc n)
  then obtain pc1 co1 w1 where one: "consume_step broker_amqp monitor (traced h) (pc, co, w) = Some (pc1, co1, w1)"
    and rest: "consume_rounds broker_amqp monitor (traced h) n (pc1, co1, w1) = Some (pc', co', w')"
    by (auto simp: bind_eq_Some_conv)
  have "settled trace as pc1 w1"
  proof (cases pc)
    case Setup
    with one setup_round [OF assms] Suc.prems(1) show ?thesis
      by (metis consuming.distinct(3) settled_quietly)
  next
    case (Receiving d)
    with one Suc.prems(1) show ?thesis
      using receiving_round by blast
  next
    case (Finished r)
    with one Suc.prems(1) show ?thesis
      by (simp add: consume_step_def)
  qed
  with Suc.IH rest show ?case
    by blast
qed simp

text \<open>
  C8. Every delivery is settled exactly once, in the order of arrival and before the next is taken: ack
  when the handler succeeded, a nack without requeue when its error is unrecoverable, with requeue
  otherwise. This holds after any number of rounds, for every handler, failure and reconnect; a
  settlement that fails is the last, and ends \<open>Consume\<close> with an error.
\<close>

theorem Consume_settles_once:
  assumes "only_connections monitor" and "br_trace w = []"
    and "consume_rounds broker_amqp monitor (traced h) n (Setup, co, w) = Some (pc, co', w')"
  shows "\<exists>ms. br_trace w' = concat (map settlement ms) \<and>
    deliveries (br_arrivals w) = map fst ms @ deliveries (br_arrivals w') \<and>
    (if \<exists>e. pc = Finished (Some e)
     then ms \<noteq> [] \<and> snd (snd (last ms)) \<noteq> None \<and> list_all (\<lambda>x. snd (snd x) = None) (butlast ms)
     else list_all (\<lambda>x. snd (snd x) = None) ms)"
proof -
  have "settled [] (br_arrivals w) Setup w"
    using assms(2) by (auto simp: settled_def)
  from consume_rounds_settled [OF assms(1) this assms(3)] show ?thesis
    by (simp add: settled_def)
qed

definition demo_delivery :: "nat \<Rightarrow> unit delivery" where
  "demo_delivery t = \<lparr>dl_tag = t, dl_RoutingKey = routingHigh, dl_Headers = Map.empty, dl_Body = ()\<rparr>"

text \<open>A handler whose first message is malformed, whose second fails for now, and so on.\<close>

definition demo_handler :: "unit delivery \<Rightarrow> unit \<Rightarrow> (goerr option \<times> unit) option" where
  "demo_handler m u =
     Some (if dl_tag m = 0 then Some (UnrecoverableError (ErrText ''bad'')) else if dl_tag m = 1 then Some (ErrText ''down'')
           else None, u)"

definition demo_consumer :: consumer where
  "demo_consumer = \<lparr>co_ep = \<lparr>ep_conn = Some 0, ep_channel = Some 1\<rparr>, co_queue = queueHigh, co_prefetch = 1\<rparr>"

definition demo_arrivals :: "(unit, unit) broker" where
  "demo_arrivals = demo_broker\<lparr>br_arrivals := [Arrived (demo_delivery 0), Arrived (demo_delivery 1), Arrived (demo_delivery 2)]\<rparr>"

theorem Consume_settles_once_witness:
  "\<exists>pc co' w'. consume_rounds broker_amqp (\<lambda>s. s) (traced demo_handler) 4 (Setup, demo_consumer, demo_arrivals) = Some (pc, co', w') \<and>
     br_trace w' = [Handled (demo_delivery 0) (Some (UnrecoverableError (ErrText ''bad''))), Nacked (demo_delivery 0) False None,
       Handled (demo_delivery 1) (Some (ErrText ''down'')), Nacked (demo_delivery 1) True None,
       Handled (demo_delivery 2) None, Acked (demo_delivery 2) None] \<and>
     (\<exists>ms. br_trace w' = concat (map settlement ms))"
proof -
  let ?trace = "[Handled (demo_delivery 0) (Some (UnrecoverableError (ErrText ''bad''))), Nacked (demo_delivery 0) False None,
       Handled (demo_delivery 1) (Some (ErrText ''down'')), Nacked (demo_delivery 1) True None,
       Handled (demo_delivery 2) None, Acked (demo_delivery 2) None]"
  have "only_connections (\<lambda>s :: endpoint \<times> (unit, unit) broker. s)"
    by (simp add: only_connections_def)
  note main = Consume_settles_once [OF this, where w = demo_arrivals and h = demo_handler and n = 4 and co = demo_consumer]
  obtain pc co' w' where run: "consume_rounds broker_amqp (\<lambda>s. s) (traced demo_handler) 4 (Setup, demo_consumer, demo_arrivals) =
      Some (pc, co', w')" "br_trace w' = ?trace"
    by (simp add: consume_step_def consumeOnce_def consume_delivery_def traced_def demo_handler_def demo_consumer_def
        demo_arrivals_def demo_broker_def broker_amqp_def br_open_def br_call_def br_fault_def demo_delivery_def
        eval_nat_numeral)
  then have "\<exists>ms. br_trace w' = concat (map settlement ms)"
    using main [OF _ run(1)] by (auto simp: demo_arrivals_def demo_broker_def)
  with run show ?thesis
    by blast
qed

section \<open>Consume returns\<close>

text \<open>
  On the scripted broker, whose context is done when the script of arrivals is over: the rounds decrease
  the number of arrivals and failures that are left.
\<close>

definition left_over :: "consuming \<times> consumer \<times> ('b, 'u) broker \<Rightarrow> nat" where
  "left_over s =
     (case s of (pc, co, w) \<Rightarrow>
       2 * (length (br_arrivals w) + length (br_faults w)) +
         (case pc of Setup \<Rightarrow> 2 | Receiving d \<Rightarrow> 1 | Finished r \<Rightarrow> 0))"

lemma round_decreases:
  assumes "only_connections monitor" and "\<forall>m u. h m u \<noteq> None" and "ep_channel (co_ep co) \<noteq> None"
    and "\<forall>r. pc \<noteq> Finished r"
  obtains pc' co' w' where "consume_step broker_amqp monitor (traced h) (pc, co, w) = Some (pc', co', w')"
    and "left_over (pc', co', w') < left_over (pc, co, w)" and "ep_channel (co_ep co') \<noteq> None"
proof (cases pc)
  case Setup
  have "consume_step broker_amqp monitor (traced h) (Setup, co, w) \<noteq> None"
    by (simp add: consume_step_def split: prod.splits sum.splits bool.splits)
  then obtain pc' co' w' where step: "consume_step broker_amqp monitor (traced h) (Setup, co, w) = Some (pc', co', w')"
    by (metis option.exhaust prod.exhaust)
  from setup_round [OF assms(1) step] assms(3)
  have "quietly w w'" "ep_channel (co_ep co') \<noteq> None" "pc' = Setup \<Longrightarrow> length (br_faults w') < length (br_faults w)"
    by simp_all
  then show ?thesis
    using that step Setup by (cases pc') (auto simp: left_over_def quietly_def)
next
  case (Receiving d)
  show ?thesis
  proof (cases "br_arrivals w")
    case Nil
    then have "consume_step broker_amqp monitor (traced h) (pc, co, w) = Some (Finished None, co, w)"
      using Receiving by (simp add: consume_step_def broker_amqp_def)
    from that [OF this] Receiving assms(3) show ?thesis
      by (simp add: left_over_def)
  next
    case (Cons a as)
    let ?w1 = "w\<lparr>br_arrivals := as\<rparr>"
    have nxt: "am_next broker_amqp d w = (a, ?w1)"
      using Cons by (simp add: broker_amqp_def)
    show ?thesis
    proof (cases a)
      case (Arrived m)
      have "consume_delivery broker_amqp (traced h) d m ?w1 \<noteq> None"
        using assms(2) by (auto simp: consume_delivery_def traced_def split: option.splits prod.splits)
      then obtain pc' w' where run: "consume_delivery broker_amqp (traced h) d m ?w1 = Some (pc', w')"
        by (metis option.exhaust prod.exhaust)
      from delivery_round [OF this]
      have "br_arrivals w' = as" "length (br_faults w') \<le> length (br_faults w)"
        "pc' = Receiving d \<or> (\<exists>r. pc' = Finished r)"
        by (auto split: option.splits)
      then have "left_over (pc', co, w') < left_over (pc, co, w)"
        using Receiving Cons by (auto simp: left_over_def)
      moreover have "consume_step broker_amqp monitor (traced h) (pc, co, w) = Some (pc', co, w')"
        using Receiving nxt Arrived run by (simp add: consume_step_def)
      ultimately show ?thesis
        using that assms(3) by blast
    qed (use that Receiving Cons nxt assms(3) in \<open>fastforce simp: consume_step_def left_over_def\<close>)+
  qed
qed (use assms(4) in simp)

lemma Consume_ends:
  assumes "only_connections monitor" and "\<forall>m u. h m u \<noteq> None" and "ep_channel (co_ep co) \<noteq> None"
  shows "\<exists>r co' w'. Consume broker_amqp monitor queue (Some (traced h)) (co, w) = Some (r, co', w')"
proof -
  have "\<exists>out. consume_loop broker_amqp monitor (traced h) (pc, co, w) = Some out"
    if "ep_channel (co_ep co) \<noteq> None" for pc co w
    using that
  proof (induction "left_over (pc, co, w)" arbitrary: pc co w rule: less_induct)
    case less
    show ?case
    proof (cases "\<forall>r. pc \<noteq> Finished r")
      case False
      then show ?thesis
        by (auto simp: consume_loop.simps)
    next
      case True
      from round_decreases [OF assms(1,2) less.prems True, of w]
      obtain pc' co' w' where step: "consume_step broker_amqp monitor (traced h) (pc, co, w) = Some (pc', co', w')"
        "left_over (pc', co', w') < left_over (pc, co, w)" "ep_channel (co_ep co') \<noteq> None"
        by blast
      from less.hyps [OF step(2,3)] step(1) True show ?thesis
        by (subst consume_loop.simps) (auto split: consuming.splits)
    qed
  qed
  then have "\<exists>out. consume_loop broker_amqp monitor (traced h) (Setup, co\<lparr>co_queue := queue\<rparr>, w) = Some out"
    using assms(3) by simp
  then show ?thesis
    by (auto simp: Consume_def)
qed

text \<open>
  Where \<open>Consume\<close> finds its context ended: at the head of the loop; in the wait after a setup that failed
  (the world in which that wait begins is \<open>failed_setup\<close>); and when the \<open>select\<close> over the deliveries picks
  \<open>ctx.Done()\<close>, which may come after deliveries that were ready as well.
\<close>

definition failed_setup ::
    "(endpoint \<times> ('b, 'u) broker \<Rightarrow> endpoint \<times> ('b, 'u) broker) \<Rightarrow> consumer \<Rightarrow> ('b, 'u) broker \<Rightarrow> ('b, 'u) broker option" where
  "failed_setup monitor co w =
     (case monitor (co_ep co, w) of
        (ep, w1) \<Rightarrow>
          (case consumeOnce broker_amqp (co\<lparr>co_ep := ep\<rparr>) w1 of
             (Inl err, w2) \<Rightarrow> Some (snd (reconnect broker_amqp (monitor (ep, w2))))
           | (Inr d, w2) \<Rightarrow> None))"

definition context_found_over ::
    "(endpoint \<times> ('b, 'u) broker \<Rightarrow> endpoint \<times> ('b, 'u) broker) \<Rightarrow> consuming \<Rightarrow> consumer \<Rightarrow> ('b, 'u) broker \<Rightarrow> bool" where
  "context_found_over monitor pc co w =
     (case pc of
        Setup \<Rightarrow> br_canceled w \<or>
          (case failed_setup monitor co w of
             None \<Rightarrow> False
           | Some w3 \<Rightarrow> fst (am_wait broker_amqp (500 * millisecond) w3))
      | Receiving d \<Rightarrow> fst (am_next broker_amqp d w) = CtxDone
      | Finished r \<Rightarrow> False)"

lemma context_over_round:
  assumes "context_found_over monitor pc co w"
  shows "\<exists>co' w'. consume_step broker_amqp monitor h (pc, co, w) = Some (Finished None, co', w')"
proof (cases pc)
  case Setup
  have over: "am_ctx_done broker_amqp w = br_canceled w"
    by (simp add: broker_amqp_def)
  show ?thesis
  proof (cases "br_canceled w")
    case False
    obtain ep w1 where m: "monitor (co_ep co, w) = (ep, w1)"
      by fastforce
    obtain r w2 where c: "consumeOnce broker_amqp (co\<lparr>co_ep := ep\<rparr>) w1 = (r, w2)"
      by fastforce
    obtain ep3 w3 where rc: "reconnect broker_amqp (monitor (ep, w2)) = (ep3, w3)"
      by fastforce
    obtain b w4 where wt: "am_wait broker_amqp (500 * millisecond) w3 = (b, w4)"
      by fastforce
    have "isl r \<and> b"
      using assms Setup False m c rc wt by (cases r) (simp_all add: context_found_over_def failed_setup_def)
    with Setup False m c rc wt over show ?thesis
      by (cases r) (simp_all add: consume_step_def)
  qed (simp add: consume_step_def over Setup)
next
  case (Receiving d)
  obtain a w1 where "am_next broker_amqp d w = (a, w1)"
    by fastforce
  with assms Receiving show ?thesis
    by (simp add: context_found_over_def consume_step_def)
qed (use assms in \<open>simp add: context_found_over_def\<close>)

lemma last_round_settles_nothing:
  assumes "only_connections monitor" and "\<forall>m. pc = Receiving d \<longrightarrow> fst (am_next broker_amqp d w) = CtxDone"
    and "consume_step broker_amqp monitor h (pc, co, w) = Some (Finished None, co', w')" and "pc = Setup \<or> pc = Receiving d"
  shows "br_trace w' = br_trace w \<and> br_app w' = br_app w"
  using assms(4)
proof
  assume "pc = Setup"
  with setup_round [OF assms(1)] assms(3) show ?thesis
    by (auto simp: quietly_def)
next
  assume pc: "pc = Receiving d"
  obtain a w1 where a: "am_next broker_amqp d w = (a, w1)"
    by fastforce
  with assms(2) pc have "a = CtxDone"
    by simp
  with a assms(3) pc show ?thesis
    by (auto simp: consume_step_def broker_amqp_def split: list.splits)
qed

lemma rounds_append:
  "consume_rounds p monitor h n s = Some s' \<Longrightarrow> consume_step p monitor h s' = Some s'' \<Longrightarrow>
   consume_rounds p monitor h (Suc n) s = Some s''"
proof (induction n arbitrary: s)
  case (Suc n)
  then obtain s1 where s1: "consume_step p monitor h s = Some s1" "consume_rounds p monitor h n s1 = Some s'"
    by (auto simp: bind_eq_Some_conv)
  with Suc.IH [OF s1(2) Suc.prems(2)] show ?case
    by simp
qed simp

text \<open>
  C29. \<open>Consume\<close> ends with its context. The first round that finds the context ended, at the head of the
  loop, in the wait after a failed setup or in the wait for a delivery, is the last: no delivery is
  handled or settled in it, no other attempt to consume follows, and \<open>Consume\<close> returns nil. And with a
  handler that returns, \<open>Consume\<close> always returns on the scripted broker, whose context ends when its
  arrivals are over, whatever deliveries, closed streams and failures come before.
\<close>

theorem Consume_returns:
  assumes "only_connections monitor" and "\<forall>m u. h m u \<noteq> None" and "ep_channel (co_ep co) \<noteq> None" and "queue \<noteq> []"
  shows "(\<exists>r co' w'. Consume broker_amqp monitor queue (Some (traced h)) (co, w) = Some (r, co', w')) \<and>
    (\<forall>n pc co1 w1. consume_rounds broker_amqp monitor (traced h) n (Setup, co\<lparr>co_queue := queue\<rparr>, w) = Some (pc, co1, w1) \<and>
       context_found_over monitor pc co1 w1 \<longrightarrow>
       (\<exists>co' w'. consume_step broker_amqp monitor (traced h) (pc, co1, w1) = Some (Finished None, co', w') \<and>
          Consume broker_amqp monitor queue (Some (traced h)) (co, w) = Some (None, co', w') \<and>
          br_trace w' = br_trace w1 \<and> br_app w' = br_app w1))"
proof (intro conjI allI impI)
  show "\<exists>r co' w'. Consume broker_amqp monitor queue (Some (traced h)) (co, w) = Some (r, co', w')"
    by (rule Consume_ends [OF assms(1-3)])
next
  fix n pc co1 w1
  assume a: "consume_rounds broker_amqp monitor (traced h) n (Setup, co\<lparr>co_queue := queue\<rparr>, w) = Some (pc, co1, w1) \<and>
       context_found_over monitor pc co1 w1"
  then obtain co' w' where step: "consume_step broker_amqp monitor (traced h) (pc, co1, w1) = Some (Finished None, co', w')"
    using context_over_round by blast
  have "consume_loop broker_amqp monitor (traced h) (Setup, co\<lparr>co_queue := queue\<rparr>, w) = Some (None, co', w')"
    using rounds_append [OF conjunct1 [OF a] step] by (rule consume_rounds_loop)
  then have "Consume broker_amqp monitor queue (Some (traced h)) (co, w) = Some (None, co', w')"
    using assms(4) by (simp add: Consume_def)
  moreover have "br_trace w' = br_trace w1 \<and> br_app w' = br_app w1"
  proof (cases pc)
    case Setup
    then show ?thesis
      by (intro last_round_settles_nothing [OF assms(1) _ step]) simp_all
  next
    case (Receiving d)
    with a show ?thesis
      by (intro last_round_settles_nothing [OF assms(1) _ step, of d]) (simp_all add: context_found_over_def)
  qed (use a in \<open>simp add: context_found_over_def\<close>)
  ultimately show "\<exists>co' w'. consume_step broker_amqp monitor (traced h) (pc, co1, w1) = Some (Finished None, co', w') \<and>
          Consume broker_amqp monitor queue (Some (traced h)) (co, w) = Some (None, co', w') \<and>
          br_trace w' = br_trace w1 \<and> br_app w' = br_app w1"
    using step by blast
qed

text \<open>
  A consumer whose context is done before it starts leaves the messages where they are; one whose setup
  fails and whose context ends in the wait after it tries no second time.
\<close>

theorem Consume_returns_witness:
  "(\<exists>co' w'. Consume broker_amqp (\<lambda>s. s) queueHigh (Some (traced demo_handler)) (demo_consumer, demo_arrivals\<lparr>br_canceled := True\<rparr>) =
      Some (None, co', w') \<and> br_trace w' = []) \<and>
   (\<exists>co' w'. Consume broker_amqp (\<lambda>s. s) queueHigh (Some (traced demo_handler))
      (demo_consumer, demo_arrivals\<lparr>br_faults := [Some (ErrText ''qos'')], br_waits := [True]\<rparr>) = Some (None, co', w') \<and>
      br_trace w' = [])"
proof -
  have only: "only_connections (\<lambda>s :: endpoint \<times> (unit, unit) broker. s)"
    by (simp add: only_connections_def)
  have h: "\<forall>m u. demo_handler m u \<noteq> None" "ep_channel (co_ep demo_consumer) \<noteq> None" "queueHigh \<noteq> []"
    by (simp_all add: demo_handler_def demo_consumer_def queueHigh_def)
  note main = conjunct2 [OF Consume_returns [OF only h], rule_format, where n = 0]
  have "context_found_over (\<lambda>s. s) Setup (demo_consumer\<lparr>co_queue := queueHigh\<rparr>) (demo_arrivals\<lparr>br_canceled := True\<rparr>)"
    by (simp add: context_found_over_def)
  moreover have "context_found_over (\<lambda>s. s) Setup (demo_consumer\<lparr>co_queue := queueHigh\<rparr>)
      (demo_arrivals\<lparr>br_faults := [Some (ErrText ''qos'')], br_waits := [True]\<rparr>)"
    by (simp add: context_found_over_def failed_setup_def consumeOnce_def reconnect_def connect_def open_channel_def
        dialer_def realConn_Channel_def install_def realConn_Close_def demo_consumer_def demo_arrivals_def demo_broker_def
        broker_amqp_def br_open_def br_call_def br_fault_def eval_nat_numeral Let_def)
  ultimately show ?thesis
    using main [where w = "demo_arrivals\<lparr>br_canceled := True\<rparr>"]
      main [where w = "demo_arrivals\<lparr>br_faults := [Some (ErrText ''qos'')], br_waits := [True]\<rparr>"]
    by (force simp: demo_arrivals_def demo_broker_def)
qed

text \<open>One message on a connection that works: it is handled and settled, and \<open>Consume\<close> ends with its context.\<close>

lemma Consume_one:
  assumes "h m (br_app w) = Some (r, u)" and "br_faults w = []" and "br_arrivals w = [Arrived m]" and "\<not> br_canceled w"
    and "ep_channel (co_ep co) = Some ch" and "queue \<noteq> []"
  shows "\<exists>co' w'. Consume broker_amqp (\<lambda>s. s) queue (Some (traced h)) (co, w) = Some (None, co', w') \<and>
    br_app w' = u \<and> br_trace w' = br_trace w @ settlement (m, r, None)"
proof -
  let ?co = "co\<lparr>co_queue := queue\<rparr>"
  let ?w1 = "w\<lparr>br_next := Suc (br_next w)\<rparr>"
  let ?w2 = "w\<lparr>br_next := Suc (br_next w), br_arrivals := [], br_app := u, br_trace := br_trace w @ settlement (m, r, None)\<rparr>"
  let ?step = "consume_step broker_amqp (\<lambda>s. s) (traced h)"
  have 1: "?step (Setup, ?co, w) = Some (Receiving (br_next w), ?co, ?w1)"
    using assms(2,4,5) by (simp add: consume_step_def consumeOnce_def broker_amqp_def br_call_def br_open_def br_fault_def)
  have 2: "?step (Receiving (br_next w), ?co, ?w1) = Some (Receiving (br_next w), ?co, ?w2)"
    using assms(1-3)
    by (cases r) (simp_all add: consume_step_def consume_delivery_def traced_def settlement_def broker_amqp_def br_fault_def)
  have 3: "?step (Receiving (br_next w), ?co, ?w2) = Some (Finished None, ?co, ?w2)"
    by (simp add: consume_step_def broker_amqp_def)
  have "consume_rounds broker_amqp (\<lambda>s. s) (traced h) 3 (Setup, ?co, w) = Some (Finished None, ?co, ?w2)"
    by (simp add: eval_nat_numeral 1 2 3)
  from consume_rounds_loop [OF this] assms(6) show ?thesis
    by (intro exI [of _ ?co] exI [of _ ?w2]) (simp add: Consume_def)
qed

end
