(* ===== verification/Config_Load.thy ===== *)
theory Config_Load
  imports Go_Strings
begin

text \<open>
  internal/config/config.go: the configuration of the services from the environment. \<open>os.Getenv\<close> is
  the function \<open>env\<close>, empty where a variable is not set.
\<close>

record config =
  cf_PostgresDSN :: string
  cf_RedisDSN :: string
  cf_MongoDSN :: string
  cf_RabbitMQURL :: string
  cf_OTLPEndpoint :: string
  cf_APIListenAddr :: string
  cf_UIListenAddr :: string
  cf_ChaosListenAddr :: string
  cf_WorkerConcurrency :: int
  cf_LogLevel :: string

definition envPrefix :: string where
  "envPrefix = ''CP_''"

definition requireString :: "(string \<Rightarrow> string) \<Rightarrow> string \<Rightarrow> string list \<Rightarrow> string \<times> string list" where
  "requireString env key missing =
     (let value = trim_space (env key)
      in (value, if value = [] then missing @ [key] else missing))"

definition requireInt :: "(string \<Rightarrow> string) \<Rightarrow> string \<Rightarrow> string list \<Rightarrow> int res \<times> string list" where
  "requireInt env key missing =
     (let value = trim_space (env key)
      in if value = [] then (Inr 0, missing @ [key])
         else (case atoi value of
                 Inl err \<Rightarrow> (Inl (Wrapf (key @ '' must be an integer'') err), missing)
               | Inr parsed \<Rightarrow> (Inr parsed, missing)))"

definition Config_Validate :: "config \<Rightarrow> goerr option" where
  "Config_Validate c =
     (if cf_WorkerConcurrency c \<le> 0
      then Some (ErrText (envPrefix @ ''WORKER_CONCURRENCY must be greater than zero'')) else None)"

definition Config_Load :: "(string \<Rightarrow> string) \<Rightarrow> config res" where
  "Config_Load env =
     (case requireString env (envPrefix @ ''POSTGRES_DSN'') [] of (postgres, m1) \<Rightarrow>
      case requireString env (envPrefix @ ''REDIS_DSN'') m1 of (redis, m2) \<Rightarrow>
      case requireString env (envPrefix @ ''MONGO_DSN'') m2 of (mongo, m3) \<Rightarrow>
      case requireString env (envPrefix @ ''RABBITMQ_URL'') m3 of (rabbit, m4) \<Rightarrow>
      case requireString env (envPrefix @ ''OTEL_ENDPOINT'') m4 of (otel, m5) \<Rightarrow>
      case requireString env (envPrefix @ ''API_LISTEN_ADDR'') m5 of (api, m6) \<Rightarrow>
      case requireString env (envPrefix @ ''UI_LISTEN_ADDR'') m6 of (ui, m7) \<Rightarrow>
      case requireString env (envPrefix @ ''CHAOS_LISTEN_ADDR'') m7 of (chaos, m8) \<Rightarrow>
      case requireString env (envPrefix @ ''LOG_LEVEL'') m8 of (level, m9) \<Rightarrow>
      case requireInt env (envPrefix @ ''WORKER_CONCURRENCY'') m9 of
        (Inl err, missing) \<Rightarrow> Inl err
      | (Inr workers, missing) \<Rightarrow>
          let cfg = \<lparr>cf_PostgresDSN = postgres, cf_RedisDSN = redis, cf_MongoDSN = mongo, cf_RabbitMQURL = rabbit,
                     cf_OTLPEndpoint = otel, cf_APIListenAddr = api, cf_UIListenAddr = ui,
                     cf_ChaosListenAddr = chaos, cf_WorkerConcurrency = workers, cf_LogLevel = level\<rparr>
          in if missing \<noteq> [] then Inl (ErrText (''missing required configuration: '' @ join '', '' missing))
             else (case Config_Validate cfg of Some err \<Rightarrow> Inl err | None \<Rightarrow> Inr cfg))"

definition required_keys :: "string list" where
  "required_keys = map (\<lambda>k. ''CP_'' @ k)
     [''POSTGRES_DSN'', ''REDIS_DSN'', ''MONGO_DSN'', ''RABBITMQ_URL'', ''OTEL_ENDPOINT'', ''API_LISTEN_ADDR'',
      ''UI_LISTEN_ADDR'', ''CHAOS_LISTEN_ADDR'', ''LOG_LEVEL'', ''WORKER_CONCURRENCY'']"

definition unset :: "(string \<Rightarrow> string) \<Rightarrow> string list" where
  "unset env = filter (\<lambda>k. trim_space (env k) = []) required_keys"

abbreviation workers_of :: "(string \<Rightarrow> string) \<Rightarrow> int res" where
  "workers_of env \<equiv> atoi (trim_space (env ''CP_WORKER_CONCURRENCY''))"

lemma requireString_filter:
  "requireString env k m = (trim_space (env k), m @ filter (\<lambda>k. trim_space (env k) = []) [k])"
  by (simp add: requireString_def Let_def)

lemma filter_pair: "filter P xs @ filter P [y] = filter P (xs @ [y])"
  by simp

definition config_of :: "(string \<Rightarrow> string) \<Rightarrow> int \<Rightarrow> config" where
  "config_of env workers =
     \<lparr>cf_PostgresDSN = trim_space (env ''CP_POSTGRES_DSN''), cf_RedisDSN = trim_space (env ''CP_REDIS_DSN''),
      cf_MongoDSN = trim_space (env ''CP_MONGO_DSN''), cf_RabbitMQURL = trim_space (env ''CP_RABBITMQ_URL''),
      cf_OTLPEndpoint = trim_space (env ''CP_OTEL_ENDPOINT''), cf_APIListenAddr = trim_space (env ''CP_API_LISTEN_ADDR''),
      cf_UIListenAddr = trim_space (env ''CP_UI_LISTEN_ADDR''), cf_ChaosListenAddr = trim_space (env ''CP_CHAOS_LISTEN_ADDR''),
      cf_WorkerConcurrency = workers, cf_LogLevel = trim_space (env ''CP_LOG_LEVEL'')\<rparr>"

lemma Config_Load_eq:
  "Config_Load env =
     (case requireInt env ''CP_WORKER_CONCURRENCY''
         (filter (\<lambda>k. trim_space (env k) = []) (butlast required_keys)) of
        (Inl err, missing) \<Rightarrow> Inl err
      | (Inr workers, missing) \<Rightarrow>
          if missing \<noteq> [] then Inl (ErrText (''missing required configuration: '' @ join '', '' missing))
          else if workers \<le> 0 then Inl (ErrText ''CP_WORKER_CONCURRENCY must be greater than zero'')
          else Inr (config_of env workers))"
  unfolding Config_Load_def requireString_filter prod.case Let_def
  by (simp only: filter_pair append.simps envPrefix_def required_keys_def list.map butlast.simps
      if_True if_False simp_thms list.distinct Config_Validate_def config_of_def config.simps option.case if_distrib [of "case_option _ _"]
      cong: if_cong)

lemma unset_butlast:
  "unset env = filter (\<lambda>k. trim_space (env k) = []) (butlast required_keys) @
     (if trim_space (env ''CP_WORKER_CONCURRENCY'') = [] then [''CP_WORKER_CONCURRENCY''] else [])"
proof -
  have "required_keys = butlast required_keys @ [''CP_WORKER_CONCURRENCY'']"
    by (simp add: required_keys_def)
  from arg_cong [OF this, of "filter (\<lambda>k. trim_space (env k) = [])"] show ?thesis
    by (simp add: unset_def)
qed

lemma worker_key_last: "''CP_WORKER_CONCURRENCY'' \<notin> set (butlast required_keys)"
  by (simp add: required_keys_def)

text \<open>
  C33. Loading the configuration: it succeeds exactly when every variable is set to more than spaces and
  the number of workers is a positive integer, and then has the trimmed values; a number that is no
  integer is reported first, then all the missing variables in one message, then a number that is not
  positive.
\<close>

theorem Config_Load_outcomes:
  "(case Config_Load env of
      Inr cfg \<Rightarrow> unset env = [] \<and> workers_of env = Inr (cf_WorkerConcurrency cfg) \<and> 0 < cf_WorkerConcurrency cfg \<and>
        map (\<lambda>f. f cfg) [cf_PostgresDSN, cf_RedisDSN, cf_MongoDSN, cf_RabbitMQURL, cf_OTLPEndpoint, cf_APIListenAddr,
            cf_UIListenAddr, cf_ChaosListenAddr, cf_LogLevel] =
          map (\<lambda>k. trim_space (env k)) (butlast required_keys)
    | Inl err \<Rightarrow>
        if ''CP_WORKER_CONCURRENCY'' \<notin> set (unset env) \<and> isl (workers_of env)
        then err = Wrapf ''CP_WORKER_CONCURRENCY must be an integer'' (projl (workers_of env))
        else if unset env \<noteq> [] then err = ErrText (''missing required configuration: '' @ join '', '' (unset env))
        else err = ErrText ''CP_WORKER_CONCURRENCY must be greater than zero'' \<and> projr (workers_of env) \<le> 0)"
proof -
  have cfg: "map (\<lambda>f. f (config_of env n)) [cf_PostgresDSN, cf_RedisDSN, cf_MongoDSN, cf_RabbitMQURL, cf_OTLPEndpoint,
        cf_APIListenAddr, cf_UIListenAddr, cf_ChaosListenAddr, cf_LogLevel] =
      map (\<lambda>k. trim_space (env k)) (butlast required_keys)" "cf_WorkerConcurrency (config_of env n) = n" for n
    by (simp_all add: config_of_def required_keys_def)
  show ?thesis
    using worker_key_last cfg unset_butlast [of env]
    by (cases "workers_of env"; cases "trim_space (env ''CP_WORKER_CONCURRENCY'') = []")
       (simp_all add: Config_Load_eq requireInt_def Let_def split del: if_split, simp_all split: if_splits)
qed

end
