(* ===== verification/Worker_Main.thy ===== *)
theory Worker_Main
  imports Consumer Cluster_Api Config_Load
begin

text \<open>
  cmd/worker/main.go around the handler: the connection loops of the start, the pool of consumers, the
  HTTP endpoints; and the way of a message from the request to the consumer that settles it.
\<close>

section \<open>Start\<close>

definition startupRetryAttempts :: nat where "startupRetryAttempts = 30"
definition startupRetryBackoff :: duration where "startupRetryBackoff = 2 * second"

text \<open>
  The loop of \<open>newProducerWithRetry\<close> and \<open>newConsumerWithRetry\<close> (and of the same function in
  cmd/api/main.go); \<open>wait\<close> is the \<open>select\<close> with the error of the context when it is done.
\<close>

fun start_retry ::
    "string \<Rightarrow> ('w \<Rightarrow> 'c res \<times> 'w) \<Rightarrow> (duration \<Rightarrow> 'w \<Rightarrow> goerr option \<times> 'w) \<Rightarrow> nat \<Rightarrow> goerr \<Rightarrow> 'w \<Rightarrow> 'c res \<times> 'w" where
  "start_retry what mk wait 0 lastErr w = (Inl (Wrapf (what @ '' unavailable after retries'') lastErr), w)"
| "start_retry what mk wait (Suc n) lastErr w =
     (case mk w of
        (Inr c, w1) \<Rightarrow> (Inr c, w1)
      | (Inl err, w1) \<Rightarrow>
          (case wait startupRetryBackoff w1 of
             (Some cerr, w2) \<Rightarrow> (Inl (Wrapf (what @ '' retry canceled'') cerr), w2)
           | (None, w2) \<Rightarrow> start_retry what mk wait n err w2))"

definition newProducerWithRetry ::
    "('b, 'w) amqp \<Rightarrow> (duration \<Rightarrow> 'w \<Rightarrow> goerr option \<times> 'w) \<Rightarrow> string \<Rightarrow> 'w \<Rightarrow> producer res \<times> 'w" where
  "newProducerWithRetry p wait rabbitURL w =
     start_retry ''rabbitmq producer'' (NewProducer p rabbitURL) wait startupRetryAttempts (ErrText []) w"

definition newConsumerWithRetry ::
    "('b, 'w) amqp \<Rightarrow> (duration \<Rightarrow> 'w \<Rightarrow> goerr option \<times> 'w) \<Rightarrow> string \<Rightarrow> int \<Rightarrow> 'w \<Rightarrow> consumer res \<times> 'w" where
  "newConsumerWithRetry p wait rabbitURL prefetch w =
     start_retry ''rabbitmq consumer'' (NewConsumer p rabbitURL prefetch) wait startupRetryAttempts (ErrText []) w"

text \<open>
  The steps of \<open>main\<close> before it serves, with the messages of their failures; the first failure ends
  the process with status 1, without the deferred calls.
\<close>

datatype start_step =
  LoadConfig | InitTelemetry | SetupMetrics | ConnectPostgres | ApplySchema | ConnectRedis | ConnectProducer | DeclareQueues

definition worker_start :: "(start_step \<times> string) list" where
  "worker_start =
     [(LoadConfig, ''config load failed''), (InitTelemetry, ''telemetry init failed''),
      (SetupMetrics, ''metrics setup failed''), (ConnectPostgres, ''postgres init failed''),
      (ApplySchema, ''postgres schema init failed''), (ConnectRedis, ''redis init failed''),
      (ConnectProducer, ''rabbitmq producer init failed''), (DeclareQueues, ''rabbitmq topology failed'')]"

fun run_start :: "('step \<Rightarrow> 'w \<Rightarrow> goerr option \<times> 'w) \<Rightarrow> ('step \<times> string) list \<Rightarrow> 'w \<Rightarrow> (string \<times> int) option \<times> 'w" where
  "run_start exec [] w = (None, w)"
| "run_start exec ((step, failed) # steps) w =
     (case exec step w of
        (Some err, w1) \<Rightarrow> (Some (failed, 1), w1)
      | (None, w1) \<Rightarrow> run_start exec steps w1)"

definition worker_count :: "config \<Rightarrow> int" where
  "worker_count cfg = (if cf_WorkerConcurrency cfg \<le> 0 then 10 else cf_WorkerConcurrency cfg)"

section \<open>The endpoints\<close>

definition buildHTTPServer :: "(http_response \<Rightarrow> http_response) \<Rightarrow> (unit \<Rightarrow> bool) option \<Rightarrow> string \<Rightarrow> http_response \<Rightarrow> http_response" where
  "buildHTTPServer metricsHandler ready path h =
     (if path = ''/metrics'' then metricsHandler h
      else if path = ''/healthz'' then write_chunk (CText ''ok'') (WriteHeader StatusOK h)
      else if path = ''/readyz'' then
        (if (case ready of None \<Rightarrow> False | Some f \<Rightarrow> f ()) then write_chunk (CText ''ok'') (WriteHeader StatusOK h)
         else http_Error ''consumer pool not ready'' StatusServiceUnavailable h)
      else http_Error ''404 page not found'' StatusNotFound h)"

section \<open>The pool of consumers\<close>

definition queuePicker :: "nat \<Rightarrow> string" where
  "queuePicker i = (if i mod 2 = 0 then queueHigh else queueLow)"

text \<open>
  \<open>startConsumers\<close>: where its goroutine is, the goroutines it started (the queue and the result of
  \<open>Consume\<close> once it returned), the channel of errors, the readiness flag and the context.
\<close>

datatype pool_pc = Creating nat | AwaitContext | AwaitGroup | PoolReturned "goerr option"

record pool =
  po_pc :: pool_pc
  po_workers :: "(string \<times> goerr option option) list"
  po_errCh :: "goerr list"
  po_ready :: bool
  po_canceled :: bool

definition pool_start :: pool where
  "pool_start = \<lparr>po_pc = Creating 0, po_workers = [], po_errCh = [], po_ready = False, po_canceled = False\<rparr>"

text \<open>What the goroutine of a consumer does with the result of \<open>Consume\<close>.\<close>

definition report_consume :: "string \<Rightarrow> goerr option \<Rightarrow> goerr list" where
  "report_consume queue r =
     (case r of
        None \<Rightarrow> []
      | Some err \<Rightarrow> if errors_is err ContextCanceled then [] else [Wrapf (''consume '' @ queue) err])"

inductive pool_step :: "nat \<Rightarrow> pool \<Rightarrow> pool \<Rightarrow> bool" for workerCount where
  created: "po_pc s = Creating i \<Longrightarrow> i < workerCount \<Longrightarrow>
     pool_step workerCount s (s\<lparr>po_pc := Creating (Suc i), po_workers := po_workers s @ [(queuePicker i, None)]\<rparr>)"
| not_created: "po_pc s = Creating i \<Longrightarrow> i < workerCount \<Longrightarrow>
     pool_step workerCount s (s\<lparr>po_pc := PoolReturned (Some (Wrapf ''create consumer'' err))\<rparr>)"
| all_created: "po_pc s = Creating workerCount \<Longrightarrow>
     pool_step workerCount s (s\<lparr>po_pc := AwaitContext, po_ready := True\<rparr>)"
| context_done: "po_pc s = AwaitContext \<Longrightarrow> po_canceled s \<Longrightarrow> pool_step workerCount s (s\<lparr>po_pc := AwaitGroup\<rparr>)"
| group_done: "po_pc s = AwaitGroup \<Longrightarrow> list_all (\<lambda>w. snd w \<noteq> None) (po_workers s) \<Longrightarrow>
     pool_step workerCount s (s\<lparr>po_pc := PoolReturned (case po_errCh s of [] \<Rightarrow> None | err # _ \<Rightarrow> Some err)\<rparr>)"
| consume_ends: "k < length (po_workers s) \<Longrightarrow> po_workers s ! k = (queue, None) \<Longrightarrow>
     pool_step workerCount s
       (s\<lparr>po_workers := (po_workers s)[k := (queue, Some r)], po_errCh := po_errCh s @ report_consume queue r\<rparr>)"
| cancel: "pool_step workerCount s (s\<lparr>po_canceled := True\<rparr>)"

abbreviation "pool_steps workerCount \<equiv> (pool_step workerCount)\<^sup>*\<^sup>*"

definition ended :: "pool \<Rightarrow> nat" where
  "ended s = length (filter (\<lambda>w. snd w \<noteq> None) (po_workers s))"

definition consume_fine :: "string \<times> goerr option option \<Rightarrow> bool" where
  "consume_fine w \<longleftrightarrow> (case snd w of Some (Some e) \<Rightarrow> errors_is e ContextCanceled | _ \<Rightarrow> True)"

definition pool_inv :: "nat \<Rightarrow> pool \<Rightarrow> bool" where
  "pool_inv n s \<longleftrightarrow>
     map fst (po_workers s) = map queuePicker [0..<length (po_workers s)] \<and>
     length (po_workers s) \<le> n \<and> length (po_errCh s) \<le> ended s \<and>
     (po_errCh s = [] \<longrightarrow> list_all consume_fine (po_workers s)) \<and>
     (case po_pc s of
        Creating i \<Rightarrow> length (po_workers s) = i \<and> i \<le> n \<and> \<not> po_ready s
      | AwaitContext \<Rightarrow> length (po_workers s) = n \<and> po_ready s
      | AwaitGroup \<Rightarrow> length (po_workers s) = n \<and> po_ready s \<and> po_canceled s
      | PoolReturned r \<Rightarrow>
          (if po_ready s then length (po_workers s) = n \<and> po_canceled s \<and> list_all (\<lambda>w. snd w \<noteq> None) (po_workers s) \<and>
             r = (case po_errCh s of [] \<Rightarrow> None | err # _ \<Rightarrow> Some err)
           else \<exists>err. r = Some (Wrapf ''create consumer'' err)))"

lemma ended_le: "ended s \<le> length (po_workers s)"
  by (simp add: ended_def)

lemma filter_update_length:
  "k < length xs \<Longrightarrow> \<not> P (xs ! k) \<Longrightarrow> P y \<Longrightarrow> length (filter P (xs[k := y])) = Suc (length (filter P xs))"
proof (induction xs arbitrary: k)
  case (Cons x xs)
  then show ?case
    by (cases k) auto
qed simp

lemma pool_inv_start: "pool_inv n pool_start"
  by (simp add: pool_inv_def pool_start_def ended_def)

lemma pool_inv_step:
  assumes "pool_step n s s'" and "pool_inv n s"
  shows "pool_inv n s'"
  using assms
proof cases
  case (consume_ends k queue r)
  let ?ws = "(po_workers s)[k := (queue, Some r)]"
  have "ended s' = Suc (ended s)"
    using consume_ends filter_update_length [of k "po_workers s" "\<lambda>w. snd w \<noteq> None" "(queue, Some r)"]
    by (simp add: ended_def)
  moreover have "length (report_consume queue r) \<le> 1"
    by (simp add: report_consume_def split: option.splits)
  moreover have "map fst ?ws = map fst (po_workers s)"
    using consume_ends by (simp add: map_update list_update_same_conv)
  moreover have "list_all consume_fine (po_workers s) \<Longrightarrow> report_consume queue r = [] \<Longrightarrow> list_all consume_fine ?ws"
    using set_update_subset_insert [of "po_workers s" k "(queue, Some r)"]
    by (fastforce simp: list_all_iff report_consume_def consume_fine_def split: option.splits if_splits)
  moreover have "\<not> list_all (\<lambda>w. snd w \<noteq> None) (po_workers s)"
    using consume_ends by (auto simp: list_all_length)
  ultimately show ?thesis
    using assms(2) consume_ends(1) unfolding pool_inv_def
    by (auto split: pool_pc.splits if_splits)
qed (auto simp: pool_inv_def ended_def consume_fine_def split: pool_pc.splits)

lemma pool_inv_steps: "pool_steps n s s' \<Longrightarrow> pool_inv n s \<Longrightarrow> pool_inv n s'"
  by (induction rule: rtranclp_induct) (auto intro: pool_inv_step)

text \<open>
  The pool: the i-th consumer reads the high queue when i is even and the low queue when it is odd;
  the channel of errors never overflows its buffer, so no goroutine blocks on it; \<open>startConsumers\<close>
  returns without an error only after the context is done and every consumer has returned without one;
  the worker is ready only once all consumers exist.
\<close>

theorem pool_reports:
  assumes "pool_steps n pool_start s"
  shows "map fst (po_workers s) = map queuePicker [0..<length (po_workers s)] \<and> length (po_errCh s) \<le> n \<and>
    (po_pc s = PoolReturned None \<longrightarrow>
       po_canceled s \<and> length (po_workers s) = n \<and>
       list_all (\<lambda>w. case snd w of None \<Rightarrow> False | Some None \<Rightarrow> True | Some (Some e) \<Rightarrow> errors_is e ContextCanceled) (po_workers s)) \<and>
    (po_ready s \<longrightarrow> length (po_workers s) = n)"
proof -
  have inv: "pool_inv n s"
    by (rule pool_inv_steps [OF assms pool_inv_start])
  have "list_all (\<lambda>w. case snd w of None \<Rightarrow> False | Some None \<Rightarrow> True | Some (Some e) \<Rightarrow> errors_is e ContextCanceled) (po_workers s)"
    if "list_all consume_fine (po_workers s)" "list_all (\<lambda>w. snd w \<noteq> None) (po_workers s)"
    using that by (fastforce simp: list_all_iff consume_fine_def split: option.splits)
  with inv ended_le [of s] show ?thesis
    by (auto simp: pool_inv_def split: pool_pc.splits if_splits list.splits)
qed

theorem pool_reports_witness:
  "\<exists>s. pool_steps 1 pool_start s \<and> po_workers s = [(queueHigh, None)] \<and> length (po_errCh s) \<le> 1"
proof -
  let ?s = "pool_start\<lparr>po_pc := Creating (Suc 0), po_workers := [(queueHigh, None)]\<rparr>"
  have "pool_step 1 pool_start ?s"
    using pool_step.created [of pool_start 0 1] by (simp add: pool_start_def queuePicker_def)
  then have "pool_steps 1 pool_start ?s"
    by (rule r_into_rtranclp)
  with pool_reports [OF this] show ?thesis
    by auto
qed

text \<open>The state of a pool whose consumers all gave up, \<open>k\<close> of them so far.\<close>

definition lost_pool :: "nat \<Rightarrow> goerr \<Rightarrow> nat \<Rightarrow> pool" where
  "lost_pool n e k =
     \<lparr>po_pc = AwaitContext, po_workers = map (\<lambda>i. (queuePicker i, if i < k then Some (Some e) else None)) [0..<n],
      po_errCh = map (\<lambda>i. Wrapf (''consume '' @ queuePicker i) e) [0..<k], po_ready = True, po_canceled = False\<rparr>"

lemma pool_creates:
  "k \<le> n \<Longrightarrow> pool_steps n pool_start
     \<lparr>po_pc = Creating k, po_workers = map (\<lambda>i. (queuePicker i, None)) [0..<k], po_errCh = [], po_ready = False,
      po_canceled = False\<rparr>"
proof (induction k)
  case (Suc k)
  let ?s = "\<lparr>po_pc = Creating k, po_workers = map (\<lambda>i. (queuePicker i, None)) [0..<k], po_errCh = [], po_ready = False,
      po_canceled = False\<rparr>"
  have "pool_step n ?s (?s\<lparr>po_pc := Creating (Suc k), po_workers := po_workers ?s @ [(queuePicker k, None)]\<rparr>)"
    using Suc.prems by (intro pool_step.created) simp_all
  with Suc show ?case
    by (simp add: rtranclp.rtrancl_into_rtrancl)
qed (simp add: pool_start_def)

lemma pool_loses:
  assumes "\<not> errors_is e ContextCanceled"
  shows "k \<le> n \<Longrightarrow> pool_steps n pool_start (lost_pool n e k)"
proof (induction k)
  case 0
  let ?s = "\<lparr>po_pc = Creating n, po_workers = map (\<lambda>i. (queuePicker i, None)) [0..<n], po_errCh = [], po_ready = False,
      po_canceled = False\<rparr>"
  have "pool_step n ?s (?s\<lparr>po_pc := AwaitContext, po_ready := True\<rparr>)"
    by (intro pool_step.all_created) simp
  with pool_creates [of n n] show ?case
    by (simp add: lost_pool_def rtranclp.rtrancl_into_rtrancl)
next
  case (Suc k)
  let ?s = "lost_pool n e k"
  have "pool_step n ?s (?s\<lparr>po_workers := (po_workers ?s)[k := (queuePicker k, Some (Some e))],
      po_errCh := po_errCh ?s @ report_consume (queuePicker k) (Some e)\<rparr>)"
    using Suc.prems by (intro pool_step.consume_ends) (simp_all add: lost_pool_def)
  moreover have "(po_workers ?s)[k := (queuePicker k, Some (Some e))] =
      map (\<lambda>i. (queuePicker i, if i < Suc k then Some (Some e) else None)) [0..<n]"
    using Suc.prems by (intro nth_equalityI) (auto simp: lost_pool_def nth_list_update)
  ultimately have "pool_step n ?s (lost_pool n e (Suc k))"
    using assms by (simp add: lost_pool_def report_consume_def)
  with Suc show ?case
    by (simp add: rtranclp.rtrancl_into_rtrancl)
qed

text \<open>
  C39. A lost consumer is not replaced and not reported: when the acknowledgement of a message fails,
  for instance because the connection was lost while the handler ran, \<open>Consume\<close> returns an error; if
  this happens to every consumer, the pool stays in its wait for the context, the worker stays ready,
  and nothing but the end of the process changes that.
\<close>

theorem lost_consumers_stay_ready:
  assumes "0 < n"
  shows "\<exists>s. pool_steps n pool_start s \<and> po_ready s \<and> \<not> po_canceled s \<and> po_pc s = AwaitContext \<and>
    length (po_workers s) = n \<and> list_all (\<lambda>w. snd w = Some (Some (Wrapf ''ack message'' AmqpErrClosed))) (po_workers s) \<and>
    (\<forall>s'. pool_step n s s' \<longrightarrow> s' = s\<lparr>po_canceled := True\<rparr>)"
proof (intro exI conjI)
  let ?s = "lost_pool n (Wrapf ''ack message'' AmqpErrClosed) n"
  show "pool_steps n pool_start ?s"
    by (rule pool_loses) simp_all
  show "\<forall>s'. pool_step n ?s s' \<longrightarrow> s' = ?s\<lparr>po_canceled := True\<rparr>"
    by (auto simp: lost_pool_def elim!: pool_step.cases)
qed (simp_all add: lost_pool_def list_all_iff)

theorem lost_consumers_stay_ready_witness:
  "\<exists>s. pool_steps 2 pool_start s \<and> po_ready s \<and> po_pc s = AwaitContext \<and>
    list_all (\<lambda>w. snd w = Some (Some (Wrapf ''ack message'' AmqpErrClosed))) (po_workers s)"
  using lost_consumers_stay_ready [of 2] by auto

section \<open>The way of a message\<close>

definition pool_queues :: "nat \<Rightarrow> string set" where
  "pool_queues n = queuePicker ` {..<n}"

lemmas worker_queues = Worker.queueHigh_def Worker.queueLow_def amqp_names

lemma pool_queues_eq:
  "q \<in> pool_queues n \<longleftrightarrow> 1 \<le> n \<and> q = ''workload.high'' \<or> 2 \<le> n \<and> q = ''workload.low''"
proof
  assume "q \<in> pool_queues n"
  then obtain i where "i < n" "q = queuePicker i"
    by (auto simp: pool_queues_def)
  then show "1 \<le> n \<and> q = ''workload.high'' \<or> 2 \<le> n \<and> q = ''workload.low''"
    by (cases "i mod 2 = 0"; cases i) (auto simp: queuePicker_def worker_queues)
next
  assume "1 \<le> n \<and> q = ''workload.high'' \<or> 2 \<le> n \<and> q = ''workload.low''"
  moreover have "queuePicker 0 = ''workload.high''" "queuePicker 1 = ''workload.low''"
    by (simp_all add: queuePicker_def worker_queues)
  ultimately show "q \<in> pool_queues n"
    unfolding pool_queues_def by (metis Suc_le_lessD One_nat_def Suc_1 image_eqI lessThan_iff)
qed

text \<open>
  C38. Which scenarios a worker gets: with \<open>n\<close> consumers, a message with routing key \<open>key\<close> is in a queue
  that somebody reads exactly for the high queue, and for the low queue with a second consumer; yet a
  request is valid with any target queue that is not empty, among them the declared
  \<open>workload.chaos\<close>, and is then stored as queued for good.
\<close>

theorem target_queue_is_read:
  assumes "documented_match matches"
  shows "((\<exists>q\<in>set (bound_queues matches (map snd topology) scenariosExchange key). q \<in> pool_queues n) \<longleftrightarrow>
      1 \<le> n \<and> key = ''workload.high'' \<or> 2 \<le> n \<and> key = ''workload.low'') \<and>
    (key \<noteq> [] \<longrightarrow> (\<exists>req. ScenarioRequest_Validate req = None \<and> lp_TargetQueue (sr_Profile req) = key))"
proof
  have "scenariosExchange = exchangeName"
    by (simp add: scenariosExchange_def amqp_names)
  then show "(\<exists>q\<in>set (bound_queues matches (map snd topology) scenariosExchange key). q \<in> pool_queues n) \<longleftrightarrow>
      1 \<le> n \<and> key = ''workload.high'' \<or> 2 \<le> n \<and> key = ''workload.low''"
    using topology_bound [OF assms, of key] by (auto simp: pool_queues_eq workload_queues_def amqp_names)
  show "key \<noteq> [] \<longrightarrow> (\<exists>req. ScenarioRequest_Validate req = None \<and> lp_TargetQueue (sr_Profile req) = key)"
    by (intro impI exI [of _ "(demo_request ''mixed'')\<lparr>sr_Profile := (demo_profile ''mixed'')\<lparr>lp_TargetQueue := key\<rparr>\<rparr>"])
       (simp add: ScenarioRequest_Validate_iff profile_valid_def demo_request_def demo_profile_def)
qed

theorem target_queue_is_read_witness:
  "\<not> (\<exists>q\<in>set (bound_queues (=) (map snd topology) scenariosExchange ''workload.chaos''). q \<in> pool_queues 10) \<and>
   (\<exists>req. ScenarioRequest_Validate req = None \<and> lp_TargetQueue (sr_Profile req) = ''workload.chaos'')"
  proof -
  have "documented_match (=)"
    by (auto simp: documented_match_def)
  from target_queue_is_read [OF this, of "''workload.chaos''" 10] show ?thesis
    by simp
qed

definition worker_delivery :: "'u worker_ports \<Rightarrow> bytes delivery \<Rightarrow> 'u \<Rightarrow> (goerr option \<times> 'u) option" where
  "worker_delivery po m u = worker_handler po (dl_Body m) u"

text \<open>
  C13. A created scenario is run and settled: the message that \<open>CreateScenario\<close> published goes to the
  exchange with the target queue of the request as its routing key; when it arrives at a consumer of the
  worker, with nobody interfering and nothing failing, \<open>Consume\<close> hands it to the handler, the scenario
  goes from \<open>queued\<close> through \<open>running\<close> to \<open>completed\<close> or \<open>failed\<close>, the result is published, the message is
  acknowledged once, and \<open>Consume\<close> returns nil when its context ends. The condition is again that the
  handler is done before the clock reaches year 10000.
\<close>

theorem created_scenario_is_acked:
  assumes "quiet w" and "cluster_ok w" and "cl_uuids w = uid # us" and "statuses uid w = []"
    and "\<not> rejected body" and "decodeJSON (dec_ScenarioRequest True) body zero_request = Inr req"
    and "lp_PayloadSizeBytes (sr_Profile req) < 2 ^ 48"
    and "cl_clock w \<noteq> 0" and "format_time (cl_clock w) = Inr ts"
    and create: "CreateScenario cluster_api body new_response w = (h, w1)"
    and arrived: "cl_published w1 = cl_published w @ [(x, k, dl_Body m)]"
    and broker: "br_app br = w1" "br_faults br = []" "br_arrivals br = [Arrived m]" "\<not> br_canceled br"
    and consumer: "ep_channel (co_ep co) = Some ch" "queue \<noteq> []"
  shows "x = scenariosExchange \<and> k = lp_TargetQueue (sr_Profile req) \<and>
    (\<exists>co' br'. Consume broker_amqp (\<lambda>s. s) queue (Some (traced (worker_delivery cluster_worker))) (co, br) = Some (None, co', br') \<and>
      (cl_clock (br_app br') < year_start 10000 \<longrightarrow>
         br_trace br' = br_trace br @ [Handled m None, Acked m None] \<and>
         (\<exists>res snap. statuses uid (br_app br') = [Some ''queued'', Some ''running'', Some (terminal_status res)] \<and>
            cl_published (br_app br') = cl_published w1 @ [(resultsExchange, ''results.'' @ uid, Doc snap)])))"
proof -
  obtain j w2 out where run: "cl_published w1 = cl_published w @ [(scenariosExchange, lp_TargetQueue (sr_Profile req), Doc j)]"
    "worker_handler cluster_worker (Doc j) w1 = Some out" "statuses uid w2 = [Some ''queued'', Some ''running'']"
    "cl_published w2 = cl_published w1" "run_ends_in_time (queued_scenario req uid (cl_clock w)) w2 out"
    using created_runs [OF assms(1-9)] create by (metis Pair_inject)
  have m: "x = scenariosExchange" "k = lp_TargetQueue (sr_Profile req)" "dl_Body m = Doc j"
    using run(1) arrived by simp_all
  have "worker_delivery cluster_worker m (br_app br) = Some (fst out, snd out)"
    using run(2) m(3) broker(1) by (simp add: worker_delivery_def)
  from Consume_one [of "worker_delivery cluster_worker", OF this broker(2-4) consumer] obtain co' br' where
    c: "Consume broker_amqp (\<lambda>s. s) queue (Some (traced (worker_delivery cluster_worker))) (co, br) = Some (None, co', br')"
    "br_app br' = snd out" "br_trace br' = br_trace br @ settlement (m, fst out, None)"
    by blast
  have "br_trace br' = br_trace br @ [Handled m None, Acked m None] \<and>
         (\<exists>res snap. statuses uid (br_app br') = [Some ''queued'', Some ''running'', Some (terminal_status res)] \<and>
            cl_published (br_app br') = cl_published w1 @ [(resultsExchange, ''results.'' @ uid, Doc snap)])"
    if "cl_clock (br_app br') < year_start 10000"
  proof -
    have "run_ends (queued_scenario req uid (cl_clock w)) w2 out"
      using run(5) that c(2) by (simp add: run_ends_in_time_def)
    then show ?thesis
      using run(3,4) c(2,3) by (auto simp: run_ends_def queued_scenario_def settlement_def)
  qed
  with m(1,2) c(1) show ?thesis
    by blast
qed

definition demo_worker_broker :: "cluster \<Rightarrow> bytes delivery \<Rightarrow> (bytes, cluster) broker" where
  "demo_worker_broker w m =
     \<lparr>br_conns = [0], br_next = 2, br_faults = [], br_arrivals = [Arrived m], br_waits = [], br_canceled = False,
      br_published = [], br_declared = [], br_trace = [], br_paused = [], br_context = [], br_app = w\<rparr>"

definition demo_message :: "bytes \<Rightarrow> bytes delivery" where
  "demo_message b = \<lparr>dl_tag = 0, dl_RoutingKey = routingHigh, dl_Headers = Map.empty, dl_Body = b\<rparr>"

theorem created_scenario_is_acked_witness:
  "\<exists>h w1 m co' br' res. CreateScenario cluster_api (Doc (enc_ScenarioRequest (demo_request ''mem_alloc''))) new_response
       (demo_cluster ''mem_alloc'' []) = (h, w1) \<and>
     Consume broker_amqp (\<lambda>s. s) queueHigh (Some (traced (worker_delivery cluster_worker))) (demo_consumer, demo_worker_broker w1 m) =
       Some (None, co', br') \<and>
     br_trace br' = [Handled m None, Acked m None] \<and>
     statuses ''s1'' (br_app br') = [Some ''queued'', Some ''running'', Some (terminal_status res)]"
proof -
  let ?w = "demo_cluster ''mem_alloc'' []"
  let ?req = "demo_request ''mem_alloc''"
  let ?h = "traced (worker_delivery cluster_worker)"
  have "\<not> isl (format_time (63871329601 * second))"
    by code_simp
  then obtain ts where ts: "format_time (cl_clock ?w) = Inr ts"
    by (cases "format_time (63871329601 * second)") (auto simp: demo_cluster_def)
  have u: "cl_uuids ?w = ''s1'' # []" "cl_published ?w = []"
    by (simp_all add: demo_cluster_def)
  have v: "\<not> rejected (Doc (enc_ScenarioRequest ?req))"
    by (rule demo_request_valid) simp
  have p: "lp_PayloadSizeBytes (sr_Profile ?req) < 2 ^ 48" "cl_clock ?w \<noteq> 0"
    by (simp_all add: demo_request_def demo_profile_def demo_cluster_def)
  obtain h w1 j out where c: "CreateScenario cluster_api (Doc (enc_ScenarioRequest ?req)) new_response ?w = (h, w1)"
    and pub: "cl_published w1 = cl_published ?w @ [(scenariosExchange, lp_TargetQueue (sr_Profile ?req), Doc j)]"
    and run: "worker_handler cluster_worker (Doc j) w1 = Some out"
    using created_runs [OF demo_empty_ok(1,2) u(1) demo_empty_ok(3) v demo_request_decodes p ts] by blast
  let ?m = "demo_message (Doc j)"
  let ?br = "demo_worker_broker w1 ?m"
  have br: "br_app ?br = w1" "br_faults ?br = []" "br_arrivals ?br = [Arrived ?m]" "\<not> br_canceled ?br"
    "ep_channel (co_ep demo_consumer) = Some 1" "queueHigh \<noteq> []"
    by (simp_all add: demo_worker_broker_def demo_consumer_def worker_queues)
  have m: "cl_published w1 = cl_published ?w @ [(scenariosExchange, lp_TargetQueue (sr_Profile ?req), dl_Body ?m)]"
    by (simp add: pub demo_message_def)
  obtain co' br' where con: "Consume broker_amqp (\<lambda>s. s) queueHigh (Some ?h) (demo_consumer, ?br) = Some (None, co', br')"
    and fin: "cl_clock (br_app br') < year_start 10000 \<longrightarrow> br_trace br' = br_trace ?br @ [Handled ?m None, Acked ?m None] \<and>
         (\<exists>res snap. statuses ''s1'' (br_app br') = [Some ''queued'', Some ''running'', Some (terminal_status res)] \<and>
            cl_published (br_app br') = cl_published w1 @ [(resultsExchange, ''results.'' @ ''s1'', Doc snap)])"
    using created_scenario_is_acked [OF demo_empty_ok(1,2) u(1) demo_empty_ok(3) v demo_request_decodes p ts c m br]
    by blast
  have "dl_Body ?m = Doc j"
    by (simp add: demo_message_def)
  then have "worker_delivery cluster_worker ?m (br_app ?br) = Some (fst out, snd out)"
    by (simp only: worker_delivery_def br(1) run prod.collapse)
  from Consume_one [of "worker_delivery cluster_worker", OF this br(2-6)] con have "br_app br' = snd out"
    by auto
  moreover from demo_created_done have "cl_clock (snd out) < year_start 10000"
    by (simp add: c pub run)
  ultimately have "br_trace br' = [Handled ?m None, Acked ?m None]"
    "\<exists>res. statuses ''s1'' (br_app br') = [Some ''queued'', Some ''running'', Some (terminal_status res)]"
    using fin by (auto simp: demo_worker_broker_def)
  with c con show ?thesis
    by blast
qed

end
