(* ===== verification/Scenario_System.thy ===== *)
theory Scenario_System
  imports World_Frame Lifecycle Worker_Main "HOL-Library.Sublist"
begin

text \<open>
  The API, the broker and the workers as one system, seen from one scenario: requests and deliveries
  move the cluster on, one after another, in any order, with redeliveries, failing statements, and
  stops that other clients record between any two statements. The steps refine the lifecycle, so that
  every history of a scenario is one of those \<open>Lifecycle\<close> describes, and a stop that is accepted between
  two deliveries is final. A request or a delivery is one step here, so this theory says nothing of two
  deliveries of the same message that overlap, which \<open>Overlap\<close> describes, nor of a stop request that
  is answered in the middle of a delivery, of which \<open>Cluster_Worker\<close> shows that it can be lost.
\<close>

section \<open>What the statements of the log show\<close>

definition payload_shows :: "bytes \<Rightarrow> string option" where
  "payload_shows b =
     (case json_Unmarshal dec_ScenarioResponse b zero_scenario of Inl err \<Rightarrow> None | Inr sc \<Rightarrow> Some (sc_Status sc))"

lemma event_status_shows: "event_status r = payload_shows (ev_payload r)"
  by (simp add: event_status_def payload_shows_def)

fun entry_shows :: "string \<Rightarrow> string \<times> sql_val list \<Rightarrow> string option list" where
  "entry_shows sid (q, [VText i, VBytes b]) =
     (if q = insertScenarioQuery \<and> i = sid then [payload_shows b] else [])"
| "entry_shows sid e = []"

definition log_shows :: "string \<Rightarrow> (string \<times> sql_val list) list \<Rightarrow> string option list" where
  "log_shows sid l = concat (map (entry_shows sid) l)"

lemma log_shows_simps [simp]:
  "log_shows sid [] = []" "log_shows sid (e # l) = entry_shows sid e @ log_shows sid l"
  "log_shows sid (l @ l') = log_shows sid l @ log_shows sid l'"
  by (simp_all add: log_shows_def)

text \<open>The other clients' rows of a scenario have no status that \<open>P\<close> holds of.\<close>

definition outsiders :: "(string option \<Rightarrow> bool) \<Rightarrow> string \<Rightarrow> cluster \<Rightarrow> bool" where
  "outsiders P sid w \<longleftrightarrow>
     (\<forall>es \<in> set (cl_others w). \<forall>e \<in> set es. fst e = sid \<longrightarrow> \<not> P (payload_shows (snd e)))"

text \<open>
  The rows of a scenario only grow, by what the statements of the program say and the rows of the other
  clients in between.
\<close>

definition traced :: "(string option \<Rightarrow> bool) \<Rightarrow> string \<Rightarrow> cluster \<Rightarrow> cluster \<Rightarrow> bool" where
  "traced P sid w w' \<longleftrightarrow>
     (\<exists>d zs. own_log w' = own_log w @ d \<and> statuses sid w' = statuses sid w @ zs \<and> subseq (log_shows sid d) zs \<and>
        (outsiders P sid w \<longrightarrow> outsiders P sid w' \<and> filter P zs = filter P (log_shows sid d)))"

lemma tracedI:
  "own_log w' = own_log w @ d \<Longrightarrow> statuses sid w' = statuses sid w @ zs \<Longrightarrow> subseq (log_shows sid d) zs \<Longrightarrow>
   (outsiders P sid w \<Longrightarrow> outsiders P sid w' \<and> filter P zs = filter P (log_shows sid d)) \<Longrightarrow> traced P sid w w'"
  unfolding traced_def by blast

lemma traced_same:
  "own_log w' = own_log w \<Longrightarrow> cl_pg w' = cl_pg w \<Longrightarrow> (outsiders P sid w \<Longrightarrow> outsiders P sid w') \<Longrightarrow> traced P sid w w'"
  by (rule tracedI [of _ _ "[]" _ "[]"]) (simp_all add: statuses_def)

lemma traced_trans:
  assumes "traced P sid w w1" and "traced P sid w1 w2"
  shows "traced P sid w w2"
proof -
  obtain d zs where 1: "own_log w1 = own_log w @ d" "statuses sid w1 = statuses sid w @ zs"
    "subseq (log_shows sid d) zs"
    "outsiders P sid w \<longrightarrow> outsiders P sid w1 \<and> filter P zs = filter P (log_shows sid d)"
    using assms(1) by (auto simp: traced_def)
  obtain e ys where 2: "own_log w2 = own_log w1 @ e" "statuses sid w2 = statuses sid w1 @ ys"
    "subseq (log_shows sid e) ys"
    "outsiders P sid w1 \<longrightarrow> outsiders P sid w2 \<and> filter P ys = filter P (log_shows sid e)"
    using assms(2) by (auto simp: traced_def)
  show ?thesis
    by (rule tracedI [of _ _ "d @ e" _ "zs @ ys"]) (use 1 2 in \<open>auto intro: list_emb_append_mono\<close>)
qed

lemma statuses_fold:
  "map event_status (of_scenario sid (scenario_events (fold (\<lambda>(i, b). insert_scenario_event t i b) es db))) =
     map event_status (of_scenario sid (scenario_events db)) @
     map (\<lambda>e. payload_shows (snd e)) (filter (\<lambda>e. fst e = sid) es)"
  by (induction es arbitrary: db) (auto simp: of_scenario_insert event_status_shows)

lemma traced_turn: "traced P sid w (others_act w)"
proof (cases "cl_others w")
  case (Cons es rest)
  show ?thesis
  proof (rule tracedI)
    show "own_log (others_act w) = own_log w @ []"
      by simp
    show "statuses sid (others_act w) = statuses sid w @ map (\<lambda>e. payload_shows (snd e)) (filter (\<lambda>e. fst e = sid) es)"
      by (simp add: statuses_def others_act_def Cons statuses_fold)
    show "subseq (log_shows sid []) (map (\<lambda>e. payload_shows (snd e)) (filter (\<lambda>e. fst e = sid) es))"
      by simp
    assume "outsiders P sid w"
    then show "outsiders P sid (others_act w) \<and>
        filter P (map (\<lambda>e. payload_shows (snd e)) (filter (\<lambda>e. fst e = sid) es)) = filter P (log_shows sid [])"
      by (auto simp: outsiders_def others_act_def Cons filter_map filter_empty_conv)
  qed
qed (rule traced_same; simp add: others_act_def)

lemma pg_Exec_others:
  "pg_Exec t q args db = (None, db') \<Longrightarrow> q \<noteq> insertScenarioQuery \<Longrightarrow> scenario_events db' = scenario_events db"
  by (auto simp: pg_Exec_def insert_load_event_def insert_snapshot_def split: if_splits list.splits sql_val.splits bytes.splits)

lemma pg_Exec_scenario:
  "pg_Exec t insertScenarioQuery args db = (None, db') \<Longrightarrow>
     \<exists>i j. args = [VText i, VBytes (Doc j)] \<and> db' = insert_scenario_event t i (Doc j) db"
  by (auto simp: pg_Exec_def split: list.splits sql_val.splits bytes.splits)

lemma entry_shows_other: "q \<noteq> insertScenarioQuery \<Longrightarrow> entry_shows sid (q, args) = []"
  by (cases "(sid, q, args)" rule: entry_shows.cases) auto

lemma traced_store:
  assumes "pg_Exec (cl_clock w) q args (cl_pg w) = (None, db)"
  shows "traced P sid w (w\<lparr>cl_pg := db, cl_log := cl_log w @ [(q, args)]\<rparr>)"
proof -
  let ?d = "filter (\<lambda>e. fst e \<noteq> insertLoadEventQuery) [(q, args)]"
  have "statuses sid (w\<lparr>cl_pg := db, cl_log := cl_log w @ [(q, args)]\<rparr>) = statuses sid w @ log_shows sid ?d"
  proof (cases "q = insertScenarioQuery")
    case True
    with pg_Exec_scenario [of _ args _ db] assms obtain i j where
      ij: "args = [VText i, VBytes (Doc j)]" "db = insert_scenario_event (cl_clock w) i (Doc j) (cl_pg w)"
      by blast
    then show ?thesis
      by (simp add: True statuses_def of_scenario_insert event_status_shows)
  next
    case False
    with assms pg_Exec_others [OF assms False] show ?thesis
      by (simp add: statuses_def entry_shows_other)
  qed
  then show ?thesis
    by (rule tracedI [rotated]) (simp_all add: own_log_def outsiders_def)
qed

lemma outsiders_fields [simp]:
  "outsiders P sid (tick_clock d w) = outsiders P sid w" "outsiders P sid (w\<lparr>cl_redis := c\<rparr>) = outsiders P sid w"
  "outsiders P sid (w\<lparr>cl_published := p\<rparr>) = outsiders P sid w" "outsiders P sid (w\<lparr>cl_ticks := ns\<rparr>) = outsiders P sid w"
  "outsiders P sid (w\<lparr>cl_uuids := us\<rparr>) = outsiders P sid w" "outsiders P sid (w\<lparr>cl_faults := fs\<rparr>) = outsiders P sid w"
  by (simp_all add: outsiders_def)

interpretation traced: api_frame "traced P sid" for P sid
proof unfold_locales
  fix w w1 w2 :: cluster and f d q args db c k x b ns us
  show "traced P sid w w"
    by (rule traced_same) simp_all
  show "traced P sid w w1 \<Longrightarrow> traced P sid w1 w2 \<Longrightarrow> traced P sid w w2"
    by (rule traced_trans)
  show "traced P sid w (others_act w)"
    by (rule traced_turn)
  show "next_fault w = (f, w1) \<Longrightarrow> traced P sid w w1"
    by (rule traced_same) (auto simp: next_fault_def own_log_def split: list.splits)
  show "traced P sid w (tick_clock d w)"
    by (rule traced_same) simp_all
  show "pg_Exec (cl_clock w) q args (cl_pg w) = (None, db) \<Longrightarrow>
      traced P sid w (w\<lparr>cl_pg := db, cl_log := cl_log w @ [(q, args)]\<rparr>)"
    by (rule traced_store)
  show "traced P sid w (w\<lparr>cl_redis := c\<rparr>)" "traced P sid w (w\<lparr>cl_published := cl_published w @ [(x, k, b)]\<rparr>)"
    "traced P sid w (w\<lparr>cl_published := cl_published w @ [(x, k, b)]\<rparr>)"
    "traced P sid w (w\<lparr>cl_ticks := ns\<rparr>)" "traced P sid w (w\<lparr>cl_uuids := us\<rparr>)"
    by (rule traced_same; simp add: own_log_def)+
qed

text \<open>The tables stay in order and the clock only moves on.\<close>

definition orderly :: "cluster \<Rightarrow> cluster \<Rightarrow> bool" where
  "orderly w w' \<longleftrightarrow> (cluster_ok w \<longrightarrow> cluster_ok w' \<and> cl_clock w \<le> cl_clock w')"

interpretation orderly: api_frame orderly
proof unfold_locales
  fix w w1 w2 :: cluster and f d q args db c k x b ns us
  show "orderly w w" "orderly w (w\<lparr>cl_redis := c\<rparr>)" "orderly w (w\<lparr>cl_published := cl_published w @ [(x, k, b)]\<rparr>)"
    "orderly w (w\<lparr>cl_published := cl_published w @ [(x, k, b)]\<rparr>)" "orderly w (w\<lparr>cl_ticks := ns\<rparr>)"
    "orderly w (w\<lparr>cl_uuids := us\<rparr>)"
    by (simp_all add: orderly_def cluster_ok_def)
  show "orderly w w1 \<Longrightarrow> orderly w1 w2 \<Longrightarrow> orderly w w2"
    by (auto simp: orderly_def)
  show "orderly w (others_act w)"
    by (cases "cl_others w") (simp_all add: orderly_def others_act_def cluster_ok_def fold_ok)
  show "next_fault w = (f, w1) \<Longrightarrow> orderly w w1"
    by (cases "cl_faults w") (auto simp: orderly_def next_fault_def cluster_ok_def)
  show "0 \<le> d \<Longrightarrow> orderly w (tick_clock d w)"
    by (auto simp: orderly_def intro: cluster_ok_tick)
  show "pg_Exec (cl_clock w) q args (cl_pg w) = (None, db) \<Longrightarrow>
      orderly w (w\<lparr>cl_pg := db, cl_log := cl_log w @ [(q, args)]\<rparr>)"
    using pg_ok_Exec [of "cl_clock w" "cl_pg w" "cl_clock w" q args] by (simp add: orderly_def cluster_ok_def)
qed

text \<open>The messages to the workload queues, which only the create endpoint adds to.\<close>

definition workload_messages :: "cluster \<Rightarrow> (string \<times> string \<times> bytes) list" where
  "workload_messages w = filter (\<lambda>m. fst (snd m) \<in> {Worker.queueHigh, Worker.queueLow}) (cl_published w)"

definition same_work :: "cluster \<Rightarrow> cluster \<Rightarrow> bool" where
  "same_work w w' \<longleftrightarrow> workload_messages w' = workload_messages w"

interpretation work: world_frame same_work
proof unfold_locales
  fix w w1 w2 :: cluster and f d q args db c k x b ns us
  show "next_fault w = (f, w1) \<Longrightarrow> same_work w w1"
    by (auto simp: same_work_def workload_messages_def dest: fault_frame)
qed (simp_all add: same_work_def workload_messages_def)

text \<open>Reading leaves no statement behind.\<close>

definition silent :: "cluster \<Rightarrow> cluster \<Rightarrow> bool" where
  "silent w w' \<longleftrightarrow> own_log w' = own_log w"

interpretation silent: outside_frame silent
  by unfold_locales (auto simp: silent_def dest: log_fault)


section \<open>What each operation adds\<close>

definition active :: "string option \<Rightarrow> bool" where
  "active s \<longleftrightarrow> s \<noteq> Some ''stopped''"

text \<open>
  The other clients of one scenario are polite: its only rows they insert are stops, and none as long
  as it has no row at all.
\<close>

definition polite :: "string \<Rightarrow> cluster \<Rightarrow> bool" where
  "polite sid w \<longleftrightarrow> outsiders active sid w \<and> (statuses sid w = [] \<longrightarrow> outsiders (\<lambda>_. True) sid w)"

definition stops :: "nat \<Rightarrow> string option list" where
  "stops n = replicate n (Some ''stopped'')"

lemma inactive: "filter active zs = [] \<longleftrightarrow> (\<exists>n. zs = stops n)"
proof
  assume "filter active zs = []"
  then have "replicate (length zs) (Some ''stopped'') = zs"
    by (intro replicate_length_same) (auto simp: filter_empty_conv active_def)
  then show "\<exists>n. zs = stops n"
    unfolding stops_def by (intro exI [of _ "length zs"]) simp
qed (auto simp: stops_def active_def)

lemma polite_growth:
  assumes "polite sid w" and "\<And>P. traced P sid w w'" and "own_log w' = own_log w @ d"
  shows "\<exists>zs. statuses sid w' = statuses sid w @ zs \<and> filter active zs = filter active (log_shows sid d) \<and>
    subseq (log_shows sid d) zs \<and> (statuses sid w = [] \<longrightarrow> zs = log_shows sid d)"
proof -
  obtain zs where zs: "statuses sid w' = statuses sid w @ zs" "filter active zs = filter active (log_shows sid d)"
    "subseq (log_shows sid d) zs"
    using assms by (auto simp: traced_def polite_def dest!: meta_spec [of _ active])
  moreover have "zs = log_shows sid d" if "statuses sid w = []"
    using assms that zs(1) by (auto simp: traced_def polite_def dest!: meta_spec [of _ "\<lambda>_. True"])
  ultimately show ?thesis
    by blast
qed

lemma own_log_cl_log:
  "cl_log w' = cl_log w @ d \<Longrightarrow> own_log w' = own_log w @ filter (\<lambda>e. fst e \<noteq> insertLoadEventQuery) d"
  by (simp add: own_log_def)

lemma Create_adds:
  assumes "CreateScenario cluster_api body new_response w = (h, w')"
  shows "(own_log w' = own_log w \<and> cl_published w' = cl_published w) \<or>
    (\<exists>j sc k. own_log w' = own_log w @ [(insertScenarioQuery, [VText (fst (next_uuid w)), VBytes (Doc j)])] \<and>
       dec_ScenarioResponse j zero_scenario = Inr sc \<and> sc_ID sc = fst (next_uuid w) \<and> sc_Status sc = ''queued'' \<and>
       (cl_published w' = cl_published w \<or> cl_published w' = cl_published w @ [(scenariosExchange, k, Doc j)]))"
proof (cases "rejected body")
  case False
  then have "\<exists>req uid now j.
         decodeJSON (dec_ScenarioRequest True) body zero_request = Inr req \<and> uid = fst (next_uuid w) \<and>
         (response_code h = Some 202 \<and> enc_ScenarioResponse (queued_scenario req uid now) = Inr j \<and>
            hr_body h = [CJson j] \<and>
            cl_log w' = cl_log w @ [(insertScenarioQuery, [VText uid, VBytes (Doc j)])] \<and>
            cl_published w' = cl_published w @ [(scenariosExchange, lp_TargetQueue (sr_Profile req), Doc j)] \<or>
          response_code h = Some 502 \<and> enc_ScenarioResponse (queued_scenario req uid now) = Inr j \<and>
            cl_log w' = cl_log w @ [(insertScenarioQuery, [VText uid, VBytes (Doc j)])] \<and>
            cl_published w' = cl_published w \<or>
          response_code h = Some 500 \<and> cl_log w' = cl_log w \<and> cl_published w' = cl_published w)"
    using CreateScenario_result [OF assms] by simp
  then obtain req uid now j where req: "decodeJSON (dec_ScenarioRequest True) body zero_request = Inr req"
    and uid: "uid = fst (next_uuid w)"
    and c: "enc_ScenarioResponse (queued_scenario req uid now) = Inr j \<and>
          cl_log w' = cl_log w @ [(insertScenarioQuery, [VText uid, VBytes (Doc j)])] \<and>
          cl_published w' = cl_published w @ [(scenariosExchange, lp_TargetQueue (sr_Profile req), Doc j)] \<or>
        enc_ScenarioResponse (queued_scenario req uid now) = Inr j \<and>
          cl_log w' = cl_log w @ [(insertScenarioQuery, [VText uid, VBytes (Doc j)])] \<and>
          cl_published w' = cl_published w \<or>
        cl_log w' = cl_log w \<and> cl_published w' = cl_published w"
    by (elim exE conjE disjE) (simp_all only: simp_thms, blast+)
  have ints: "profile_ints (sc_Profile (queued_scenario req uid now))"
    using decoded_request_ints [OF req] by (simp add: queued_scenario_def)
  have ids: "sc_ID (queued_scenario req uid now) = fst (next_uuid w)" "sc_Status (queued_scenario req uid now) = ''queued''"
    by (simp_all add: queued_scenario_def uid)
  show ?thesis
  proof (cases "cl_log w' = cl_log w \<and> cl_published w' = cl_published w")
    case False
    with c have j: "enc_ScenarioResponse (queued_scenario req uid now) = Inr j"
      and l: "cl_log w' = cl_log w @ [(insertScenarioQuery, [VText uid, VBytes (Doc j)])]"
      and p: "cl_published w' = cl_published w \<or>
        cl_published w' = cl_published w @ [(scenariosExchange, lp_TargetQueue (sr_Profile req), Doc j)]"
      by blast+
    have own: "own_log w' = own_log w @ [(insertScenarioQuery, [VText (fst (next_uuid w)), VBytes (Doc j)])]"
      using own_log_cl_log [OF l] uid by simp
    from dec_enc_ScenarioResponse [OF ints j] ids own p show ?thesis
      by blast
  qed (simp add: own_log_def)
qed (use CreateScenario_result [OF assms] in auto)

lemma getScenario_none:
  assumes "outsiders (\<lambda>_. True) sid w" and "statuses sid w = []"
    and "query_event cluster_store getScenarioQuery [VText sid] w = (x, w')"
  shows "\<exists>e. x = Inl e"
proof -
  have "statuses sid (others_act w) = []"
    using traced.turn [of "\<lambda>_. True" sid w] assms(1,2) by (auto simp: traced_def)
  then have none: "latest_row sid (cl_pg (others_act w)) = None"
    by (simp add: statuses_def latest_row_def in_order_def)
  obtain f w1 where f: "next_fault (others_act w) = (f, w1)"
    by fastforce
  then have "cl_pg w1 = cl_pg (others_act w)"
    by (auto simp: next_fault_def split: list.splits)
  with f none assms(3) show ?thesis
    by (auto simp: query_event_def cluster_defs cluster_read_def pg_QueryRow_def one_row_def split: option.splits)
qed

lemma Stop_adds:
  assumes "StopScenario cluster_api i new_response w = (h, w')"
  shows "own_log w' = own_log w \<and> response_code h \<noteq> Some 200 \<or>
    (\<exists>j. own_log w' = own_log w @ [(insertScenarioQuery, [VText i, VBytes (Doc j)])] \<and>
       payload_shows (Doc j) = Some ''stopped'' \<and> \<not> (outsiders (\<lambda>_. True) i w \<and> statuses i w = []))"
proof (cases "i = []")
  case False
  obtain x w1 where q: "query_event cluster_store getScenarioQuery [VText i] w = (x, w1)"
    by fastforce
  have l1: "own_log w1 = own_log w"
    using silent.event_kept [OF q] by (simp add: silent_def)
  show ?thesis
  proof (cases "\<exists>row resp0. x = Inr row \<and> json_Unmarshal dec_ScenarioResponse (fst (snd row)) zero_scenario = Inr resp0")
    case False
    with assms q l1 \<open>i \<noteq> []\<close> show ?thesis
      by (auto simp: StopScenario_def status_defs split: sum.splits)
  next
    case True
    then obtain rid payload created resp0 where x: "x = Inr (rid, payload, created)"
      and dec: "json_Unmarshal dec_ScenarioResponse payload zero_scenario = Inr resp0"
      by auto
    obtain now w2 where now: "cluster_now w1 = (now, w2)"
      by fastforce
    then have l2: "own_log w2 = own_log w"
      using l1 by (auto simp: cluster_now_def)
    let ?r1 = "if sc_ID resp0 = [] then resp0\<lparr>sc_ID := rid\<rparr> else resp0"
    let ?r2 = "if sc_ID ?r1 = [] then ?r1\<lparr>sc_ID := i\<rparr> else ?r1"
    let ?sc = "?r2\<lparr>sc_Status := ''stopped'', sc_CreatedAt := now\<rparr>"
    have ints: "profile_ints (sc_Profile ?sc)"
      using unmarshal_ints [OF dec] by simp
    show ?thesis
    proof (cases "enc_ScenarioResponse ?sc")
      case (Inl e)
      with assms q x dec now l2 \<open>i \<noteq> []\<close> show ?thesis
        by (auto simp: StopScenario_def Let_def status_defs)
    next
      case (Inr j)
      note d = dec_enc_ScenarioResponse [OF ints Inr]
      then have sh: "payload_shows (Doc j) = Some ''stopped''"
        by (simp add: payload_shows_def json_Unmarshal_def)
      have some: "\<not> (outsiders (\<lambda>_. True) i w \<and> statuses i w = [])"
        using getScenario_none [OF _ _ q] x by auto
      obtain r3 w3 where ex: "st_Exec cluster_store insertScenarioQuery [VText i, VBytes (Doc j)] w2 = (r3, w3)"
        by fastforce
      obtain r4 w4 where pub: "cluster_Publish scenariosExchange ''scenario.stop'' (Doc j) w3 = (r4, w4)"
        by fastforce
      have run: "StopScenario cluster_api i new_response w =
          (case r3 of Some e \<Rightarrow> (errorResponse StatusInternalServerError ''store scenario'' new_response, w3)
           | None \<Rightarrow> (case r4 of Some e \<Rightarrow> (errorResponse StatusBadGateway ''publish stop'' new_response, w4)
              | None \<Rightarrow> (respond StatusOK (Inr j) new_response, w4)))"
        using q x dec now Inr ex pub \<open>i \<noteq> []\<close>
        by (cases r3; cases r4) (simp_all add: StopScenario_def Let_def split del: if_split)
      note l3 = own_log_cl_log [OF conjunct2 [OF Exec_frame [OF ex]]]
      note l4 = own_log_cl_log [of w4 w3 "[]"]
      show ?thesis
        using assms run sh some l2 l3 l4 Publish_frame [OF pub]
        by (cases r3; cases r4) (auto simp: status_defs)
    qed
  qed
qed (use assms in \<open>auto simp: StopScenario_def status_defs\<close>)

text \<open>A delivery whose scenario shows a stop leaves no statement of its own.\<close>

lemma stopped_read:
  assumes "outsiders active sid w" and "cluster_ok w" and "latest_status sid w = Some ''stopped''"
    and "latestScenarioStatus cluster_store sid w = (Inr s, w')"
  shows "isStoppedScenarioStatus s"
proof -
  have ok: "cluster_ok (others_act w)"
    using orderly.turn [of w] assms(2) by (simp add: orderly_def)
  obtain zs where "statuses sid (others_act w) = statuses sid w @ zs" "filter active zs = []"
    using traced.turn [of active sid w] assms(1) by (auto simp: traced_def own_log_def)
  then obtain n where n: "statuses sid (others_act w) = statuses sid w @ stops n"
    by (auto simp: inactive)
  have "latest_status sid (others_act w) = Some ''stopped''"
    using assms(3) n by (cases n) (auto simp: latest_status_def last_option_def stops_def split: if_splits)
  then obtain r where r: "latest_row sid (cl_pg (others_act w)) = Some r" "event_status r = Some ''stopped''"
    by (auto simp: latest_status_row [OF ok] split: option.splits)
  obtain f w1 where f: "next_fault (others_act w) = (f, w1)"
    by fastforce
  then have "cl_pg w1 = cl_pg (others_act w)"
    by (auto simp: next_fault_def split: list.splits)
  with f r assms(4) have "s = ''stopped''"
    by (auto simp: latestScenarioStatus_def query_bytes_def cluster_defs cluster_read_def pg_QueryRow_def one_row_def
        scan_bytes_def event_status_def split: option.splits sum.splits)
  then show ?thesis
    by simp
qed

lemma stopped_skips:
  assumes "worker_handler cluster_worker body w = Some (r, w')"
    and "json_Unmarshal dec_ScenarioResponse body zero_scenario = Inr sc"
    and "outsiders active (sc_ID sc) w" and "cluster_ok w" and "latest_status (sc_ID sc) w = Some ''stopped''"
  shows "own_log w' = own_log w"
proof -
  obtain x w1 where l: "latestScenarioStatus cluster_store (sc_ID sc) w = (x, w1)"
    by fastforce
  with stopped_read [OF assms(3-5)] have "x = Inr s \<Longrightarrow> isStoppedScenarioStatus s" for s
    by blast
  with assms(1,2) l log_latest [OF l] show ?thesis
    by (auto simp: worker_handler_def handleMessage_def split: option.splits sum.splits)
qed

section \<open>The system\<close>

text \<open>
  What moves the cluster on, seen from one scenario, one step after the other: the requests of the API;
  the delivery of a message
  that was published to the exchange and that the topology routes to a queue one of the \<open>n\<close> consumers
  reads, as often as the broker likes; and the rest of the world, which lets time pass and decides
  which statements fail, which ids are drawn next, when the watchers tick and what the other clients
  will insert, also while a delivery is under way. An id that is drawn is not the one of a scenario
  that exists.
\<close>

inductive system_step :: "(string \<Rightarrow> string \<Rightarrow> bool) \<Rightarrow> nat \<Rightarrow> string \<Rightarrow> cluster \<Rightarrow> cluster \<Rightarrow> bool"
  for matches n sid where
  create: "CreateScenario cluster_api body new_response w = (h, w') \<Longrightarrow> polite sid w \<Longrightarrow>
     (fst (next_uuid w) = sid \<longrightarrow> statuses sid w = []) \<Longrightarrow> system_step matches n sid w w'"
| stop_request: "StopScenario cluster_api i new_response w = (h, w') \<Longrightarrow> polite sid w \<Longrightarrow>
     system_step matches n sid w w'"
| look: "ListScenarios cluster_api new_response w = (h, w') \<or> GetScenario cluster_api i new_response w = (h, w') \<or>
     ListScenarioEvents cluster_api i new_response w = (h, w') \<or> Status cluster_api new_response w = (h, w') \<or>
     MetricsSnapshot cluster_api new_response w = (h, w') \<Longrightarrow> polite sid w \<Longrightarrow> system_step matches n sid w w'"
| deliver: "(x, k, b) \<in> set (cl_published w) \<Longrightarrow>
     q \<in> set (bound_queues matches (map snd topology) x k) \<Longrightarrow> q \<in> pool_queues n \<Longrightarrow>
     worker_handler cluster_worker b w = Some (r, w') \<Longrightarrow> polite sid w \<Longrightarrow> system_step matches n sid w w'"
| outside: "0 \<le> d \<Longrightarrow> system_step matches n sid w
     (tick_clock d (w\<lparr>cl_others := os, cl_faults := fs, cl_ticks := ts, cl_uuids := us\<rparr>))"

text \<open>The scenarios that a message to the workload queues is about have an event.\<close>

definition announced :: "string \<Rightarrow> cluster \<Rightarrow> bool" where
  "announced sid w \<longleftrightarrow>
     (\<forall>(x, k, b) \<in> set (workload_messages w). \<forall>sc.
        json_Unmarshal dec_ScenarioResponse b zero_scenario = Inr sc \<and> sc_ID sc = sid \<longrightarrow> statuses sid w \<noteq> [])"

definition system_inv :: "(string \<Rightarrow> string \<Rightarrow> bool) \<Rightarrow> string \<Rightarrow> cluster \<Rightarrow> bool" where
  "system_inv matches sid w \<longleftrightarrow> documented_match matches \<and> cluster_ok w \<and> announced sid w"

definition shows_history :: "string \<Rightarrow> phase list \<Rightarrow> cluster \<Rightarrow> bool" where
  "shows_history sid h w \<longleftrightarrow> statuses sid w = map (\<lambda>p. Some (phase_name p)) h"

lemma announced_mono:
  assumes "announced sid w" and "workload_messages w' = workload_messages w" and "traced P sid w w'"
  shows "announced sid w'"
  using assms by (fastforce simp: announced_def traced_def)

lemma bound_by:
  "q \<in> set (bound_queues matches ds x k) \<Longrightarrow> \<exists>pat nw args. QueueBind q pat x nw args \<in> set ds \<and> matches pat k"
  by (induction matches ds x k rule: bound_queues.induct) (auto split: if_splits)

lemma topology_binds:
  assumes "QueueBind q pat x nw args \<in> set (map snd topology)" and "q \<in> pool_queues n"
  shows "x = exchangeName"
  using assms by (simp add: topology_declarations workload_queues_def pool_queues_eq) (auto simp: amqp_names)

lemma delivered_message:
  assumes "documented_match matches" and "(x, k, b) \<in> set (cl_published w)"
    and "q \<in> set (bound_queues matches (map snd topology) x k)" and "q \<in> pool_queues n"
  shows "(x, k, b) \<in> set (workload_messages w)"
proof -
  have "x = exchangeName"
    using bound_by [OF assms(3)] topology_binds [OF _ assms(4)] by blast
  with topology_bound [OF assms(1), of k] assms(3) have "k = q"
    by (simp split: if_splits)
  with assms(2,4) show ?thesis
    by (auto simp: workload_messages_def pool_queues_eq worker_queues)
qed

lemma outside_fields [simp]:
  "statuses sid (w\<lparr>cl_others := os, cl_faults := fs, cl_ticks := ts, cl_uuids := us\<rparr>) = statuses sid w"
  "workload_messages (tick_clock d w) = workload_messages w"
  "workload_messages (w\<lparr>cl_others := os, cl_faults := fs, cl_ticks := ts, cl_uuids := us\<rparr>) = workload_messages w"
  by (simp_all add: statuses_def workload_messages_def)

section \<open>The steps refine the lifecycle\<close>

lemma grown:
  assumes "shows_history sid h w" and "statuses sid w' = statuses sid w @ zs"
    and "filter active zs = map (\<lambda>p. Some (phase_name p)) ps" and "Stopped \<notin> set ps"
  shows "\<exists>ys. shows_history sid (h @ ys) w' \<and> work ys = ps"
proof -
  have "\<exists>ys. zs = map (\<lambda>p. Some (phase_name p)) ys \<and> work ys = ps"
    using assms(3,4)
  proof (induction zs arbitrary: ps)
    case (Cons z zs)
    show ?case
    proof (cases "active z")
      case True
      with Cons.prems obtain p qs where ps: "ps = p # qs" "z = Some (phase_name p)"
        "filter active zs = map (\<lambda>p. Some (phase_name p)) qs" "Stopped \<notin> set qs" "p \<noteq> Stopped"
        by (cases ps) auto
      with Cons.IH [of qs] obtain ys where "zs = map (\<lambda>p. Some (phase_name p)) ys" "work ys = qs"
        by auto
      with ps show ?thesis
        by (intro exI [of _ "p # ys"]) simp
    next
      case False
      with Cons.prems Cons.IH [of ps] obtain ys where "zs = map (\<lambda>p. Some (phase_name p)) ys" "work ys = ps"
        by auto
      with False show ?thesis
        by (intro exI [of _ "Stopped # ys"]) (simp add: active_def)
    qed
  qed simp
  with assms(1,2) show ?thesis
    by (auto simp: shows_history_def)
qed

lemma shows_Nil: "shows_history sid h w \<Longrightarrow> statuses sid w = [] \<longleftrightarrow> h = []"
  by (auto simp: shows_history_def)

lemma idle_step:
  assumes "shows_history sid h w" and "polite sid w" and "\<And>P. traced P sid w w'" and "own_log w' = own_log w @ d"
    and "filter active (log_shows sid d) = []" and "statuses sid w = [] \<Longrightarrow> log_shows sid d = []"
  shows "\<exists>h'. lifecycle h h' \<and> shows_history sid h' w'"
proof -
  obtain zs where zs: "statuses sid w' = statuses sid w @ zs" "filter active zs = []"
    "statuses sid w = [] \<longrightarrow> zs = []"
    using polite_growth [OF assms(2-4)] assms(5,6) by auto
  obtain ys where ys: "shows_history sid (h @ ys) w'" "work ys = []"
    using grown [OF assms(1) zs(1), of "[]"] zs(2) by auto
  show ?thesis
  proof (cases "h = []")
    case True
    with zs assms(1) show ?thesis
      by (auto simp: shows_history_def intro: lifecycle.rest)
  next
    case False
    with ys show ?thesis
      by (auto simp: work_Nil intro: lifecycle.stop)
  qed
qed

lemma last_shows:
  "shows_history sid h w \<Longrightarrow> h \<noteq> [] \<Longrightarrow> latest_status sid w = Some (phase_name (last h))"
  by (simp add: shows_history_def latest_status_def last_option_def last_map)

lemma status_write_shows:
  "status_write sc st e \<Longrightarrow> entry_shows sid e = (if sc_ID sc = sid then [Some st] else [])"
  by (auto simp: status_write_def payload_shows_def json_Unmarshal_def)

lemma snapshot_write_shows: "snapshot_write e \<Longrightarrow> entry_shows sid e = []"
  by (auto simp: snapshot_write_def)

lemma allowed_shows:
  assumes "allowed_writes sc r ws"
  shows "log_shows sid ws = [] \<or> sc_ID sc = sid \<and>
    (\<exists>ps \<in> set attempt_works. log_shows sid ws = map (\<lambda>p. Some (phase_name p)) ps)"
  using assms
  by (cases "sc_ID sc = sid")
     (auto simp: allowed_writes_def status_write_shows snapshot_write_shows attempt_works_def split: list.splits)

lemma deliver_step:
  assumes inv: "system_inv matches sid w" and h: "shows_history sid h w"
    and m: "(x, k, b) \<in> set (workload_messages w)" and run: "worker_handler cluster_worker b w = Some (r, w')"
    and p: "polite sid w"
  shows "\<exists>h'. lifecycle h h' \<and> shows_history sid h' w'"
proof (cases "json_Unmarshal dec_ScenarioResponse b zero_scenario")
  case (Inl e)
  with handler_protocol [OF run] show ?thesis
    by (intro idle_step [OF h p traced.worker_kept [OF run], of "[]"]) simp_all
next
  case (Inr sc)
  with handler_protocol [OF run] obtain ws where ws: "own_log w' = own_log w @ ws" "allowed_writes sc r ws"
    by auto
  note idle = idle_step [OF h p traced.worker_kept [OF run] ws(1)]
  show ?thesis
  proof (cases "log_shows sid ws = []")
    case False
    with allowed_shows [OF ws(2)] obtain ps where id: "sc_ID sc = sid" and ps: "ps \<in> set attempt_works"
      and l: "log_shows sid ws = map (\<lambda>p. Some (phase_name p)) ps"
      by blast
    have "statuses sid w \<noteq> []"
      using inv m Inr id by (auto simp: system_inv_def announced_def)
    then have ne: "h \<noteq> []"
      using shows_Nil [OF h] by simp
    have "last h \<noteq> Stopped"
    proof
      assume "last h = Stopped"
      then have "own_log w' = own_log w"
        using stopped_skips [OF run Inr] p inv id last_shows [OF h ne] by (simp add: polite_def system_inv_def)
      with ws(1) False show False
        by simp
    qed
    moreover have "Stopped \<notin> set ps" "filter active (log_shows sid ws) = map (\<lambda>p. Some (phase_name p)) ps"
      using ps l by (auto simp: attempt_works_def active_def)
    moreover obtain zs where "statuses sid w' = statuses sid w @ zs" "filter active zs = filter active (log_shows sid ws)"
      using polite_growth [OF p traced.worker_kept [OF run] ws(1)] by blast
    ultimately show ?thesis
      using grown [OF h, of w' zs ps] ne ps by (auto intro: lifecycle.attempt)
  qed (simp add: idle)
qed

lemma create_step:
  assumes h: "shows_history sid h w" and run: "CreateScenario cluster_api body new_response w = (hr, w')"
    and p: "polite sid w" and fresh: "fst (next_uuid w) = sid \<longrightarrow> statuses sid w = []"
  shows "\<exists>h'. lifecycle h h' \<and> shows_history sid h' w'"
proof -
  consider "own_log w' = own_log w" | j sc where
    "own_log w' = own_log w @ [(insertScenarioQuery, [VText (fst (next_uuid w)), VBytes (Doc j)])]"
    "dec_ScenarioResponse j zero_scenario = Inr sc" "sc_Status sc = ''queued''"
    using Create_adds [OF run] by blast
  then show ?thesis
  proof cases
    case 1
    then show ?thesis
      by (intro idle_step [OF h p traced.Create_kept [OF run], of "[]"]) simp_all
  next
    case (2 j sc)
    let ?d = "[(insertScenarioQuery, [VText (fst (next_uuid w)), VBytes (Doc j)])]"
    show ?thesis
    proof (cases "fst (next_uuid w) = sid")
      case True
      with fresh have empty: "statuses sid w = []"
        by simp
      with polite_growth [OF p traced.Create_kept [OF run] 2(1)] have "statuses sid w' = log_shows sid ?d"
        by auto
      then have "shows_history sid [Queued] w'"
        using True 2(2,3) by (simp add: shows_history_def payload_shows_def json_Unmarshal_def)
      moreover have "h = []"
        using shows_Nil [OF h] empty by simp
      ultimately show ?thesis
        using lifecycle.queue by blast
    next
      case False
      then show ?thesis
        by (intro idle_step [OF h p traced.Create_kept [OF run] 2(1)]) simp_all
    qed
  qed
qed

lemma stop_step:
  assumes h: "shows_history sid h w" and run: "StopScenario cluster_api i new_response w = (hr, w')"
    and p: "polite sid w"
  shows "\<exists>h'. lifecycle h h' \<and> shows_history sid h' w'"
  using Stop_adds [OF run]
proof (elim disjE exE conjE)
  assume "own_log w' = own_log w"
  then show ?thesis
    by (intro idle_step [OF h p traced.Stop_kept [OF run], of "[]"]) simp_all
next
  fix j
  assume "own_log w' = own_log w @ [(insertScenarioQuery, [VText i, VBytes (Doc j)])]"
    and "payload_shows (Doc j) = Some ''stopped''" and "\<not> (outsiders (\<lambda>_. True) i w \<and> statuses i w = [])"
  with p show ?thesis
    by (intro idle_step [OF h p traced.Stop_kept [OF run]]) (auto simp: active_def polite_def)
qed

lemma look_step:
  assumes "ListScenarios cluster_api new_response w = (h, w') \<or> GetScenario cluster_api i new_response w = (h, w') \<or>
     ListScenarioEvents cluster_api i new_response w = (h, w') \<or> Status cluster_api new_response w = (h, w') \<or>
     MetricsSnapshot cluster_api new_response w = (h, w')"
  shows "own_log w' = own_log w" and "traced P sid w w'" and "cluster_ok w \<Longrightarrow> cluster_ok w'" and
    "workload_messages w' = workload_messages w"
proof -
  show "traced P sid w w'"
    using assms by (elim disjE) (erule traced.List_kept traced.Get_kept traced.Events_kept traced.Status_kept traced.Metrics_kept)+
  have "silent w w'"
    using assms by (elim disjE) (erule silent.List_kept silent.Get_kept silent.Events_kept silent.Status_kept silent.Metrics_kept)+
  then show "own_log w' = own_log w"
    by (simp add: silent_def)
  have "orderly w w'"
    using assms by (elim disjE) (erule orderly.List_kept orderly.Get_kept orderly.Events_kept orderly.Status_kept orderly.Metrics_kept)+
  then show "cluster_ok w \<Longrightarrow> cluster_ok w'"
    by (simp add: orderly_def)
  have "same_work w w'"
    using assms by (elim disjE) (erule work.List_kept work.Get_kept work.Events_kept work.Status_kept work.Metrics_kept)+
  then show "workload_messages w' = workload_messages w"
    by (simp add: same_work_def)
qed

lemma system_sim:
  assumes "system_inv matches sid w" and "shows_history sid h w" and "system_step matches n sid w w'"
  shows "\<exists>h'. lifecycle h h' \<and> shows_history sid h' w'"
  using assms(3)
proof cases
  case (create body hr)
  with assms(2) show ?thesis
    by (intro create_step)
next
  case (stop_request i hr)
  with assms(2) show ?thesis
    by (intro stop_step)
next
  case (look hr i)
  note l = look_step [OF look(1)]
  show ?thesis
    by (rule idle_step [OF assms(2) look(2) l(2), of "[]"]) (simp_all add: l(1))
next
  case (deliver x k b q r)
  have "documented_match matches"
    using assms(1) by (simp add: system_inv_def)
  from delivered_message [OF this deliver(1-3)] deliver(4,5) assms(1,2) show ?thesis
    by (intro deliver_step)
next
  case outside
  with assms(2) show ?thesis
    by (intro exI [of _ h]) (simp add: shows_history_def lifecycle.rest)
qed

lemma created_announced:
  assumes inv: "announced sid w" and run: "CreateScenario cluster_api body new_response w = (h, w')" and p: "polite sid w"
  shows "announced sid w'"
proof (cases "cl_published w' = cl_published w")
  case True
  then show ?thesis
    by (intro announced_mono [OF inv _ traced.Create_kept [OF run]]) (simp add: workload_messages_def)
next
  case False
  with Create_adds [OF run] obtain j sc k where
    own: "own_log w' = own_log w @ [(insertScenarioQuery, [VText (fst (next_uuid w)), VBytes (Doc j)])]"
    and dec: "dec_ScenarioResponse j zero_scenario = Inr sc"
    and sc: "sc_Status sc = ''queued''" "sc_ID sc = fst (next_uuid w)"
    and pub: "cl_published w' = cl_published w @ [(scenariosExchange, k, Doc j)]"
    by blast
  obtain zs where zs: "statuses sid w' = statuses sid w @ zs"
    "filter active zs = filter active (log_shows sid [(insertScenarioQuery, [VText (fst (next_uuid w)), VBytes (Doc j)])])"
    using polite_growth [OF p traced.Create_kept [OF run] own] by blast
  have "zs \<noteq> []" if "sc_ID sc = sid"
    using that zs(2) sc dec by (auto simp: payload_shows_def json_Unmarshal_def active_def)
  with inv pub dec zs(1) show ?thesis
    by (auto simp: announced_def workload_messages_def json_Unmarshal_def)
qed

lemma system_inv_step:
  assumes "system_inv matches sid w" and "system_step matches n sid w w'"
  shows "system_inv matches sid w'"
proof -
  have dm: "documented_match matches" and ok: "cluster_ok w" and an: "announced sid w"
    using assms(1) by (simp_all add: system_inv_def)
  from assms(2) have "cluster_ok w' \<and> announced sid w'"
  proof cases
    case (create body hr)
    with ok orderly.Create_kept [OF create(1)] created_announced [OF an create(1,2)] show ?thesis
      by (simp add: orderly_def)
  next
    case (stop_request i hr)
    have "workload_messages w' = workload_messages w"
      using work.Stop_kept [OF stop_request(1)] by (simp add: same_work_def)
    from announced_mono [OF an this traced.Stop_kept [OF stop_request(1)]] orderly.Stop_kept [OF stop_request(1)] ok
    show ?thesis
      by (simp add: orderly_def)
  next
    case (look hr i)
    note l = look_step [OF look(1)]
    from announced_mono [OF an l(4,2)] l(3) ok show ?thesis
      by simp
  next
    case (deliver x k b q r)
    have "workload_messages w' = workload_messages w"
      using work.worker_kept [OF deliver(4)] by (simp add: same_work_def)
    from announced_mono [OF an this traced.worker_kept [OF deliver(4)]] orderly.worker_kept [OF deliver(4)] ok
    show ?thesis
      by (simp add: orderly_def)
  next
    case (outside d us ts fs os)
    have "cluster_ok (w\<lparr>cl_others := os, cl_faults := fs, cl_ticks := ts, cl_uuids := us\<rparr>)"
      using ok by (simp add: cluster_ok_def)
    with outside an show ?thesis
      by (simp add: announced_def cluster_ok_tick)
  qed
  with dm show ?thesis
    by (simp add: system_inv_def)
qed

interpretation system: simulation lifecycle "system_step matches n sid" "shows_history sid" "system_inv matches sid"
  for matches n sid
  by unfold_locales (auto intro: system_inv_step system_sim)

section \<open>Histories and stops\<close>

text \<open>
  An attempt, as the events show it: \<open>i\<close> stops while it was running, its outcome if it has one, and \<open>j\<close>
  stops after the outcome.
\<close>

fun attempt_rows :: "nat \<times> string option \<times> nat \<Rightarrow> string option list" where
  "attempt_rows (i, out, j) =
     Some ''running'' # stops i @ (case out of None \<Rightarrow> [] | Some s \<Rightarrow> Some s # stops j)"

definition attempts_history :: "nat \<Rightarrow> (nat \<times> string option \<times> nat) list \<Rightarrow> string option list" where
  "attempts_history k as = Some ''queued'' # stops k @ concat (map attempt_rows as)"

lemma names_attempt:
  "map (\<lambda>p. Some (phase_name p)) (attempt_phases (i, out, j)) = attempt_rows (i, map_option phase_name out, j)"
  by (cases out) (simp_all add: attempt_phases_def stops_def)

lemma names_attempts:
  "outcomes_ok as \<Longrightarrow> \<exists>bs. map (\<lambda>p. Some (phase_name p)) (concat (map attempt_phases as)) = concat (map attempt_rows bs) \<and>
     (\<forall>(i, out, j) \<in> set bs. out \<in> {None, Some ''completed'', Some ''failed''})"
proof (induction as)
  case Nil
  show ?case
    by (intro exI [of _ "[]"]) simp
next
  case (Cons a as)
  obtain i out j where a: "a = (i, out, j)"
    by (rule prod_cases3)
  with Cons obtain bs where "map (\<lambda>p. Some (phase_name p)) (concat (map attempt_phases as)) = concat (map attempt_rows bs)"
    "\<forall>(i, out, j) \<in> set bs. out \<in> {None, Some ''completed'', Some ''failed''}"
    by auto
  moreover have "map_option phase_name out \<in> {None, Some ''completed'', Some ''failed''}"
    using Cons.prems a by auto
  ultimately show ?case
    using names_attempt [of i out j] by (intro exI [of _ "(i, map_option phase_name out, j) # bs"]) (simp add: a)
qed

lemma sound_history:
  assumes "well_formed h" and "h \<noteq> []"
  shows "\<exists>k as. map (\<lambda>p. Some (phase_name p)) h = attempts_history k as \<and>
    (\<forall>(i, out, j) \<in> set as. out \<in> {None, Some ''completed'', Some ''failed''})"
proof -
  obtain k as where "h = Queued # replicate k Stopped @ concat (map attempt_phases as)" "outcomes_ok as"
    using assms by (rule well_formed_attempts)
  with names_attempts [of as] show ?thesis
    by (auto simp: attempts_history_def stops_def)
qed

lemma reachable_history:
  assumes "documented_match matches" and "cluster_ok w" and "announced sid w" and "statuses sid w = []"
    and "(system_step matches n sid)\<^sup>*\<^sup>* w w'"
  shows "\<exists>h. lifecycle\<^sup>*\<^sup>* [] h \<and> shows_history sid h w'"
proof (rule system.sim_run [OF assms(5)])
  show "system_inv matches sid w"
    using assms(1-3) by (simp add: system_inv_def)
  show "shows_history sid [] w"
    using assms(4) by (simp add: shows_history_def)
qed

text \<open>
  C2. The system refines the lifecycle of a scenario: when its requests, deliveries and redeliveries
  come one after another, in whatever order, whatever statements fail and between whichever two
  statements other clients record a stop, the statuses of a scenario that starts without events are a
  history the lifecycle reaches, and so one that \<open>well_formed\<close> accepts. (Two deliveries that overlap may
  leave other histories; \<open>Overlap\<close> has one.)
\<close>

theorem system_refines_lifecycle:
  assumes "documented_match matches" and "cluster_ok w" and "announced sid w" and "statuses sid w = []"
    and "(system_step matches n sid)\<^sup>*\<^sup>* w w'"
  shows "\<exists>h. lifecycle\<^sup>*\<^sup>* [] h \<and> well_formed h \<and> statuses sid w' = map (\<lambda>p. Some (phase_name p)) h"
  using reachable_history [OF assms] reached_iff by (auto simp: shows_history_def)

lemma demo_announced [simp]: "announced sid (demo_cluster wt [])"
  by (simp add: announced_def workload_messages_def demo_cluster_def)

lemma plain_match [simp]: "documented_match (=)"
  by (auto simp: documented_match_def)

lemma quiet_polite: "quiet w \<Longrightarrow> polite sid w"
  by (simp add: quiet_def polite_def outsiders_def)

lemma high_read:
  "''workload.high'' \<in> set (bound_queues (=) (map snd topology) scenariosExchange ''workload.high'')"
  "''workload.high'' \<in> pool_queues 1"
proof -
  have "scenariosExchange = exchangeName"
    by (simp add: scenariosExchange_def amqp_names)
  then show "''workload.high'' \<in> set (bound_queues (=) (map snd topology) scenariosExchange ''workload.high'')"
    using topology_bound [of "(=)" "''workload.high''"] by (simp add: workload_queues_def amqp_names)
qed (simp add: pool_queues_eq)

lemma stop_is_final:
  assumes "system_inv matches sid w" and h: "shows_history sid h w" and p: "polite sid w"
    and run: "StopScenario cluster_api sid new_response w = (hr, w1)" and "response_code hr = Some 200"
    and "(system_step matches n sid)\<^sup>*\<^sup>* w1 w2"
  shows "\<exists>k m. statuses sid w1 = statuses sid w @ stops (Suc k) \<and> statuses sid w2 = statuses sid w1 @ stops m"
proof -
  obtain j where own: "own_log w1 = own_log w @ [(insertScenarioQuery, [VText sid, VBytes (Doc j)])]"
    and j: "payload_shows (Doc j) = Some ''stopped''" and some: "\<not> (outsiders (\<lambda>_. True) sid w \<and> statuses sid w = [])"
    using Stop_adds [OF run] assms(5) by blast
  obtain zs where zs: "statuses sid w1 = statuses sid w @ zs" "filter active zs = []" "subseq [Some ''stopped''] zs"
    using polite_growth [OF p traced.Stop_kept [OF run] own] j by (auto simp: active_def)
  from zs(2) obtain i where "zs = stops i"
    by (auto simp: inactive)
  with zs(3) obtain k where k: "zs = stops (Suc k)"
    by (cases i) (auto simp: stops_def)
  let ?h = "h @ replicate (Suc k) Stopped"
  have h1: "shows_history sid ?h w1"
    using h zs(1) k by (simp add: shows_history_def stops_def)
  have "system_inv matches sid w1"
    using assms(1) by (rule system_inv_step [OF _ system_step.stop_request [OF run p]])
  then obtain h2 where h2: "lifecycle\<^sup>*\<^sup>* ?h h2" "shows_history sid h2 w2"
    using system.sim_run [OF assms(6) _ h1] by blast
  have "?h \<noteq> []" "last ?h = Stopped"
    by (simp_all del: replicate_Suc)
  then obtain m where "h2 = ?h @ replicate m Stopped"
    using stopped_forever [OF h2(1)] by blast
  with h1 h2(2) zs(1) k show ?thesis
    by (intro exI [of _ k] exI [of _ m]) (simp add: shows_history_def stops_def)
qed

text \<open>
  C3. A stop accepted between two deliveries is final: in a system as above, once a stop request that was
  made while no delivery was in progress is answered 200, the scenario shows a stop, and nothing that
  happens later, not the delivery of its message however often, not a failing statement and not another
  request, gives it any status but further stops. (A stop that is stored while a handler is between its
  status check and the \<open>running\<close> event is not final: \<open>stop_before_running_is_lost\<close>.)
\<close>

theorem accepted_stop_is_final:
  assumes "documented_match matches" and "cluster_ok w0" and "announced sid w0" and "statuses sid w0 = []"
    and "(system_step matches n sid)\<^sup>*\<^sup>* w0 w" and "polite sid w"
    and "StopScenario cluster_api sid new_response w = (h, w1)" and "response_code h = Some 200"
    and "(system_step matches n sid)\<^sup>*\<^sup>* w1 w2"
  shows "\<exists>k m. statuses sid w1 = statuses sid w @ stops (Suc k) \<and> statuses sid w2 = statuses sid w1 @ stops m"
proof -
  have "system_inv matches sid w"
    using assms(1-3) by (intro system.inv_run [OF assms(5)]) (simp add: system_inv_def)
  moreover obtain hs where "shows_history sid hs w"
    using reachable_history [OF assms(1-5)] by blast
  ultimately show ?thesis
    using assms(6-9) by (rule stop_is_final)
qed


section \<open>A concrete system\<close>

text \<open>One scenario is created and its message is delivered.\<close>

lemma demo_completes:
  "(case CreateScenario cluster_api (Doc (enc_ScenarioRequest (demo_request ''mem_alloc''))) new_response (demo_cluster ''mem_alloc'' []) of
      (h, w1) \<Rightarrow> statuses ''s1'' (snd (the (worker_handler cluster_worker (snd (snd (last (cl_published w1)))) w1)))) =
     [Some ''queued'', Some ''running'', Some ''completed'']"
  by code_simp

lemma demo_runs:
  "\<exists>w1 w2. system_step (=) 1 ''s1'' (demo_cluster ''mem_alloc'' []) w1 \<and> statuses ''s1'' w1 = [Some ''queued''] \<and>
     quiet w1 \<and> cl_clock w1 = 63871329601 * second + 1 + millisecond \<and>
     system_step (=) 1 ''s1'' w1 w2 \<and> statuses ''s1'' w2 = [Some ''queued'', Some ''running'', Some ''completed'']"
proof -
  let ?w = "demo_cluster ''mem_alloc'' []"
  have "\<not> isl (format_time (63871329601 * second))"
    by code_simp
  then obtain ts where ts: "format_time (cl_clock ?w) = Inr ts"
    by (cases "format_time (63871329601 * second)") (auto simp: demo_cluster_def)
  have "cl_uuids ?w = ''s1'' # []"
    by (simp add: demo_cluster_def)
  moreover have "\<not> rejected (Doc (enc_ScenarioRequest (demo_request ''mem_alloc'')))"
    by (rule demo_request_valid) simp
  moreover have "lp_PayloadSizeBytes (sr_Profile (demo_request ''mem_alloc'')) < 2 ^ 48" "cl_clock ?w \<noteq> 0"
    by (simp_all add: demo_request_def demo_profile_def demo_cluster_def)
  ultimately obtain h w1 j w2 out where
    c: "CreateScenario cluster_api (Doc (enc_ScenarioRequest (demo_request ''mem_alloc''))) new_response ?w = (h, w1)"
    and p: "cl_published w1 = cl_published ?w @ [(scenariosExchange, lp_TargetQueue (sr_Profile (demo_request ''mem_alloc'')), Doc j)]"
    and run: "worker_handler cluster_worker (Doc j) w1 = Some out"
    and q: "quiet w1" "statuses ''s1'' w1 = [Some ''queued'']" "cl_clock w1 = cl_clock ?w + 1 + millisecond"
    using created_runs [OF demo_empty_ok(1,2) _ demo_empty_ok(3) _ demo_request_decodes _ _ ts] by meson
  have "system_step (=) 1 ''s1'' ?w w1"
    by (rule system_step.create [OF c quiet_polite]) simp_all
  moreover have "system_step (=) 1 ''s1'' w1 (snd out)"
  proof (rule system_step.deliver [OF _ high_read _ quiet_polite])
    show "(scenariosExchange, ''workload.high'', Doc j) \<in> set (cl_published w1)"
      by (simp add: p demo_request_def demo_profile_def)
    show "worker_handler cluster_worker (Doc j) w1 = Some (fst out, snd out)"
      by (simp add: run)
  qed (rule q(1))
  moreover have "statuses ''s1'' (snd out) = [Some ''queued'', Some ''running'', Some ''completed'']"
    using demo_completes by (simp add: c p run)
  ultimately show ?thesis
    using q by (intro exI [of _ w1] exI [of _ "snd out"]) (simp add: demo_cluster_def)
qed

lemma demo_reaches:
  "\<exists>w. (system_step (=) 1 ''s1'')\<^sup>*\<^sup>* (demo_cluster ''mem_alloc'' []) w \<and>
     statuses ''s1'' w = [Some ''queued'', Some ''running'', Some ''completed'']"
  using demo_runs by (meson converse_rtranclp_into_rtranclp r_into_rtranclp)

theorem system_refines_lifecycle_witness:
  "\<exists>w h. (system_step (=) 1 ''s1'')\<^sup>*\<^sup>* (demo_cluster ''mem_alloc'' []) w \<and> well_formed h \<and> length h = 3 \<and>
     statuses ''s1'' w = map (\<lambda>p. Some (phase_name p)) h"
proof -
  obtain w where w: "(system_step (=) 1 ''s1'')\<^sup>*\<^sup>* (demo_cluster ''mem_alloc'' []) w"
    "statuses ''s1'' w = [Some ''queued'', Some ''running'', Some ''completed'']"
    using demo_reaches by blast
  obtain h where h: "well_formed h" "statuses ''s1'' w = map (\<lambda>p. Some (phase_name p)) h"
    using system_refines_lifecycle [OF plain_match demo_empty_ok(2) demo_announced demo_empty_ok(3) w(1)] by blast
  have "length (statuses ''s1'' w) = length h"
    by (simp add: h(2))
  then have "length h = 3"
    by (simp add: w(2))
  with h w(1) show ?thesis
    by blast
qed


theorem accepted_stop_is_final_witness:
  "\<exists>w h w1 k. (system_step (=) 1 ''s1'')\<^sup>*\<^sup>* (demo_cluster ''mem_alloc'' []) w \<and>
     StopScenario cluster_api ''s1'' new_response w = (h, w1) \<and> response_code h = Some 200 \<and>
     (\<forall>w2. (system_step (=) 1 ''s1'')\<^sup>*\<^sup>* w1 w2 \<longrightarrow>
        (\<exists>k m. statuses ''s1'' w2 = Some ''queued'' # stops (Suc k) @ stops m))"
proof -
  obtain w where step: "system_step (=) 1 ''s1'' (demo_cluster ''mem_alloc'' []) w"
    and w: "statuses ''s1'' w = [Some ''queued'']" "quiet w" "cl_clock w = 63871329601 * second + 1 + millisecond"
    using demo_runs by blast
  then have run: "(system_step (=) 1 ''s1'')\<^sup>*\<^sup>* (demo_cluster ''mem_alloc'' []) w"
    by blast
  have "system_inv (=) ''s1'' w"
    by (rule system_inv_step [OF _ step]) (simp add: system_inv_def)
  then have ok: "cluster_ok w"
    by (simp add: system_inv_def)
  have "latest_status ''s1'' w = Some ''queued''"
    by (simp add: latest_status_def last_option_def w(1))
  then obtain r sc where r: "latest_row ''s1'' (cl_pg w) = Some r"
    "json_Unmarshal dec_ScenarioResponse (ev_payload r) zero_scenario = Inr sc"
    by (auto simp: latest_status_row [OF ok] event_status_def split: option.splits sum.splits)
  have "\<not> isl (format_time (63871329601 * second + 1 + millisecond + millisecond))"
    by code_simp
  then obtain ts where "format_time (cl_clock w + millisecond) = Inr ts"
    by (cases "format_time (63871329601 * second + 1 + millisecond + millisecond)") (auto simp: w(3))
  then obtain h w1 where stop: "StopScenario cluster_api ''s1'' new_response w = (h, w1)" "response_code h = Some 200"
    using StopScenario_quiet [OF w(2) ok _ r] by blast
  have "\<exists>k m. statuses ''s1'' w2 = Some ''queued'' # stops (Suc k) @ stops m"
    if "(system_step (=) 1 ''s1'')\<^sup>*\<^sup>* w1 w2" for w2
  proof -
    note later = that
    obtain k m where "statuses ''s1'' w1 = statuses ''s1'' w @ stops (Suc k)" "statuses ''s1'' w2 = statuses ''s1'' w1 @ stops m"
      using accepted_stop_is_final [OF plain_match demo_empty_ok(2) demo_announced demo_empty_ok(3) run
        quiet_polite [OF w(2)] stop later] by blast
    then show ?thesis
      by (intro exI [of _ k] exI [of _ m]) (simp add: w(1))
  qed
  with run stop show ?thesis
    by blast
qed

end
