(* ===== verification/Overlap.thy ===== *)
theory Overlap
  imports Scenario_System
begin

text \<open>
  Deliveries that overlap. When the broker gives a message to a second consumer before the first one is
  done with it (its connection was lost, but its handler runs on), the rows of several handlers mix in
  the table. Here a history is a list of rows with their owners: 0 are the API and the other clients,
  every other number is one handler that ran, with the rows of all others inserted between its own
  statements. What one handler writes does not depend on the others, so enough of the lifecycle stays.
\<close>

section \<open>Histories with owners\<close>

type_synonym owned = "nat \<times> string option"

definition rows_of :: "nat \<Rightarrow> owned list \<Rightarrow> string option list" where
  "rows_of i tr = map snd (filter (\<lambda>e. fst e = i) tr)"

definition rows_but :: "nat \<Rightarrow> owned list \<Rightarrow> string option list" where
  "rows_but i tr = map snd (filter (\<lambda>e. fst e \<noteq> i) tr)"

lemma rows_of_simps [simp]:
  "rows_of i [] = []" "rows_of i ((j, s) # tr) = (if j = i then s # rows_of i tr else rows_of i tr)"
  "rows_of i (xs @ ys) = rows_of i xs @ rows_of i ys"
  by (simp_all add: rows_of_def)

text \<open>The rows of a scenario that the other clients insert in the turns \<open>es\<close>.\<close>

definition foreign_rows :: "string \<Rightarrow> (string \<times> bytes) list list \<Rightarrow> string option list" where
  "foreign_rows sid es = map (\<lambda>e. payload_shows (snd e)) (filter (\<lambda>e. fst e = sid) (concat es))"

text \<open>
  Owner \<open>i\<close> is a handler: it ran on a table with the rows \<open>pre\<close>, left it with \<open>pre @ mid\<close>, the rows of
  \<open>mid\<close> that are its own are those of its statements, and all the others were inserted by other clients
  while it ran.
\<close>

definition ran_in :: "string \<Rightarrow> owned list \<Rightarrow> nat \<Rightarrow> bool" where
  "ran_in sid tr i \<longleftrightarrow>
     (\<exists>pre mid post w b r w' ws es. tr = pre @ mid @ post \<and> rows_of i pre = [] \<and> rows_of i post = [] \<and>
        worker_handler cluster_worker b w = Some (r, w') \<and>
        statuses sid w = map snd pre \<and> statuses sid w' = map snd (pre @ mid) \<and>
        own_log w' = own_log w @ ws \<and> rows_of i mid = log_shows sid ws \<and>
        cl_others w = es @ cl_others w' \<and> rows_but i mid = foreign_rows sid es)"

text \<open>The scenario is queued first; the other rows of owner 0 are stops; every other owner is a handler.\<close>

definition overlapped :: "string \<Rightarrow> owned list \<Rightarrow> bool" where
  "overlapped sid tr \<longleftrightarrow>
     (\<exists>n. rows_of 0 tr = Some ''queued'' # stops n) \<and> fst (hd tr) = 0 \<and>
     (\<forall>i. i \<noteq> 0 \<and> rows_of i tr \<noteq> [] \<longrightarrow> ran_in sid tr i)"

section \<open>What each handler adds\<close>

definition handler_rows :: "string option list list" where
  "handler_rows = [[Some ''running''], [Some ''running'', Some ''completed''], [Some ''running'', Some ''failed'']]"

lemma handler_shows:
  assumes "worker_handler cluster_worker b w = Some (r, w')" and "own_log w' = own_log w @ ws"
  shows "log_shows sid ws = [] \<or> log_shows sid ws \<in> set handler_rows"
proof (cases "json_Unmarshal dec_ScenarioResponse b zero_scenario")
  case (Inl e)
  with handler_protocol [OF assms(1)] assms(2) show ?thesis
    by simp
next
  case (Inr sc)
  with handler_protocol [OF assms(1)] assms(2) have "allowed_writes sc r ws"
    by auto
  from allowed_shows [OF this, of sid] show ?thesis
    by (auto simp: handler_rows_def attempt_works_def)
qed

lemma ran_rows:
  assumes "ran_in sid tr i"
  shows "rows_of i tr = [] \<or> rows_of i tr \<in> set handler_rows"
proof -
  obtain pre mid post w b r w' ws where "tr = pre @ mid @ post" "rows_of i pre = []" "rows_of i post = []"
    "worker_handler cluster_worker b w = Some (r, w')" "own_log w' = own_log w @ ws" "rows_of i mid = log_shows sid ws"
    using assms unfolding ran_in_def by blast
  with handler_shows [of b w r w' ws sid] show ?thesis
    by simp
qed

section \<open>Counting over the owners\<close>

text \<open>Never more outcomes than times it was running.\<close>

definition outcomes_covered :: "string option list \<Rightarrow> bool" where
  "outcomes_covered h \<longleftrightarrow>
     count_list h (Some ''completed'') + count_list h (Some ''failed'') \<le> count_list h (Some ''running'')"

lemma count_owners:
  assumes "finite I" and "fst ` set tr \<subseteq> I"
  shows "count_list (map snd tr) x = (\<Sum>i \<in> I. count_list (rows_of i tr) x)"
  using assms(2)
proof (induction tr)
  case (Cons e tr)
  obtain j s where e: "e = (j, s)"
    by fastforce
  have "(\<Sum>i \<in> I. count_list (rows_of i (e # tr)) x) =
      (\<Sum>i \<in> I. count_list (rows_of i tr) x + (if j = i \<and> s = x then 1 else 0))"
    by (rule sum.cong) (simp_all add: e)
  also have "\<dots> = (\<Sum>i \<in> I. count_list (rows_of i tr) x) + (\<Sum>i \<in> I. if j = i then (if s = x then 1 else 0) else 0)"
    by (simp add: sum.distrib if_conn(1) [symmetric] cong: if_cong)
  also have "(\<Sum>i \<in> I. if j = i then (if s = x then 1 else 0) else 0) = (if s = x then 1 else (0 :: nat))"
    using assms(1) Cons.prems e by (subst sum.delta') auto
  finally show ?case
    using Cons e by simp
qed simp

lemma covered_owners:
  assumes "\<And>i. outcomes_covered (rows_of i tr)"
  shows "outcomes_covered (map snd tr)"
proof -
  let ?I = "fst ` set tr"
  have "(\<Sum>i \<in> ?I. count_list (rows_of i tr) (Some ''completed'') + count_list (rows_of i tr) (Some ''failed'')) \<le>
      (\<Sum>i \<in> ?I. count_list (rows_of i tr) (Some ''running''))"
    using assms by (intro sum_mono) (simp add: outcomes_covered_def)
  then show ?thesis
    using count_owners [of ?I tr "Some ''completed''"] count_owners [of ?I tr "Some ''failed''"]
      count_owners [of ?I tr "Some ''running''"]
    by (simp add: outcomes_covered_def sum.distrib)
qed

lemma rows_of_take: "\<exists>n. rows_of i (take k tr) = take n (rows_of i tr)"
proof -
  have "rows_of i tr = rows_of i (take k tr) @ rows_of i (drop k tr)"
    by (simp flip: rows_of_simps(3))
  then show ?thesis
    by (metis append_eq_conv_conj)
qed

lemma covered_take:
  assumes "h = [] \<or> h \<in> set handler_rows \<or> h = Some ''queued'' # stops n"
  shows "outcomes_covered (take k h)"
proof -
  have "count_list (take m (stops n)) (Some s) = 0" if "s \<noteq> ''stopped''" for m s
    using that by (simp add: stops_def take_replicate count_list_0_iff)
  moreover have "outcomes_covered (take k h)" if "h \<in> set handler_rows"
    using that by (cases k; cases "k - 1"; cases "k - 2") (auto simp: handler_rows_def outcomes_covered_def)
  ultimately show ?thesis
    using assms by (cases k) (auto simp: outcomes_covered_def)
qed

lemma queued_first:
  assumes "overlapped sid tr"
  shows "\<exists>rest. map snd tr = Some ''queued'' # rest \<and> Some ''queued'' \<notin> set rest"
proof -
  obtain n where n: "rows_of 0 tr = Some ''queued'' # stops n"
    using assms by (auto simp: overlapped_def)
  then obtain e tl where tr: "tr = e # tl"
    by (cases tr) simp_all
  with assms n have e: "e = (0, Some ''queued'')" and tl: "rows_of 0 tl = stops n"
    by (cases e; simp add: overlapped_def)+
  have "Some ''queued'' \<notin> set (rows_of i tl)" for i
  proof (cases "i = 0 \<or> rows_of i tl = []")
    case True
    then show ?thesis
      using tl by (auto simp: stops_def)
  next
    case False
    then have "rows_of i tr = rows_of i tl" "ran_in sid tr i"
      using assms e tr by (auto simp: overlapped_def)
    with ran_rows [of sid tr i] False show ?thesis
      by (auto simp: handler_rows_def)
  qed
  moreover have "s \<in> set (map snd tl) \<Longrightarrow> \<exists>i. s \<in> set (rows_of i tl)" for s
    by (force simp: rows_of_def)
  ultimately show ?thesis
    using tr e by auto
qed

lemma overlapped_rows:
  "overlapped sid tr \<Longrightarrow> i \<noteq> 0 \<Longrightarrow> rows_of i tr = [] \<or> rows_of i tr \<in> set handler_rows"
  using ran_rows [of sid tr i] by (auto simp: overlapped_def)


section \<open>Two deliveries of one message\<close>

text \<open>
  A scenario whose message comes a second time while its first handler is running: both run it to the
  end.
\<close>

definition twice :: "owned list" where
  "twice = [(0, Some ''queued''), (1, Some ''running''), (2, Some ''running''), (1, Some ''completed''), (2, Some ''completed'')]"

definition demo_overlap :: "string list \<Rightarrow> (string \<times> bytes) list list \<Rightarrow> cluster" where
  "demo_overlap history es = (demo_cluster ''mem_alloc'' history)\<lparr>cl_others := es\<rparr>"

lemma first_ran: "ran_in ''s1'' twice 1"
proof -
  let ?es = "[[], [], [(''s1'', Doc (demo_json ''mem_alloc'' ''running''))]]"
  let ?w = "demo_overlap [''queued''] ?es"
  obtain r w' where run: "worker_handler cluster_worker (Doc (demo_json ''mem_alloc'' ''queued'')) ?w = Some (r, w')"
    using handler_returns [of "Doc (demo_json ''mem_alloc'' ''queued'')" ?w] by (auto simp: demo_decodes)
  have "case worker_handler cluster_worker (Doc (demo_json ''mem_alloc'' ''queued'')) ?w of None \<Rightarrow> False
     | Some (r, w') \<Rightarrow> statuses ''s1'' w' = [Some ''queued'', Some ''running'', Some ''running'', Some ''completed''] \<and>
         log_shows ''s1'' (own_log w') = [Some ''running'', Some ''completed''] \<and> cl_others w' = []"
    by code_simp
  then have out: "statuses ''s1'' w' = [Some ''queued'', Some ''running'', Some ''running'', Some ''completed'']"
    "log_shows ''s1'' (own_log w') = [Some ''running'', Some ''completed'']" "cl_others w' = []"
    by (simp_all add: run)
  have start: "statuses ''s1'' ?w = [Some ''queued'']" "own_log ?w = []" "cl_others ?w = ?es"
    "foreign_rows ''s1'' ?es = [Some ''running'']"
    by code_simp+
  show ?thesis
    unfolding ran_in_def
    by (intro exI [of _ "[(0, Some ''queued'')]"]
        exI [of _ "[(1, Some ''running''), (2, Some ''running''), (1, Some ''completed'')]"]
        exI [of _ "[(2, Some ''completed'')]"] exI [of _ ?w] exI [of _ "Doc (demo_json ''mem_alloc'' ''queued'')"]
        exI [of _ r] exI [of _ w'] exI [of _ "own_log w'"] exI [of _ ?es])
       (simp add: twice_def run out start rows_but_def)
qed

lemma second_ran: "ran_in ''s1'' twice 2"
proof -
  let ?es = "[[], [], [], [(''s1'', Doc (demo_json ''mem_alloc'' ''completed''))]]"
  let ?w = "demo_overlap [''queued'', ''running''] ?es"
  obtain r w' where run: "worker_handler cluster_worker (Doc (demo_json ''mem_alloc'' ''queued'')) ?w = Some (r, w')"
    using handler_returns [of "Doc (demo_json ''mem_alloc'' ''queued'')" ?w] by (auto simp: demo_decodes)
  have "case worker_handler cluster_worker (Doc (demo_json ''mem_alloc'' ''queued'')) ?w of None \<Rightarrow> False
     | Some (r, w') \<Rightarrow> statuses ''s1'' w' = [Some ''queued'', Some ''running'', Some ''running'', Some ''completed'', Some ''completed''] \<and>
         log_shows ''s1'' (own_log w') = [Some ''running'', Some ''completed''] \<and> cl_others w' = []"
    by code_simp
  then have out: "statuses ''s1'' w' = [Some ''queued'', Some ''running'', Some ''running'', Some ''completed'', Some ''completed'']"
    "log_shows ''s1'' (own_log w') = [Some ''running'', Some ''completed'']" "cl_others w' = []"
    by (simp_all add: run)
  have start: "statuses ''s1'' ?w = [Some ''queued'', Some ''running'']" "own_log ?w = []" "cl_others ?w = ?es"
    "foreign_rows ''s1'' ?es = [Some ''completed'']"
    by code_simp+
  show ?thesis
    unfolding ran_in_def
    by (intro exI [of _ "[(0, Some ''queued''), (1, Some ''running'')]"]
        exI [of _ "[(2, Some ''running''), (1, Some ''completed''), (2, Some ''completed'')]"]
        exI [of _ "[]"] exI [of _ ?w] exI [of _ "Doc (demo_json ''mem_alloc'' ''queued'')"]
        exI [of _ r] exI [of _ w'] exI [of _ "own_log w'"] exI [of _ ?es])
       (simp add: twice_def run out start rows_but_def)
qed

lemma twice_overlapped: "overlapped ''s1'' twice"
proof -
  have "i = 0 \<or> i = 1 \<or> i = 2" if "rows_of i twice \<noteq> []" for i
    using that by (auto simp: twice_def split: if_splits)
  moreover have "rows_of 0 twice = Some ''queued'' # stops 0"
    by (simp add: twice_def stops_def)
  moreover have "fst (hd twice) = 0"
    by (simp add: twice_def)
  ultimately show ?thesis
    using first_ran second_ran unfolding overlapped_def by metis
qed


text \<open>So the histories of overlapping deliveries are not all histories of the lifecycle.\<close>

lemma overlap_leaves_lifecycle:
  "overlapped ''s1'' twice \<and> \<not> (\<exists>h. well_formed h \<and> map snd twice = map (\<lambda>p. Some (phase_name p)) h)"
proof -
  have "h = [Queued, Running, Running, Completed, Completed]"
    if "map snd twice = map (\<lambda>p. Some (phase_name p)) h" for h
  proof -
    from that have "map phase_name h = map phase_name [Queued, Running, Running, Completed, Completed]"
      by (auto simp: twice_def Cons_eq_map_conv)
    moreover have "inj phase_name"
      by (simp add: inj_def)
    ultimately show ?thesis
      using inj_map_eq_map by blast
  qed
  moreover have "\<not> well_formed [Queued, Running, Running, Completed, Completed]"
    by (simp add: well_formed_def)
  ultimately show ?thesis
    using twice_overlapped by blast
qed

end
