(* ===== verification/Go_Duration.thy ===== *)
theory Go_Duration
  imports Go_Strings
begin

text \<open>
  \<open>time.ParseDuration\<close>. Its fractions are computed in floating point; that one expression, of the
  digits \<open>f\<close>, the unit and the power of ten, is the parameter \<open>frac\<close>.
\<close>

type_synonym fraction = "int \<Rightarrow> int \<Rightarrow> nat \<Rightarrow> int"

definition unit_map :: "(string \<times> int) list" where
  "unit_map =
     [(''ns'', 1), (''us'', 1000), ([CHR 0xC2, CHR 0xB5, CHR ''s''], 1000), ([CHR 0xCE, CHR 0xBC, CHR ''s''], 1000),
      (''ms'', millisecond), (''s'', second), (''m'', 60 * second), (''h'', 3600 * second)]"

text \<open>\<open>leadingFraction\<close>: the digits that fit, and how many they are.\<close>

fun leading_fraction :: "string \<Rightarrow> int \<Rightarrow> nat \<Rightarrow> int \<times> nat" where
  "leading_fraction [] x k = (x, k)"
| "leading_fraction (c # cs) x k =
     (if x > (2 ^ 63 - 1) div 10 then (x, k)
      else let y = x * 10 + digit_val c in if y > 2 ^ 63 then (x, k) else leading_fraction cs y (Suc k))"

definition unit_char :: "char \<Rightarrow> bool" where
  "unit_char c \<longleftrightarrow> c \<noteq> CHR ''.'' \<and> \<not> is_digit c"

text \<open>One number with its unit, as nanoseconds, and the rest of the text.\<close>

definition duration_part :: "fraction \<Rightarrow> string \<Rightarrow> (int \<times> string) option" where
  "duration_part frac s =
     (let pre = takeWhile is_digit s; s1 = dropWhile is_digit s; v = digits_val pre;
          point = (s1 \<noteq> [] \<and> hd s1 = CHR ''.'');
          post = (if point then takeWhile is_digit (tl s1) else []);
          s2 = (if point then dropWhile is_digit (tl s1) else s1);
          u = takeWhile unit_char s2
      in if s = [] \<or> v > 2 ^ 63 \<or> pre = [] \<and> post = [] then None
         else (case map_of unit_map u of
                 None \<Rightarrow> None
               | Some unit \<Rightarrow>
                   if v > 2 ^ 63 div unit then None
                   else (case leading_fraction post 0 0 of
                           (f, k) \<Rightarrow>
                             let w = (if f > 0 then v * unit + frac f unit k else v * unit)
                             in if f > 0 \<and> w > 2 ^ 63 then None else Some (w, dropWhile unit_char s2))))"

lemma unit_map_nonempty: "map_of unit_map [] = None"
  by (simp add: unit_map_def)

lemma duration_part_shorter:
  assumes "duration_part frac s = Some (v, t)"
  shows "length t < length s"
proof -
  let ?s1 = "dropWhile is_digit s"
  let ?point = "?s1 \<noteq> [] \<and> hd ?s1 = CHR ''.''"
  let ?s2 = "if ?point then dropWhile is_digit (tl ?s1) else ?s1"
  from assms have u: "takeWhile unit_char ?s2 \<noteq> []" and t: "t = dropWhile unit_char ?s2"
    by (auto simp: duration_part_def Let_def unit_map_nonempty split: if_splits option.splits prod.splits)
  have "length ?s2 \<le> length s"
    using length_dropWhile_le [of is_digit s] length_dropWhile_le [of is_digit "tl ?s1"] by auto
  moreover have "length (takeWhile unit_char ?s2) + length t = length ?s2"
    unfolding t by (metis length_append takeWhile_dropWhile_id)
  moreover have "0 < length (takeWhile unit_char ?s2)"
    using u by (rule length_greater_0_conv [THEN iffD2])
  ultimately show ?thesis
    by linarith
qed

function duration_parts :: "fraction \<Rightarrow> string \<Rightarrow> int \<Rightarrow> int option" where
  "duration_parts frac s d =
     (if s = [] then Some d
      else (case duration_part frac s of
              None \<Rightarrow> None
            | Some (v, t) \<Rightarrow> if d + v > 2 ^ 63 then None else duration_parts frac t (d + v)))"
  by pat_completeness auto
termination
  by (relation "measure (\<lambda>(frac, s, d). length s)") (auto dest: duration_part_shorter)

declare duration_parts.simps [simp del]

definition parse_duration :: "fraction \<Rightarrow> string \<Rightarrow> duration option" where
  "parse_duration frac s =
     (let neg = (s \<noteq> [] \<and> hd s = CHR ''-'');
          s1 = (if s \<noteq> [] \<and> (hd s = CHR ''-'' \<or> hd s = CHR ''+'') then tl s else s)
      in if s1 = ''0'' then Some 0
         else if s1 = [] then None
         else (case duration_parts frac s1 0 of
                 None \<Rightarrow> None
               | Some d \<Rightarrow> if neg then Some (- d) else if d > 2 ^ 63 - 1 then None else Some d))"

text \<open>Without a fraction the result is exact, and it does not depend on \<open>frac\<close>.\<close>

lemma parse_duration_unit:
  assumes "map_of unit_map u = Some unit" "list_all unit_char u" "u \<noteq> []" and "int n \<le> 2 ^ 63 div unit" "int n * unit < 2 ^ 63"
    and "u \<noteq> ''0''"
  shows "parse_duration frac (nat_digits n @ u) = Some (int n * unit)"
proof -
  obtain c cs where c: "nat_digits n = c # cs" "is_digit c" "list_all is_digit cs"
    using nat_digits_Cons by blast
  then have sgn: "c \<noteq> CHR ''-''" "c \<noteq> CHR ''+''"
    using is_digit_not_sign by auto
  have ds: "list_all is_digit (nat_digits n)"
    by (rule nat_digits_digits)
  obtain k ks where u: "u = k # ks" "unit_char k"
    using assms(2,3) by (cases u) auto
  have tw: "takeWhile is_digit (nat_digits n @ u) = nat_digits n" "dropWhile is_digit (nat_digits n @ u) = u"
    using ds u by (auto simp: list_all_iff unit_char_def takeWhile_append dropWhile_append)
  have un: "takeWhile unit_char u = u" "dropWhile unit_char u = []"
    using assms(2) by (auto simp: list_all_iff)
  have val: "digits_val (c # cs) = int n"
    using c(1) digits_val_nat_digits by metis
  have k: "k \<noteq> CHR ''.''" "\<not> is_digit k"
    using u(2) by (simp_all add: unit_char_def)
  have ks: "takeWhile unit_char ks = ks" "dropWhile unit_char ks = []" "unit_char k"
    using un u by simp_all
  have pos: "0 < unit"
    using assms(1) by (auto simp: unit_map_def split: if_splits)
  have "int n \<le> 2 ^ 63"
    using assms(5) pos by (smt (verit) mult_less_cancel_left2 of_nat_0_le_iff mult_nonneg_nonneg)
  then have part: "duration_part frac (nat_digits n @ u) = Some (int n * unit, [])"
    using assms(1,4) u(1) tw un c val k ks
    by (simp add: duration_part_def Let_def del: takeWhile_eq_all_conv dropWhile_eq_Nil_conv)
  have "duration_parts frac (nat_digits n @ u) 0 = Some (int n * unit)"
    using part assms(5) c(1) by (subst duration_parts.simps) (simp add: duration_parts.simps [of _ "[]"])
  moreover have "nat_digits n @ u \<noteq> ''0''"
    using c u by auto
  ultimately show ?thesis
    using c(1) sgn assms(5) by (auto simp: parse_duration_def Let_def)
qed

end
