(* ===== verification/Chaos_Client.thy ===== *)
theory Chaos_Client
  imports Go_Duration Go_Json "HOL-Library.Multiset"
begin

text \<open>
  internal/chaos (client.go, types.go): the Chaos Mesh experiments behind the Kubernetes dynamic client.
  The client of client-go is the record \<open>k8s\<close>; an unstructured object is what the code asks of it, the
  record \<open>kobject\<close> (\<open>ko_nested\<close> is \<open>unstructured.NestedString\<close>, \<open>None\<close> where nothing was found). Go
  walks a map in any order, so the operations over the kinds take the order as an argument.
\<close>

section \<open>Types\<close>

type_synonym spec_map = "(string \<times> json) list option"

record ExperimentSpec =
  es_Name :: string
  es_Namespace :: string
  es_Kind :: string
  es_Spec :: spec_map

record ExperimentStatus =
  xs_ID :: string
  xs_Name :: string
  xs_Namespace :: string
  xs_Kind :: string
  xs_Phase :: string
  xs_Message :: string
  xs_StartTime :: "time option"
  xs_EndTime :: "time option"

record kobject =
  ko_name :: string
  ko_namespace :: string
  ko_kind :: string
  ko_created :: time
  ko_deleted :: "time option"
  ko_nested :: "string list \<Rightarrow> string option"

record 'w k8s =
  ks_Create :: "string \<Rightarrow> string \<Rightarrow> json \<Rightarrow> 'w \<Rightarrow> kobject res \<times> 'w"
  ks_Get :: "string \<Rightarrow> string \<Rightarrow> string \<Rightarrow> 'w \<Rightarrow> kobject res \<times> 'w"
  ks_Delete :: "string \<Rightarrow> string \<Rightarrow> string \<Rightarrow> 'w \<Rightarrow> goerr option \<times> 'w"
  ks_List :: "string \<Rightarrow> string \<Rightarrow> 'w \<Rightarrow> kobject list res \<times> 'w"
  ks_IsNotFound :: "goerr \<Rightarrow> bool"
  ks_now :: "'w \<Rightarrow> time \<times> 'w"
  ks_frac :: fraction

definition chaosGVRs :: "(string \<times> string) list" where
  "chaosGVRs =
     [(''PodChaos'', ''podchaos''), (''NetworkChaos'', ''networkchaos''), (''IOChaos'', ''iochaos''),
      (''StressChaos'', ''stresschaos''), (''TimeChaos'', ''timechaos'')]"

definition chaosApiVersion :: string where
  "chaosApiVersion = ''chaos-mesh.org/v1alpha1''"

section \<open>The phase of an experiment\<close>

text \<open>\<open>now\<close> is called only when the experiment has a duration to compare with.\<close>

definition inferPhaseFromObject :: "fraction \<Rightarrow> kobject \<Rightarrow> ('w \<Rightarrow> time \<times> 'w) \<Rightarrow> 'w \<Rightarrow> string \<times> 'w" where
  "inferPhaseFromObject frac obj now w =
     (if \<not> (case ko_deleted obj of None \<Rightarrow> True | Some t \<Rightarrow> is_zero_time t) then (''deleting'', w)
      else if is_zero_time (ko_created obj) then (''unknown'', w)
      else (case ko_nested obj [''spec'', ''duration''] of
              None \<Rightarrow> (''running'', w)
            | Some v \<Rightarrow>
                if v = [] then (''running'', w)
                else (case parse_duration frac v of
                        None \<Rightarrow> (''running'', w)
                      | Some d \<Rightarrow>
                          if d \<le> 0 then (''completed'', w)
                          else (case now w of
                                  (t, w1) \<Rightarrow>
                                    if \<not> t < ko_created obj + d then (''completed'', w1) else (''running'', w1)))))"

definition statusFromObjectAt :: "fraction \<Rightarrow> kobject \<Rightarrow> ('w \<Rightarrow> time \<times> 'w) \<Rightarrow> 'w \<Rightarrow> ExperimentStatus \<times> 'w" where
  "statusFromObjectAt frac obj now w =
     (let time_at = (\<lambda>path. case ko_nested obj path of None \<Rightarrow> None | Some s \<Rightarrow> parse_time s);
          phase = (case ko_nested obj [''status'', ''phase''] of
                     None \<Rightarrow> ''unknown'' | Some p \<Rightarrow> if p = [] then ''unknown'' else p);
          status = \<lparr>xs_ID = ko_name obj, xs_Name = ko_name obj, xs_Namespace = ko_namespace obj, xs_Kind = ko_kind obj,
                    xs_Phase = phase,
                    xs_Message = (case ko_nested obj [''status'', ''message''] of None \<Rightarrow> [] | Some m \<Rightarrow> m),
                    xs_StartTime = time_at [''status'', ''startTime''], xs_EndTime = time_at [''status'', ''endTime'']\<rparr>
      in if phase = ''unknown'' then
           (case inferPhaseFromObject frac obj now w of (p, w1) \<Rightarrow> (status\<lparr>xs_Phase := p\<rparr>, w1))
         else (status, w))"

definition statusFromObject :: "'w k8s \<Rightarrow> kobject \<Rightarrow> 'w \<Rightarrow> ExperimentStatus \<times> 'w" where
  "statusFromObject k obj w = statusFromObjectAt (ks_frac k) obj (ks_now k) w"

section \<open>The client\<close>

definition experiment_object :: "ExperimentSpec \<Rightarrow> string \<Rightarrow> (string \<times> json) list \<Rightarrow> json" where
  "experiment_object spec namespace entries =
     JObj [(''apiVersion'', JStr chaosApiVersion), (''kind'', JStr (es_Kind spec)),
           (''metadata'', JObj [(''name'', JStr (es_Name spec)), (''namespace'', JStr namespace)]),
           (''spec'', JObj entries)]"

definition Chaos_Apply :: "'w k8s \<Rightarrow> string \<Rightarrow> ExperimentSpec \<Rightarrow> 'w \<Rightarrow> string res \<times> 'w" where
  "Chaos_Apply k namespace spec w =
     (if es_Name spec = [] then (Inl (ErrText ''experiment name is required''), w)
      else if es_Kind spec = [] then (Inl (ErrText ''experiment kind is required''), w)
      else (case es_Spec spec of
              None \<Rightarrow> (Inl (ErrText ''experiment spec is required''), w)
            | Some entries \<Rightarrow>
                let ns = (if es_Namespace spec = [] then namespace else es_Namespace spec) in
                (case map_of chaosGVRs (es_Kind spec) of
                   None \<Rightarrow> (Inl (ErrText (''unsupported chaos kind '' @ es_Kind spec)), w)
                 | Some gvr \<Rightarrow>
                     (case ks_Create k gvr ns (experiment_object spec ns entries) w of
                        (Inl err, w1) \<Rightarrow> (Inl (Wrapf ''create chaos experiment'' err), w1)
                      | (Inr created, w1) \<Rightarrow> (Inr (ko_name created), w1)))))"

fun status_loop :: "'w k8s \<Rightarrow> string \<Rightarrow> string \<Rightarrow> (string \<times> string) list \<Rightarrow> 'w \<Rightarrow> ExperimentStatus res \<times> 'w" where
  "status_loop k namespace xid [] w = (Inl (ErrText (''experiment '' @ xid @ '' not found'')), w)"
| "status_loop k namespace xid ((kind, gvr) # order) w =
     (case ks_Get k gvr namespace xid w of
        (Inl err, w1) \<Rightarrow>
          if ks_IsNotFound k err then status_loop k namespace xid order w1
          else (Inl (Wrapf ''get chaos experiment'' err), w1)
      | (Inr obj, w1) \<Rightarrow>
          (case statusFromObject k obj w1 of (status, w2) \<Rightarrow> (Inr (status\<lparr>xs_Kind := kind\<rparr>), w2)))"

definition Chaos_Status :: "'w k8s \<Rightarrow> string \<Rightarrow> (string \<times> string) list \<Rightarrow> string \<Rightarrow> 'w \<Rightarrow> ExperimentStatus res \<times> 'w" where
  "Chaos_Status k namespace order xid w =
     (if xid = [] then (Inl (ErrText ''experiment id is required''), w) else status_loop k namespace xid order w)"

fun delete_loop :: "'w k8s \<Rightarrow> string \<Rightarrow> string \<Rightarrow> (string \<times> string) list \<Rightarrow> 'w \<Rightarrow> goerr option \<times> 'w" where
  "delete_loop k namespace xid [] w = (Some (ErrText (''experiment '' @ xid @ '' not found'')), w)"
| "delete_loop k namespace xid ((kind, gvr) # order) w =
     (case ks_Delete k gvr namespace xid w of
        (Some err, w1) \<Rightarrow>
          if ks_IsNotFound k err then delete_loop k namespace xid order w1
          else (Some (Wrapf ''delete chaos experiment'' err), w1)
      | (None, w1) \<Rightarrow> (None, w1))"

definition Chaos_Delete :: "'w k8s \<Rightarrow> string \<Rightarrow> (string \<times> string) list \<Rightarrow> string \<Rightarrow> 'w \<Rightarrow> goerr option \<times> 'w" where
  "Chaos_Delete k namespace order xid w =
     (if xid = [] then (Some (ErrText ''experiment id is required''), w) else delete_loop k namespace xid order w)"

fun list_items :: "'w k8s \<Rightarrow> string \<Rightarrow> kobject list \<Rightarrow> 'w \<Rightarrow> ExperimentStatus list \<times> 'w" where
  "list_items k kind [] w = ([], w)"
| "list_items k kind (obj # objs) w =
     (case statusFromObject k obj w of
        (status, w1) \<Rightarrow> (case list_items k kind objs w1 of (rest, w2) \<Rightarrow> (status\<lparr>xs_Kind := kind\<rparr> # rest, w2)))"

fun list_loop ::
    "'w k8s \<Rightarrow> string \<Rightarrow> (string \<times> string) list \<Rightarrow> ExperimentStatus list \<Rightarrow> 'w \<Rightarrow> ExperimentStatus list res \<times> 'w" where
  "list_loop k namespace [] results w = (Inr results, w)"
| "list_loop k namespace ((kind, gvr) # order) results w =
     (case ks_List k gvr namespace w of
        (Inl err, w1) \<Rightarrow> (Inl (Wrapf ''list chaos experiments'' err), w1)
      | (Inr items, w1) \<Rightarrow>
          (case list_items k kind items w1 of
             (statuses, w2) \<Rightarrow> list_loop k namespace order (results @ statuses) w2))"

definition Chaos_List :: "'w k8s \<Rightarrow> string \<Rightarrow> (string \<times> string) list \<Rightarrow> 'w \<Rightarrow> ExperimentStatus list res \<times> 'w" where
  "Chaos_List k namespace order w = list_loop k namespace order [] w"

section \<open>What the API server promises\<close>

text \<open>
  \<open>has w (resource, namespace, name)\<close> says that the object exists. A call that fails for another reason
  than a missing object leaves the objects alone.
\<close>

locale kube_store =
  fixes k :: "'w k8s" and has :: "'w \<Rightarrow> string \<times> string \<times> string \<Rightarrow> bool"
  assumes get_found: "ks_Get k g ns n w = (Inr obj, w') \<Longrightarrow> has w (g, ns, n) \<and> has w' = has w"
    and get_failed: "ks_Get k g ns n w = (Inl e, w') \<Longrightarrow> has w' = has w \<and> (ks_IsNotFound k e \<longrightarrow> \<not> has w (g, ns, n))"
    and delete_done: "ks_Delete k g ns n w = (None, w') \<Longrightarrow> has w (g, ns, n) \<and> has w' = (\<lambda>x. has w x \<and> x \<noteq> (g, ns, n))"
    and delete_failed: "ks_Delete k g ns n w = (Some e, w') \<Longrightarrow> has w' = has w \<and> (ks_IsNotFound k e \<longrightarrow> \<not> has w (g, ns, n))"
    and clock: "ks_now k w = (t, w') \<Longrightarrow> has w' = has w"
begin

lemma status_keeps: "statusFromObject k obj w = (st, w') \<Longrightarrow> has w' = has w"
  by (auto simp: statusFromObject_def statusFromObjectAt_def inferPhaseFromObject_def Let_def
      split: if_splits option.splits prod.splits dest: clock)

lemma delete_loop_result:
  "delete_loop k ns xid order w = (r, w') \<Longrightarrow>
   (r = None \<longrightarrow> (\<exists>(kind, g)\<in>set order. has w (g, ns, xid) \<and> has w' = (\<lambda>x. has w x \<and> x \<noteq> (g, ns, xid)))) \<and>
   (r \<noteq> None \<longrightarrow> has w' = has w \<and>
      ((\<forall>(kind, g)\<in>set order. \<not> has w (g, ns, xid)) \<or> (\<exists>e. r = Some (Wrapf ''delete chaos experiment'' e))))"
proof (induction order arbitrary: w)
  case (Cons x order)
  obtain kind g where x: "x = (kind, g)"
    by fastforce
  obtain r1 w1 where one: "ks_Delete k g ns xid w = (r1, w1)"
    by fastforce
  show ?case
  proof (cases r1)
    case None
    with Cons.prems one x delete_done [of g ns xid w w1] show ?thesis
      by auto
  next
    case (Some e)
    with one have w1: "has w1 = has w" "ks_IsNotFound k e \<longrightarrow> \<not> has w (g, ns, xid)"
      using delete_failed by blast+
    show ?thesis
    proof (cases "ks_IsNotFound k e")
      case True
      with Cons.prems one x Some have "delete_loop k ns xid order w1 = (r, w')"
        by simp
      from Cons.IH [OF this] w1 True x show ?thesis
        by auto
    next
      case False
      with Cons.prems one x Some w1 show ?thesis
        by auto
    qed
  qed
qed auto

lemma status_loop_result:
  "status_loop k ns xid order w = (r, w') \<Longrightarrow> has w' = has w \<and>
   (\<forall>st. r = Inr st \<longrightarrow> (\<exists>(kind, g)\<in>set order. has w (g, ns, xid) \<and> xs_Kind st = kind)) \<and>
   (isl r \<longrightarrow> (\<forall>(kind, g)\<in>set order. \<not> has w (g, ns, xid)) \<or> (\<exists>e. r = Inl (Wrapf ''get chaos experiment'' e)))"
proof (induction order arbitrary: w)
  case (Cons x order)
  obtain kind g where x: "x = (kind, g)"
    by fastforce
  obtain r1 w1 where one: "ks_Get k g ns xid w = (r1, w1)"
    by fastforce
  show ?case
  proof (cases r1)
    case (Inr obj)
    obtain st w2 where st: "statusFromObject k obj w1 = (st, w2)"
      by fastforce
    with Cons.prems one x Inr get_found [of g ns xid w obj w1] status_keeps [OF st] show ?thesis
      by auto
  next
    case (Inl e)
    with one have w1: "has w1 = has w" "ks_IsNotFound k e \<longrightarrow> \<not> has w (g, ns, xid)"
      using get_failed by blast+
    show ?thesis
    proof (cases "ks_IsNotFound k e")
      case True
      with Cons.prems one x Inl have "status_loop k ns xid order w1 = (r, w')"
        by simp
      from Cons.IH [OF this] w1 True x show ?thesis
        by auto
    next
      case False
      with Cons.prems one x Inl w1 show ?thesis
        by auto
    qed
  qed
qed auto

end

section \<open>A cluster in memory\<close>

text \<open>\<open>NestedString\<close> on the JSON of an object.\<close>

fun nested_string :: "json \<Rightarrow> string list \<Rightarrow> string option" where
  "nested_string (JStr s) [] = Some s"
| "nested_string (JObj kvs) (key # path) =
     (case map_of kvs key of None \<Rightarrow> None | Some j \<Rightarrow> nested_string j path)"
| "nested_string j path = None"

definition kobject_of :: "time \<Rightarrow> json \<Rightarrow> kobject" where
  "kobject_of created j =
     (let text = (\<lambda>path. case nested_string j path of None \<Rightarrow> [] | Some s \<Rightarrow> s)
      in \<lparr>ko_name = text [''metadata'', ''name''], ko_namespace = text [''metadata'', ''namespace''], ko_kind = text [''kind''],
          ko_created = created, ko_deleted = None, ko_nested = nested_string j\<rparr>)"

record kube =
  kb_objects :: "((string \<times> string \<times> string) \<times> kobject) list"
  kb_clock :: time

definition kube_NotFound :: goerr where
  "kube_NotFound = ErrText ''not found''"

definition kube_k8s :: "fraction \<Rightarrow> kube k8s" where
  "kube_k8s frac =
     \<lparr>ks_Create = \<lambda>g ns j w.
        let obj = kobject_of (kb_clock w) j; key = (g, ns, ko_name obj)
        in if map_of (kb_objects w) key \<noteq> None then (Inl (ErrText ''already exists''), w)
           else (Inr obj, w\<lparr>kb_objects := kb_objects w @ [(key, obj)]\<rparr>),
      ks_Get = \<lambda>g ns n w. (case map_of (kb_objects w) (g, ns, n) of None \<Rightarrow> Inl kube_NotFound | Some obj \<Rightarrow> Inr obj, w),
      ks_Delete = \<lambda>g ns n w.
        if map_of (kb_objects w) (g, ns, n) = None then (Some kube_NotFound, w)
        else (None, w\<lparr>kb_objects := filter (\<lambda>x. fst x \<noteq> (g, ns, n)) (kb_objects w)\<rparr>),
      ks_List = \<lambda>g ns w. (Inr (map snd (filter (\<lambda>x. fst (fst x) = g \<and> fst (snd (fst x)) = ns) (kb_objects w))), w),
      ks_IsNotFound = \<lambda>e. e = kube_NotFound,
      ks_now = \<lambda>w. (kb_clock w, w),
      ks_frac = frac\<rparr>"

definition kube_has :: "kube \<Rightarrow> string \<times> string \<times> string \<Rightarrow> bool" where
  "kube_has w key \<longleftrightarrow> key \<in> fst ` set (kb_objects w)"

lemma kube_has_map_of: "kube_has w key \<longleftrightarrow> map_of (kb_objects w) key \<noteq> None"
  by (simp add: kube_has_def map_of_eq_None_iff del: not_None_eq)

lemma map_of_remove: "map_of (filter (\<lambda>x. fst x \<noteq> key) xs) y = (if y = key then None else map_of xs y)"
  by (induction xs) auto

interpretation kube: kube_store "kube_k8s frac" kube_has
proof
  fix g ns n w w'
  show "ks_Delete (kube_k8s frac) g ns n w = (None, w') \<Longrightarrow>
      kube_has w (g, ns, n) \<and> kube_has w' = (\<lambda>x. kube_has w x \<and> x \<noteq> (g, ns, n))"
    by (auto simp: kube_k8s_def kube_has_map_of map_of_remove fun_eq_iff split: if_splits)
qed (auto simp: kube_k8s_def kube_has_map_of split: option.splits if_splits)

text \<open>
  Deleting an experiment by name: when it succeeds exactly one object of that name is gone, of one
  of the kinds; when it fails nothing changed.
\<close>

theorem Chaos_Delete_removes_one:
  assumes "Chaos_Delete (kube_k8s frac) ns order xid w = (r, w')" and "mset order = mset chaosGVRs"
  shows "case r of
      None \<Rightarrow> \<exists>(kind, g)\<in>set chaosGVRs. kube_has w (g, ns, xid) \<and> (\<forall>x. kube_has w' x \<longleftrightarrow> kube_has w x \<and> x \<noteq> (g, ns, xid))
    | Some e \<Rightarrow> (\<forall>x. kube_has w' x \<longleftrightarrow> kube_has w x)"
proof -
  have order: "set order = set chaosGVRs"
    using assms(2) by (rule mset_eq_setD)
  show ?thesis
  proof (cases "xid = []")
    case False
    with assms(1) have "delete_loop (kube_k8s frac) ns xid order w = (r, w')"
      by (simp add: Chaos_Delete_def)
    from kube.delete_loop_result [OF this] order show ?thesis
      by (fastforce split: option.splits)
  qed (use assms(1) in \<open>auto simp: Chaos_Delete_def\<close>)
qed

definition demo_object :: "string \<Rightarrow> string \<Rightarrow> (string \<times> string \<times> string) \<times> kobject" where
  "demo_object kind g =
     ((g, ''cluster-probe'', ''slow''),
      kobject_of 1 (experiment_object \<lparr>es_Name = ''slow'', es_Namespace = [], es_Kind = kind, es_Spec = None\<rparr> ''cluster-probe'' []))"

definition demo_kube :: kube where
  "demo_kube = \<lparr>kb_objects = [demo_object ''PodChaos'' ''podchaos'', demo_object ''IOChaos'' ''iochaos''], kb_clock = second\<rparr>"

lemma demo_delete:
  "Chaos_Delete (kube_k8s frac) ''cluster-probe'' chaosGVRs ''slow'' demo_kube =
     (None, demo_kube\<lparr>kb_objects := [demo_object ''IOChaos'' ''iochaos'']\<rparr>)"
  "Chaos_Delete (kube_k8s frac) ''cluster-probe'' (rev chaosGVRs) ''slow'' demo_kube =
     (None, demo_kube\<lparr>kb_objects := [demo_object ''PodChaos'' ''podchaos'']\<rparr>)"
  by (simp_all add: Chaos_Delete_def chaosGVRs_def kube_k8s_def demo_kube_def demo_object_def kube_NotFound_def)

theorem Chaos_Delete_removes_one_witness:
  "\<exists>(kind, g)\<in>set chaosGVRs. kube_has demo_kube (g, ''cluster-probe'', ''slow'')"
  using Chaos_Delete_removes_one [OF demo_delete(1)] by auto

text \<open>
  Two experiments of different kinds may have one name, and then which of them a delete removes
  depends on the order in which the map of the kinds happens to be walked.
\<close>

theorem Chaos_Delete_depends_on_order:
  "\<exists>order w1 w2. mset order = mset chaosGVRs \<and>
     Chaos_Delete (kube_k8s frac) ''cluster-probe'' chaosGVRs ''slow'' demo_kube = (None, w1) \<and>
     Chaos_Delete (kube_k8s frac) ''cluster-probe'' order ''slow'' demo_kube = (None, w2) \<and>
     \<not> kube_has w1 (''podchaos'', ''cluster-probe'', ''slow'') \<and> kube_has w2 (''podchaos'', ''cluster-probe'', ''slow'')"
  by (intro exI [of _ "rev chaosGVRs"] exI conjI, simp, rule demo_delete, rule demo_delete)
     (simp_all add: kube_has_def demo_object_def)

text \<open>
The phase of an experiment of which Chaos Mesh reports none: it is being deleted once it has a
  deletion time; completed exactly when its duration is not positive or has passed since it was
  created; running otherwise; unknown without a creation time.
\<close>

theorem inferred_phase:
  "xs_Phase (fst (statusFromObjectAt frac obj (\<lambda>w. (t, w)) w)) =
     (case ko_nested obj [''status'', ''phase''] of
        Some p \<Rightarrow> if p \<notin> {[], ''unknown''} then p else fst (inferPhaseFromObject frac obj (\<lambda>w. (t, w)) w)
      | None \<Rightarrow> fst (inferPhaseFromObject frac obj (\<lambda>w. (t, w)) w)) \<and>
   fst (inferPhaseFromObject frac obj (\<lambda>w. (t, w)) w) =
     (if ko_deleted obj \<noteq> None \<and> ko_deleted obj \<noteq> Some 0 then ''deleting''
      else if ko_created obj = 0 then ''unknown''
      else if (case Option.bind (ko_nested obj [''spec'', ''duration'']) (parse_duration frac) of
                 None \<Rightarrow> False | Some d \<Rightarrow> d \<le> 0 \<or> ko_created obj + d \<le> t) then ''completed''
      else ''running'')"
proof -
  have "parse_duration frac [] = None"
    by (simp add: parse_duration_def)
  then show ?thesis
    by (auto simp: statusFromObjectAt_def inferPhaseFromObject_def Let_def is_zero_time_def
        split: option.splits prod.splits)
qed

end
