(* ===== verification/Api_Chaos.thy ===== *)
theory Api_Chaos
  imports Chaos_Client Api_Scenarios
begin

text \<open>
  cmd/api/handlers/chaos.go: the chaos endpoints over the experiments of the cluster and their records
  in MongoDB; internal/db/mongo.go and the adapters of cmd/api/main.go as far as these endpoints reach.
\<close>

section \<open>The records\<close>

definition chaosCollection :: string where
  "chaosCollection = ''chaos_experiments''"

record chaosRecord =
  rc_ID :: string
  rc_Name :: string
  rc_Scenario :: string
  rc_Config :: string_map
  rc_Status :: string
  rc_CreatedAt :: time

definition toResponse :: "chaosRecord \<Rightarrow> ChaosExperimentResponse" where
  "toResponse r =
     \<lparr>ce_ID = rc_ID r, ce_Name = rc_Name r, ce_Scenario = rc_Scenario r, ce_Config = rc_Config r,
      ce_Status = rc_Status r, ce_CreatedAt = rc_CreatedAt r\<rparr>"

text \<open>
  A cursor is the results of its \<open>Decode\<close> calls and what \<open>Err\<close> says at the end. The filters are the
  empty one, \<open>None\<close>, and \<open>_id\<close>; the only update sets the status.
\<close>

record cursor =
  cu_rows :: "chaosRecord res list"
  cu_err :: "goerr option"

record 'w mongo =
  mg_InsertOne :: "string \<Rightarrow> chaosRecord \<Rightarrow> 'w \<Rightarrow> goerr option \<times> 'w"
  mg_Find :: "string \<Rightarrow> string option \<Rightarrow> 'w \<Rightarrow> cursor res \<times> 'w"
  mg_UpdateOne :: "string \<Rightarrow> string \<Rightarrow> string \<Rightarrow> 'w \<Rightarrow> goerr option \<times> 'w"
  mg_DeleteOne :: "string \<Rightarrow> string \<Rightarrow> 'w \<Rightarrow> goerr option \<times> 'w"

text \<open>The operations of internal/db/mongo.go that the program calls.\<close>

definition Mongo_InsertOne :: "'w mongo \<Rightarrow> string \<Rightarrow> chaosRecord \<Rightarrow> 'w \<Rightarrow> goerr option \<times> 'w" where
  "Mongo_InsertOne m collection doc w = wrap_err ''mongo insert one'' (mg_InsertOne m collection doc w)"

definition Mongo_Find :: "'w mongo \<Rightarrow> string \<Rightarrow> string option \<Rightarrow> 'w \<Rightarrow> cursor res \<times> 'w" where
  "Mongo_Find m collection filter_id w = wrap_res ''mongo find'' (mg_Find m collection filter_id w)"

definition Mongo_UpdateOne :: "'w mongo \<Rightarrow> string \<Rightarrow> string \<Rightarrow> string \<Rightarrow> 'w \<Rightarrow> goerr option \<times> 'w" where
  "Mongo_UpdateOne m collection filter_id status w = wrap_err ''mongo update one'' (mg_UpdateOne m collection filter_id status w)"

definition Mongo_DeleteOne :: "'w mongo \<Rightarrow> string \<Rightarrow> string \<Rightarrow> 'w \<Rightarrow> goerr option \<times> 'w" where
  "Mongo_DeleteOne m collection filter_id w = wrap_err ''mongo delete one'' (mg_DeleteOne m collection filter_id w)"

definition MongoClient :: "'w mongo \<Rightarrow> 'w mongo" where
  "MongoClient m =
     \<lparr>mg_InsertOne = Mongo_InsertOne m, mg_Find = Mongo_Find m, mg_UpdateOne = Mongo_UpdateOne m,
      mg_DeleteOne = Mongo_DeleteOne m\<rparr>"

lemmas MongoClient_defs = MongoClient_def Mongo_InsertOne_def Mongo_Find_def Mongo_UpdateOne_def Mongo_DeleteOne_def

definition mongoCursor :: "cursor \<Rightarrow> cursor" where
  "mongoCursor c =
     \<lparr>cu_rows = map (map_sum (Wrapf ''mongo decode'') id) (cu_rows c),
      cu_err = map_option (Wrapf ''mongo cursor err'') (cu_err c)\<rparr>"

definition mongoAdapter :: "'w mongo \<Rightarrow> 'w mongo" where
  "mongoAdapter m =
     \<lparr>mg_InsertOne = \<lambda>c d w. wrap_err ''mongo insert'' (mg_InsertOne m c d w),
      mg_Find = \<lambda>c f w. (case mg_Find m c f w of
                           (Inl err, w1) \<Rightarrow> (Inl (Wrapf ''mongo find'' err), w1)
                         | (Inr cur, w1) \<Rightarrow> (Inr (mongoCursor cur), w1)),
      mg_UpdateOne = \<lambda>c i s w. wrap_err ''mongo update'' (mg_UpdateOne m c i s w),
      mg_DeleteOne = \<lambda>c i w. wrap_err ''mongo delete'' (mg_DeleteOne m c i w)\<rparr>"

section \<open>The specification of an experiment\<close>

definition config_get :: "string_map \<Rightarrow> string \<Rightarrow> string" where
  "config_get m key = (case m of None \<Rightarrow> [] | Some kvs \<Rightarrow> (case map_of kvs key of None \<Rightarrow> [] | Some v \<Rightarrow> v))"

definition chaosKindFromConfig :: "string_map \<Rightarrow> string" where
  "chaosKindFromConfig config =
     (let t = config_get config ''type'' in
      if t = ''pod'' then ''PodChaos''
      else if t = ''network'' then ''NetworkChaos''
      else if t = ''io'' then ''IOChaos''
      else if t = ''stress'' then ''StressChaos''
      else if t = ''time'' then ''TimeChaos''
      else [])"

definition valueOr :: "string \<Rightarrow> string \<Rightarrow> string" where
  "valueOr value fallback = (if trim_space value = [] then fallback else value)"

definition intValueOr :: "string \<Rightarrow> int \<Rightarrow> int" where
  "intValueOr value fallback = (case atoi value of Inl err \<Rightarrow> fallback | Inr parsed \<Rightarrow> parsed)"

definition parseLabelSelector :: "string \<Rightarrow> (string \<times> string) option" where
  "parseLabelSelector input =
     (case splitN2 (CHR ''='') input of
        [a, b] \<Rightarrow>
          let key = trim_space a; value = trim_space b
          in if key = [] \<or> value = [] then None else Some (key, value)
      | _ \<Rightarrow> None)"

definition chaos_selector :: "string_map \<Rightarrow> json" where
  "chaos_selector config =
     JObj ([(''namespaces'', JArr [JStr ''cluster-probe''])] @
       (let target = config_get config ''target'' in
        if target = [] then []
        else (case parseLabelSelector target of
                None \<Rightarrow> []
              | Some (key, value) \<Rightarrow> [(''labelSelectors'', JObj [(key, JStr value)])])))"

definition chaosSpecFromConfig :: "string \<Rightarrow> string_map \<Rightarrow> spec_map" where
  "chaosSpecFromConfig kind config =
     (let selector = chaos_selector config;
          duration = (if config_get config ''duration'' = [] then ''3m'' else config_get config ''duration'');
          value = (\<lambda>key fallback. JStr (valueOr (config_get config key) fallback));
          int_value = (\<lambda>key fallback. JInt (intValueOr (config_get config key) fallback))
      in if kind = ''PodChaos'' then
           Some [(''action'', JStr ''pod-kill''), (''mode'', JStr ''one''), (''selector'', selector),
                 (''duration'', JStr duration)]
         else if kind = ''NetworkChaos'' then
           Some [(''action'', JStr ''delay''), (''mode'', JStr ''all''), (''selector'', selector),
                 (''delay'', JObj [(''latency'', value ''latency'' ''100ms''), (''jitter'', value ''jitter'' ''20ms''),
                                   (''correlation'', value ''correlation'' ''0'')]),
                 (''duration'', JStr duration)]
         else if kind = ''IOChaos'' then
           Some [(''action'', JStr ''latency''), (''mode'', JStr ''one''), (''selector'', selector),
                 (''volumePath'', value ''volumePath'' ''/var/lib/postgresql/data''),
                 (''path'', value ''path'' ''/var/lib/postgresql/data/**''), (''delay'', value ''delay'' ''50ms''),
                 (''percent'', int_value ''percent'' 100), (''duration'', JStr duration)]
         else if kind = ''StressChaos'' then
           Some [(''mode'', JStr ''all''), (''selector'', selector),
                 (''stressors'', JObj [(''cpu'', JObj [(''workers'', int_value ''workers'' 2),
                                                      (''load'', int_value ''load'' 100)])]),
                 (''duration'', JStr duration)]
         else if kind = ''TimeChaos'' then
           Some [(''mode'', JStr ''one''), (''selector'', selector), (''timeOffset'', value ''offset'' ''5m''),
                 (''duration'', JStr duration)]
         else None)"

definition buildExperimentSpec :: "ChaosExperimentRequest \<Rightarrow> ExperimentSpec res" where
  "buildExperimentSpec req =
     (let kind = chaosKindFromConfig (cr_Config req) in
      if kind = [] then Inl (ErrText ''chaos type is required'')
      else (case chaosSpecFromConfig kind (cr_Config req) of
              None \<Rightarrow> Inl (ErrText ''invalid chaos config'')
            | Some spec \<Rightarrow>
                Inr \<lparr>es_Name = cr_Name req, es_Namespace = ''cluster-probe'', es_Kind = kind, es_Spec = Some spec\<rparr>))"

section \<open>The badge\<close>

definition statusBadgeClass :: "string \<Rightarrow> string" where
  "statusBadgeClass status =
     (let lower = to_lower status in
      if contains lower ''fail'' \<or> contains lower ''error'' then ''error''
      else if contains lower ''running'' \<or> contains lower ''finish'' \<or> contains lower ''complete'' then ''success''
      else ''warn'')"

definition isTerminalStatus :: "string \<Rightarrow> bool" where
  "isTerminalStatus status \<longleftrightarrow>
     (let lower = to_lower status in
      contains lower ''complete'' \<or> contains lower ''finish'' \<or> contains lower ''fail'' \<or> contains lower ''error'')"

definition quoted :: "string \<Rightarrow> string" where
  "quoted s = [CHR 0x22] @ s @ [CHR 0x22]"

definition renderStatusBadge :: "string \<Rightarrow> string \<Rightarrow> string" where
  "renderStatusBadge xid status =
     (let cls = statusBadgeClass status in
      if isTerminalStatus status then ''<span class='' @ quoted (''badge '' @ cls) @ ''>'' @ status @ ''</span>''
      else ''<span class='' @ quoted (''badge '' @ cls) @ '' hx-get='' @
        quoted (''/api/v1/chaos/experiments/'' @ xid @ ''?view=badge'') @ '' hx-trigger='' @ quoted ''every 3s'' @
        '' hx-swap='' @ quoted ''outerHTML'' @ ''>'' @ status @ ''</span>'')"

section \<open>The endpoints\<close>

record 'w chaos_ports =
  cp_store :: "'w mongo"
  cp_Apply :: "ExperimentSpec \<Rightarrow> 'w \<Rightarrow> string res \<times> 'w"
  cp_Status :: "string \<Rightarrow> 'w \<Rightarrow> ExperimentStatus res \<times> 'w"
  cp_Delete :: "string \<Rightarrow> 'w \<Rightarrow> goerr option \<times> 'w"
  cp_List :: "'w \<Rightarrow> ExperimentStatus list res \<times> 'w"
  cp_now :: "'w \<Rightarrow> time \<times> 'w"

definition CreateExperiment :: "'w chaos_ports \<Rightarrow> bytes \<Rightarrow> http_response \<Rightarrow> 'w \<Rightarrow> http_response \<times> 'w" where
  "CreateExperiment po body h w =
     (case decodeJSON (dec_ChaosExperimentRequest True) body zero_chaos_request of
        Inl err \<Rightarrow> (errorResponse StatusBadRequest (error_string err) h, w)
      | Inr req \<Rightarrow>
     (case ChaosExperimentRequest_Validate req of
        Some err \<Rightarrow> (errorResponse StatusBadRequest (error_string err) h, w)
      | None \<Rightarrow>
     (case buildExperimentSpec req of
        Inl err \<Rightarrow> (errorResponse StatusBadRequest (error_string err) h, w)
      | Inr spec \<Rightarrow>
     (case cp_Apply po spec w of
        (Inl err, w1) \<Rightarrow> (errorResponse StatusBadGateway ''apply chaos experiment'' h, w1)
      | (Inr xid, w1) \<Rightarrow>
     (case cp_now po w1 of (now, w2) \<Rightarrow>
      let rec = \<lparr>rc_ID = xid, rc_Name = cr_Name req, rc_Scenario = cr_Scenario req, rc_Config = cr_Config req,
                 rc_Status = ''pending'', rc_CreatedAt = now\<rparr> in
     (case mg_InsertOne (cp_store po) chaosCollection rec w2 of
        (Some err, w3) \<Rightarrow> (errorResponse StatusInternalServerError ''store experiment'' h, w3)
      | (None, w3) \<Rightarrow> (respond StatusAccepted (enc_ChaosExperimentResponse (toResponse rec)) h, w3)))))))"

definition liveStatusByID :: "'w chaos_ports \<Rightarrow> 'w \<Rightarrow> (string \<rightharpoonup> ExperimentStatus) \<times> 'w" where
  "liveStatusByID po w =
     (case cp_List po w of
        (Inl err, w1) \<Rightarrow> (Map.empty, w1)
      | (Inr statuses, w1) \<Rightarrow>
          (fold (\<lambda>st byID.
             let byID1 = (if xs_ID st \<noteq> [] then byID(xs_ID st \<mapsto> st) else byID)
             in if xs_Name st \<noteq> [] then byID1(xs_Name st \<mapsto> st) else byID1) statuses Map.empty, w1))"

definition persistChaosStatus :: "'w chaos_ports \<Rightarrow> string \<Rightarrow> string \<Rightarrow> 'w \<Rightarrow> 'w" where
  "persistChaosStatus po xid status w =
     (if status = [] then w else snd (mg_UpdateOne (cp_store po) chaosCollection xid status w))"

fun collect_experiments ::
    "'w chaos_ports \<Rightarrow> (string \<rightharpoonup> ExperimentStatus) \<Rightarrow> chaosRecord res list \<Rightarrow> ChaosExperimentResponse list \<Rightarrow> 'w \<Rightarrow>
     ChaosExperimentResponse list option \<times> 'w" where
  "collect_experiments po live [] acc w = (Some acc, w)"
| "collect_experiments po live (r # rs) acc w =
     (case r of
        Inl err \<Rightarrow> (None, w)
      | Inr rec \<Rightarrow>
          (case live (rc_ID rec) of
             None \<Rightarrow> collect_experiments po live rs (acc @ [toResponse rec]) w
           | Some st \<Rightarrow>
               collect_experiments po live rs (acc @ [toResponse (rec\<lparr>rc_Status := xs_Phase st\<rparr>)])
                 (persistChaosStatus po (rc_ID rec) (xs_Phase st) w)))"

definition ListExperiments :: "'w chaos_ports \<Rightarrow> http_response \<Rightarrow> 'w \<Rightarrow> http_response \<times> 'w" where
  "ListExperiments po h w =
     (case liveStatusByID po w of (live, w1) \<Rightarrow>
     (case mg_Find (cp_store po) chaosCollection None w1 of
        (Inl err, w2) \<Rightarrow> (errorResponse StatusInternalServerError ''list experiments'' h, w2)
      | (Inr cur, w2) \<Rightarrow>
     (case collect_experiments po live (cu_rows cur) [] w2 of
        (None, w3) \<Rightarrow> (errorResponse StatusInternalServerError ''decode experiment'' h, w3)
      | (Some responses, w3) \<Rightarrow>
     (case cu_err cur of
        Some err \<Rightarrow> (errorResponse StatusInternalServerError ''list experiments'' h, w3)
      | None \<Rightarrow> (respond StatusOK (enc_array enc_ChaosExperimentResponse responses) h, w3)))))"

definition findRecord :: "'w chaos_ports \<Rightarrow> string \<Rightarrow> 'w \<Rightarrow> chaosRecord option \<times> 'w" where
  "findRecord po xid w =
     (case mg_Find (cp_store po) chaosCollection (Some xid) w of
        (Inl err, w1) \<Rightarrow> (None, w1)
      | (Inr cur, w1) \<Rightarrow>
          (case cu_rows cur of
             [] \<Rightarrow> (None, w1)
           | Inl err # rs \<Rightarrow> (None, w1)
           | Inr rec # rs \<Rightarrow> (Some rec, w1)))"

definition GetExperiment :: "'w chaos_ports \<Rightarrow> string \<Rightarrow> string \<Rightarrow> http_response \<Rightarrow> 'w \<Rightarrow> http_response \<times> 'w" where
  "GetExperiment po xid view h w =
     (if xid = [] then (errorResponse StatusBadRequest ''missing id'' h, w)
      else
     (case cp_Status po xid w of
        (Inl err, w1) \<Rightarrow> (errorResponse StatusNotFound ''experiment not found'' h, w1)
      | (Inr status, w1) \<Rightarrow>
     (case findRecord po xid w1 of (found, w2) \<Rightarrow>
      let response =
            (case found of
               None \<Rightarrow> \<lparr>ce_ID = xs_ID status, ce_Name = xs_Name status, ce_Scenario = [], ce_Config = None,
                       ce_Status = xs_Phase status, ce_CreatedAt = 0\<rparr>
             | Some rec \<Rightarrow> \<lparr>ce_ID = xs_ID status, ce_Name = rc_Name rec, ce_Scenario = rc_Scenario rec,
                       ce_Config = rc_Config rec, ce_Status = xs_Phase status, ce_CreatedAt = rc_CreatedAt rec\<rparr>);
          w3 = (case found of
                  None \<Rightarrow> w2
                | Some rec \<Rightarrow> if ce_Status response \<noteq> [] \<and> ce_Status response \<noteq> rc_Status rec
                              then persistChaosStatus po xid (ce_Status response) w2 else w2)
      in if view = ''badge'' then
           (write_chunk (CText (renderStatusBadge xid (ce_Status response)))
              (set_header ''Content-Type'' ''text/html; charset=utf-8'' h), w3)
         else (respond StatusOK (enc_ChaosExperimentResponse response) h, w3))))"

definition DeleteExperiment :: "'w chaos_ports \<Rightarrow> string \<Rightarrow> http_response \<Rightarrow> 'w \<Rightarrow> http_response \<times> 'w" where
  "DeleteExperiment po xid h w =
     (if xid = [] then (errorResponse StatusBadRequest ''missing id'' h, w)
      else
     (case cp_Delete po xid w of
        (Some err, w1) \<Rightarrow> (errorResponse StatusBadGateway ''delete experiment'' h, w1)
      | (None, w1) \<Rightarrow>
     (case mg_DeleteOne (cp_store po) chaosCollection xid w1 of
        (Some err, w2) \<Rightarrow> (errorResponse StatusInternalServerError ''delete experiment record'' h, w2)
      | (None, w2) \<Rightarrow> (WriteHeader StatusNoContent h, w2))))"

end
