(* ===== verification/Ui_Client.thy ===== *)
theory Ui_Client
  imports Api_Chaos
begin

text \<open>
  cmd/ui/client.go: the client of the API. \<open>net/http\<close> is the record \<open>http_client\<close>: whether a request can
  be made for a URL, and the round trip, which gives the status code, the status line and the body.
\<close>

record 'w http_client =
  hc_NewRequest :: "string \<Rightarrow> string \<Rightarrow> goerr option"
  hc_Do :: "string \<Rightarrow> string \<Rightarrow> bytes option \<Rightarrow> 'w \<Rightarrow> (int \<times> string \<times> bytes) res \<times> 'w"

definition newAPIClient :: "string \<Rightarrow> string" where
  "newAPIClient baseURL =
     (let base = trim_suffix (trim_space baseURL) ''/''
      in if base = [] then ''http://localhost:8080'' else base)"

text \<open>
  \<open>doJSON\<close>: \<open>payload\<close> is what \<open>Marshal\<close> makes of the payload, and \<open>dest\<close> the decoder with the zero value
  to decode into.
\<close>

definition doJSON ::
    "'w http_client \<Rightarrow> string \<Rightarrow> string \<Rightarrow> string \<Rightarrow> json res option \<Rightarrow> ((json \<Rightarrow> 'd \<Rightarrow> 'd res) \<times> 'd) option \<Rightarrow> 'w \<Rightarrow>
     'd option res \<times> 'w" where
  "doJSON hc baseURL meth path payload dest w =
     (let url = baseURL @ path in
      case (case payload of None \<Rightarrow> Inr None | Some (Inl err) \<Rightarrow> Inl err | Some (Inr j) \<Rightarrow> Inr (Some (Doc j))) of
        Inl err \<Rightarrow> (Inl (Wrapf ''encode payload'' err), w)
      | Inr body \<Rightarrow>
          (case hc_NewRequest hc meth url of
             Some err \<Rightarrow> (Inl (Wrapf ''create request'' err), w)
           | None \<Rightarrow>
               (case hc_Do hc meth url body w of
                  (Inl err, w1) \<Rightarrow> (Inl (Wrapf ''request'' err), w1)
                | (Inr (code, status, resp), w1) \<Rightarrow>
                    if code \<ge> StatusBadRequest then (Inl (ErrText (''api error: '' @ status)), w1)
                    else (case dest of
                            None \<Rightarrow> (Inr None, w1)
                          | Some (dec, zero) \<Rightarrow>
                              (case json_Unmarshal dec resp zero of
                                 Inl err \<Rightarrow> (Inl (Wrapf ''decode response'' err), w1)
                               | Inr x \<Rightarrow> (Inr (Some x), w1))))))"

definition doJSON_into ::
    "'w http_client \<Rightarrow> string \<Rightarrow> string \<Rightarrow> string \<Rightarrow> json res option \<Rightarrow> (json \<Rightarrow> 'd \<Rightarrow> 'd res) \<Rightarrow> 'd \<Rightarrow> 'w \<Rightarrow> 'd res \<times> 'w" where
  "doJSON_into hc base meth path payload dec zero w =
     (case doJSON hc base meth path payload (Some (dec, zero)) w of
        (Inl err, w1) \<Rightarrow> (Inl err, w1)
      | (Inr None, w1) \<Rightarrow> (Inr zero, w1)
      | (Inr (Some x), w1) \<Rightarrow> (Inr x, w1))"

text \<open>A slice is decoded element by element into zero values; \<open>null\<close> gives the nil slice.\<close>

fun dec_elements :: "(json \<Rightarrow> 'd \<Rightarrow> 'd res) \<Rightarrow> 'd \<Rightarrow> json list \<Rightarrow> 'd list res" where
  "dec_elements dec zero [] = Inr []"
| "dec_elements dec zero (j # js) =
     (case dec j zero of
        Inl err \<Rightarrow> Inl err
      | Inr x \<Rightarrow> (case dec_elements dec zero js of Inl err \<Rightarrow> Inl err | Inr xs \<Rightarrow> Inr (x # xs)))"

definition dec_slice :: "(json \<Rightarrow> 'd \<Rightarrow> 'd res) \<Rightarrow> 'd \<Rightarrow> json \<Rightarrow> 'd list \<Rightarrow> 'd list res" where
  "dec_slice dec zero j old =
     (case j of JArr js \<Rightarrow> dec_elements dec zero js | JNull \<Rightarrow> Inr [] | _ \<Rightarrow> Inl type_error)"

definition dec_ChaosExperimentResponse :: "json \<Rightarrow> ChaosExperimentResponse \<Rightarrow> ChaosExperimentResponse res" where
  "dec_ChaosExperimentResponse = dec_struct False
     [(''id'', field dec_string ce_ID (\<lambda>x r. r\<lparr>ce_ID := x\<rparr>)),
      (''name'', field dec_string ce_Name (\<lambda>x r. r\<lparr>ce_Name := x\<rparr>)),
      (''scenario'', field dec_string ce_Scenario (\<lambda>x r. r\<lparr>ce_Scenario := x\<rparr>)),
      (''config'', field dec_string_map ce_Config (\<lambda>x r. r\<lparr>ce_Config := x\<rparr>)),
      (''status'', field dec_string ce_Status (\<lambda>x r. r\<lparr>ce_Status := x\<rparr>)),
      (''created_at'', field dec_time ce_CreatedAt (\<lambda>x r. r\<lparr>ce_CreatedAt := x\<rparr>))]"

definition zero_experiment :: ChaosExperimentResponse where
  "zero_experiment =
     \<lparr>ce_ID = [], ce_Name = [], ce_Scenario = [], ce_Config = None, ce_Status = [], ce_CreatedAt = 0\<rparr>"

section \<open>The calls\<close>

definition api_ListScenarios where
  "api_ListScenarios hc base w =
     doJSON_into hc base ''GET'' ''/api/v1/scenarios'' None (dec_slice dec_ScenarioResponse zero_scenario) [] w"

definition api_CreateScenario where
  "api_CreateScenario hc base req w =
     doJSON_into hc base ''POST'' ''/api/v1/scenarios'' (Some (Inr (enc_ScenarioRequest req))) dec_ScenarioResponse
       zero_scenario w"

definition api_GetScenario where
  "api_GetScenario hc base sid w =
     doJSON_into hc base ''GET'' (''/api/v1/scenarios/'' @ sid) None dec_ScenarioResponse zero_scenario w"

definition api_ListScenarioEvents where
  "api_ListScenarioEvents hc base sid w =
     doJSON_into hc base ''GET'' (''/api/v1/scenarios/'' @ sid @ ''/events'') None
       (dec_slice dec_ScenarioResponse zero_scenario) [] w"

definition api_StopScenario where
  "api_StopScenario hc base sid w =
     doJSON_into hc base ''PUT'' (''/api/v1/scenarios/'' @ sid @ ''/stop'') None dec_ScenarioResponse zero_scenario w"

definition api_ListExperiments where
  "api_ListExperiments hc base w =
     doJSON_into hc base ''GET'' ''/api/v1/chaos/experiments'' None (dec_slice dec_ChaosExperimentResponse zero_experiment)
       [] w"

definition api_CreateExperiment where
  "api_CreateExperiment hc base req w =
     doJSON_into hc base ''POST'' ''/api/v1/chaos/experiments'' (Some (Inr (enc_ChaosExperimentRequest req)))
       dec_ChaosExperimentResponse zero_experiment w"

definition api_GetExperiment where
  "api_GetExperiment hc base xid w =
     doJSON_into hc base ''GET'' (''/api/v1/chaos/experiments/'' @ xid) None dec_ChaosExperimentResponse zero_experiment w"

definition api_DeleteExperiment :: "'w http_client \<Rightarrow> string \<Rightarrow> string \<Rightarrow> 'w \<Rightarrow> goerr option \<times> 'w" where
  "api_DeleteExperiment hc base xid w =
     (case (doJSON hc base ''DELETE'' (''/api/v1/chaos/experiments/'' @ xid) None
              (None :: ((json \<Rightarrow> unit \<Rightarrow> unit res) \<times> unit) option) w) of
        (Inl err, w1) \<Rightarrow> (Some err, w1)
      | (Inr x, w1) \<Rightarrow> (None, w1))"

text \<open>\<open>LogsStream\<close> opens the stream without the time limit of the client; \<open>open\<close> is the round trip.\<close>

definition api_LogsStream ::
    "'w http_client \<Rightarrow> (string \<Rightarrow> 'w \<Rightarrow> (int \<times> string \<times> 'stream) res \<times> 'w) \<Rightarrow> string \<Rightarrow> 'w \<Rightarrow> 'stream res \<times> 'w" where
  "api_LogsStream hc open baseURL w =
     (let url = baseURL @ ''/api/v1/logs/stream'' in
      case hc_NewRequest hc ''GET'' url of
        Some err \<Rightarrow> (Inl (Wrapf ''create request'' err), w)
      | None \<Rightarrow>
          (case open url w of
             (Inl err, w1) \<Rightarrow> (Inl (Wrapf ''logs stream request'' err), w1)
           | (Inr (code, status, body), w1) \<Rightarrow>
               if code \<ge> StatusBadRequest then (Inl (ErrText (''logs stream status: '' @ status)), w1)
               else (Inr body, w1)))"

section \<open>Round trips\<close>

lemma dec_enc_experiment:
  "enc_ChaosExperimentResponse r = Inr j \<Longrightarrow>
   (case ce_Config r of None \<Rightarrow> True | Some kvs \<Rightarrow> distinct (map fst kvs)) \<Longrightarrow>
   dec_ChaosExperimentResponse j zero_experiment = Inr r"
  by (cases "ce_Config r")
     (auto simp: enc_ChaosExperimentResponse_def dec_ChaosExperimentResponse_def dec_struct_def field_def
       lookup_field_def json_simps zero_experiment_def enc_string_map_def dec_string_map_def
       dec_map_entries_append [of "[]", simplified] split: sum.splits dest: dec_enc_time)

lemma dec_enc_elements:
  assumes "enc_list enc xs = Inr js" and "\<And>x j. x \<in> set xs \<Longrightarrow> enc x = Inr j \<Longrightarrow> dec j zero = Inr x"
  shows "dec_elements dec zero js = Inr xs"
  using assms
proof (induction xs arbitrary: js)
  case (Cons x xs)
  then obtain j js' where "enc x = Inr j" "enc_list enc xs = Inr js'" "js = j # js'"
    by (auto split: sum.splits)
  moreover have "dec j zero = Inr x"
    using Cons.prems(2) [of x j] \<open>enc x = Inr j\<close> by simp
  moreover have "dec_elements dec zero js' = Inr xs"
    using Cons.IH [of js'] Cons.prems(2) \<open>enc_list enc xs = Inr js'\<close> by simp
  ultimately show ?case
    by simp
qed simp

text \<open>
  C31. The lists of the API survive the way to the UI: what the handlers encode, with any number of
  scenarios and experiments, is decoded by the client to the same lists.
\<close>

theorem lists_round_trip:
  assumes "enc_array enc_ScenarioResponse xs = Inr j" and "\<And>x. x \<in> set xs \<Longrightarrow> profile_ints (sc_Profile x)"
    and "enc_array enc_ChaosExperimentResponse ys = Inr k" and "\<And>y. y \<in> set ys \<Longrightarrow> map_ok (ce_Config y)"
  shows "json_Unmarshal (dec_slice dec_ScenarioResponse zero_scenario) (Doc j) [] = Inr xs \<and>
    json_Unmarshal (dec_slice dec_ChaosExperimentResponse zero_experiment) (Doc k) [] = Inr ys"
proof
  obtain js where js: "enc_list enc_ScenarioResponse xs = Inr js" "j = JArr js"
    using assms(1) by (cases "enc_list enc_ScenarioResponse xs") (auto simp: enc_array_def)
  have "dec_elements dec_ScenarioResponse zero_scenario js = Inr xs"
    by (rule dec_enc_elements [OF js(1)]) (rule dec_enc_ScenarioResponse [OF assms(2)])
  then show "json_Unmarshal (dec_slice dec_ScenarioResponse zero_scenario) (Doc j) [] = Inr xs"
    by (simp add: json_Unmarshal_def dec_slice_def js)
  obtain ks where ks: "enc_list enc_ChaosExperimentResponse ys = Inr ks" "k = JArr ks"
    using assms(3) by (cases "enc_list enc_ChaosExperimentResponse ys") (auto simp: enc_array_def)
  have "dec_elements dec_ChaosExperimentResponse zero_experiment ks = Inr ys"
    by (rule dec_enc_elements [OF ks(1)])
       (rule dec_enc_experiment, assumption, use assms(4) in \<open>auto simp: map_ok_def split: option.splits\<close>)
  then show "json_Unmarshal (dec_slice dec_ChaosExperimentResponse zero_experiment) (Doc k) [] = Inr ys"
    by (simp add: json_Unmarshal_def dec_slice_def ks)
qed

theorem lists_round_trip_witness:
  "\<exists>j k. enc_array enc_ScenarioResponse [zero_scenario, zero_scenario\<lparr>sc_ID := ''a''\<rparr>] = Inr j \<and>
     json_Unmarshal (dec_slice dec_ScenarioResponse zero_scenario) (Doc j) [] =
       Inr [zero_scenario, zero_scenario\<lparr>sc_ID := ''a''\<rparr>] \<and>
     json_Unmarshal (dec_slice dec_ChaosExperimentResponse zero_experiment) (Doc k) [] =
       Inr [zero_experiment\<lparr>ce_Config := Some [(''type'', ''pod'')]\<rparr>]"
proof -
  let ?xs = "[zero_scenario, zero_scenario\<lparr>sc_ID := ''a''\<rparr>]"
  let ?ys = "[zero_experiment\<lparr>ce_Config := Some [(''type'', ''pod'')]\<rparr>]"
  have "\<not> isl (enc_array enc_ScenarioResponse ?xs)" "\<not> isl (enc_array enc_ChaosExperimentResponse ?ys)"
    by code_simp+
  then obtain j k where jk: "enc_array enc_ScenarioResponse ?xs = Inr j" "enc_array enc_ChaosExperimentResponse ?ys = Inr k"
    by (metis sum.collapse(2))
  have "profile_ints (sc_Profile x)" if "x \<in> set ?xs" for x
    using that by (auto simp: zero_scenario_def zero_profile_def profile_ints_def in_int64_def min_int64_def max_int64_def)
  moreover have "map_ok (ce_Config y)" if "y \<in> set ?ys" for y
    using that by (auto simp: map_ok_def)
  ultimately show ?thesis
    using lists_round_trip [OF jk(1) _ jk(2)] jk(1) by blast
qed

end
