(* ===== verification/Ui_Server.thy ===== *)
theory Ui_Server
  imports Ui_Client
begin

text \<open>
  cmd/ui/handlers (server.go, types.go): what the pages share. The records are the ones of types.go; the
  data a template gets is a value of \<open>template_data\<close>. A template set is a function from the name of a
  block and its data to what \<open>ExecuteTemplate\<close> wrote and its error. Floating-point values are not
  modelled: the two numbers of the dashboard computed with them are ports.
\<close>

section \<open>Data\<close>

record Stat =
  sa_Label :: string
  sa_Value :: string
  sa_Status :: string
  sa_StatusClass :: string

record Banner =
  bn_Status :: string
  bn_StatusClass :: string
  bn_Message :: string

record ScenarioView =
  sv_Scenario :: ScenarioResponse
  sv_StatusClass :: string
  sv_Terminal :: bool

record ExperimentView =
  ev_Experiment :: ChaosExperimentResponse
  ev_StatusClass :: string

record DashboardData =
  dd_Active :: string
  dd_Title :: string
  dd_Stats :: "Stat list"

record ScenarioListData =
  sl_Active :: string
  sl_Title :: string
  sl_Scenarios :: "ScenarioView list"
  sl_Banner :: "Banner option"

record ScenarioDetailData =
  sd_Active :: string
  sd_Title :: string
  sd_Scenario :: ScenarioView
  sd_Events :: "ScenarioView list"

record ScenarioEventsData =
  se_Scenario :: ScenarioView
  se_Events :: "ScenarioView list"

record ChaosListData =
  xl_Active :: string
  xl_Title :: string
  xl_Experiments :: "ExperimentView list"

record ChaosDetailData =
  xd_Active :: string
  xd_Title :: string
  xd_Experiment :: ExperimentView
  xd_Config :: string_map

record FormData =
  fd_Active :: string
  fd_Title :: string
  fd_Now :: time
  fd_ID :: string
  fd_ExperimentID :: string
  fd_Status :: string
  fd_StatusClass :: string

record ExperimentStatusData =
  xt_ID :: string
  xt_ExperimentID :: string
  xt_Status :: string
  xt_StatusClass :: string

record LogsData =
  ld_Active :: string
  ld_Title :: string

record ErrorData =
  er_Active :: string
  er_Title :: string
  er_Heading :: string
  er_Message :: string
  er_Status :: string
  er_StatusClass :: string
  er_BackHref :: string
  er_BackLabel :: string

record NotFoundData =
  nf_Active :: string
  nf_Title :: string
  nf_Heading :: string
  nf_Message :: string
  nf_BackHref :: string
  nf_BackLabel :: string

datatype template_data =
    TDashboard DashboardData
  | TStats "Stat list"
  | TScenarioList ScenarioListData
  | TScenarioDetail ScenarioDetailData
  | TScenarioEvents ScenarioEventsData
  | TScenario ScenarioView
  | TChaosList ChaosListData
  | TChaosDetail ChaosDetailData
  | TForm FormData
  | TExperimentStatus ExperimentStatusData
  | TLogs LogsData
  | TError ErrorData
  | TNotFound NotFoundData

section \<open>The server\<close>

text \<open>
  The interface \<open>APIClient\<close>, and the server with the parts of the outside it uses. \<open>us_rate\<close> is
  \<open>int64(float64(ops)/seconds)\<close>, \<open>us_percent\<close> the text of the error rate. \<open>us_select\<close> is the pause of
  the dashboard stream: \<open>True\<close> when the context ended it. \<open>us_write\<close> says whether a write to the
  client fails.
\<close>

record ('w, 'st) APIClient =
  ac_ListScenarios :: "'w \<Rightarrow> ScenarioResponse list res \<times> 'w"
  ac_GetScenario :: "string \<Rightarrow> 'w \<Rightarrow> ScenarioResponse res \<times> 'w"
  ac_ListScenarioEvents :: "string \<Rightarrow> 'w \<Rightarrow> ScenarioResponse list res \<times> 'w"
  ac_CreateScenario :: "ScenarioRequest \<Rightarrow> 'w \<Rightarrow> ScenarioResponse res \<times> 'w"
  ac_StopScenario :: "string \<Rightarrow> 'w \<Rightarrow> ScenarioResponse res \<times> 'w"
  ac_ListExperiments :: "'w \<Rightarrow> ChaosExperimentResponse list res \<times> 'w"
  ac_CreateExperiment :: "ChaosExperimentRequest \<Rightarrow> 'w \<Rightarrow> ChaosExperimentResponse res \<times> 'w"
  ac_GetExperiment :: "string \<Rightarrow> 'w \<Rightarrow> ChaosExperimentResponse res \<times> 'w"
  ac_DeleteExperiment :: "string \<Rightarrow> 'w \<Rightarrow> goerr option \<times> 'w"
  ac_LogsStream :: "'w \<Rightarrow> 'st res \<times> 'w"

record ('w, 'st) ui_server =
  us_templates :: "string \<Rightarrow> (string \<Rightarrow> template_data \<Rightarrow> string \<times> goerr option) option"
  us_api :: "('w, 'st) APIClient"
  us_counter :: "string \<Rightarrow> 'w \<Rightarrow> string res \<times> 'w"
  us_now :: "'w \<Rightarrow> time \<times> 'w"
  us_rate :: "int \<Rightarrow> duration \<Rightarrow> int"
  us_percent :: "int \<Rightarrow> int \<Rightarrow> string"
  us_select :: "duration \<Rightarrow> 'w \<Rightarrow> bool \<times> 'w"
  us_write :: "'w \<Rightarrow> goerr option \<times> 'w"
  us_read :: "'st \<Rightarrow> 'w \<Rightarrow> (string \<times> goerr option) \<times> 'w"

text \<open>\<open>main\<close> gives the server the client of the API.\<close>

definition apiClient ::
    "'w http_client \<Rightarrow> (string \<Rightarrow> 'w \<Rightarrow> (int \<times> string \<times> 'st) res \<times> 'w) \<Rightarrow> string \<Rightarrow> ('w, 'st) APIClient" where
  "apiClient hc open base =
     \<lparr>ac_ListScenarios = api_ListScenarios hc base, ac_GetScenario = api_GetScenario hc base,
      ac_ListScenarioEvents = api_ListScenarioEvents hc base, ac_CreateScenario = api_CreateScenario hc base,
      ac_StopScenario = api_StopScenario hc base, ac_ListExperiments = api_ListExperiments hc base,
      ac_CreateExperiment = api_CreateExperiment hc base, ac_GetExperiment = api_GetExperiment hc base,
      ac_DeleteExperiment = api_DeleteExperiment hc base, ac_LogsStream = api_LogsStream hc open base\<rparr>"

section \<open>Rendering\<close>

text \<open>
  The page is rendered into a buffer first. The write of the whole page is taken to succeed: its error
  only leads to a second answer on a connection that is gone.
\<close>

definition renderTemplateStatus ::
    "('w, 'st) ui_server \<Rightarrow> string \<Rightarrow> template_data \<Rightarrow> int \<Rightarrow> http_response \<Rightarrow> goerr option \<times> http_response" where
  "renderTemplateStatus s page data status h =
     (case us_templates s page of
        None \<Rightarrow> (Some (ErrText (''template not found: '' @ page)), h)
      | Some tmpl \<Rightarrow>
          (case tmpl ''base'' data of
             (buf, Some err) \<Rightarrow> (Some (Wrapf (''execute template '' @ page) err), h)
           | (buf, None) \<Rightarrow>
               (None, write_chunk (CText buf)
                        (WriteHeader status (set_header ''Content-Type'' ''text/html; charset=utf-8'' h)))))"

definition RenderTemplate where
  "RenderTemplate s page data h = renderTemplateStatus s page data StatusOK h"

text \<open>\<open>if err := ...; err != nil { http.Error(w, "template error", 500) }\<close>\<close>

definition or_template_error :: "goerr option \<times> http_response \<Rightarrow> http_response" where
  "or_template_error r =
     (case r of (None, h) \<Rightarrow> h | (Some err, h) \<Rightarrow> http_Error ''template error'' StatusInternalServerError h)"

definition renderNotFound :: "('w, 'st) ui_server \<Rightarrow> NotFoundData \<Rightarrow> http_response \<Rightarrow> http_response" where
  "renderNotFound s data h = or_template_error (renderTemplateStatus s ''not-found'' (TNotFound data) StatusNotFound h)"

text \<open>\<open>http.StatusText\<close>, for the codes the program sends.\<close>

definition http_StatusText :: "int \<Rightarrow> string" where
  "http_StatusText code =
     (case map_of [(200, ''OK''), (202, ''Accepted''), (204, ''No Content''), (302, ''Found''), (303, ''See Other''),
                   (400, ''Bad Request''), (404, ''Not Found''), (405, ''Method Not Allowed''),
                   (500, ''Internal Server Error''), (502, ''Bad Gateway''), (503, ''Service Unavailable'')] code of
        Some t \<Rightarrow> t | None \<Rightarrow> [])"

definition renderError :: "('w, 'st) ui_server \<Rightarrow> int \<Rightarrow> ErrorData \<Rightarrow> http_response \<Rightarrow> http_response" where
  "renderError s status data h =
     (let data = (if er_Status data = [] then data\<lparr>er_Status := http_StatusText status\<rparr> else data);
          data = (if er_StatusClass data = [] then data\<lparr>er_StatusClass := ''error''\<rparr> else data)
      in or_template_error (renderTemplateStatus s ''error'' (TError data) status h))"

section \<open>Status, numbers, parameters\<close>

definition statusClass :: "string \<Rightarrow> string" where
  "statusClass status =
     (let lower = to_lower status in
      if contains lower ''error'' then ''error''
      else if contains lower ''fail'' then ''error''
      else if contains lower ''pending'' then ''warn''
      else if contains lower ''stop'' then ''warn''
      else if contains lower ''queue'' then ''warn''
      else if contains lower ''running'' then ''success''
      else if contains lower ''finish'' then ''success''
      else if contains lower ''complete'' then ''success''
      else [])"

definition isTerminalScenarioStatus :: "string \<Rightarrow> bool" where
  "isTerminalScenarioStatus status \<longleftrightarrow>
     (let lower = to_lower status in contains lower ''complete'' \<or> contains lower ''fail'' \<or> contains lower ''stop'')"

definition parseInt :: "string \<Rightarrow> int" where
  "parseInt value = (case parse_int value of Inl err \<Rightarrow> 0 | Inr parsed \<Rightarrow> parsed)"

definition parseDurationSeconds :: "string \<Rightarrow> duration res" where
  "parseDurationSeconds value =
     (case atoi value of
        Inl err \<Rightarrow> Inl (ErrText ''duration must be integer seconds'')
      | Inr seconds \<Rightarrow>
          if seconds \<le> 0 then Inl (ErrText ''duration must be positive'') else Inr (wrap64 (seconds * second)))"

definition parseIntField :: "string \<Rightarrow> string \<Rightarrow> int res" where
  "parseIntField value field_name =
     (case atoi value of
        Inl err \<Rightarrow> Inl (ErrText (field_name @ '' must be integer''))
      | Inr parsed \<Rightarrow> Inr parsed)"

definition parseChaosParameters :: "string \<Rightarrow> (string \<times> string) list" where
  "parseChaosParameters value =
     fold (\<lambda>line params.
             let line = trim_space line in
             if line = [] then params
             else (case splitN2 (CHR ''='') line of
                     [k, v] \<Rightarrow> AList.update (trim_space k) (trim_space v) params
                   | _ \<Rightarrow> params))
       (split_on (CHR 0x0A) value) []"

definition buildScenarioView :: "ScenarioResponse \<Rightarrow> ScenarioView" where
  "buildScenarioView scenario =
     \<lparr>sv_Scenario = scenario, sv_StatusClass = statusClass (sc_Status scenario),
      sv_Terminal = isTerminalScenarioStatus (sc_Status scenario)\<rparr>"

definition buildExperimentView :: "ChaosExperimentResponse \<Rightarrow> ExperimentView" where
  "buildExperimentView x = \<lparr>ev_Experiment = x, ev_StatusClass = statusClass (ce_Status x)\<rparr>"

definition isNotFoundError :: "goerr option \<Rightarrow> bool" where
  "isNotFoundError r =
     (case r of
        None \<Rightarrow> False
      | Some err \<Rightarrow>
          let message = to_lower (error_string err)
          in contains message ''404'' \<or> contains message ''not found'')"

section \<open>The numbers of the dashboard\<close>

definition counter_value :: "('w, 'st) ui_server \<Rightarrow> string \<Rightarrow> 'w \<Rightarrow> int \<times> 'w" where
  "counter_value s key w =
     (case us_counter s key w of (r, w1) \<Rightarrow> (parseInt (case r of Inl err \<Rightarrow> [] | Inr v \<Rightarrow> v), w1))"

definition buildStats :: "('w, 'st) ui_server \<Rightarrow> int \<Rightarrow> time \<Rightarrow> 'w \<Rightarrow> (Stat list \<times> int \<times> time) \<times> 'w" where
  "buildStats s prevOps prevTime w =
     (case counter_value s ''cp:ops:total'' w of (opCount, w1) \<Rightarrow>
      case counter_value s ''cp:errors:total'' w1 of (errorCount, w2) \<Rightarrow>
      case counter_value s ''scenarios.running'' w2 of (activeScenarios, w3) \<Rightarrow>
      case counter_value s ''queue.depth'' w3 of (queueDepth, w4) \<Rightarrow>
      case us_now s w4 of (now, w5) \<Rightarrow>
      let delta = now - prevTime;
          opRate = (if delta > 0 \<and> prevTime > 0 then us_rate s (wrap64 (opCount - prevOps)) delta else 0);
          errorRate = (if opCount > 0 then us_percent s errorCount opCount else ''0%'')
      in (([\<lparr>sa_Label = ''Ops/sec'', sa_Value = itoa opRate, sa_Status = ''active'', sa_StatusClass = ''success''\<rparr>,
            \<lparr>sa_Label = ''Error Rate'', sa_Value = errorRate, sa_Status = ''monitor'', sa_StatusClass = ''warn''\<rparr>,
            \<lparr>sa_Label = ''Active Scenarios'', sa_Value = itoa activeScenarios, sa_Status = ''live'',
             sa_StatusClass = ''success''\<rparr>,
            \<lparr>sa_Label = ''Queue Depth'', sa_Value = itoa queueDepth, sa_Status = ''signal'', sa_StatusClass = []\<rparr>],
           opCount, now), w5))"

section \<open>Durations\<close>

lemma wrap64_exact: "wrap64 x = x \<longleftrightarrow> in_int64 x"
  by (metis wrap64_id wrap64_in_int64)

text \<open>
  C35. The duration field of the form: text that is not an integer and numbers below one are refused with
  their message; every other number of seconds is accepted, and the duration is that many seconds
  exactly up to 9223372036. Above, the product wraps around: 18446744074 seconds become 0.29 seconds.
\<close>

theorem parseDurationSeconds_exact:
  "(case atoi value of
      Inl e \<Rightarrow> parseDurationSeconds value = Inl (ErrText ''duration must be integer seconds'')
    | Inr n \<Rightarrow>
        if n \<le> 0 then parseDurationSeconds value = Inl (ErrText ''duration must be positive'')
        else \<exists>d. parseDurationSeconds value = Inr d \<and> (d = n * second \<longleftrightarrow> n \<le> 9223372036)) \<and>
   parseDurationSeconds ''18446744074'' = Inr 290448384"
proof
  have "wrap64 (n * second) = n * second \<longleftrightarrow> n \<le> 9223372036" if "0 < n" for n
    using that by (auto simp: wrap64_exact in_int64_def min_int64_def max_int64_def)
  then show "case atoi value of
      Inl e \<Rightarrow> parseDurationSeconds value = Inl (ErrText ''duration must be integer seconds'')
    | Inr n \<Rightarrow>
        if n \<le> 0 then parseDurationSeconds value = Inl (ErrText ''duration must be positive'')
        else \<exists>d. parseDurationSeconds value = Inr d \<and> (d = n * second \<longleftrightarrow> n \<le> 9223372036)"
    by (auto simp: parseDurationSeconds_def split: sum.splits)
  show "parseDurationSeconds ''18446744074'' = Inr 290448384"
    by code_simp
qed

end
