(* ===== verification/Ui_Pages.thy ===== *)
theory Ui_Pages
  imports Ui_Server
begin

text \<open>
  cmd/ui/handlers (scenarios.go, chaos.go, dashboard.go, logs.go): the handlers. A handler gets the
  request, the response so far and the state of the outside. The two streams end when the client goes
  away, so their loops are partial functions.
\<close>

record ui_request =
  ur_method :: string
  ur_id :: string
  ur_query :: "string \<Rightarrow> string"
  ur_form :: "(string \<Rightarrow> string) res"

type_synonym ('w, 'st) page = "('w, 'st) ui_server \<Rightarrow> ui_request \<Rightarrow> http_response \<Rightarrow> 'w \<Rightarrow> http_response \<times> 'w"

definition StatusFound :: int where "StatusFound = 302"

text \<open>
  \<open>http.Redirect\<close> to an absolute path without characters that HTML escapes; only a GET has a body, and
  only a response whose type was not set yet.
\<close>

definition http_Redirect :: "ui_request \<Rightarrow> string \<Rightarrow> int \<Rightarrow> http_response \<Rightarrow> http_response" where
  "http_Redirect r url code h =
     (let hadCT = (map_of (hr_header h) ''Content-Type'' \<noteq> None);
          h1 = set_header ''Location'' url h;
          h2 = (if \<not> hadCT \<and> ur_method r \<in> {''GET'', ''HEAD''}
                then set_header ''Content-Type'' ''text/html; charset=utf-8'' h1 else h1);
          h3 = WriteHeader code h2
      in if \<not> hadCT \<and> ur_method r = ''GET''
         then write_chunk (CText (''<a href='' @ quoted url @ ''>'' @ http_StatusText code @ ''</a>.'' @
                [CHR 0x0A, CHR 0x0A])) h3
         else h3)"

section \<open>Scenarios\<close>

definition Ui_Root :: "('w, 'st) page" where
  "Ui_Root s r h w = (http_Redirect r ''/scenarios'' StatusFound h, w)"

definition buildScenarioViews :: "ScenarioResponse list \<Rightarrow> ScenarioView list" where
  "buildScenarioViews scenarios = map buildScenarioView scenarios"

definition scenarios_unavailable :: ErrorData where
  "scenarios_unavailable =
     \<lparr>er_Active = ''scenarios'', er_Title = ''Scenarios Unavailable | ClusterProbe'',
      er_Heading = ''Scenarios unavailable'',
      er_Message = ''ClusterProbe could not load scenarios from the API. Check API health and try again.'',
      er_Status = ''API unavailable'', er_StatusClass = [], er_BackHref = ''/dashboard'',
      er_BackLabel = ''Back to Dashboard''\<rparr>"

definition Ui_ListScenarios :: "('w, 'st) page" where
  "Ui_ListScenarios s r h w =
     (case ac_ListScenarios (us_api s) w of
        (Inl err, w1) \<Rightarrow> (renderError s StatusBadGateway scenarios_unavailable h, w1)
      | (Inr scenarios, w1) \<Rightarrow>
          let views = map buildScenarioView scenarios;
              banner = (if ur_query r ''success'' \<noteq> []
                        then Some \<lparr>bn_Status = ''success'', bn_StatusClass = ''success'',
                                   bn_Message = ''Scenario queued''\<rparr> else None);
              data = \<lparr>sl_Active = ''scenarios'', sl_Title = ''Scenarios | ClusterProbe'', sl_Scenarios = views,
                      sl_Banner = banner\<rparr>
          in (or_template_error (RenderTemplate s ''scenarios'' (TScenarioList data) h), w1))"

definition form_data :: "string \<Rightarrow> string \<Rightarrow> time \<Rightarrow> FormData" where
  "form_data active title now =
     \<lparr>fd_Active = active, fd_Title = title, fd_Now = now, fd_ID = [], fd_ExperimentID = [], fd_Status = [],
      fd_StatusClass = []\<rparr>"

definition Ui_NewScenario :: "('w, 'st) page" where
  "Ui_NewScenario s r h w =
     (case us_now s w of (now, w1) \<Rightarrow>
        (or_template_error (RenderTemplate s ''scenario-new''
           (TForm (form_data ''scenarios'' ''New Scenario | ClusterProbe'' now)) h), w1))"

definition scenario_not_found :: NotFoundData where
  "scenario_not_found =
     \<lparr>nf_Active = ''scenarios'', nf_Title = ''Scenario Not Found | ClusterProbe'', nf_Heading = ''Scenario not found'',
      nf_Message = ''The scenario may have been deleted or the ID is no longer available.'',
      nf_BackHref = ''/scenarios'', nf_BackLabel = ''Back to Scenarios''\<rparr>"

definition Ui_ScenarioDetail :: "('w, 'st) page" where
  "Ui_ScenarioDetail s r h w =
     (if ur_id r = [] then (http_Error ''missing id'' StatusBadRequest h, w)
      else
     (case ac_GetScenario (us_api s) (ur_id r) w of
        (Inl err, w1) \<Rightarrow>
          (if isNotFoundError (Some err) then renderNotFound s scenario_not_found h
           else http_Error ''failed to load scenario'' StatusBadGateway h, w1)
      | (Inr scenario, w1) \<Rightarrow>
     (case ac_ListScenarioEvents (us_api s) (ur_id r) w1 of
        (Inl err, w2) \<Rightarrow> (http_Error ''failed to load scenario events'' StatusBadGateway h, w2)
      | (Inr events, w2) \<Rightarrow>
          let data = \<lparr>sd_Active = ''scenarios'', sd_Title = ''Scenario | ClusterProbe'',
                      sd_Scenario = buildScenarioView scenario, sd_Events = buildScenarioViews events\<rparr>
          in (or_template_error (RenderTemplate s ''scenario-detail'' (TScenarioDetail data) h), w2))))"

text \<open>
  The two partials are executed straight into the response: what a failing template wrote stays, and
  the error page follows it under the status 200 that went out first.
\<close>

definition write_text :: "string \<Rightarrow> http_response \<Rightarrow> http_response" where
  "write_text t h = (if t = [] then h else write_chunk (CText t) h)"

definition render_partial ::
    "('w, 'st) ui_server \<Rightarrow> string \<Rightarrow> string \<Rightarrow> string \<Rightarrow> template_data \<Rightarrow> http_response \<Rightarrow> goerr option \<times> http_response" where
  "render_partial s page block failed data h =
     (case us_templates s page of
        None \<Rightarrow> (Some (ErrText (''template not found: '' @ page)), h)
      | Some tmpl \<Rightarrow>
          (case tmpl block data of
             (out, Some err) \<Rightarrow> (Some (Wrapf failed err), write_text out h)
           | (out, None) \<Rightarrow> (None, write_text out h)))"

definition renderScenarioRow :: "('w, 'st) ui_server \<Rightarrow> ScenarioView \<Rightarrow> http_response \<Rightarrow> goerr option \<times> http_response" where
  "renderScenarioRow s view h =
     render_partial s ''scenarios'' ''scenario-row'' ''execute scenario row template'' (TScenario view) h"

definition renderScenarioEvents ::
    "('w, 'st) ui_server \<Rightarrow> ScenarioEventsData \<Rightarrow> http_response \<Rightarrow> goerr option \<times> http_response" where
  "renderScenarioEvents s data h =
     render_partial s ''scenario-detail'' ''scenario-events'' ''execute scenario events template'' (TScenarioEvents data) h"

definition Ui_ScenarioEvents :: "('w, 'st) page" where
  "Ui_ScenarioEvents s r h w =
     (if ur_id r = [] then (http_Error ''missing id'' StatusBadRequest h, w)
      else
     (case ac_GetScenario (us_api s) (ur_id r) w of
        (Inl err, w1) \<Rightarrow> (http_Error ''failed to load scenario'' StatusBadGateway h, w1)
      | (Inr scenario, w1) \<Rightarrow>
     (case ac_ListScenarioEvents (us_api s) (ur_id r) w1 of
        (Inl err, w2) \<Rightarrow> (http_Error ''failed to load scenario events'' StatusBadGateway h, w2)
      | (Inr events, w2) \<Rightarrow>
          let data = \<lparr>se_Scenario = buildScenarioView scenario, se_Events = buildScenarioViews events\<rparr>
          in (or_template_error (renderScenarioEvents s data h), w2))))"

definition Ui_CreateScenario :: "('w, 'st) page" where
  "Ui_CreateScenario s r h w =
     (case ur_form r of
        Inl err \<Rightarrow> (http_Error ''invalid form'' StatusBadRequest h, w)
      | Inr form \<Rightarrow>
     (case parseIntField (form ''rps'') ''rps'' of
        Inl err \<Rightarrow> (http_Error (error_string err) StatusBadRequest h, w)
      | Inr rps \<Rightarrow>
     (case parseIntField (form ''payload_size'') ''payload_size'' of
        Inl err \<Rightarrow> (http_Error (error_string err) StatusBadRequest h, w)
      | Inr payloadSize \<Rightarrow>
     (case parseIntField (form ''concurrency'') ''concurrency'' of
        Inl err \<Rightarrow> (http_Error (error_string err) StatusBadRequest h, w)
      | Inr concurrency \<Rightarrow>
     (case parseDurationSeconds (form ''duration'') of
        Inl err \<Rightarrow> (http_Error (error_string err) StatusBadRequest h, w)
      | Inr duration \<Rightarrow>
          let req = \<lparr>sr_Name = form ''name'',
                     sr_Profile = \<lparr>lp_RPS = rps, lp_Duration = duration, lp_PayloadSizeBytes = payloadSize,
                                   lp_Concurrency = concurrency, lp_TargetQueue = form ''target_queue'',
                                   lp_WorkloadType = form ''workload_type''\<rparr>,
                     sr_StopOnError = False\<rparr>
          in (case ac_CreateScenario (us_api s) req w of
                (Inl err, w1) \<Rightarrow> (http_Error ''failed to create scenario'' StatusBadGateway h, w1)
              | (Inr scenario, w1) \<Rightarrow> (http_Redirect r ''/scenarios?success=1'' StatusSeeOther h, w1)))))))"

definition Ui_ScenarioRow :: "('w, 'st) page" where
  "Ui_ScenarioRow s r h w =
     (if ur_id r = [] then (http_Error ''missing id'' StatusBadRequest h, w)
      else
     (case ac_GetScenario (us_api s) (ur_id r) w of
        (Inl err, w1) \<Rightarrow> (http_Error ''failed to load scenario'' StatusBadGateway h, w1)
      | (Inr scenario, w1) \<Rightarrow> (or_template_error (renderScenarioRow s (buildScenarioView scenario) h), w1)))"

definition Ui_StopScenario :: "('w, 'st) page" where
  "Ui_StopScenario s r h w =
     (if ur_id r = [] then (http_Error ''missing id'' StatusBadRequest h, w)
      else
     (case ac_StopScenario (us_api s) (ur_id r) w of
        (Inl err, w1) \<Rightarrow> (http_Error ''failed to stop scenario'' StatusBadGateway h, w1)
      | (Inr scenario, w1) \<Rightarrow> (or_template_error (renderScenarioRow s (buildScenarioView scenario) h), w1)))"

section \<open>Chaos experiments\<close>

definition chaos_unavailable :: ErrorData where
  "chaos_unavailable =
     \<lparr>er_Active = ''chaos'', er_Title = ''Chaos Experiments Unavailable | ClusterProbe'',
      er_Heading = ''Chaos experiments unavailable'',
      er_Message = ''ClusterProbe could not load chaos experiments from the API. Check API health and try again.'',
      er_Status = ''API unavailable'', er_StatusClass = [], er_BackHref = ''/dashboard'',
      er_BackLabel = ''Back to Dashboard''\<rparr>"

definition Ui_ListChaos :: "('w, 'st) page" where
  "Ui_ListChaos s r h w =
     (case ac_ListExperiments (us_api s) w of
        (Inl err, w1) \<Rightarrow> (renderError s StatusBadGateway chaos_unavailable h, w1)
      | (Inr experiments, w1) \<Rightarrow>
          let data = \<lparr>xl_Active = ''chaos'', xl_Title = ''Chaos Experiments | ClusterProbe'',
                      xl_Experiments = map buildExperimentView experiments\<rparr>
          in (or_template_error (RenderTemplate s ''chaos'' (TChaosList data) h), w1))"

definition Ui_NewChaos :: "('w, 'st) page" where
  "Ui_NewChaos s r h w =
     (case us_now s w of (now, w1) \<Rightarrow>
        (or_template_error (RenderTemplate s ''chaos-new''
           (TForm (form_data ''chaos'' ''New Chaos Experiment | ClusterProbe'' now)) h), w1))"

definition chaos_not_found :: NotFoundData where
  "chaos_not_found =
     \<lparr>nf_Active = ''chaos'', nf_Title = ''Chaos Experiment Not Found | ClusterProbe'',
      nf_Heading = ''Chaos experiment not found'',
      nf_Message = ''The experiment may have been deleted or the ID is no longer available.'',
      nf_BackHref = ''/chaos'', nf_BackLabel = ''Back to Chaos''\<rparr>"

definition Ui_ChaosDetail :: "('w, 'st) page" where
  "Ui_ChaosDetail s r h w =
     (if ur_id r = [] then (http_Error ''missing id'' StatusBadRequest h, w)
      else
     (case ac_GetExperiment (us_api s) (ur_id r) w of
        (Inl err, w1) \<Rightarrow>
          (if isNotFoundError (Some err) then renderNotFound s chaos_not_found h
           else http_Error ''failed to load experiment'' StatusBadGateway h, w1)
      | (Inr experiment, w1) \<Rightarrow>
          let data = \<lparr>xd_Active = ''chaos'', xd_Title = ''Chaos Experiment | ClusterProbe'',
                      xd_Experiment = buildExperimentView experiment, xd_Config = ce_Config experiment\<rparr>
          in (or_template_error (RenderTemplate s ''chaos-detail'' (TChaosDetail data) h), w1)))"

definition Ui_ChaosStatus :: "('w, 'st) page" where
  "Ui_ChaosStatus s r h w =
     (if ur_id r = [] then (http_Error ''missing id'' StatusBadRequest h, w)
      else
     (case ac_GetExperiment (us_api s) (ur_id r) w of
        (Inl err, w1) \<Rightarrow> (http_Error ''failed to load experiment'' StatusBadGateway h, w1)
      | (Inr experiment, w1) \<Rightarrow>
          let data = \<lparr>xt_ID = ce_ID experiment, xt_ExperimentID = ce_ID experiment, xt_Status = ce_Status experiment,
                      xt_StatusClass = statusClass (ce_Status experiment)\<rparr>
          in (or_template_error (render_partial s ''chaos'' ''experiment-status'' [] (TExperimentStatus data) h), w1)))"

definition Ui_DeleteChaos :: "('w, 'st) page" where
  "Ui_DeleteChaos s r h w =
     (if ur_id r = [] then (http_Error ''missing id'' StatusBadRequest h, w)
      else
     (case ac_DeleteExperiment (us_api s) (ur_id r) w of
        (Some err, w1) \<Rightarrow> (http_Error ''failed to delete experiment'' StatusBadGateway h, w1)
      | (None, w1) \<Rightarrow> (WriteHeader StatusOK h, w1)))"

definition chaos_config :: "(string \<Rightarrow> string) \<Rightarrow> (string \<times> string) list" where
  "chaos_config form =
     AList.update ''duration'' (form ''duration'') (AList.update ''target'' (form ''target'')
       (AList.update ''type'' (form ''type'') (parseChaosParameters (form ''parameters''))))"

definition Ui_CreateChaos :: "('w, 'st) page" where
  "Ui_CreateChaos s r h w =
     (case ur_form r of
        Inl err \<Rightarrow> (http_Error ''invalid form'' StatusBadRequest h, w)
      | Inr form \<Rightarrow>
          let req = \<lparr>cr_Name = form ''name'', cr_Scenario = form ''scenario'', cr_Config = Some (chaos_config form)\<rparr>
          in (case ac_CreateExperiment (us_api s) req w of
                (Inl err, w1) \<Rightarrow> (http_Error ''failed to create experiment'' StatusBadGateway h, w1)
              | (Inr resp, w1) \<Rightarrow>
                  (case us_now s w1 of (now, w2) \<Rightarrow>
                     let data = (form_data ''chaos'' ''New Chaos Experiment | ClusterProbe'' now)
                           \<lparr>fd_ID := ce_ID resp, fd_ExperimentID := ce_ID resp, fd_Status := ce_Status resp,
                            fd_StatusClass := statusClass (ce_Status resp)\<rparr>
                     in (or_template_error (RenderTemplate s ''chaos-new'' (TForm data) h), w2))))"

section \<open>Dashboard\<close>

definition Ui_Dashboard :: "('w, 'st) page" where
  "Ui_Dashboard s r h w =
     (case buildStats s 0 0 w of ((stats, ops, now), w1) \<Rightarrow>
        let data = \<lparr>dd_Active = ''dashboard'', dd_Title = ''Dashboard | ClusterProbe'', dd_Stats = stats\<rparr>
        in (or_template_error (RenderTemplate s ''dashboard'' (TDashboard data) h), w1))"

definition reportingBackoff :: duration where "reportingBackoff = 2 * second"

definition renderStats :: "('w, 'st) ui_server \<Rightarrow> Stat list \<Rightarrow> string res" where
  "renderStats s stats =
     (case us_templates s ''dashboard'' of
        None \<Rightarrow> Inl (ErrText ''template not found: dashboard'')
      | Some tmpl \<Rightarrow>
          (case tmpl ''stat-block'' (TStats stats) of
             (buf, Some err) \<Rightarrow> Inl (Wrapf ''render stats'' err)
           | (buf, None) \<Rightarrow> Inr buf))"

definition nl :: string where "nl = [CHR 0x0A]"

definition sse_text :: "string \<Rightarrow> string \<Rightarrow> string" where
  "sse_text event data =
     (let safe = replace_all data (CHR 0x0A) (nl @ ''data: '')
      in ''event: '' @ event @ nl @ ''data: '' @ safe @ nl @ nl)"

definition writeSSE ::
    "('w, 'st) ui_server \<Rightarrow> string \<Rightarrow> string \<Rightarrow> http_response \<Rightarrow> 'w \<Rightarrow> goerr option \<times> http_response \<times> 'w" where
  "writeSSE s event data h w =
     (case us_write s w of
        (Some err, w1) \<Rightarrow> (Some (Wrapf ''write sse'' err), h, w1)
      | (None, w1) \<Rightarrow> (None, write_chunk (CText (sse_text event data)) h, w1))"

definition event_stream :: "http_response \<Rightarrow> http_response" where
  "event_stream h =
     set_header ''Connection'' ''keep-alive'' (set_header ''Cache-Control'' ''no-cache''
       (set_header ''Content-Type'' ''text/event-stream'' h))"

text \<open>One round of the stream: \<open>Inl\<close> when it returned.\<close>

definition stats_step ::
    "('w, 'st) ui_server \<Rightarrow> int \<times> time \<times> http_response \<times> 'w \<Rightarrow>
     http_response \<times> 'w + int \<times> time \<times> http_response \<times> 'w" where
  "stats_step s x =
     (case x of (prevOps, prevTime, h, w) \<Rightarrow>
        (case us_select s reportingBackoff w of
           (True, w1) \<Rightarrow> Inl (h, w1)
         | (False, w1) \<Rightarrow>
             (case buildStats s prevOps prevTime w1 of
                ((stats, ops, now), w2) \<Rightarrow>
                  (case renderStats s stats of
                     Inl err \<Rightarrow> Inr (ops, now, h, w2)
                   | Inr payload \<Rightarrow>
                       (case writeSSE s ''stats'' payload h w2 of
                          (Some err, h3, w3) \<Rightarrow> Inl (h3, w3)
                        | (None, h3, w3) \<Rightarrow> Inr (ops, now, h3, w3))))))"

partial_function (option) stats_loop ::
    "('w, 'st) ui_server \<Rightarrow> int \<times> time \<times> http_response \<times> 'w \<Rightarrow> (http_response \<times> 'w) option" where
  "stats_loop s x = (case stats_step s x of Inl r \<Rightarrow> Some r | Inr y \<Rightarrow> stats_loop s y)"

text \<open>\<open>flusher\<close> says whether the response can be flushed.\<close>

definition Ui_DashboardStream ::
    "('w, 'st) ui_server \<Rightarrow> bool \<Rightarrow> http_response \<Rightarrow> 'w \<Rightarrow> (http_response \<times> 'w) option" where
  "Ui_DashboardStream s flusher h w =
     (let h1 = event_stream h in
      if \<not> flusher then Some (http_Error ''streaming unsupported'' StatusInternalServerError h1, w)
      else stats_loop s (0, 0, h1, w))"

section \<open>Logs\<close>

definition Ui_Logs :: "('w, 'st) page" where
  "Ui_Logs s r h w =
     (or_template_error (RenderTemplate s ''logs'' (TLogs \<lparr>ld_Active = ''logs'', ld_Title = ''Logs | ClusterProbe''\<rparr>) h), w)"

definition writeLogStreamError :: "string \<Rightarrow> http_response \<Rightarrow> http_response" where
  "writeLogStreamError message h =
     write_chunk (CText (''event: logs'' @ nl @ ''data: '' @ message @ nl @ nl)) (event_stream h)"

definition copy_step ::
    "('w, 'st) ui_server \<Rightarrow> 'st \<Rightarrow> http_response \<times> 'w \<Rightarrow> http_response \<times> 'w + http_response \<times> 'w" where
  "copy_step s stream x =
     (case us_read s stream (snd x) of
        ((buf, readErr), w1) \<Rightarrow>
          (case (if buf = [] then (None, w1) else us_write s w1) of
             (Some err, w2) \<Rightarrow> Inl (fst x, w2)
           | (None, w2) \<Rightarrow>
               (let h2 = write_text buf (fst x)
                in if readErr \<noteq> None then Inl (h2, w2) else Inr (h2, w2))))"

partial_function (option) copy_loop ::
    "('w, 'st) ui_server \<Rightarrow> 'st \<Rightarrow> http_response \<times> 'w \<Rightarrow> (http_response \<times> 'w) option" where
  "copy_loop s stream x = (case copy_step s stream x of Inl r \<Rightarrow> Some r | Inr y \<Rightarrow> copy_loop s stream y)"

definition Ui_LogsStream ::
    "('w, 'st) ui_server \<Rightarrow> bool \<Rightarrow> http_response \<Rightarrow> 'w \<Rightarrow> (http_response \<times> 'w) option" where
  "Ui_LogsStream s flusher h w =
     (case ac_LogsStream (us_api s) w of
        (Inl err, w1) \<Rightarrow>
          Some (writeLogStreamError ''Log stream unavailable. Check API log stream connectivity.'' h, w1)
      | (Inr stream, w1) \<Rightarrow>
          if \<not> flusher then Some (http_Error ''streaming unsupported'' StatusInternalServerError h, w1)
          else copy_loop s stream (event_stream h, w1))"

section \<open>What the browser receives\<close>

text \<open>
  A reader of an event stream, as the HTML standard has it: lines end at LF, CR or CR LF; an empty line
  ends an event; the data lines of an event are joined with LF. Fields it does not know are skipped.
\<close>

fun sse_lines :: "string \<Rightarrow> string list" where
  "sse_lines [] = [[]]"
| "sse_lines (c # s) =
     (if c = CHR 0x0A then [] # sse_lines s
      else if c = CHR 0x0D then [] # sse_lines (if s \<noteq> [] \<and> hd s = CHR 0x0A then tl s else s)
      else (case sse_lines s of [] \<Rightarrow> [[c]] | l # ls \<Rightarrow> (c # l) # ls))"

definition sse_field :: "string \<Rightarrow> string list \<Rightarrow> string list" where
  "sse_field name ls = map (drop (length name)) (filter (\<lambda>l. has_prefix l name) ls)"

definition sse_receive :: "string \<Rightarrow> string list \<times> string" where
  "sse_receive s =
     (let ls = takeWhile (\<lambda>l. l \<noteq> []) (sse_lines s)
      in (sse_field ''event: '' ls, join nl (sse_field ''data: '' ls)))"

lemma sse_lines_split: "CHR 0x0D \<notin> set s \<Longrightarrow> sse_lines s = split_on (CHR 0x0A) s"
  by (induction s) auto

lemma split_replace:
  "CHR 0x0A \<notin> set r \<Longrightarrow>
   split_on (CHR 0x0A) (r @ replace_all s (CHR 0x0A) (CHR 0x0A # r)) = map ((@) r) (split_on (CHR 0x0A) s)"
proof (induction s)
  case Nil
  then show ?case
    by (induction r) (auto simp: replace_all_def)
next
  case (Cons c s)
  have pre: "split_on (CHR 0x0A) (r @ t) = (r @ hd (split_on (CHR 0x0A) t)) # tl (split_on (CHR 0x0A) t)" for t
    using Cons.prems by (induction r) (auto split: list.splits)
  obtain l ls where l: "split_on (CHR 0x0A) s = l # ls"
    by (cases "split_on (CHR 0x0A) s") auto
  show ?case
  proof (cases "c = CHR 0x0A")
    case True
    then show ?thesis
      using Cons.IH [OF Cons.prems] by (simp add: pre [of "_ # _"] replace_all_def)
  next
    case False
    have "replace_all (c # s) (CHR 0x0A) (CHR 0x0A # r) = c # replace_all s (CHR 0x0A) (CHR 0x0A # r)"
      using False by (simp add: replace_all_def)
    moreover have "split_on (CHR 0x0A) (replace_all s (CHR 0x0A) (CHR 0x0A # r)) = l # map ((@) r) ls"
      using Cons.IH [OF Cons.prems] l
      by (cases "split_on (CHR 0x0A) (replace_all s (CHR 0x0A) (CHR 0x0A # r))")
         (simp_all add: pre)
    ultimately show ?thesis
      using False l by (simp add: pre)
  qed
qed

lemma sse_text_lines:
  assumes "CHR 0x0A \<notin> set event"
  shows "split_on (CHR 0x0A) (sse_text event data) =
    (''event: '' @ event) # map ((@) ''data: '') (split_on (CHR 0x0A) data) @ [[], []]"
proof -
  have "sse_text event data = (''event: '' @ event) @ CHR 0x0A #
      (''data: '' @ replace_all data (CHR 0x0A) (CHR 0x0A # ''data: '')) @ CHR 0x0A # CHR 0x0A # []"
    by (simp add: sse_text_def nl_def Let_def)
  moreover have "split_on (CHR 0x0A) (''event: '' @ event) = [''event: '' @ event]"
    using assms by (intro split_on_single) auto
  ultimately show ?thesis
    using split_replace [of "''data: ''" data] by (simp only: split_on_append) simp
qed

text \<open>
  C34. The dashboard stream: what \<open>writeSSE\<close> writes for an event is read back by the browser as that
  event with that data, however many lines the data has, if it has no carriage return. With one, the rest
  of the line is lost.
\<close>

theorem writeSSE_round_trip:
  assumes "CHR 0x0A \<notin> set event" and "CHR 0x0D \<notin> set event" and "CHR 0x0D \<notin> set data"
    and "us_write s w = (None, w')"
  shows "(\<exists>t. writeSSE s event data h w = (None, write_chunk (CText t) h, w') \<and> sse_receive t = ([event], data)) \<and>
    sse_receive (sse_text ''stats'' (''a'' @ [CHR 0x0D] @ ''b'')) = ([''stats''], ''a'')"
proof
  let ?t = "sse_text event data"
  have "CHR 0x0D \<notin> set ?t"
    using assms(2,3) by (auto simp: sse_text_def nl_def Let_def replace_all_def)
  then have lines: "sse_lines ?t = (''event: '' @ event) # map ((@) ''data: '') (split_on (CHR 0x0A) data) @ [[], []]"
    by (rule trans [OF sse_lines_split sse_text_lines [OF assms(1)]])
  have "takeWhile (\<lambda>l. l \<noteq> []) (sse_lines ?t) = (''event: '' @ event) # map ((@) ''data: '') (split_on (CHR 0x0A) data)"
    unfolding lines by (simp, subst takeWhile_append2) auto
  moreover have "sse_field ''event: '' (map ((@) ''data: '') xs) = []" "sse_field ''data: '' (map ((@) ''data: '') xs) = xs" for xs
    by (induction xs) (simp_all add: sse_field_def has_prefix_def)
  then have "sse_field ''event: '' ((''event: '' @ event) # map ((@) ''data: '') xs) = [event]"
      "sse_field ''data: '' ((''event: '' @ event) # map ((@) ''data: '') xs) = xs" for xs
    by (simp_all add: sse_field_def has_prefix_def)
  ultimately have "sse_receive ?t = ([event], data)"
    unfolding sse_receive_def Let_def nl_def by (simp only: join_split_on)
  with assms(4) show "\<exists>t. writeSSE s event data h w = (None, write_chunk (CText t) h, w') \<and>
      sse_receive t = ([event], data)"
    by (intro exI [of _ ?t]) (simp add: writeSSE_def)
  show "sse_receive (sse_text ''stats'' (''a'' @ [CHR 0x0D] @ ''b'')) = ([''stats''], ''a'')"
    by code_simp
qed

text \<open>A server whose client is reachable, for examples.\<close>

definition demo_ui :: "(string \<Rightarrow> (string \<Rightarrow> template_data \<Rightarrow> string \<times> goerr option) option) \<Rightarrow> ('w, 'st) APIClient \<Rightarrow> ('w, 'st) ui_server" where
  "demo_ui tmpls api =
     \<lparr>us_templates = tmpls, us_api = api, us_counter = (\<lambda>k w. (Inr ''7'', w)), us_now = (\<lambda>w. (second, w)),
      us_rate = (\<lambda>n d. n), us_percent = (\<lambda>a b. ''100.00%''), us_select = (\<lambda>d w. (True, w)),
      us_write = (\<lambda>w. (None, w)), us_read = (\<lambda>st w. (([], None), w))\<rparr>"

theorem writeSSE_round_trip_witness:
  "\<exists>t. writeSSE (demo_ui (\<lambda>p. None) (undefined :: (unit, unit) APIClient)) ''stats'' (''one'' @ nl @ ''two'') new_response () =
     (None, write_chunk (CText t) new_response, ()) \<and> sse_receive t = ([''stats''], ''one'' @ nl @ ''two'')"
  using writeSSE_round_trip [of "''stats''" "''one'' @ nl @ ''two''"
      "demo_ui (\<lambda>p. None) (undefined :: (unit, unit) APIClient)" "()" "()" new_response]
  by (simp add: demo_ui_def nl_def)

end
