(* ===== verification/Api_Router.thy ===== *)
theory Api_Router
  imports Ui_Pages
begin

text \<open>
  The way from a request to a handler: the routes of cmd/api (handlers/router.go, handlers/logs.go) and
  cmd/ui (main.go), and the middleware both have. The router of go-chi is the parameter \<open>chi\<close>: what a
  pattern makes of a path, \<open>None\<close> when it does not match and otherwise the value of \<open>{id}\<close>. What it
  promises is the locale \<open>chi_router\<close>. At the end the client of the UI is put against the routes of the
  API.
\<close>

section \<open>Middleware\<close>

record responseWriter =
  rw_ResponseWriter :: http_response
  rw_status :: int

definition rw_WriteHeader :: "int \<Rightarrow> responseWriter \<Rightarrow> responseWriter" where
  "rw_WriteHeader code w = w\<lparr>rw_status := code, rw_ResponseWriter := WriteHeader code (rw_ResponseWriter w)\<rparr>"

definition sanitizeLogValue :: "string \<Rightarrow> string" where
  "sanitizeLogValue value = map (\<lambda>c. if c = CHR 0x0A \<or> c = CHR 0x0D then CHR '' '' else c) value"

record http_log =
  hl_method :: string
  hl_path :: string
  hl_status :: int
  hl_latency_ms :: int
  hl_trace_id :: string

definition Logging ::
    "('w \<Rightarrow> time \<times> 'w) \<Rightarrow> (responseWriter \<Rightarrow> 'w \<Rightarrow> responseWriter \<times> 'w) \<Rightarrow> string \<Rightarrow> string \<Rightarrow> string \<Rightarrow>
     http_response \<Rightarrow> 'w \<Rightarrow> http_log \<times> http_response \<times> 'w" where
  "Logging now next traceID meth path h w =
     (case now w of (start, w1) \<Rightarrow>
      case next \<lparr>rw_ResponseWriter = h, rw_status = StatusOK\<rparr> w1 of (wrapped, w2) \<Rightarrow>
      case now w2 of (end, w3) \<Rightarrow>
        (\<lparr>hl_method = sanitizeLogValue meth, hl_path = sanitizeLogValue path, hl_status = rw_status wrapped,
          hl_latency_ms = milliseconds (end - start), hl_trace_id = traceID\<rparr>,
         rw_ResponseWriter wrapped, w3))"

section \<open>The log stream of the API\<close>

definition html_escape_char :: "char \<Rightarrow> string" where
  "html_escape_char c =
     (if c = CHR ''&'' then ''&amp;'' else if c = CHR 0x27 then ''&#39;'' else if c = CHR ''<'' then ''&lt;''
      else if c = CHR ''>'' then ''&gt;'' else if c = CHR 0x22 then ''&#34;'' else [c])"

definition html_escape :: "string \<Rightarrow> string" where
  "html_escape s = concat (map html_escape_char s)"

text \<open>The layout \<open>RFC3339\<close> in UTC, which has no fraction.\<close>

definition format_rfc3339 :: "time \<Rightarrow> string" where
  "format_rfc3339 t = format_civil ((civil_of t)\<lparr>c_nsec := 0\<rparr>)"

definition log_event :: "time \<Rightarrow> string \<Rightarrow> string" where
  "log_event ts message =
     (let line = ''<div class='' @ quoted ''log-line'' @ ''><span>'' @ html_escape (format_rfc3339 ts) @ ''</span> '' @
                 html_escape message @ ''</div>''
      in ''event: logs'' @ nl @ ''data: '' @ line @ nl @ nl)"

definition writeLogEvent :: "time \<Rightarrow> string \<Rightarrow> http_response \<Rightarrow> http_response" where
  "writeLogEvent ts message h = write_chunk (CText (log_event ts message)) h"

text \<open>\<open>tick\<close> is the \<open>select\<close>: the time of the ticker, or \<open>None\<close> when the client went away.\<close>

partial_function (option) heartbeats ::
    "(duration \<Rightarrow> 'w \<Rightarrow> time option \<times> 'w) \<Rightarrow> http_response \<times> 'w \<Rightarrow> (http_response \<times> 'w) option" where
  "heartbeats tick x =
     (case tick (5 * second) (snd x) of
        (None, w1) \<Rightarrow> Some (fst x, w1)
      | (Some ts, w1) \<Rightarrow>
          heartbeats tick (writeLogEvent ts ''clusterprobe-api log stream heartbeat'' (fst x), w1))"

definition LogsHandler_Stream ::
    "('w \<Rightarrow> time \<times> 'w) \<Rightarrow> (duration \<Rightarrow> 'w \<Rightarrow> time option \<times> 'w) \<Rightarrow> bool \<Rightarrow> http_response \<Rightarrow> 'w \<Rightarrow>
     (http_response \<times> 'w) option" where
  "LogsHandler_Stream now tick flusher h w =
     (if \<not> flusher then Some (errorResponse StatusInternalServerError ''streaming unsupported'' h, w)
      else (case now w of (ts, w1) \<Rightarrow>
              heartbeats tick (writeLogEvent ts ''clusterprobe-api log stream connected'' (event_stream h), w1)))"

section \<open>Routes\<close>

type_synonym chi = "string \<Rightarrow> string \<Rightarrow> string option"

type_synonym 'e routes = "(string \<times> string \<times> 'e) list"

fun find_route :: "chi \<Rightarrow> 'e routes \<Rightarrow> string \<Rightarrow> string \<Rightarrow> ('e \<times> string) option" where
  "find_route chi [] meth path = None"
| "find_route chi ((m, pat, e) # rs) meth path =
     (case (if m = meth then chi pat path else None) of
        Some v \<Rightarrow> Some (e, v)
      | None \<Rightarrow> find_route chi rs meth path)"

definition no_route :: "chi \<Rightarrow> 'e routes \<Rightarrow> string \<Rightarrow> http_response \<Rightarrow> http_response" where
  "no_route chi rs path h =
     (if list_ex (\<lambda>(m, pat, e). chi pat path \<noteq> None) rs then WriteHeader 405 h
      else http_Error ''404 page not found'' StatusNotFound h)"

datatype api_endpoint =
    EHealthz | EStatus | EMetricsSnapshot | ELogsStream
  | ECreateScenario | EListScenarios | EListScenarioEvents | EGetScenario | EStopScenario
  | ECreateExperiment | EListExperiments | EGetExperiment | EDeleteExperiment

definition api_routes :: "api_endpoint routes" where
  "api_routes =
     [(''GET'', ''/healthz'', EHealthz),
      (''GET'', ''/api/v1/status'', EStatus),
      (''GET'', ''/api/v1/metrics/snapshot'', EMetricsSnapshot),
      (''GET'', ''/api/v1/logs/stream'', ELogsStream),
      (''POST'', ''/api/v1/scenarios'', ECreateScenario),
      (''GET'', ''/api/v1/scenarios'', EListScenarios),
      (''GET'', ''/api/v1/scenarios/{id}/events'', EListScenarioEvents),
      (''GET'', ''/api/v1/scenarios/{id}'', EGetScenario),
      (''PUT'', ''/api/v1/scenarios/{id}/stop'', EStopScenario),
      (''POST'', ''/api/v1/chaos/experiments'', ECreateExperiment),
      (''GET'', ''/api/v1/chaos/experiments'', EListExperiments),
      (''GET'', ''/api/v1/chaos/experiments/{id}'', EGetExperiment),
      (''DELETE'', ''/api/v1/chaos/experiments/{id}'', EDeleteExperiment)]"

record 'w api_app =
  aa_api :: "'w api_ports"
  aa_chaos :: "'w chaos_ports"
  aa_tick :: "duration \<Rightarrow> 'w \<Rightarrow> time option \<times> 'w"

record api_request =
  rq_method :: string
  rq_path :: string
  rq_body :: bytes
  rq_view :: string

definition api_handle ::
    "'w api_app \<Rightarrow> api_endpoint \<Rightarrow> string \<Rightarrow> api_request \<Rightarrow> http_response \<Rightarrow> 'w \<Rightarrow> (http_response \<times> 'w) option" where
  "api_handle a e v rq h w =
     (case e of
        EHealthz \<Rightarrow> Some (Healthz h, w)
      | EStatus \<Rightarrow> Some (Status (aa_api a) h w)
      | EMetricsSnapshot \<Rightarrow> Some (MetricsSnapshot (aa_api a) h w)
      | ELogsStream \<Rightarrow> LogsHandler_Stream (ap_now (aa_api a)) (aa_tick a) True h w
      | ECreateScenario \<Rightarrow> Some (CreateScenario (aa_api a) (rq_body rq) h w)
      | EListScenarios \<Rightarrow> Some (ListScenarios (aa_api a) h w)
      | EListScenarioEvents \<Rightarrow> Some (ListScenarioEvents (aa_api a) v h w)
      | EGetScenario \<Rightarrow> Some (GetScenario (aa_api a) v h w)
      | EStopScenario \<Rightarrow> Some (StopScenario (aa_api a) v h w)
      | ECreateExperiment \<Rightarrow> Some (CreateExperiment (aa_chaos a) (rq_body rq) h w)
      | EListExperiments \<Rightarrow> Some (ListExperiments (aa_chaos a) h w)
      | EGetExperiment \<Rightarrow> Some (GetExperiment (aa_chaos a) v (rq_view rq) h w)
      | EDeleteExperiment \<Rightarrow> Some (DeleteExperiment (aa_chaos a) v h w))"

definition api_serve :: "chi \<Rightarrow> 'w api_app \<Rightarrow> api_request \<Rightarrow> 'w \<Rightarrow> (http_response \<times> 'w) option" where
  "api_serve chi a rq w =
     (case find_route chi api_routes (rq_method rq) (rq_path rq) of
        None \<Rightarrow> Some (no_route chi api_routes (rq_path rq) new_response, w)
      | Some (e, v) \<Rightarrow> api_handle a e v rq new_response w)"

datatype ui_endpoint =
    UHealthz | URoot | UDashboard | UDashboardStream | UListScenarios | UNewScenario | UCreateScenario
  | UScenarioDetail | UScenarioEvents | UScenarioRow | UStopScenario | UListChaos | UNewChaos | UCreateChaos
  | UChaosDetail | UChaosStatus | UDeleteChaos | ULogs | ULogsStream

definition ui_routes :: "ui_endpoint routes" where
  "ui_routes =
     [(''GET'', ''/healthz'', UHealthz),
      (''GET'', ''/'', URoot),
      (''GET'', ''/dashboard'', UDashboard),
      (''GET'', ''/dashboard/stream'', UDashboardStream),
      (''GET'', ''/scenarios'', UListScenarios),
      (''GET'', ''/scenarios/new'', UNewScenario),
      (''POST'', ''/scenarios'', UCreateScenario),
      (''GET'', ''/scenarios/{id}'', UScenarioDetail),
      (''GET'', ''/scenarios/{id}/events'', UScenarioEvents),
      (''GET'', ''/scenarios/{id}/row'', UScenarioRow),
      (''POST'', ''/scenarios/{id}/stop'', UStopScenario),
      (''GET'', ''/chaos'', UListChaos),
      (''GET'', ''/chaos/new'', UNewChaos),
      (''POST'', ''/chaos'', UCreateChaos),
      (''GET'', ''/chaos/{id}'', UChaosDetail),
      (''GET'', ''/chaos/{id}/status'', UChaosStatus),
      (''DELETE'', ''/chaos/{id}'', UDeleteChaos),
      (''GET'', ''/logs'', ULogs),
      (''GET'', ''/logs/stream'', ULogsStream)]"

definition ui_handle ::
    "('w, 'st) ui_server \<Rightarrow> ui_endpoint \<Rightarrow> ui_request \<Rightarrow> http_response \<Rightarrow> 'w \<Rightarrow> (http_response \<times> 'w) option" where
  "ui_handle s e r h w =
     (case e of
        UHealthz \<Rightarrow> Some (write_chunk (CText ''ok'') (WriteHeader StatusOK h), w)
      | URoot \<Rightarrow> Some (Ui_Root s r h w)
      | UDashboard \<Rightarrow> Some (Ui_Dashboard s r h w)
      | UDashboardStream \<Rightarrow> Ui_DashboardStream s True h w
      | UListScenarios \<Rightarrow> Some (Ui_ListScenarios s r h w)
      | UNewScenario \<Rightarrow> Some (Ui_NewScenario s r h w)
      | UCreateScenario \<Rightarrow> Some (Ui_CreateScenario s r h w)
      | UScenarioDetail \<Rightarrow> Some (Ui_ScenarioDetail s r h w)
      | UScenarioEvents \<Rightarrow> Some (Ui_ScenarioEvents s r h w)
      | UScenarioRow \<Rightarrow> Some (Ui_ScenarioRow s r h w)
      | UStopScenario \<Rightarrow> Some (Ui_StopScenario s r h w)
      | UListChaos \<Rightarrow> Some (Ui_ListChaos s r h w)
      | UNewChaos \<Rightarrow> Some (Ui_NewChaos s r h w)
      | UCreateChaos \<Rightarrow> Some (Ui_CreateChaos s r h w)
      | UChaosDetail \<Rightarrow> Some (Ui_ChaosDetail s r h w)
      | UChaosStatus \<Rightarrow> Some (Ui_ChaosStatus s r h w)
      | UDeleteChaos \<Rightarrow> Some (Ui_DeleteChaos s r h w)
      | ULogs \<Rightarrow> Some (Ui_Logs s r h w)
      | ULogsStream \<Rightarrow> Ui_LogsStream s True h w)"

definition ui_serve :: "chi \<Rightarrow> ('w, 'st) ui_server \<Rightarrow> string \<Rightarrow> ui_request \<Rightarrow> 'w \<Rightarrow> (http_response \<times> 'w) option" where
  "ui_serve chi s path r w =
     (case find_route chi ui_routes (ur_method r) path of
        None \<Rightarrow> Some (no_route chi ui_routes path new_response, w)
      | Some (e, v) \<Rightarrow> ui_handle s e (r\<lparr>ur_id := v\<rparr>) new_response w)"

section \<open>What the router promises\<close>

text \<open>
  A pattern without a parameter matches its own text only; a pattern with \<open>{id}\<close> matches a path that
  has a non-empty segment there.
\<close>

definition segment :: "string \<Rightarrow> bool" where
  "segment v \<longleftrightarrow> v \<noteq> [] \<and> CHR ''/'' \<notin> set v"

locale chi_router =
  fixes chi :: chi
  assumes literal: "CHR ''{'' \<notin> set pat \<Longrightarrow> chi pat path = (if path = pat then Some [] else None)"
    and id_matches: "CHR ''{'' \<notin> set pre \<Longrightarrow> CHR ''{'' \<notin> set post \<Longrightarrow> segment v \<Longrightarrow>
      post = [] \<or> hd post = CHR ''/'' \<Longrightarrow> chi (pre @ ''/{id}'' @ post) (pre @ ''/'' @ v @ post) = Some v"
    and id_only: "CHR ''{'' \<notin> set pre \<Longrightarrow> CHR ''{'' \<notin> set post \<Longrightarrow>
      post = [] \<or> hd post = CHR ''/'' \<Longrightarrow> chi (pre @ ''/{id}'' @ post) path = Some v \<Longrightarrow>
      path = pre @ ''/'' @ v @ post \<and> segment v"

begin

lemma id_none:
  assumes "CHR ''{'' \<notin> set pre" and "CHR ''{'' \<notin> set post" and "post = [] \<or> hd post = CHR ''/''"
    and "\<And>v. segment v \<Longrightarrow> path \<noteq> pre @ ''/'' @ v @ post"
  shows "chi (pre @ ''/{id}'' @ post) path = None"
  using assms id_only [OF assms(1-3), of path] by (cases "chi (pre @ ''/{id}'' @ post) path") auto

lemma scenario_event_route:
  "segment v \<Longrightarrow> chi ''/api/v1/scenarios/{id}/events'' (''/api/v1/scenarios/'' @ v @ ''/events'') = Some v"
  using id_matches [of "''/api/v1/scenarios''" "''/events''" v] by simp

lemma scenario_route: "segment v \<Longrightarrow> chi ''/api/v1/scenarios/{id}'' (''/api/v1/scenarios/'' @ v) = Some v"
  using id_matches [of "''/api/v1/scenarios''" "[]" v] by simp

lemma scenario_stop_route:
  "segment v \<Longrightarrow> chi ''/api/v1/scenarios/{id}/stop'' (''/api/v1/scenarios/'' @ v @ ''/stop'') = Some v"
  using id_matches [of "''/api/v1/scenarios''" "''/stop''" v] by simp

lemma experiment_route:
  "segment v \<Longrightarrow> chi ''/api/v1/chaos/experiments/{id}'' (''/api/v1/chaos/experiments/'' @ v) = Some v"
  using id_matches [of "''/api/v1/chaos/experiments''" "[]" v] by simp

lemma scenario_not_events:
  assumes "segment v"
  shows "chi ''/api/v1/scenarios/{id}/events'' (''/api/v1/scenarios/'' @ v) = None"
proof -
  have "''/api/v1/scenarios/'' @ v \<noteq> ''/api/v1/scenarios'' @ ''/'' @ u @ ''/events''" for u
    using assms by (auto simp: segment_def)
  then show ?thesis
    using id_none [of "''/api/v1/scenarios''" "''/events''" "''/api/v1/scenarios/'' @ v"] by simp
qed

lemma ui_calls:
  assumes "segment v"
  shows "find_route chi api_routes ''GET'' ''/api/v1/scenarios'' = Some (EListScenarios, [])"
    and "find_route chi api_routes ''POST'' ''/api/v1/scenarios'' = Some (ECreateScenario, [])"
    and "find_route chi api_routes ''GET'' (''/api/v1/scenarios/'' @ v) = Some (EGetScenario, v)"
    and "find_route chi api_routes ''GET'' (''/api/v1/scenarios/'' @ v @ ''/events'') = Some (EListScenarioEvents, v)"
    and "find_route chi api_routes ''PUT'' (''/api/v1/scenarios/'' @ v @ ''/stop'') = Some (EStopScenario, v)"
    and "find_route chi api_routes ''GET'' ''/api/v1/chaos/experiments'' = Some (EListExperiments, [])"
    and "find_route chi api_routes ''POST'' ''/api/v1/chaos/experiments'' = Some (ECreateExperiment, [])"
    and "find_route chi api_routes ''GET'' (''/api/v1/chaos/experiments/'' @ v) = Some (EGetExperiment, v)"
    and "find_route chi api_routes ''DELETE'' (''/api/v1/chaos/experiments/'' @ v) = Some (EDeleteExperiment, v)"
    and "find_route chi api_routes ''GET'' ''/api/v1/logs/stream'' = Some (ELogsStream, [])"
proof -
  note routes = api_routes_def literal scenario_event_route [simplified] scenario_route [simplified]
    scenario_stop_route [simplified] experiment_route [simplified] scenario_not_events [simplified]
  have none: "chi ''/api/v1/scenarios/{id}/events'' ''/api/v1/chaos/experiments'' = None"
    "chi ''/api/v1/scenarios/{id}'' ''/api/v1/chaos/experiments'' = None"
    "chi ''/api/v1/scenarios/{id}/events'' (''/api/v1/chaos/experiments/'' @ v) = None"
    "chi ''/api/v1/scenarios/{id}'' (''/api/v1/chaos/experiments/'' @ v) = None"
    using id_none [of "''/api/v1/scenarios''" "''/events''" "''/api/v1/chaos/experiments''"]
      id_none [of "''/api/v1/scenarios''" "[]" "''/api/v1/chaos/experiments''"]
      id_none [of "''/api/v1/scenarios''" "''/events''" "''/api/v1/chaos/experiments/'' @ v"]
      id_none [of "''/api/v1/scenarios''" "[]" "''/api/v1/chaos/experiments/'' @ v"] by simp_all
  show "find_route chi api_routes ''GET'' ''/api/v1/scenarios'' = Some (EListScenarios, [])"
    "find_route chi api_routes ''POST'' ''/api/v1/scenarios'' = Some (ECreateScenario, [])"
    "find_route chi api_routes ''GET'' (''/api/v1/scenarios/'' @ v) = Some (EGetScenario, v)"
    "find_route chi api_routes ''GET'' (''/api/v1/scenarios/'' @ v @ ''/events'') = Some (EListScenarioEvents, v)"
    "find_route chi api_routes ''PUT'' (''/api/v1/scenarios/'' @ v @ ''/stop'') = Some (EStopScenario, v)"
    "find_route chi api_routes ''GET'' ''/api/v1/chaos/experiments'' = Some (EListExperiments, [])"
    "find_route chi api_routes ''POST'' ''/api/v1/chaos/experiments'' = Some (ECreateExperiment, [])"
    "find_route chi api_routes ''GET'' (''/api/v1/chaos/experiments/'' @ v) = Some (EGetExperiment, v)"
    "find_route chi api_routes ''DELETE'' (''/api/v1/chaos/experiments/'' @ v) = Some (EDeleteExperiment, v)"
    "find_route chi api_routes ''GET'' ''/api/v1/logs/stream'' = Some (ELogsStream, [])"
    using assms by (simp_all add: routes none [simplified])
qed

end

section \<open>A router\<close>

text \<open>A matcher that walks the segments of pattern and path.\<close>

fun match_segments :: "string list \<Rightarrow> string list \<Rightarrow> string option" where
  "match_segments [] [] = Some []"
| "match_segments (p # ps) (q # qs) =
     (if p = ''{id}'' then (if q = [] then None else map_option (\<lambda>_. q) (match_segments ps qs))
      else if p = q then match_segments ps qs else None)"
| "match_segments _ _ = None"

definition match_path :: chi where
  "match_path pat path = match_segments (split_on (CHR ''/'') pat) (split_on (CHR ''/'') path)"

lemma split_on_inject: "split_on c s = split_on c t \<longleftrightarrow> s = t"
  by (metis join_split_on)

lemma split_on_chars: "p \<in> set (split_on c s) \<Longrightarrow> set p \<subseteq> set s \<and> c \<notin> set p"
proof (induction s arbitrary: p)
  case (Cons x s)
  then show ?case
    by (cases "split_on c s") (auto split: if_splits, blast+)
qed simp

lemma match_literal:
  "''{id}'' \<notin> set ps \<Longrightarrow> match_segments ps qs = (if ps = qs then Some [] else None)"
  by (induction ps qs rule: match_segments.induct) auto

lemma match_id:
  "''{id}'' \<notin> set ps \<Longrightarrow> ''{id}'' \<notin> set rs \<Longrightarrow>
   match_segments (ps @ ''{id}'' # rs) qs = Some v \<longleftrightarrow> v \<noteq> [] \<and> qs = ps @ v # rs"
proof (induction ps arbitrary: qs)
  case Nil
  then show ?case
    by (cases qs) (auto simp: match_literal)
next
  case (Cons p ps)
  then show ?case
    by (cases qs) auto
qed

lemma no_id_segment: "CHR ''{'' \<notin> set s \<Longrightarrow> ''{id}'' \<notin> set (split_on (CHR ''/'') s)"
  using split_on_chars [of "''{id}''" "CHR ''/''" s] by auto

lemma split_id_path:
  assumes "post = [] \<or> hd post = CHR ''/''" and "CHR ''/'' \<notin> set u"
  shows "\<exists>rs. split_on (CHR ''/'') (pre @ ''/'' @ u @ post) = split_on (CHR ''/'') pre @ u # rs \<and>
    set rs \<subseteq> set (split_on (CHR ''/'') post) \<and>
    (\<forall>w. CHR ''/'' \<notin> set w \<longrightarrow> split_on (CHR ''/'') (pre @ ''/'' @ w @ post) = split_on (CHR ''/'') pre @ w # rs)"
proof (cases post)
  case Nil
  with assms show ?thesis
    by (simp add: split_on_append split_on_single)
next
  case (Cons c p)
  with assms have "c = CHR ''/''"
    by simp
  with Cons assms show ?thesis
    by (simp add: split_on_append split_on_single subset_insertI)
qed

interpretation router: chi_router match_path
proof
  fix pat path assume "CHR ''{'' \<notin> set pat"
  then show "match_path pat path = (if path = pat then Some [] else None)"
    by (auto simp: match_path_def match_literal no_id_segment split_on_inject)
next
  fix pre post v path
  assume pre: "CHR ''{'' \<notin> set pre" and post: "CHR ''{'' \<notin> set post" and sep: "post = [] \<or> hd post = CHR ''/''"
  obtain rs where rs: "set rs \<subseteq> set (split_on (CHR ''/'') post)"
      "\<And>w. CHR ''/'' \<notin> set w \<Longrightarrow> split_on (CHR ''/'') (pre @ ''/'' @ w @ post) = split_on (CHR ''/'') pre @ w # rs"
    using split_id_path [OF sep, of "[]" pre] by auto
  have pat: "split_on (CHR ''/'') (pre @ ''/{id}'' @ post) = split_on (CHR ''/'') pre @ ''{id}'' # rs"
    using rs(2) [of "''{id}''"] by simp
  have ids: "''{id}'' \<notin> set (split_on (CHR ''/'') pre)" "''{id}'' \<notin> set rs"
    using no_id_segment [OF pre] no_id_segment [OF post] rs(1) by auto
  show "match_path (pre @ ''/{id}'' @ post) (pre @ ''/'' @ v @ post) = Some v" if "segment v"
    using that unfolding match_path_def pat match_id [OF ids] segment_def by (simp add: rs(2) [simplified])
  assume "match_path (pre @ ''/{id}'' @ post) path = Some v"
  then have v: "v \<noteq> []" and path: "split_on (CHR ''/'') path = split_on (CHR ''/'') pre @ v # rs"
    unfolding match_path_def pat match_id [OF ids] by simp_all
  have "CHR ''/'' \<notin> set v"
    using split_on_chars [of v "CHR ''/''" path] path by simp
  with v path rs(2) show "path = pre @ ''/'' @ v @ post \<and> segment v"
    by (metis segment_def split_on_inject)
qed

end
