(* ===== verification/Ui_Api.thy ===== *)
theory Ui_Api
  imports Api_Router Cluster_Api
begin

text \<open>
  The UI against the API: the client of cmd/ui/client.go calls the routes and handlers of cmd/api. The
  network between them is \<open>loopback\<close>, which hands the request to the handler and the answer back.
\<close>

definition response_status :: "http_response \<Rightarrow> int" where
  "response_status h = (case response_code h of None \<Rightarrow> StatusOK | Some code \<Rightarrow> code)"

definition response_bytes :: "http_response \<Rightarrow> bytes" where
  "response_bytes h = (case hr_body h of CJson j # cs \<Rightarrow> Doc j | _ \<Rightarrow> NotJson)"

definition status_text :: "int \<Rightarrow> string" where
  "status_text code = itoa code @ '' '' @ http_StatusText code"

definition loopback :: "chi \<Rightarrow> 'w api_app \<Rightarrow> string \<Rightarrow> 'w http_client" where
  "loopback chi a base =
     \<lparr>hc_NewRequest = (\<lambda>meth url. None),
      hc_Do = (\<lambda>meth url body w.
        case api_serve chi a \<lparr>rq_method = meth, rq_path = trim_prefix url base,
               rq_body = (case body of None \<Rightarrow> NotJson | Some b \<Rightarrow> b), rq_view = []\<rparr> w of
          None \<Rightarrow> (Inl (ErrText ''no answer''), w)
        | Some (h, w1) \<Rightarrow> (Inr (response_status h, status_text (response_status h), response_bytes h), w1))\<rparr>"

text \<open>What the client makes of an answer.\<close>

definition understood :: "(json \<Rightarrow> 'd \<Rightarrow> 'd res) \<Rightarrow> 'd \<Rightarrow> http_response \<times> 'w \<Rightarrow> 'd res \<times> 'w" where
  "understood dec zero r =
     (case r of (h, w) \<Rightarrow>
        (if response_status h \<ge> StatusBadRequest then Inl (ErrText (''api error: '' @ status_text (response_status h)))
         else (case json_Unmarshal dec (response_bytes h) zero of
                 Inl err \<Rightarrow> Inl (Wrapf ''decode response'' err) | Inr x \<Rightarrow> Inr x), w))"

lemma trim_prefix_append [simp]: "trim_prefix (p @ s) p = s"
  by (simp add: trim_prefix_def has_prefix_def)

lemma doJSON_loopback:
  assumes "find_route chi api_routes meth path = Some (e, v)"
    and "api_handle a e v \<lparr>rq_method = meth, rq_path = path,
           rq_body = (case payload of Some j \<Rightarrow> Doc j | None \<Rightarrow> NotJson), rq_view = []\<rparr> new_response w = Some r"
  shows "doJSON_into (loopback chi a base) base meth path (map_option Inr payload) dec zero w = understood dec zero r"
  using assms
  by (cases payload; cases r)
     (auto simp: doJSON_into_def doJSON_def loopback_def api_serve_def understood_def Let_def split: sum.splits)

lemma api_CreateScenario_loopback:
  "api_CreateScenario (loopback match_path a base) base req w =
     understood dec_ScenarioResponse zero_scenario (CreateScenario (aa_api a) (Doc (enc_ScenarioRequest req)) new_response w)"
  unfolding api_CreateScenario_def
  by (rule doJSON_loopback [where payload = "Some (enc_ScenarioRequest req)", simplified,
        OF router.ui_calls(2) [of "''s''"]]) (simp_all add: api_handle_def segment_def)

text \<open>
  The log stream over the same network: the client reads what the handler writes until the client goes
  away and the handler returns.
\<close>

definition loopback_open :: "chi \<Rightarrow> 'w api_app \<Rightarrow> string \<Rightarrow> string \<Rightarrow> 'w \<Rightarrow> (int \<times> string \<times> chunk list) res \<times> 'w" where
  "loopback_open chi a base url w =
     (case api_serve chi a \<lparr>rq_method = ''GET'', rq_path = trim_prefix url base, rq_body = NotJson, rq_view = []\<rparr> w of
        None \<Rightarrow> (Inl (ErrText ''no answer''), w)
      | Some (h, w1) \<Rightarrow> (Inr (response_status h, status_text (response_status h), hr_body h), w1))"

text \<open>What the client makes of an answer it does not decode, and of a stream.\<close>

definition understood_done :: "http_response \<times> 'w \<Rightarrow> goerr option \<times> 'w" where
  "understood_done r =
     (case r of (h, w) \<Rightarrow>
        (if response_status h \<ge> StatusBadRequest then Some (ErrText (''api error: '' @ status_text (response_status h)))
         else None, w))"

definition understood_stream :: "http_response \<times> 'w \<Rightarrow> chunk list res \<times> 'w" where
  "understood_stream r =
     (case r of (h, w) \<Rightarrow>
        (if response_status h \<ge> StatusBadRequest
         then Inl (ErrText (''logs stream status: '' @ status_text (response_status h))) else Inr (hr_body h), w))"


definition demo_app :: "cluster api_app" where
  "demo_app =
     \<lparr>aa_api = cluster_api,
      aa_chaos =
        \<lparr>cp_store = \<lparr>mg_InsertOne = (\<lambda>c r w. (Some (ErrText ''down''), w)), mg_Find = (\<lambda>c i w. (Inl (ErrText ''down''), w)),
           mg_UpdateOne = (\<lambda>c i st w. (Some (ErrText ''down''), w)), mg_DeleteOne = (\<lambda>c i w. (Some (ErrText ''down''), w))\<rparr>,
         cp_Apply = (\<lambda>sp w. (Inl (ErrText ''down''), w)), cp_Status = (\<lambda>i w. (Inl (ErrText ''down''), w)),
         cp_Delete = (\<lambda>i w. (Some (ErrText ''down''), w)), cp_List = (\<lambda>w. (Inl (ErrText ''down''), w)),
         cp_now = cluster_now\<rparr>,
      aa_tick = (\<lambda>d w. (None, w))\<rparr>"


section \<open>A scenario created in the browser\<close>

lemma response_code_http_Error [simp]: "response_code (http_Error m code new_response) = Some code"
  by (simp add: http_Error_def write_chunk_def WriteHeader_def set_header_def new_response_def response_code_def Let_def)

lemma response_code_http_Redirect [simp]: "response_code (http_Redirect r u code new_response) = Some code"
  by (simp add: http_Redirect_def write_chunk_def WriteHeader_def set_header_def new_response_def response_code_def Let_def)

lemma atoi_in_int64: "atoi s = Inr n \<Longrightarrow> in_int64 n"
  by (auto simp: atoi_def parse_int_as_def Let_def split: if_splits)

definition form_scenario :: "(string \<Rightarrow> string) \<Rightarrow> int \<Rightarrow> int \<Rightarrow> int \<Rightarrow> int \<Rightarrow> ScenarioRequest" where
  "form_scenario form rps psize conc secs =
     \<lparr>sr_Name = form ''name'',
      sr_Profile = \<lparr>lp_RPS = rps, lp_Duration = wrap64 (secs * second), lp_PayloadSizeBytes = psize,
                    lp_Concurrency = conc, lp_TargetQueue = form ''target_queue'',
                    lp_WorkloadType = form ''workload_type''\<rparr>,
      sr_StopOnError = False\<rparr>"

lemma form_scenario_decodes:
  assumes "atoi a = Inr rps" "atoi b = Inr psize" "atoi c = Inr conc"
  shows "decodeJSON (dec_ScenarioRequest True) (Doc (enc_ScenarioRequest (form_scenario form rps psize conc secs))) zero_request =
    Inr (form_scenario form rps psize conc secs)"
  using assms [THEN atoi_in_int64]
  by (simp add: decodeJSON_def json_Unmarshal_def dec_enc_ScenarioRequest profile_ints_def form_scenario_def wrap64_in_int64)

lemma understood_created:
  assumes "CreateScenario cluster_api (Doc (enc_ScenarioRequest req)) new_response w = (h, w')"
    and "decodeJSON (dec_ScenarioRequest True) (Doc (enc_ScenarioRequest req)) zero_request = Inr req"
    and "profile_ints (sr_Profile req)"
  shows "(\<exists>uid now j. fst (understood dec_ScenarioResponse zero_scenario (h, w')) = Inr (queued_scenario req uid now) \<and>
        ScenarioRequest_Validate req = None \<and> enc_ScenarioResponse (queued_scenario req uid now) = Inr j \<and>
        cl_log w' = cl_log w @ [(insertScenarioQuery, [VText uid, VBytes (Doc j)])] \<and>
        cl_published w' = cl_published w @ [(scenariosExchange, lp_TargetQueue (sr_Profile req), Doc j)]) \<or>
    (\<exists>e. fst (understood dec_ScenarioResponse zero_scenario (h, w')) = Inl e) \<and> cl_published w' = cl_published w"
proof (cases "rejected (Doc (enc_ScenarioRequest req))")
  case True
  with CreateScenario_result [OF assms(1)] have "response_code h = Some 400" "w' = w"
    by simp_all
  then show ?thesis
    by (simp add: understood_def response_status_def status_defs)
next
  case False
  with assms(2) have valid: "ScenarioRequest_Validate req = None"
    by (simp add: rejected_def)
  from CreateScenario_result [OF assms(1)] False assms(2)
  obtain uid now j where
    "response_code h = Some 202 \<and> enc_ScenarioResponse (queued_scenario req uid now) = Inr j \<and>
       hr_body h = [CJson j] \<and>
       cl_log w' = cl_log w @ [(insertScenarioQuery, [VText uid, VBytes (Doc j)])] \<and>
       cl_published w' = cl_published w @ [(scenariosExchange, lp_TargetQueue (sr_Profile req), Doc j)] \<or>
     response_code h \<in> {Some 502, Some 500} \<and> cl_published w' = cl_published w"
    by fastforce
  then show ?thesis
  proof
    assume ok: "response_code h = Some 202 \<and> enc_ScenarioResponse (queued_scenario req uid now) = Inr j \<and>
       hr_body h = [CJson j] \<and>
       cl_log w' = cl_log w @ [(insertScenarioQuery, [VText uid, VBytes (Doc j)])] \<and>
       cl_published w' = cl_published w @ [(scenariosExchange, lp_TargetQueue (sr_Profile req), Doc j)]"
    then have "dec_ScenarioResponse j zero_scenario = Inr (queued_scenario req uid now)"
      using assms(3) by (intro dec_enc_ScenarioResponse) (simp_all add: queued_scenario_def)
    with ok valid show ?thesis
      by (auto simp: understood_def response_status_def response_bytes_def status_defs json_Unmarshal_def)
  qed (auto simp: understood_def response_status_def status_defs)
qed

text \<open>
  C1. The scenario form of the browser, through the client, the router and the handler of the API to the
  database and the broker, under any interleaving and any failures: the browser is sent to the list with
  303 exactly when the values of the form make a valid request; the \<open>queued\<close> event of that request is
  stored and the same JSON published to the target queue of the form. Otherwise the answer is 400, and
  nothing happened, or 502, and no message was published.
\<close>

theorem form_creates_scenario:
  assumes "us_api s = apiClient (loopback match_path a base) open base" and "aa_api a = cluster_api"
    and "ur_form r = Inr form" and "Ui_CreateScenario s r new_response w = (h, w')"
  shows
    "response_code h = Some 303 \<and>
       (\<exists>rps psize conc secs uid now j.
          atoi (form ''rps'') = Inr rps \<and> atoi (form ''payload_size'') = Inr psize \<and>
          atoi (form ''concurrency'') = Inr conc \<and> atoi (form ''duration'') = Inr secs \<and> 0 < secs \<and>
          ScenarioRequest_Validate (form_scenario form rps psize conc secs) = None \<and>
          enc_ScenarioResponse (queued_scenario (form_scenario form rps psize conc secs) uid now) = Inr j \<and>
          cl_log w' = cl_log w @ [(insertScenarioQuery, [VText uid, VBytes (Doc j)])] \<and>
          cl_published w' = cl_published w @ [(scenariosExchange, form ''target_queue'', Doc j)]) \<or>
     response_code h = Some 400 \<and> w' = w \<or>
     response_code h = Some 502 \<and> cl_published w' = cl_published w"
proof -
  consider (bad) m where "h = http_Error m StatusBadRequest new_response" "w' = w"
    | (sent) rps psize conc secs where "atoi (form ''rps'') = Inr rps" "atoi (form ''payload_size'') = Inr psize"
        "atoi (form ''concurrency'') = Inr conc" "atoi (form ''duration'') = Inr secs" "0 < secs"
        "(h, w') = (case ac_CreateScenario (us_api s) (form_scenario form rps psize conc secs) w of
           (Inl err, w1) \<Rightarrow> (http_Error ''failed to create scenario'' StatusBadGateway new_response, w1)
         | (Inr sc, w1) \<Rightarrow> (http_Redirect r ''/scenarios?success=1'' StatusSeeOther new_response, w1))"
    using assms(3,4)
    by (simp add: Ui_CreateScenario_def parseIntField_def parseDurationSeconds_def form_scenario_def Let_def
        split: sum.splits if_splits) metis+
  then show ?thesis
  proof cases
    case bad
    then show ?thesis
      by (simp add: status_defs)
  next
    case sent
    let ?req = "form_scenario form rps psize conc secs"
    obtain h1 w1 where api: "CreateScenario cluster_api (Doc (enc_ScenarioRequest ?req)) new_response w = (h1, w1)"
      by fastforce
    have "ac_CreateScenario (us_api s) ?req w = api_CreateScenario (loopback match_path a base) base ?req w"
      by (simp add: assms(1) apiClient_def)
    also have "\<dots> = understood dec_ScenarioResponse zero_scenario (h1, w1)"
      using api_CreateScenario_loopback [of a base ?req w] by (simp add: assms(2) api)
    finally have call: "ac_CreateScenario (us_api s) ?req w = understood dec_ScenarioResponse zero_scenario (h1, w1)" .
    have w1: "snd (understood dec_ScenarioResponse zero_scenario (h1, w1)) = w1"
      by (simp add: understood_def)
    have ints: "profile_ints (sr_Profile ?req)"
      using sent(1-3) [THEN atoi_in_int64] by (simp add: profile_ints_def form_scenario_def wrap64_in_int64)
    have q: "lp_TargetQueue (sr_Profile ?req) = form ''target_queue''"
      by (simp add: form_scenario_def)
    from understood_created [OF api form_scenario_decodes [OF sent(1-3)] ints] sent w1
    show ?thesis
      unfolding call q
      by (cases "understood dec_ScenarioResponse zero_scenario (h1, w1)") (auto simp: status_defs)
  qed
qed

definition demo_form :: "string \<Rightarrow> string" where
  "demo_form field_name =
     (case map_of [(''name'', ''burn''), (''rps'', ''10''), (''payload_size'', ''1048576''), (''concurrency'', ''2''),
                   (''duration'', ''3''), (''target_queue'', ''workload.high''), (''workload_type'', ''cpu_burn'')] field_name of
        None \<Rightarrow> [] | Some v \<Rightarrow> v)"

abbreviation demo_post :: ui_request where
  "demo_post \<equiv> \<lparr>ur_method = ''POST'', ur_id = [], ur_query = (\<lambda>k. []), ur_form = Inr demo_form\<rparr>"

abbreviation demo_browser :: "(cluster, unit) ui_server" where
  "demo_browser \<equiv> demo_ui (\<lambda>p. None)
     (apiClient (loopback match_path demo_app ''http://api:8080'') (\<lambda>u w. (Inl (ErrText ''down''), w)) ''http://api:8080'')"

lemma demo_form_accepted:
  "response_code (fst (Ui_CreateScenario demo_browser demo_post new_response (demo_cluster ''cpu_burn'' []))) = Some 303"
  by code_simp

theorem form_creates_scenario_witness:
  "\<exists>uid now j. enc_ScenarioResponse (queued_scenario (form_scenario demo_form 10 1048576 2 3) uid now) = Inr j \<and>
     cl_published (snd (Ui_CreateScenario demo_browser demo_post new_response (demo_cluster ''cpu_burn'' []))) =
       cl_published (demo_cluster ''cpu_burn'' []) @ [(scenariosExchange, ''workload.high'', Doc j)]"
proof -
  obtain h w' where run: "Ui_CreateScenario demo_browser demo_post new_response (demo_cluster ''cpu_burn'' []) = (h, w')"
    by fastforce
  have ints: "atoi (demo_form ''rps'') = Inr 10" "atoi (demo_form ''payload_size'') = Inr 1048576"
      "atoi (demo_form ''concurrency'') = Inr 2" "atoi (demo_form ''duration'') = Inr 3"
      "demo_form ''target_queue'' = ''workload.high''"
    by code_simp+
  have "response_code h = Some 303"
    using demo_form_accepted run by simp
  moreover have "us_api demo_browser = apiClient (loopback match_path demo_app ''http://api:8080'')
      (\<lambda>u w. (Inl (ErrText ''down''), w)) ''http://api:8080''" "aa_api demo_app = cluster_api" "ur_form demo_post = Inr demo_form"
    by (simp_all add: demo_ui_def demo_app_def)
  note form_creates_scenario [OF this run]
  ultimately show ?thesis
    unfolding run snd_conv using ints by auto
qed

end
