(* ===== verification/Chaos_Ctrl.thy ===== *)
theory Chaos_Ctrl
  imports Chaos_Client
begin

text \<open>
  cmd/chaos-ctrl/main.go: the command line for experiments. The API server, the file system, the YAML
  library and the terminal are the record \<open>ctrl_ports\<close>; the flags are package \<open>flag\<close> as far as string
  flags need it.
\<close>

section \<open>Flags\<close>

text \<open>
  \<open>FlagSet.Parse\<close> with string flags: the assignments in their order and the arguments that are left. It
  stops at the first argument that is not a flag, or after \<open>--\<close>.
\<close>

definition split_flag :: "string \<Rightarrow> string \<times> string option" where
  "split_flag name =
     (let n = hd name # takeWhile (\<lambda>c. c \<noteq> CHR ''='') (tl name)
      in if CHR ''='' \<in> set (tl name) then (n, Some (drop (Suc (length n)) name)) else (name, None))"

fun flag_parse :: "string list \<Rightarrow> string list \<Rightarrow> ((string \<times> string) list \<times> string list) res" where
  "flag_parse known [] = Inr ([], [])"
| "flag_parse known (s # args) =
     (if length s < 2 \<or> hd s \<noteq> CHR ''-'' then Inr ([], s # args)
      else if s = ''--'' then Inr ([], args)
      else
        (let name = (if s ! 1 = CHR ''-'' then drop 2 s else drop 1 s)
         in if name = [] \<or> hd name = CHR ''-'' \<or> hd name = CHR ''='' then Inl (ErrText (''bad flag syntax: '' @ s))
            else (case split_flag name of (n, value) \<Rightarrow>
              if n \<notin> set known then
                (if n = ''help'' \<or> n = ''h'' then Inl (ErrText ''flag: help requested'')
                 else Inl (ErrText (''flag provided but not defined: -'' @ n)))
              else (case value of
                      Some v \<Rightarrow>
                        (case flag_parse known args of Inl err \<Rightarrow> Inl err | Inr (sets, rest) \<Rightarrow> Inr ((n, v) # sets, rest))
                    | None \<Rightarrow>
                        (case args of
                           [] \<Rightarrow> Inl (ErrText (''flag needs an argument: -'' @ n))
                         | v # args' \<Rightarrow>
                             (case flag_parse known args' of
                                Inl err \<Rightarrow> Inl err | Inr (sets, rest) \<Rightarrow> Inr ((n, v) # sets, rest)))))))"

section \<open>Arguments\<close>

record commandConfig =
  cc_namespace :: string
  cc_kubeconfig :: string
  cc_context :: string
  cc_output :: string
  cc_file :: string
  cc_args :: "string list"

definition defaultNamespace :: string where
  "defaultNamespace = ''cluster-probe''"

definition isCommand :: "string \<Rightarrow> bool" where
  "isCommand arg \<longleftrightarrow> arg \<in> {''apply'', ''status'', ''delete'', ''list'', ''version''}"

definition global_names :: "string list" where
  "global_names = [''namespace'', ''kubeconfig'', ''context'', ''output'', ''o'']"

definition isGlobalFlag :: "string \<Rightarrow> bool" where
  "isGlobalFlag arg \<longleftrightarrow>
     (let name = trim_left_char (CHR ''-'') arg;
          name1 = (case cut (CHR ''='') name of Some (before, after) \<Rightarrow> before | None \<Rightarrow> name)
      in name1 \<in> set global_names \<and> has_prefix arg ''-'')"

fun split_args :: "string list \<Rightarrow> string \<Rightarrow> string list \<Rightarrow> string list \<Rightarrow> string list \<times> string \<times> string list" where
  "split_args [] command globalArgs commandArgs = (globalArgs, command, commandArgs)"
| "split_args (arg # args) command globalArgs commandArgs =
     (if command = [] then
        (if isCommand arg then split_args args arg globalArgs commandArgs
         else split_args args command (globalArgs @ [arg]) commandArgs)
      else if isGlobalFlag arg then
        (if CHR ''='' \<notin> set arg then
           (case args of
              [] \<Rightarrow> split_args [] command (globalArgs @ [arg]) commandArgs
            | v # args' \<Rightarrow> split_args args' command (globalArgs @ [arg, v]) commandArgs)
         else split_args args command (globalArgs @ [arg]) commandArgs)
      else split_args args command globalArgs (commandArgs @ [arg]))"

definition splitCommandArgs :: "string list \<Rightarrow> string list \<times> string \<times> string list" where
  "splitCommandArgs args = split_args args [] [] []"

definition set_flag :: "string \<times> string \<Rightarrow> commandConfig \<Rightarrow> commandConfig" where
  "set_flag a cfg =
     (case a of (n, v) \<Rightarrow>
        if n = ''namespace'' then cfg\<lparr>cc_namespace := v\<rparr>
        else if n = ''kubeconfig'' then cfg\<lparr>cc_kubeconfig := v\<rparr>
        else if n = ''context'' then cfg\<lparr>cc_context := v\<rparr>
        else if n = ''output'' \<or> n = ''o'' then cfg\<lparr>cc_output := v\<rparr>
        else cfg\<lparr>cc_file := v\<rparr>)"

text \<open>The right side of the error says whether the usage goes to the standard output.\<close>

definition parseArgs :: "string list \<Rightarrow> (goerr \<times> bool) + (commandConfig \<times> string)" where
  "parseArgs args =
     (let cfg = \<lparr>cc_namespace = defaultNamespace, cc_kubeconfig = [], cc_context = [], cc_output = ''text'',
                 cc_file = [], cc_args = []\<rparr>
      in case splitCommandArgs args of (globalArgs, command, commandArgs) \<Rightarrow>
        (case flag_parse global_names globalArgs of
           Inl err \<Rightarrow> Inl (Wrapf ''parse global flags'' err, False)
         | Inr (sets, rest) \<Rightarrow>
             if command = [] then Inl (ErrText ''command is required'', True)
             else
               (let cfg1 = (fold set_flag sets cfg)\<lparr>cc_args := commandArgs\<rparr>
                in if cc_output cfg1 \<noteq> ''text'' \<and> cc_output cfg1 \<noteq> ''json''
                   then Inl (ErrText (''unsupported output format '' @ go_quote (cc_output cfg1)), False)
                   else Inr (cfg1, command))))"

definition usage_text :: string where
  "usage_text = join [CHR 0x0A]
     [''usage: chaos-ctrl [global flags] <apply|status|delete|list|version> [args]'', ''examples:'',
      ''  chaos-ctrl apply -f manifests/chaos-mesh/experiments/cpu-stress.yaml'',
      ''  chaos-ctrl status cpu-stress'', ''  chaos-ctrl delete cpu-stress'', []]"

section \<open>Output\<close>

datatype printed = Text string | Json json

datatype payload = PStatus ExperimentStatus | PStatuses "ExperimentStatus list" | PMap "(string \<times> string) list"

record 'w engine =
  en_Apply :: "ExperimentSpec \<Rightarrow> 'w \<Rightarrow> string res \<times> 'w"
  en_Status :: "string \<Rightarrow> 'w \<Rightarrow> ExperimentStatus res \<times> 'w"
  en_Delete :: "string \<Rightarrow> 'w \<Rightarrow> goerr option \<times> 'w"
  en_List :: "'w \<Rightarrow> ExperimentStatus list res \<times> 'w"

record 'w ctrl_ports =
  ct_newClient :: "commandConfig \<Rightarrow> 'w \<Rightarrow> 'w engine res \<times> 'w"
  ct_manifest :: "string \<Rightarrow> 'w \<Rightarrow> ((string \<times> json) list res) res \<times> 'w"
  ct_write :: "printed \<Rightarrow> 'w \<Rightarrow> goerr option \<times> 'w"
  ct_order :: "(string \<times> string) list \<Rightarrow> (string \<times> string) list"
  ct_version :: "string \<times> string \<times> string"

definition enc_opt_time :: "time option \<Rightarrow> json res" where
  "enc_opt_time t = (case t of None \<Rightarrow> Inr JNull | Some x \<Rightarrow> enc_time x)"

definition enc_ExperimentStatus :: "ExperimentStatus \<Rightarrow> json res" where
  "enc_ExperimentStatus st =
     (case enc_opt_time (xs_StartTime st) of
        Inl err \<Rightarrow> Inl err
      | Inr s \<Rightarrow>
          (case enc_opt_time (xs_EndTime st) of
             Inl err \<Rightarrow> Inl err
           | Inr e \<Rightarrow> Inr (JObj [(''ID'', JStr (xs_ID st)), (''Name'', JStr (xs_Name st)),
               (''Namespace'', JStr (xs_Namespace st)), (''Kind'', JStr (xs_Kind st)), (''Phase'', JStr (xs_Phase st)),
               (''Message'', JStr (xs_Message st)), (''StartTime'', s), (''EndTime'', e)])))"

fun enc_statuses :: "ExperimentStatus list \<Rightarrow> json list res" where
  "enc_statuses [] = Inr []"
| "enc_statuses (st # sts) =
     (case enc_ExperimentStatus st of
        Inl err \<Rightarrow> Inl err
      | Inr j \<Rightarrow> (case enc_statuses sts of Inl err \<Rightarrow> Inl err | Inr js \<Rightarrow> Inr (j # js)))"

text \<open>The keys of a map are sorted. A nil slice is \<open>null\<close>, and that is what an empty list of experiments is.\<close>

definition enc_payload :: "payload \<Rightarrow> json res" where
  "enc_payload p =
     (case p of
        PStatus st \<Rightarrow> enc_ExperimentStatus st
      | PStatuses sts \<Rightarrow> if sts = [] then Inr JNull else map_sum id JArr (enc_statuses sts)
      | PMap kvs \<Rightarrow> Inr (JObj (map (\<lambda>(k, v). (k, JStr v)) kvs)))"

definition write_labelled :: "'w ctrl_ports \<Rightarrow> string \<Rightarrow> printed \<Rightarrow> 'w \<Rightarrow> goerr option \<times> 'w" where
  "write_labelled po label out w =
     (case ct_write po out w of (Some err, w1) \<Rightarrow> (Some (Wrapf label err), w1) | (None, w1) \<Rightarrow> (None, w1))"

definition status_line :: "ExperimentStatus \<Rightarrow> string" where
  "status_line st = join [CHR 0x09] [xs_Name st, xs_Namespace st, xs_Kind st, xs_Phase st] @ [CHR 0x0A]"

fun write_statuses :: "'w ctrl_ports \<Rightarrow> ExperimentStatus list \<Rightarrow> 'w \<Rightarrow> goerr option \<times> 'w" where
  "write_statuses po [] w = (None, w)"
| "write_statuses po (st # sts) w =
     (case write_labelled po ''write status output'' (Text (status_line st)) w of
        (Some err, w1) \<Rightarrow> (Some err, w1)
      | (None, w1) \<Rightarrow> write_statuses po sts w1)"

definition writeOutput :: "'w ctrl_ports \<Rightarrow> string \<Rightarrow> payload \<Rightarrow> 'w \<Rightarrow> goerr option \<times> 'w" where
  "writeOutput po format p w =
     (if format = ''json'' then
        (case enc_payload p of
           Inl err \<Rightarrow> (Some (Wrapf ''encode json'' err), w)
         | Inr j \<Rightarrow> write_labelled po ''write json output'' (Json j) w)
      else
        (case p of
           PStatus st \<Rightarrow> write_labelled po ''write status output'' (Text (status_line st)) w
         | PStatuses sts \<Rightarrow> write_statuses po sts w
         | PMap kvs \<Rightarrow>
             write_labelled po ''write map output''
               (Text (join '' '' (map (\<lambda>(k, v). k @ ''='' @ v) (ct_order po kvs)) @ [CHR 0x0A])) w))"

section \<open>Commands\<close>

definition json_str :: "json option \<Rightarrow> string" where
  "json_str j = (case j of Some (JStr s) \<Rightarrow> s | _ \<Rightarrow> [])"

definition experimentSpecFromFile :: "'w ctrl_ports \<Rightarrow> commandConfig \<Rightarrow> 'w \<Rightarrow> ExperimentSpec res \<times> 'w" where
  "experimentSpecFromFile po cfg w =
     (case ct_manifest po (cc_file cfg) w of
        (Inl err, w1) \<Rightarrow> (Inl (Wrapf (''read '' @ cc_file cfg) err), w1)
      | (Inr (Inl err), w1) \<Rightarrow> (Inl (Wrapf (''decode '' @ cc_file cfg) err), w1)
      | (Inr (Inr manifest), w1) \<Rightarrow>
          (let kind = json_str (map_of manifest ''kind'');
               metadata = (case map_of manifest ''metadata'' of Some (JObj kvs) \<Rightarrow> kvs | _ \<Rightarrow> []);
               name = json_str (map_of metadata ''name'');
               namespace = json_str (map_of metadata ''namespace'');
               spec = (case map_of manifest ''spec'' of Some (JObj kvs) \<Rightarrow> Some kvs | _ \<Rightarrow> None)
           in if name = [] then (Inl (ErrText ''manifest metadata.name is required''), w1)
              else if kind = [] then (Inl (ErrText ''manifest kind is required''), w1)
              else if spec = None then (Inl (ErrText ''manifest spec is required''), w1)
              else (Inr \<lparr>es_Name = name, es_Namespace = namespace, es_Kind = kind, es_Spec = spec\<rparr>, w1)))"

definition runApply :: "'w ctrl_ports \<Rightarrow> commandConfig \<Rightarrow> 'w engine \<Rightarrow> 'w \<Rightarrow> goerr option \<times> 'w" where
  "runApply po cfg client w =
     (case flag_parse [''f'', ''file''] (cc_args cfg) of
        Inl err \<Rightarrow> (Some (Wrapf ''parse apply flags'' err), w)
      | Inr (sets, rest) \<Rightarrow>
          let cfg1 = fold set_flag sets cfg in
          if cc_file cfg1 = [] then (Some (ErrText ''apply requires -f/--file''), w)
          else
            (case experimentSpecFromFile po cfg1 w of
               (Inl err, w1) \<Rightarrow> (Some err, w1)
             | (Inr spec, w1) \<Rightarrow>
                 (case en_Apply client (if es_Namespace spec = [] then spec\<lparr>es_Namespace := cc_namespace cfg1\<rparr> else spec) w1 of
                    (Inl err, w2) \<Rightarrow> (Some (Wrapf ''apply experiment'' err), w2)
                  | (Inr xid, w2) \<Rightarrow>
                      writeOutput po (cc_output cfg1) (PMap [(''id'', xid), (''status'', ''applied'')]) w2)))"

definition runStatus :: "'w ctrl_ports \<Rightarrow> commandConfig \<Rightarrow> 'w engine \<Rightarrow> 'w \<Rightarrow> goerr option \<times> 'w" where
  "runStatus po cfg client w =
     (case cc_args cfg of
        [name] \<Rightarrow>
          (case en_Status client name w of
             (Inl err, w1) \<Rightarrow> (Some (Wrapf ''get status'' err), w1)
           | (Inr st, w1) \<Rightarrow> writeOutput po (cc_output cfg) (PStatus st) w1)
      | _ \<Rightarrow> (Some (ErrText ''status requires exactly one experiment name''), w))"

definition runDelete :: "'w ctrl_ports \<Rightarrow> commandConfig \<Rightarrow> 'w engine \<Rightarrow> 'w \<Rightarrow> goerr option \<times> 'w" where
  "runDelete po cfg client w =
     (case cc_args cfg of
        [name] \<Rightarrow>
          (case en_Delete client name w of
             (Some err, w1) \<Rightarrow> (Some (Wrapf ''delete experiment'' err), w1)
           | (None, w1) \<Rightarrow> writeOutput po (cc_output cfg) (PMap [(''id'', name), (''status'', ''deleted'')]) w1)
      | _ \<Rightarrow> (Some (ErrText ''delete requires exactly one experiment name''), w))"

definition runList :: "'w ctrl_ports \<Rightarrow> commandConfig \<Rightarrow> 'w engine \<Rightarrow> 'w \<Rightarrow> goerr option \<times> 'w" where
  "runList po cfg client w =
     (if cc_args cfg \<noteq> [] then (Some (ErrText ''list does not accept arguments''), w)
      else
        (case en_List client w of
           (Inl err, w1) \<Rightarrow> (Some (Wrapf ''list experiments'' err), w1)
         | (Inr sts, w1) \<Rightarrow> writeOutput po (cc_output cfg) (PStatuses sts) w1))"

definition run_command :: "'w ctrl_ports \<Rightarrow> string \<Rightarrow> commandConfig \<Rightarrow> 'w engine \<Rightarrow> 'w \<Rightarrow> goerr option \<times> 'w" where
  "run_command po command cfg client w =
     (if command = ''apply'' then runApply po cfg client w
      else if command = ''status'' then runStatus po cfg client w
      else if command = ''delete'' then runDelete po cfg client w
      else if command = ''list'' then runList po cfg client w
      else (Some (ErrText (''unknown command '' @ go_quote command)), w))"

definition run :: "'w ctrl_ports \<Rightarrow> string list \<Rightarrow> 'w \<Rightarrow> goerr option \<times> 'w" where
  "run po args w =
     (case parseArgs args of
        Inl (err, usage) \<Rightarrow> (Some err, if usage then snd (ct_write po (Text usage_text) w) else w)
      | Inr (cfg, command) \<Rightarrow>
          if command = ''version'' then (case ct_version po of (version, commitSHA, buildDate) \<Rightarrow>
               writeOutput po (cc_output cfg)
                 (PMap [(''build_date'', buildDate), (''commit_sha'', commitSHA), (''version'', version)]) w)
          else
            (case ct_newClient po cfg w of
               (Inl err, w1) \<Rightarrow> (Some (Wrapf ''create chaos client'' err), w1)
             | (Inr client, w1) \<Rightarrow> run_command po command cfg client w1))"

section \<open>What the command line does\<close>

definition command_mset :: "string \<Rightarrow> string multiset" where
  "command_mset command = (if command = [] then {#} else {#command#})"

lemma split_args_all:
  "split_args args command gs cs = (gs', command', cs') \<Longrightarrow>
   mset gs' + mset cs' + command_mset command' = mset gs + mset cs + command_mset command + mset args"
proof (induction args command gs cs rule: split_args.induct)
  case (2 arg args command gs cs)
  show ?case
  proof (cases "command = []")
    case True
    with 2 show ?thesis
      by (cases "isCommand arg") (auto simp: command_mset_def isCommand_def)
  next
    case named: False
    show ?thesis
    proof (cases "isGlobalFlag arg \<and> CHR ''='' \<notin> set arg")
      case True
      with 2 named show ?thesis
        by (cases args) auto
    next
      case False
      with 2 named show ?thesis
        by (cases "isGlobalFlag arg") simp_all
    qed
  qed
qed simp

lemma flag_not_command: "isGlobalFlag arg \<Longrightarrow> \<not> isCommand arg"
  by (auto simp: isGlobalFlag_def isCommand_def has_prefix_def Let_def)

text \<open>
  A global flag as it may be written: one dash or two, a name, and the value either behind an equals sign
  or as the next argument.
\<close>

type_synonym written_flag = "string \<times> string \<times> string \<times> bool"

fun flag_words :: "written_flag \<Rightarrow> string list" where
  "flag_words (d, n, v, joined) = (if joined then [d @ n @ ''='' @ v] else [d @ n, v])"

definition flag_args :: "written_flag list \<Rightarrow> string list" where
  "flag_args gs = concat (map flag_words gs)"

definition flag_sets :: "written_flag list \<Rightarrow> (string \<times> string) list" where
  "flag_sets gs = map (\<lambda>(d, n, v, joined). (n, v)) gs"

definition global_flag :: "written_flag \<Rightarrow> bool" where
  "global_flag f \<longleftrightarrow> (case f of (d, n, v, joined) \<Rightarrow> d \<in> {''-'', ''--''} \<and> n \<in> set global_names)"

lemma flag_args_simps [simp]:
  "flag_args [] = []" "flag_args (f # gs) = flag_words f @ flag_args gs" "flag_sets [] = []"
  "flag_sets ((d, n, v, joined) # gs) = (n, v) # flag_sets gs"
  by (simp_all add: flag_args_def flag_sets_def)

lemma cut_equals: "n \<in> set global_names \<Longrightarrow> cut (CHR ''='') (n @ CHR ''='' # v) = Some (n, v)"
  by (auto simp: global_names_def cut_def)

lemma global_flag_words:
  assumes "global_flag (d, n, v, joined)"
  shows "isGlobalFlag (d @ n)" and "CHR ''='' \<notin> set (d @ n)" and "isGlobalFlag (d @ n @ ''='' @ v)"
proof -
  show "isGlobalFlag (d @ n)" "CHR ''='' \<notin> set (d @ n)"
    using assms by (auto simp: global_flag_def global_names_def isGlobalFlag_def trim_left_char_def has_prefix_def cut_def Let_def)
  have "trim_left_char (CHR ''-'') (d @ n @ ''='' @ v) = n @ CHR ''='' # v" "has_prefix (d @ n @ ''='' @ v) ''-''"
    using assms by (auto simp: global_flag_def global_names_def trim_left_char_def has_prefix_def)
  with assms cut_equals [of n v] show "isGlobalFlag (d @ n @ ''='' @ v)"
    by (simp add: isGlobalFlag_def global_flag_def Let_def)
qed

lemma split_args_flags_after:
  "command \<noteq> [] \<Longrightarrow> list_all global_flag gs \<Longrightarrow>
   split_args (flag_args gs @ args) command xs cs = split_args args command (xs @ flag_args gs) cs"
proof (induction gs arbitrary: xs)
  case (Cons f gs)
  obtain d n v joined where f: "f = (d, n, v, joined)"
    by (metis prod_cases4)
  with Cons.prems have g: "global_flag (d, n, v, joined)"
    by simp
  from Cons.IH [of "xs @ flag_words f"] Cons.prems f global_flag_words [OF g] show ?case
    by (cases joined) simp_all
qed simp

lemma split_args_flags_before:
  "list_all global_flag gs \<Longrightarrow> \<forall>(d, n, v, joined)\<in>set gs. joined \<or> \<not> isCommand v \<Longrightarrow>
   split_args (flag_args gs @ args) [] xs cs = split_args args [] (xs @ flag_args gs) cs"
proof (induction gs arbitrary: xs)
  case (Cons f gs)
  obtain d n v joined where f: "f = (d, n, v, joined)"
    by (metis prod_cases4)
  with Cons.prems have g: "global_flag (d, n, v, joined)" and v: "joined \<or> \<not> isCommand v"
    by auto
  have "\<not> isCommand (d @ n)" "\<not> isCommand (d @ n @ ''='' @ v)"
    using global_flag_words [OF g] flag_not_command by blast+
  with Cons.IH [of "xs @ flag_words f"] Cons.prems f v show ?case
    by (cases joined) simp_all
qed simp

lemma split_args_plain:
  "command \<noteq> [] \<Longrightarrow> list_all (\<lambda>a. \<not> isGlobalFlag a) args \<Longrightarrow>
   split_args (args @ later) command xs cs = split_args later command xs (cs @ args)"
  by (induction args arbitrary: cs) simp_all

lemma split_flag_joined: "n \<in> set global_names \<Longrightarrow> split_flag (n @ CHR ''='' # v) = (n, Some v)"
  by (auto simp: global_names_def split_flag_def)

lemma split_flag_apart: "n \<in> set global_names \<Longrightarrow> split_flag n = (n, None)"
  by (auto simp: global_names_def split_flag_def)

lemma flag_parse_one:
  assumes "global_flag (d, n, v, joined)"
  shows "flag_parse global_names (flag_words (d, n, v, joined) @ args) =
    (case flag_parse global_names args of Inl err \<Rightarrow> Inl err | Inr (sets, rest) \<Rightarrow> Inr ((n, v) # sets, rest))"
proof -
  have n: "n \<in> set global_names" and d: "d = ''-'' \<or> d = ''--''"
    using assms by (auto simp: global_flag_def)
  then have "n \<noteq> []" "hd n \<noteq> CHR ''-''" "hd n \<noteq> CHR ''=''"
    by (auto simp: global_names_def)
  then show ?thesis
    using d n split_flag_joined [OF n, of v] split_flag_apart [OF n]
    by (cases n; cases joined) (auto simp: Let_def split: sum.splits)
qed

lemma flag_parse_flags: "list_all global_flag gs \<Longrightarrow> flag_parse global_names (flag_args gs) = Inr (flag_sets gs, [])"
proof (induction gs)
  case (Cons f gs)
  obtain d n v joined where f: "f = (d, n, v, joined)"
    by (metis prod_cases4)
  with Cons flag_parse_one [of d n v joined "flag_args gs"] show ?case
    by simp
qed simp

definition default_config :: commandConfig where
  "default_config = \<lparr>cc_namespace = defaultNamespace, cc_kubeconfig = [], cc_context = [], cc_output = ''text'',
     cc_file = [], cc_args = []\<rparr>"

text \<open>
  C32. Global flags may stand anywhere and be written in every form, \<open>-o json\<close>, \<open>--output=json\<close> and so
  on: before the command, or after it, between and behind its arguments, they give the same configuration,
  the default one with the flags set in their order, unless the output format is none of the two. The one
  condition is for flags before the command: a value that is an argument of its own must not be the name
  of a command, because it would be taken for the command. No argument is lost by the split of any command
  line.
\<close>

theorem global_flags_anywhere:
  assumes "isCommand command" and "list_all (\<lambda>a. \<not> isGlobalFlag a) (as1 @ as2)" and "list_all global_flag gs"
  shows "parseArgs (command # as1 @ flag_args gs @ as2) =
      (let cfg = (fold set_flag (flag_sets gs) default_config)\<lparr>cc_args := as1 @ as2\<rparr>
       in if cc_output cfg \<in> {''text'', ''json''} then Inr (cfg, command)
          else Inl (ErrText (''unsupported output format '' @ go_quote (cc_output cfg)), False)) \<and>
    ((\<forall>(d, n, v, joined)\<in>set gs. joined \<or> \<not> isCommand v) \<longrightarrow>
       parseArgs (flag_args gs @ command # as1 @ as2) = parseArgs (command # as1 @ flag_args gs @ as2)) \<and>
    (case splitCommandArgs args of (gl, cmd, ca) \<Rightarrow>
       mset gl + mset ca + command_mset cmd = mset args)"
proof (intro conjI impI)
  have ne: "command \<noteq> []"
    using assms(1) by (auto simp: isCommand_def)
  have after: "splitCommandArgs (command # as1 @ flag_args gs @ as2) = (flag_args gs, command, as1 @ as2)"
    using split_args_plain [OF ne, of as1 "flag_args gs @ as2" "[]" "[]"]
      split_args_flags_after [OF ne assms(3), of as2 "[]" as1]
      split_args_plain [OF ne, of as2 "[]" "flag_args gs" as1] assms(1,2)
    by (simp add: splitCommandArgs_def)
  with flag_parse_flags [OF assms(3)] ne
  show "parseArgs (command # as1 @ flag_args gs @ as2) =
      (let cfg = (fold set_flag (flag_sets gs) default_config)\<lparr>cc_args := as1 @ as2\<rparr>
       in if cc_output cfg \<in> {''text'', ''json''} then Inr (cfg, command)
          else Inl (ErrText (''unsupported output format '' @ go_quote (cc_output cfg)), False))"
    by (simp add: parseArgs_def default_config_def Let_def)
  show "parseArgs (flag_args gs @ command # as1 @ as2) = parseArgs (command # as1 @ flag_args gs @ as2)"
    if "\<forall>(d, n, v, joined)\<in>set gs. joined \<or> \<not> isCommand v"
  proof -
    have "splitCommandArgs (flag_args gs @ command # as1 @ as2) = (flag_args gs, command, as1 @ as2)"
      using split_args_flags_before [OF assms(3) that, of "command # as1 @ as2" "[]" "[]"]
        split_args_plain [OF ne assms(2), of "[]" "flag_args gs" "[]"] assms(1)
      by (simp add: splitCommandArgs_def)
    with after show ?thesis
      by (simp add: parseArgs_def)
  qed
  show "case splitCommandArgs args of (gl, cmd, ca) \<Rightarrow>
      mset gl + mset ca + command_mset cmd = mset args"
    using split_args_all [of args "[]" "[]" "[]"] by (auto simp: splitCommandArgs_def command_mset_def)
qed

theorem global_flags_anywhere_witness:
  "parseArgs [''--namespace=lab'', ''-o'', ''json'', ''delete'', ''slow''] =
     Inr (default_config\<lparr>cc_namespace := ''lab'', cc_output := ''json'', cc_args := [''slow'']\<rparr>, ''delete'') \<and>
   parseArgs [''delete'', ''slow'', ''--namespace=lab'', ''-o'', ''json''] =
     Inr (default_config\<lparr>cc_namespace := ''lab'', cc_output := ''json'', cc_args := [''slow'']\<rparr>, ''delete'')"
  using global_flags_anywhere [of "''delete''" "[''slow'']" "[]"
      "[(''--'', ''namespace'', ''lab'', True), (''-'', ''o'', ''json'', False)]" "[]"]
  by (simp add: global_flag_def isCommand_def isGlobalFlag_def global_names_def has_prefix_def trim_left_char_def cut_def
      set_flag_def default_config_def Let_def)

text \<open>The exception: a value that is the name of a command becomes the command.\<close>

lemma value_taken_for_command:
  "splitCommandArgs [''--context'', ''list'', ''delete'', ''slow''] = ([''--context''], ''list'', [''delete'', ''slow''])"
  by (simp add: splitCommandArgs_def isCommand_def isGlobalFlag_def global_names_def has_prefix_def trim_left_char_def
      cut_def)

end
