(* ===== verification/Services.thy ===== *)
theory Services
  imports Worker_Main Ui_Api Chaos_Ctrl
begin

text \<open>
  What the three services do around their handlers: the telemetry they set up (internal/telemetry), the
  steps of \<open>main\<close> in cmd/api and cmd/ui before they serve, the templates of the UI and the Kubernetes
  clients. The SDKs are ports; the log handlers of slog are values of a type \<open>'h\<close> with its operations.
\<close>

section \<open>Telemetry\<close>

record telemetry_config =
  tc_OTLPEndpoint :: string
  tc_ServiceName :: string
  tc_ServiceVersion :: string
  tc_Environment :: string

text \<open>The calls that can fail, in order; the first failure is wrapped and returned.\<close>

fun try_all :: "(string \<times> ('w \<Rightarrow> goerr option \<times> 'w)) list \<Rightarrow> 'w \<Rightarrow> goerr option \<times> 'w" where
  "try_all [] w = (None, w)"
| "try_all ((label, f) # fs) w =
     (case f w of
        (Some err, w1) \<Rightarrow> (Some (Wrapf label err), w1)
      | (None, w1) \<Rightarrow> try_all fs w1)"

record 'w telemetry_ports =
  tp_Resource :: "telemetry_config \<Rightarrow> 'w \<Rightarrow> goerr option \<times> 'w"
  tp_TraceExporter :: "string \<Rightarrow> 'w \<Rightarrow> goerr option \<times> 'w"
  tp_MetricExporter :: "string \<Rightarrow> 'w \<Rightarrow> goerr option \<times> 'w"
  tp_PrometheusExporter :: "'w \<Rightarrow> goerr option \<times> 'w"
  tp_SetProviders :: "'w \<Rightarrow> 'w"
  tp_SetMeterProvider :: "'w \<Rightarrow> 'w"
  tp_SetDefaultLogger :: "(string \<times> string) list \<Rightarrow> 'w \<Rightarrow> 'w"

definition Telemetry_Init :: "'w telemetry_ports \<Rightarrow> telemetry_config \<Rightarrow> 'w \<Rightarrow> goerr option \<times> 'w" where
  "Telemetry_Init p cfg w =
     (if tc_OTLPEndpoint cfg = [] then (Some (ErrText ''otel endpoint is required''), w)
      else (case try_all [(''build resource'', tp_Resource p cfg),
                          (''create trace exporter'', tp_TraceExporter p (tc_OTLPEndpoint cfg)),
                          (''create metric exporter'', tp_MetricExporter p (tc_OTLPEndpoint cfg))] w of
              (Some err, w1) \<Rightarrow> (Some err, w1)
            | (None, w1) \<Rightarrow>
                (None, tp_SetDefaultLogger p [(''service'', tc_ServiceName cfg), (''phase'', ''unknown'')]
                         (tp_SetProviders p w1))))"

text \<open>\<open>setupPrometheusMetrics\<close> of the worker, which replaces the meter provider of \<open>Init\<close>.\<close>

definition setupPrometheusMetrics :: "'w telemetry_ports \<Rightarrow> config \<Rightarrow> telemetry_config \<Rightarrow> 'w \<Rightarrow> goerr option \<times> 'w" where
  "setupPrometheusMetrics p cfg rc w =
     (case try_all [(''create otlp metric exporter'', tp_MetricExporter p (cf_OTLPEndpoint cfg)),
                    (''create prometheus exporter'', tp_PrometheusExporter p),
                    (''build resource'', tp_Resource p rc)] w of
        (Some err, w1) \<Rightarrow> (Some err, w1)
      | (None, w1) \<Rightarrow> (None, tp_SetMeterProvider p w1))"

record log_record =
  lr_Message :: string
  lr_Level :: int
  lr_Attrs :: "(string \<times> string) list"

record ('h, 'w) slog =
  sg_Enabled :: "'h \<Rightarrow> int \<Rightarrow> bool"
  sg_Handle :: "'h \<Rightarrow> log_record \<Rightarrow> 'w \<Rightarrow> goerr option \<times> 'w"
  sg_WithAttrs :: "'h \<Rightarrow> (string \<times> string) list \<Rightarrow> 'h"
  sg_WithGroup :: "'h \<Rightarrow> string \<Rightarrow> 'h"

record 'h fanoutHandler =
  fo_json :: 'h
  fo_otel :: 'h

definition fanout_Enabled :: "('h, 'w) slog \<Rightarrow> 'h fanoutHandler \<Rightarrow> int \<Rightarrow> bool" where
  "fanout_Enabled g h level \<longleftrightarrow> sg_Enabled g (fo_json h) level \<or> sg_Enabled g (fo_otel h) level"

text \<open>\<open>span\<close> is the trace of a valid span in the context.\<close>

definition injectTraceID :: "string option \<Rightarrow> log_record \<Rightarrow> log_record" where
  "injectTraceID span rec =
     (case span of None \<Rightarrow> rec | Some t \<Rightarrow> rec\<lparr>lr_Attrs := lr_Attrs rec @ [(''trace_id'', t)]\<rparr>)"

definition fanout_Handle ::
    "('h, 'w) slog \<Rightarrow> 'h fanoutHandler \<Rightarrow> string option \<Rightarrow> log_record \<Rightarrow> 'w \<Rightarrow> goerr option \<times> 'w" where
  "fanout_Handle g h span rec w =
     (let rec = injectTraceID span rec in
      case sg_Handle g (fo_json h) rec w of
        (Some err, w1) \<Rightarrow> (Some (Wrapf ''json handler'' err), w1)
      | (None, w1) \<Rightarrow>
          (case sg_Handle g (fo_otel h) rec w1 of
             (Some err, w2) \<Rightarrow> (Some (Wrapf ''otel handler'' err), w2)
           | (None, w2) \<Rightarrow> (None, w2)))"

definition fanout_WithAttrs :: "('h, 'w) slog \<Rightarrow> 'h fanoutHandler \<Rightarrow> (string \<times> string) list \<Rightarrow> 'h fanoutHandler" where
  "fanout_WithAttrs g h attrs = \<lparr>fo_json = sg_WithAttrs g (fo_json h) attrs, fo_otel = sg_WithAttrs g (fo_otel h) attrs\<rparr>"

definition fanout_WithGroup :: "('h, 'w) slog \<Rightarrow> 'h fanoutHandler \<Rightarrow> string \<Rightarrow> 'h fanoutHandler" where
  "fanout_WithGroup g h name = \<lparr>fo_json = sg_WithGroup g (fo_json h) name, fo_otel = sg_WithGroup g (fo_otel h) name\<rparr>"

section \<open>The start of the API and of the UI\<close>

datatype api_start_step =
    ALoadConfig | AInitTelemetry | AConnectPostgres | AApplySchema | AConnectRedis | AConnectMongo
  | AConnectProducer | ADeclareTopology | ANewChaosClient

definition api_start :: "(api_start_step \<times> string) list" where
  "api_start =
     [(ALoadConfig, ''config load failed''), (AInitTelemetry, ''telemetry init failed''),
      (AConnectPostgres, ''postgres init failed''), (AApplySchema, ''postgres schema init failed''),
      (AConnectRedis, ''redis init failed''), (AConnectMongo, ''mongo init failed''),
      (AConnectProducer, ''rabbitmq init failed''), (ADeclareTopology, ''rabbitmq topology failed''),
      (ANewChaosClient, ''chaos client init failed'')]"

text \<open>\<open>buildRouter\<close>: the adapters around the clients, and the handlers on them.\<close>

definition buildRouter ::
    "'w sql_store \<Rightarrow> 'w redis_cmds \<Rightarrow> 'w mongo \<Rightarrow> ('b, 'w) amqp \<Rightarrow> producer \<Rightarrow> (bytes \<Rightarrow> 'b) \<Rightarrow> 'w k8s \<Rightarrow>
     (string \<times> string) list \<Rightarrow> ('w \<Rightarrow> time \<times> 'w) \<Rightarrow> ('w \<Rightarrow> string \<times> 'w) \<Rightarrow> (duration \<Rightarrow> 'w \<Rightarrow> time option \<times> 'w) \<Rightarrow>
     'w api_app" where
  "buildRouter postgresClient redisClient mongoClient am producer body_of k order now uuid tick =
     \<lparr>aa_api = \<lparr>ap_store = postgresAdapter postgresClient,
                ap_Publish = (\<lambda>exchange key body. Producer_Publish am producer exchange key (body_of body)),
                ap_Get = redisAdapter_Get redisClient, ap_now = now, ap_uuid = uuid\<rparr>,
      aa_chaos = \<lparr>cp_store = mongoAdapter mongoClient, cp_Apply = Chaos_Apply k ''cluster-probe'',
                  cp_Status = Chaos_Status k ''cluster-probe'' order, cp_Delete = Chaos_Delete k ''cluster-probe'' order,
                  cp_List = Chaos_List k ''cluster-probe'' order, cp_now = now\<rparr>,
      aa_tick = tick\<rparr>"

datatype ui_start_step = ULoadConfig | UInitTelemetry | UConnectRedis | UParseTemplates | UStaticAssets

definition ui_start :: "(ui_start_step \<times> string) list" where
  "ui_start =
     [(ULoadConfig, ''config load failed''), (UInitTelemetry, ''telemetry init failed''),
      (UConnectRedis, ''redis init failed''), (UParseTemplates, ''template load failed''),
      (UStaticAssets, ''static assets missing'')]"

text \<open>\<open>parseTemplates\<close>: every page gets a clone of the base with its own file parsed into it.\<close>

record 't template_lib =
  tl_ParseBase :: "'t res"
  tl_Glob :: "string \<Rightarrow> string list res"
  tl_Clone :: "'t \<Rightarrow> 't res"
  tl_ParseFS :: "'t \<Rightarrow> string \<Rightarrow> 't res"

text \<open>\<open>path.Base\<close> of a path that does not end in a slash.\<close>

definition path_Base :: "string \<Rightarrow> string" where
  "path_Base p = last (split_on (CHR ''/'') p)"

fun parse_pages :: "'t template_lib \<Rightarrow> 't \<Rightarrow> string list \<Rightarrow> (string \<rightharpoonup> 't) \<Rightarrow> (string \<rightharpoonup> 't) res" where
  "parse_pages l base [] templates = Inr templates"
| "parse_pages l base (file # files) templates =
     (case tl_Clone l base of
        Inl err \<Rightarrow> Inl (Wrapf ''clone templates'' err)
      | Inr cloned \<Rightarrow>
          (case tl_ParseFS l cloned file of
             Inl err \<Rightarrow> Inl (Wrapf (''parse page template '' @ file) err)
           | Inr parsed \<Rightarrow>
               parse_pages l base files (templates(trim_suffix (path_Base file) ''.html'' \<mapsto> parsed))))"

definition parseTemplates :: "'t template_lib \<Rightarrow> (string \<rightharpoonup> 't) res" where
  "parseTemplates l =
     (case tl_ParseBase l of
        Inl err \<Rightarrow> Inl (Wrapf ''parse base templates'' err)
      | Inr base \<Rightarrow>
          (case tl_Glob l ''templates/pages/*.html'' of
             Inl err \<Rightarrow> Inl (Wrapf ''glob page templates'' err)
           | Inr pageFiles \<Rightarrow> parse_pages l base pageFiles Map.empty))"

lemma parse_pages_keys:
  "parse_pages l base files templates = Inr m \<Longrightarrow>
   dom m = dom templates \<union> (\<lambda>f. trim_suffix (path_Base f) ''.html'') ` set files"
  by (induction files arbitrary: templates) (auto split: sum.splits)

section \<open>Kubernetes clients\<close>

record ('cfg, 'c) kube_ports =
  kp_InClusterConfig :: "'cfg res"
  kp_Getenv :: "string \<Rightarrow> string"
  kp_UserHomeDir :: "string res"
  kp_Join :: "string list \<Rightarrow> string"
  kp_Load :: "string \<Rightarrow> string option \<Rightarrow> 'cfg res"
  kp_NewForConfig :: "'cfg \<Rightarrow> 'c res"

text \<open>cmd/api: the client of the service account, for the namespace of the program.\<close>

definition api_newChaosClient :: "('cfg, 'c) kube_ports \<Rightarrow> ('c \<times> string) res" where
  "api_newChaosClient p =
     (case kp_InClusterConfig p of
        Inl err \<Rightarrow> Inl (Wrapf ''in cluster config'' err)
      | Inr cfg \<Rightarrow>
          (case kp_NewForConfig p cfg of
             Inl err \<Rightarrow> Inl (Wrapf ''dynamic client'' err)
           | Inr c \<Rightarrow> Inr (c, ''cluster-probe'')))"

definition kubernetesConfig :: "('cfg, 'c) kube_ports \<Rightarrow> commandConfig \<Rightarrow> 'cfg res" where
  "kubernetesConfig p cfg =
     (let load = (\<lambda>path.
            case kp_Load p path (if cc_context cfg \<noteq> [] then Some (cc_context cfg) else None) of
              Inl err \<Rightarrow> Inl (Wrapf ''load kubeconfig'' err)
            | Inr rc \<Rightarrow> Inr rc) in
      case (if cc_kubeconfig cfg = [] then kp_InClusterConfig p else Inl (ErrText [])) of
        Inr rc \<Rightarrow> Inr rc
      | Inl err \<Rightarrow>
          let path = (if cc_kubeconfig cfg = [] then kp_Getenv p ''KUBECONFIG'' else cc_kubeconfig cfg) in
          if path = [] then
            (case kp_UserHomeDir p of
               Inl err \<Rightarrow> Inl (Wrapf ''resolve home directory'' err)
             | Inr home \<Rightarrow> load (kp_Join p [home, ''.kube'', ''config'']))
          else load path)"

definition ctrl_newChaosClient :: "('cfg, 'c) kube_ports \<Rightarrow> commandConfig \<Rightarrow> ('c \<times> string) res" where
  "ctrl_newChaosClient p cfg =
     (case kubernetesConfig p cfg of
        Inl err \<Rightarrow> Inl err
      | Inr rc \<Rightarrow>
          (case kp_NewForConfig p rc of
             Inl err \<Rightarrow> Inl (Wrapf ''dynamic client'' err)
           | Inr c \<Rightarrow> Inr (c, cc_namespace cfg)))"

text \<open>An explicit kubeconfig is never replaced by the service account or the environment.\<close>

lemma explicit_kubeconfig:
  "cc_kubeconfig cfg \<noteq> [] \<Longrightarrow>
   kubernetesConfig p cfg =
     map_sum (Wrapf ''load kubeconfig'') id (kp_Load p (cc_kubeconfig cfg) (if cc_context cfg \<noteq> [] then Some (cc_context cfg) else None))"
  by (auto simp: kubernetesConfig_def Let_def split: sum.splits)

end
