(* ===== verification/Service_Main.thy ===== *)
theory Service_Main
  imports Services
begin

text \<open>
  The end of \<open>main\<close> in cmd/api, cmd/ui and cmd/worker: the goroutine that serves, the wait for the
  context, the shutdown of the server and, in the worker, the wait for the pool of consumers. The three
  binaries repeat the code of the server with other messages.
\<close>

section \<open>Serving\<close>

text \<open>
  Where \<open>main\<close> is, what \<open>ListenAndServe\<close> returned (\<open>None\<close> while it serves; it never returns nil),
  whether the context is done, and the errors that were logged. \<open>ErrServerClosed\<close> is what
  \<open>ListenAndServe\<close> returns once \<open>Shutdown\<close> was called.
\<close>

datatype serve_pc = AwaitDone | ShuttingDown | ShutDown

record serving =
  sv_pc :: serve_pc
  sv_listen :: "goerr option"
  sv_canceled :: bool
  sv_log :: "(string \<times> goerr) list"

definition ErrServerClosed :: goerr where
  "ErrServerClosed = ErrText ''http: Server closed''"

definition serve_start :: serving where
  "serve_start = \<lparr>sv_pc = AwaitDone, sv_listen = None, sv_canceled = False, sv_log = []\<rparr>"

text \<open>What the goroutine does with the error of \<open>ListenAndServe\<close>: it logs it and calls \<open>stop\<close>.\<close>

definition listen_returned :: "string \<Rightarrow> goerr \<Rightarrow> serving \<Rightarrow> serving" where
  "listen_returned serverError err s =
     (if \<not> errors_is err ErrServerClosed
      then s\<lparr>sv_listen := Some err, sv_log := sv_log s @ [(serverError, err)], sv_canceled := True\<rparr>
      else s\<lparr>sv_listen := Some err\<rparr>)"

text \<open>
  \<open>msgs\<close> are the two messages of the binary; a signal may come at any time. Another error than
  \<open>ErrServerClosed\<close> is that of a listener that fails.
\<close>

inductive serve_step :: "string \<times> string \<Rightarrow> serving \<Rightarrow> serving \<Rightarrow> bool" for msgs where
  listen_fails: "sv_listen s = None \<Longrightarrow> \<not> errors_is err ErrServerClosed \<Longrightarrow> serve_step msgs s (listen_returned (fst msgs) err s)"
| listen_closed: "sv_listen s = None \<Longrightarrow> sv_pc s \<noteq> AwaitDone \<Longrightarrow>
     serve_step msgs s (listen_returned (fst msgs) ErrServerClosed s)"
| signal: "serve_step msgs s (s\<lparr>sv_canceled := True\<rparr>)"
| ctx_done: "sv_pc s = AwaitDone \<Longrightarrow> sv_canceled s \<Longrightarrow> serve_step msgs s (s\<lparr>sv_pc := ShuttingDown\<rparr>)"
| shut_down: "sv_pc s = ShuttingDown \<Longrightarrow>
     serve_step msgs s
       (s\<lparr>sv_pc := ShutDown, sv_log := sv_log s @ (case r of None \<Rightarrow> [] | Some err \<Rightarrow> [(snd msgs, err)])\<rparr>)"

definition api_messages :: "string \<times> string" where
  "api_messages = (''api server error'', ''api server shutdown failed'')"

definition ui_messages :: "string \<times> string" where
  "ui_messages = (''ui server error'', ''ui server shutdown failed'')"

definition worker_messages :: "string \<times> string" where
  "worker_messages = (''worker metrics server error'', ''metrics server shutdown failed'')"

text \<open>The API and the UI end with this; \<open>main\<close> returns after \<open>shut_down\<close>.\<close>

definition api_main_step :: "serving \<Rightarrow> serving \<Rightarrow> bool" where
  "api_main_step = serve_step api_messages"

definition ui_main_step :: "serving \<Rightarrow> serving \<Rightarrow> bool" where
  "ui_main_step = serve_step ui_messages"

inductive_cases serve_stepE: "serve_step msgs s s'"

definition serve_inv :: "string \<times> string \<Rightarrow> serving \<Rightarrow> bool" where
  "serve_inv msgs s \<longleftrightarrow>
     (sv_pc s \<noteq> AwaitDone \<longrightarrow> sv_canceled s) \<and>
     (\<forall>err. sv_listen s = Some err \<and> \<not> errors_is err ErrServerClosed \<longrightarrow> sv_canceled s \<and> (fst msgs, err) \<in> set (sv_log s))"

lemma serve_inv_start: "serve_inv msgs serve_start"
  by (simp add: serve_inv_def serve_start_def)

lemma serve_inv_step: "serve_step msgs s s' \<Longrightarrow> serve_inv msgs s \<Longrightarrow> serve_inv msgs s'"
  by (auto simp: serve_inv_def listen_returned_def elim!: serve_stepE split: option.splits)

lemma serve_inv_run: "(serve_step msgs)\<^sup>*\<^sup>* s s' \<Longrightarrow> serve_inv msgs s \<Longrightarrow> serve_inv msgs s'"
  by (induction rule: rtranclp_induct) (auto intro: serve_inv_step)

text \<open>\<open>main\<close> only moves forward: the places it goes through are ordered.\<close>

fun serve_rank :: "serve_pc \<Rightarrow> nat" where
  "serve_rank AwaitDone = 0"
| "serve_rank ShuttingDown = 1"
| "serve_rank ShutDown = 2"

lemma serve_rank_inj [simp]: "serve_rank p = serve_rank q \<longleftrightarrow> p = q"
  by (cases p; cases q) simp_all

instantiation serve_pc :: linorder
begin

definition less_eq_serve_pc :: "serve_pc \<Rightarrow> serve_pc \<Rightarrow> bool" where
  "less_eq_serve_pc p q \<longleftrightarrow> serve_rank p \<le> serve_rank q"

definition less_serve_pc :: "serve_pc \<Rightarrow> serve_pc \<Rightarrow> bool" where
  "less_serve_pc p q \<longleftrightarrow> serve_rank p < serve_rank q"

instance
  by standard (auto simp: less_eq_serve_pc_def less_serve_pc_def)

end

lemma serve_step_forward: "serve_step msgs s s' \<Longrightarrow> sv_pc s \<le> sv_pc s'"
  by (auto simp: listen_returned_def less_eq_serve_pc_def elim!: serve_stepE)

lemma serve_steps_forward: "(serve_step msgs)\<^sup>*\<^sup>* s s' \<Longrightarrow> sv_pc s \<le> sv_pc s'"
  by (induction rule: rtranclp_induct) (auto dest: serve_step_forward)

text \<open>Once the shutdown has begun, it is never left and the context stays done.\<close>

lemma shutdown_is_final:
  assumes "(serve_step msgs)\<^sup>*\<^sup>* serve_start s" and "ShuttingDown \<le> sv_pc s" and "(serve_step msgs)\<^sup>*\<^sup>* s s'"
  shows "ShuttingDown \<le> sv_pc s' \<and> sv_canceled s'"
proof
  show "ShuttingDown \<le> sv_pc s'"
    using assms(2) serve_steps_forward [OF assms(3)] by (rule order_trans)
  then have "sv_pc s' \<noteq> AwaitDone"
    by (auto simp: less_eq_serve_pc_def)
  with serve_inv_run [OF rtranclp_trans [OF assms(1,3)] serve_inv_start] show "sv_canceled s'"
    by (simp add: serve_inv_def)
qed

text \<open>A listener that fails ends the API and the UI, with its error in the log.\<close>

lemma failed_listener_ends:
  assumes "api_main_step\<^sup>*\<^sup>* serve_start s \<or> ui_main_step\<^sup>*\<^sup>* serve_start s"
    and "sv_listen s = Some err" and "\<not> errors_is err ErrServerClosed"
  shows "sv_canceled s \<and> err \<in> snd ` set (sv_log s)"
proof -
  from assms(1) obtain msgs where "serve_inv msgs s"
    unfolding api_main_step_def ui_main_step_def using serve_inv_run [OF _ serve_inv_start] by blast
  with assms(2,3) show ?thesis
    by (force simp: serve_inv_def)
qed

section \<open>The worker\<close>

text \<open>
  \<open>main\<close> of the worker beside the goroutine of \<open>startConsumers\<close>: both wait for the same context, and
  \<open>main\<close> receives the result of the pool after the shutdown of its server.
\<close>

record worker_main =
  wm_serving :: serving
  wm_pool :: pool
  wm_returned :: bool
  wm_log :: "(string \<times> goerr) list"

definition worker_main_start :: worker_main where
  "worker_main_start = \<lparr>wm_serving = serve_start, wm_pool = pool_start, wm_returned = False, wm_log = []\<rparr>"

definition pool_stopped :: "goerr option \<Rightarrow> (string \<times> goerr) list" where
  "pool_stopped r =
     (case r of
        None \<Rightarrow> []
      | Some err \<Rightarrow> if errors_is err ContextCanceled then [] else [(''consumer pool stopped'', err)])"

inductive worker_main_step :: "nat \<Rightarrow> worker_main \<Rightarrow> worker_main \<Rightarrow> bool" for n where
  serves: "\<not> wm_returned m \<Longrightarrow> serve_step worker_messages (wm_serving m) s' \<Longrightarrow>
     worker_main_step n m
       (m\<lparr>wm_serving := s', wm_pool := (wm_pool m)\<lparr>po_canceled := sv_canceled s'\<rparr>\<rparr>)"
| consumes: "\<not> wm_returned m \<Longrightarrow> pool_step n (wm_pool m) p' \<Longrightarrow> po_canceled p' = po_canceled (wm_pool m) \<Longrightarrow>
     worker_main_step n m (m\<lparr>wm_pool := p'\<rparr>)"
| returns: "\<not> wm_returned m \<Longrightarrow> sv_pc (wm_serving m) = ShutDown \<Longrightarrow> po_pc (wm_pool m) = PoolReturned r \<Longrightarrow>
     worker_main_step n m (m\<lparr>wm_returned := True, wm_log := wm_log m @ pool_stopped r\<rparr>)"

inductive_cases worker_main_stepE: "worker_main_step n m m'"

text \<open>\<open>/readyz\<close> of the worker reads the flag that the pool sets.\<close>

definition worker_endpoint :: "(http_response \<Rightarrow> http_response) \<Rightarrow> worker_main \<Rightarrow> string \<Rightarrow> http_response \<Rightarrow> http_response" where
  "worker_endpoint metricsHandler m = buildHTTPServer metricsHandler (Some (\<lambda>_. po_ready (wm_pool m)))"

definition main_inv :: "nat \<Rightarrow> worker_main \<Rightarrow> bool" where
  "main_inv n m \<longleftrightarrow>
     serve_inv worker_messages (wm_serving m) \<and> pool_inv n (wm_pool m) \<and>
     po_canceled (wm_pool m) = sv_canceled (wm_serving m) \<and>
     (if wm_returned m
      then sv_pc (wm_serving m) = ShutDown \<and> (\<exists>r. po_pc (wm_pool m) = PoolReturned r \<and> wm_log m = pool_stopped r)
      else wm_log m = [])"

lemma main_inv_start: "main_inv n worker_main_start"
  using serve_inv_start pool_inv_start
  by (simp add: main_inv_def worker_main_start_def serve_start_def pool_start_def)

lemma pool_inv_canceled: "pool_inv n p \<Longrightarrow> (po_canceled p \<Longrightarrow> c) \<Longrightarrow> pool_inv n (p\<lparr>po_canceled := c\<rparr>)"
  by (auto simp: pool_inv_def ended_def split: pool_pc.splits if_splits)

lemma serve_step_canceled: "serve_step msgs s s' \<Longrightarrow> sv_canceled s \<Longrightarrow> sv_canceled s'"
  by (auto simp: listen_returned_def elim!: serve_stepE)

lemma main_inv_step: "worker_main_step n m m' \<Longrightarrow> main_inv n m \<Longrightarrow> main_inv n m'"
proof (induction rule: worker_main_step.induct)
  case (serves m s')
  then show ?case
    using serve_inv_step [OF serves(2)] serve_step_canceled [OF serves(2)] pool_inv_canceled [of n "wm_pool m"]
    by (simp add: main_inv_def)
next
  case (consumes m p')
  then show ?case
    using pool_inv_step [OF consumes(2)] by (simp add: main_inv_def)
next
  case (returns m r)
  then show ?case
    by (simp add: main_inv_def)
qed

lemma main_inv_run: "(worker_main_step n)\<^sup>*\<^sup>* m m' \<Longrightarrow> main_inv n m \<Longrightarrow> main_inv n m'"
  by (induction rule: rtranclp_induct) (auto intro: main_inv_step)

text \<open>
  C16. The worker drains before it exits: when \<open>main\<close> returns, the context is done, its server was shut
  down and the pool has returned; if the worker was ever ready, every one of its consumers has
  returned, so no handler is cut off, and the first error of a consumer is in the log; if it was not,
  the log says that a consumer could not be created.
\<close>

theorem worker_drains:
  assumes "(worker_main_step n)\<^sup>*\<^sup>* worker_main_start m" and "wm_returned m"
  shows "sv_canceled (wm_serving m) \<and> sv_pc (wm_serving m) = ShutDown \<and>
    (if po_ready (wm_pool m)
     then length (po_workers (wm_pool m)) = n \<and> list_all (\<lambda>w. snd w \<noteq> None) (po_workers (wm_pool m)) \<and>
          wm_log m = (case po_errCh (wm_pool m) of [] \<Rightarrow> [] | err # _ \<Rightarrow> pool_stopped (Some err))
     else \<exists>err. wm_log m = pool_stopped (Some (Wrapf ''create consumer'' err)))"
proof -
  have inv: "main_inv n m"
    by (rule main_inv_run [OF assms(1) main_inv_start])
  with assms(2) obtain r where r: "po_pc (wm_pool m) = PoolReturned r" "wm_log m = pool_stopped r"
    and s: "sv_pc (wm_serving m) = ShutDown" "serve_inv worker_messages (wm_serving m)" "pool_inv n (wm_pool m)"
    by (auto simp: main_inv_def)
  have "sv_canceled (wm_serving m)"
    using s(1,2) by (simp add: serve_inv_def)
  with r s show ?thesis
    by (auto simp: pool_inv_def pool_stopped_def [of None] split: if_splits list.splits)
qed

section \<open>The worker ends\<close>

text \<open>
  What is left to do: at most so many steps change anything, and as long as \<open>main\<close> has not returned,
  some step does. That a consumer returns once the context is done is \<open>Consume_returns\<close>.
\<close>

definition serve_left :: "serving \<Rightarrow> nat" where
  "serve_left s =
     (case sv_pc s of AwaitDone \<Rightarrow> 2 | ShuttingDown \<Rightarrow> 1 | ShutDown \<Rightarrow> 0) + (if sv_listen s = None then 1 else 0)"

definition running :: "pool \<Rightarrow> nat" where
  "running p = length (filter (\<lambda>w. snd w = None) (po_workers p))"

definition pool_left :: "nat \<Rightarrow> pool \<Rightarrow> nat" where
  "pool_left n p =
     (case po_pc p of Creating i \<Rightarrow> 2 * (n - i) + 3 | AwaitContext \<Rightarrow> 2 | AwaitGroup \<Rightarrow> 1 | PoolReturned r \<Rightarrow> 0) + running p"

definition main_left :: "nat \<Rightarrow> worker_main \<Rightarrow> nat" where
  "main_left n m = serve_left (wm_serving m) + pool_left n (wm_pool m) + (if wm_returned m then 0 else 1)"

lemma running_ends:
  assumes "k < length (po_workers p)" and "po_workers p ! k = (queue, None)"
  shows "running p = Suc (running (p\<lparr>po_workers := (po_workers p)[k := (queue, Some r)], po_errCh := e\<rparr>))"
proof -
  have "length (filter (\<lambda>w. \<not> snd w \<noteq> None) ((po_workers p)[k := (queue, Some r)])) + ended (p\<lparr>po_workers := (po_workers p)[k := (queue, Some r)]\<rparr>) =
      length (filter (\<lambda>w. \<not> snd w \<noteq> None) (po_workers p)) + ended p"
    using sum_length_filter_compl [of "\<lambda>w. snd w \<noteq> None" "(po_workers p)[k := (queue, Some r)]"]
      sum_length_filter_compl [of "\<lambda>w. snd w \<noteq> None" "po_workers p"] by (simp add: ended_def)
  moreover have "ended (p\<lparr>po_workers := (po_workers p)[k := (queue, Some r)]\<rparr>) = Suc (ended p)"
    using filter_update_length [of k "po_workers p" "\<lambda>w. snd w \<noteq> None" "(queue, Some r)"] assms by (simp add: ended_def)
  ultimately show ?thesis
    by (simp add: running_def)
qed

lemma pool_left_step:
  assumes "pool_step n p p'" and "po_canceled p'  = po_canceled p" and "p' \<noteq> p"
  shows "pool_left n p' < pool_left n p"
  using assms
proof (induction rule: pool_step.induct)
  case (created s i)
  then show ?case
    by (simp add: pool_left_def running_def)
next
  case (consume_ends k s queue r)
  then show ?case
    using running_ends [OF consume_ends(1,2), where r = r and e = "po_errCh s @ report_consume queue r"] by (simp add: pool_left_def)
next
  case (cancel s)
  then have "s\<lparr>po_canceled := True\<rparr> = s"
    by (cases s) simp
  with cancel show ?case
    by simp
qed (simp_all add: pool_left_def running_def)

lemma serve_left_step:
  assumes "serve_step msgs s s'" and "sv_canceled s"
  shows "s' = s \<or> serve_left s' < serve_left s"
  using assms
proof (induction rule: serve_step.induct)
  case (signal s)
  then show ?case
    by (cases s) simp
next
  case (listen_closed s)
  then show ?case
    by (simp add: serve_left_def listen_returned_def split: serve_pc.splits)
qed (auto simp: serve_left_def listen_returned_def)

definition changes :: "nat \<Rightarrow> worker_main \<Rightarrow> worker_main \<Rightarrow> bool" where
  "changes n m m' \<longleftrightarrow> worker_main_step n m m' \<and> m' \<noteq> m"

lemma main_left_step:
  assumes "changes n m m'" and inv: "main_inv n m" and c: "sv_canceled (wm_serving m)"
  shows "main_left n m' < main_left n m \<and> sv_canceled (wm_serving m')"
proof -
  have "worker_main_step n m m'" and ne: "m' \<noteq> m"
    using assms(1) by (simp_all add: changes_def)
  then show ?thesis
  proof cases
    case (serves s')
    have c': "sv_canceled s'"
      by (rule serve_step_canceled [OF serves(3) c])
    have p: "(wm_pool m)\<lparr>po_canceled := sv_canceled s'\<rparr> = wm_pool m"
      using inv c c' by (cases "wm_pool m") (simp add: main_inv_def)
    with ne serves(1) have "s' \<noteq> wm_serving m"
      by (cases m) auto
    with serve_left_step [OF serves(3) c] c' serves(1) p show ?thesis
      by (simp add: main_left_def)
  next
    case (consumes p')
    with ne have "p' \<noteq> wm_pool m"
      by (cases m) auto
    with pool_left_step [OF consumes(3,4)] consumes(1) c show ?thesis
      by (simp add: main_left_def)
  next
    case (returns r)
    with c show ?thesis
      by (simp add: main_left_def)
  qed
qed

lemma pool_progress:
  assumes "pool_inv n p" and "po_canceled p" and "\<And>r. po_pc p \<noteq> PoolReturned r"
  shows "\<exists>p'. pool_step n p p' \<and> po_canceled p' = po_canceled p \<and> p' \<noteq> p"
proof (cases "po_pc p")
  case (Creating i)
  show ?thesis
  proof (cases "i < n")
    case True
    with Creating pool_step.created [of p i n] show ?thesis
      by (intro exI conjI) (assumption, simp, cases p, simp)
  next
    case False
    with assms(1) Creating have "i = n"
      by (simp add: pool_inv_def)
    with Creating pool_step.all_created [of p n] show ?thesis
      by (intro exI conjI) (simp, simp, cases p, simp)
  qed
next
  case AwaitContext
  with assms(2) pool_step.context_done [of p n] show ?thesis
    by (intro exI conjI) (simp, simp, cases p, simp)
next
  case AwaitGroup
  show ?thesis
  proof (cases "list_all (\<lambda>w. snd w \<noteq> None) (po_workers p)")
    case True
    with AwaitGroup pool_step.group_done [of p n] show ?thesis
      by (intro exI conjI) (simp, simp, cases p, simp)
  next
    case False
    then obtain k queue where k: "k < length (po_workers p)" "po_workers p ! k = (queue, None)"
      by (auto simp: list_all_length prod_eq_iff)
    let ?p' = "p\<lparr>po_workers := (po_workers p)[k := (queue, Some None)], po_errCh := po_errCh p @ report_consume queue None\<rparr>"
    have "?p' \<noteq> p"
    proof
      assume "?p' = p"
      with running_ends [OF k, where r = None and e = "po_errCh p @ report_consume queue None"] show False
        by simp
    qed
    with pool_step.consume_ends [OF k, where r = None and workerCount = n] show ?thesis
      by (intro exI [of _ ?p']) simp
  qed
qed (use assms(3) in auto)

lemma main_progress:
  assumes inv: "main_inv n m" and c: "sv_canceled (wm_serving m)" and r: "\<not> wm_returned m"
  shows "\<exists>m'. changes n m m'"
proof -
  let ?s = "wm_serving m"
  have serve: "\<exists>m'. changes n m m'" if "serve_step worker_messages ?s s'" "s' \<noteq> ?s" for s'
    using worker_main_step.serves [OF r that(1), of n] that(2) by (auto simp: changes_def dest!: arg_cong [of _ _ wm_serving])
  show ?thesis
  proof (cases "sv_pc ?s")
    case AwaitDone
    with c show ?thesis
      by (intro serve [OF serve_step.ctx_done]) (auto dest: arg_cong [of _ _ sv_pc])
  next
    case ShuttingDown
    then show ?thesis
      by (intro serve [OF serve_step.shut_down [of _ _ None]]) (auto dest: arg_cong [of _ _ sv_pc])
  next
    case ShutDown
    show ?thesis
    proof (cases "\<exists>r. po_pc (wm_pool m) = PoolReturned r")
      case True
      then obtain q where "po_pc (wm_pool m) = PoolReturned q"
        by blast
      from worker_main_step.returns [OF r ShutDown this, of n] r show ?thesis
        by (auto simp: changes_def dest!: arg_cong [of _ _ wm_returned])
    next
      case False
      moreover have "pool_inv n (wm_pool m)" "po_canceled (wm_pool m)"
        using inv c by (simp_all add: main_inv_def)
      ultimately obtain p' where "pool_step n (wm_pool m) p'" "po_canceled p' = po_canceled (wm_pool m)" "p' \<noteq> wm_pool m"
        using pool_progress by blast
      from worker_main_step.consumes [OF r this(1,2)] this(3) show ?thesis
        by (auto simp: changes_def dest!: arg_cong [of _ _ wm_pool])
    qed
  qed
qed

lemma changes_bounded:
  "(changes n ^^ k) m m' \<Longrightarrow> main_inv n m \<Longrightarrow> sv_canceled (wm_serving m) \<Longrightarrow>
   main_left n m' + k \<le> main_left n m \<and> main_inv n m' \<and> sv_canceled (wm_serving m')"
proof (induction k arbitrary: m')
  case (Suc k)
  then obtain m1 where m1: "(changes n ^^ k) m m1" "changes n m1 m'"
    by auto
  note IH = Suc.IH [OF m1(1) Suc.prems(2,3)]
  have "main_inv n m'"
    using m1(2) IH main_inv_step by (auto simp: changes_def)
  with main_left_step [OF m1(2)] IH show ?case
    by auto
qed simp

text \<open>
  C23. The worker terminates: from any state it can reach, once the context is done it makes at most
  \<open>main_left n m\<close> more steps that change anything, whatever fails and in whatever order its
  goroutines run, and it is never stuck before \<open>main\<close> has returned.
\<close>

theorem canceled_worker_ends:
  assumes "(worker_main_step n)\<^sup>*\<^sup>* worker_main_start m" and "sv_canceled (wm_serving m)"
    and "(changes n ^^ k) m m'"
  shows "k \<le> main_left n m \<and> (wm_returned m' \<or> (\<exists>m''. changes n m' m''))"
proof -
  have "main_inv n m"
    by (rule main_inv_run [OF assms(1) main_inv_start])
  from changes_bounded [OF assms(3) this assms(2)] main_progress [of n m'] show ?thesis
    by auto
qed

section \<open>Concrete runs of the worker\<close>

abbreviation "at_work s p \<equiv> \<lparr>wm_serving = s, wm_pool = p, wm_returned = False, wm_log = []\<rparr>"

lemma pool_moves:
  "pool_step n p p' \<Longrightarrow> po_canceled p' = po_canceled p \<Longrightarrow> worker_main_step n (at_work s p) (at_work s p')"
  using worker_main_step.consumes [of "at_work s p" n p'] by simp

lemma server_moves:
  "serve_step worker_messages s s' \<Longrightarrow> p' = p\<lparr>po_canceled := sv_canceled s'\<rparr> \<Longrightarrow> worker_main_step n (at_work s p) (at_work s' p')"
  using worker_main_step.serves [of "at_work s p" s' n] by simp

text \<open>One consumer, a signal, and everything ends without an error.\<close>

definition demo_served :: "serve_pc \<Rightarrow> bool \<Rightarrow> serving" where
  "demo_served pc c = \<lparr>sv_pc = pc, sv_listen = None, sv_canceled = c, sv_log = []\<rparr>"

definition demo_pool :: "pool_pc \<Rightarrow> goerr option option \<Rightarrow> bool \<Rightarrow> bool \<Rightarrow> pool" where
  "demo_pool pc r ready c = \<lparr>po_pc = pc, po_workers = [(queueHigh, r)], po_errCh = [], po_ready = ready, po_canceled = c\<rparr>"

lemma demo_canceled:
  "(worker_main_step 1)\<^sup>*\<^sup>* worker_main_start (at_work (demo_served AwaitDone True) (demo_pool AwaitContext None True True))"
proof -
  have "worker_main_step 1 worker_main_start (at_work (demo_served AwaitDone False) (demo_pool (Creating 1) None False False))"
    unfolding worker_main_start_def serve_start_def demo_served_def
    by (rule pool_moves) (use pool_step.created [of pool_start 0 1] in \<open>simp_all add: pool_start_def demo_pool_def queuePicker_def\<close>)
  moreover have "worker_main_step 1 (at_work (demo_served AwaitDone False) (demo_pool (Creating 1) None False False))
      (at_work (demo_served AwaitDone False) (demo_pool AwaitContext None True False))"
    by (rule pool_moves) (use pool_step.all_created [of "demo_pool (Creating 1) None False False" 1] in \<open>simp_all add: demo_pool_def\<close>)
  moreover have "worker_main_step 1 (at_work (demo_served AwaitDone False) (demo_pool AwaitContext None True False))
      (at_work (demo_served AwaitDone True) (demo_pool AwaitContext None True True))"
    by (rule server_moves)
       (use serve_step.signal [of worker_messages "demo_served AwaitDone False"] in \<open>simp_all add: demo_served_def demo_pool_def\<close>)
  ultimately show ?thesis
    by (meson rtranclp.rtrancl_refl rtranclp.rtrancl_into_rtrancl)
qed

lemma demo_returns:
  "\<exists>m. (worker_main_step 1)\<^sup>*\<^sup>* worker_main_start m \<and> wm_returned m \<and> po_ready (wm_pool m)"
proof -
  let ?s0 = "demo_served AwaitDone True" and ?s1 = "demo_served ShuttingDown True" and ?s2 = "demo_served ShutDown True"
  let ?p0 = "demo_pool AwaitContext None True True" and ?p1 = "demo_pool AwaitGroup None True True"
  let ?p2 = "demo_pool AwaitGroup (Some None) True True" and ?p3 = "demo_pool (PoolReturned None) (Some None) True True"
  have "worker_main_step 1 (at_work ?s0 ?p0) (at_work ?s1 ?p0)"
    by (rule server_moves) (use serve_step.ctx_done [of ?s0 worker_messages] in \<open>simp_all add: demo_served_def demo_pool_def\<close>)
  moreover have "worker_main_step 1 (at_work ?s1 ?p0) (at_work ?s2 ?p0)"
    by (rule server_moves) (use serve_step.shut_down [of ?s1 worker_messages None] in \<open>simp_all add: demo_served_def demo_pool_def\<close>)
  moreover have "worker_main_step 1 (at_work ?s2 ?p0) (at_work ?s2 ?p1)"
    by (rule pool_moves) (use pool_step.context_done [of ?p0 1] in \<open>simp_all add: demo_pool_def\<close>)
  moreover have "worker_main_step 1 (at_work ?s2 ?p1) (at_work ?s2 ?p2)"
    by (rule pool_moves)
       (use pool_step.consume_ends [of 0 ?p1 queueHigh 1 None] in \<open>simp_all add: demo_pool_def report_consume_def\<close>)
  moreover have "worker_main_step 1 (at_work ?s2 ?p2) (at_work ?s2 ?p3)"
    by (rule pool_moves) (use pool_step.group_done [of ?p2 1] in \<open>simp_all add: demo_pool_def\<close>)
  moreover have "worker_main_step 1 (at_work ?s2 ?p3) ((at_work ?s2 ?p3)\<lparr>wm_returned := True\<rparr>)"
    using worker_main_step.returns [of "at_work ?s2 ?p3" None 1] by (simp add: demo_served_def demo_pool_def pool_stopped_def)
  ultimately have "(worker_main_step 1)\<^sup>*\<^sup>* worker_main_start ((at_work ?s2 ?p3)\<lparr>wm_returned := True\<rparr>)"
    using demo_canceled by (meson rtranclp.rtrancl_into_rtrancl)
  then show ?thesis
    by (rule exI [of _ "(at_work ?s2 ?p3)\<lparr>wm_returned := True\<rparr>", OF conjI]) (simp add: demo_pool_def)
qed

theorem worker_drains_witness:
  "\<exists>m. (worker_main_step 1)\<^sup>*\<^sup>* worker_main_start m \<and> wm_returned m \<and>
     length (po_workers (wm_pool m)) = 1 \<and> list_all (\<lambda>w. snd w \<noteq> None) (po_workers (wm_pool m))"
proof -
  obtain m where m: "(worker_main_step 1)\<^sup>*\<^sup>* worker_main_start m" "wm_returned m" "po_ready (wm_pool m)"
    using demo_returns by blast
  from worker_drains [OF m(1,2)] m show ?thesis
    by (intro exI [of _ m]) simp
qed

theorem canceled_worker_ends_witness:
  "\<exists>m'. changes 1 (at_work (demo_served AwaitDone True) (demo_pool AwaitContext None True True)) m'"
proof -
  have "((changes 1) ^^ 0) (at_work (demo_served AwaitDone True) (demo_pool AwaitContext None True True))
      (at_work (demo_served AwaitDone True) (demo_pool AwaitContext None True True))"
    by simp
  from canceled_worker_ends [OF demo_canceled _ this] show ?thesis
    by (simp add: demo_served_def)
qed

text \<open>
  A pool that could not be created is not reported before the end: \<open>main\<close> waits for the context, the
  worker is alive but never ready, and only a signal or a failing server moves it on.
\<close>

lemma failed_pool_waits:
  assumes "po_pc (wm_pool m) = PoolReturned (Some err)" and "po_workers (wm_pool m) = []" and "\<not> wm_returned m"
    and "\<not> po_ready (wm_pool m)" and "sv_pc (wm_serving m) = AwaitDone" and "\<not> sv_canceled (wm_serving m)"
    and "\<not> po_canceled (wm_pool m)" and "worker_main_step n m m'"
  shows "m' = m \<or> sv_canceled (wm_serving m')"
  using assms(8)
proof cases
  case (serves s')
  then show ?thesis
    using assms(5,6) by (auto simp: listen_returned_def elim!: serve_stepE split: if_splits)
next
  case (consumes p')
  from consumes(3) assms show ?thesis
    by (cases rule: pool_step.cases) (use consumes(4) assms in auto)
next
  case (returns r)
  with assms(5) show ?thesis
    by simp
qed

lemma failed_pool_endpoints:
  assumes "\<not> po_ready (wm_pool m)"
  shows "worker_endpoint f m ''/healthz'' h = write_chunk (CText ''ok'') (WriteHeader StatusOK h)"
    and "worker_endpoint f m ''/readyz'' h = http_Error ''consumer pool not ready'' StatusServiceUnavailable h"
  using assms by (simp_all add: worker_endpoint_def buildHTTPServer_def)

section \<open>What main leaves behind\<close>

text \<open>
  The functions that \<open>telemetry.Init\<close> and \<open>setupPrometheusMetrics\<close> return, which \<open>main\<close> defers: the
  errors they log. The second provider is shut down whatever the first says.
\<close>

definition Telemetry_shutdown ::
    "('w \<Rightarrow> goerr option \<times> 'w) \<Rightarrow> ('w \<Rightarrow> goerr option \<times> 'w) \<Rightarrow> 'w \<Rightarrow> (string \<times> goerr) list \<times> 'w" where
  "Telemetry_shutdown tracerProvider meterProvider w =
     (case tracerProvider w of (r1, w1) \<Rightarrow>
      case meterProvider w1 of (r2, w2) \<Rightarrow>
        ((case r1 of None \<Rightarrow> [] | Some err \<Rightarrow> [(''failed to shutdown tracer provider'', err)]) @
         (case r2 of None \<Rightarrow> [] | Some err \<Rightarrow> [(''failed to shutdown meter provider'', err)]), w2))"

definition metrics_shutdown :: "('w \<Rightarrow> goerr option \<times> 'w) \<Rightarrow> 'w \<Rightarrow> (string \<times> goerr) list \<times> 'w" where
  "metrics_shutdown provider w =
     (case provider w of
        (Some err, w1) \<Rightarrow> ([(''meter provider shutdown failed'', err)], w1)
      | (None, w1) \<Rightarrow> ([], w1))"

text \<open>\<open>main\<close> of cmd/chaos-ctrl: the exit status and what it writes to the standard error.\<close>

definition ctrl_main :: "'w ctrl_ports \<Rightarrow> string list \<Rightarrow> 'w \<Rightarrow> int \<times> string \<times> 'w" where
  "ctrl_main po args w =
     (case run po args w of
        (Some err, w1) \<Rightarrow> (1, ''chaos-ctrl: '' @ error_string err @ [CHR 0x0A], w1)
      | (None, w1) \<Rightarrow> (0, [], w1))"

lemma ctrl_main_status: "fst (ctrl_main po args w) = 0 \<longleftrightarrow> fst (run po args w) = None"
  by (simp add: ctrl_main_def split: prod.split option.split)

end
