(* ===== verification/Client_Adapters.thy ===== *)
theory Client_Adapters
  imports Services
begin

text \<open>
  What cmd/worker and cmd/ui have of their own around the clients of internal/db, and cmd/api around the
  producer: the adapters and constructors are written out in every binary. Each is modelled from its own
  source and shown to be the one the rest of the development uses.
\<close>

section \<open>cmd/worker\<close>

text \<open>The rows: \<open>Scan\<close> and \<open>Err\<close> wrap their errors, \<open>Next\<close> and \<open>Close\<close> are passed on.\<close>

definition worker_rowsAdapter_Scan :: "sql_val list res \<Rightarrow> sql_val list res" where
  "worker_rowsAdapter_Scan r = (case r of Inl err \<Rightarrow> Inl (Wrapf ''rows scan'' err) | Inr vs \<Rightarrow> Inr vs)"

definition worker_rowsAdapter_Err :: "goerr option \<Rightarrow> goerr option" where
  "worker_rowsAdapter_Err r = (case r of Some err \<Rightarrow> Some (Wrapf ''rows err'' err) | None \<Rightarrow> None)"

definition worker_rowsAdapter :: "sql_rows \<Rightarrow> sql_rows" where
  "worker_rowsAdapter rows =
     \<lparr>rs_rows = map worker_rowsAdapter_Scan (rs_rows rows), rs_err = worker_rowsAdapter_Err (rs_err rows)\<rparr>"

definition worker_postgresAdapter_Exec ::
    "'w sql_store \<Rightarrow> string \<Rightarrow> sql_val list \<Rightarrow> 'w \<Rightarrow> goerr option \<times> 'w" where
  "worker_postgresAdapter_Exec client q args w =
     (case st_Exec client q args w of
        (Some err, w1) \<Rightarrow> (Some (Wrapf ''postgres exec'' err), w1)
      | (None, w1) \<Rightarrow> (None, w1))"

definition worker_postgresAdapter_Query ::
    "'w sql_store \<Rightarrow> string \<Rightarrow> sql_val list \<Rightarrow> 'w \<Rightarrow> sql_rows res \<times> 'w" where
  "worker_postgresAdapter_Query client q args w =
     (case st_Query client q args w of
        (Inl err, w1) \<Rightarrow> (Inl (Wrapf ''postgres query'' err), w1)
      | (Inr rows, w1) \<Rightarrow> (Inr (worker_rowsAdapter rows), w1))"

definition worker_postgresAdapter_QueryRow ::
    "'w sql_store \<Rightarrow> string \<Rightarrow> sql_val list \<Rightarrow> 'w \<Rightarrow> sql_val list res \<times> 'w" where
  "worker_postgresAdapter_QueryRow client q args w = st_QueryRow client q args w"

definition worker_postgresAdapter :: "'w sql_store \<Rightarrow> 'w sql_store" where
  "worker_postgresAdapter client =
     \<lparr>st_Exec = worker_postgresAdapter_Exec client, st_Query = worker_postgresAdapter_Query client,
      st_QueryRow = worker_postgresAdapter_QueryRow client\<rparr>"

definition worker_redisAdapter_Get :: "'w redis_cmds \<Rightarrow> string \<Rightarrow> 'w \<Rightarrow> string res \<times> 'w" where
  "worker_redisAdapter_Get c key w =
     (case rd_Get c key w of
        (Inl err, w1) \<Rightarrow> (Inl (Wrapf ''redis get'' err), w1)
      | (Inr v, w1) \<Rightarrow> (Inr v, w1))"

definition worker_redisAdapter_Incr :: "'w redis_cmds \<Rightarrow> string \<Rightarrow> 'w \<Rightarrow> goerr option \<times> 'w" where
  "worker_redisAdapter_Incr c key w =
     (case rd_Incr c key w of
        (Inl err, w1) \<Rightarrow> (Some (Wrapf ''redis incr'' err), w1)
      | (Inr n, w1) \<Rightarrow> (None, w1))"

definition worker_newRedisClient where
  "worker_newRedisClient parseURL mkClient dsn w =
     (if has_prefix dsn ''redis://'' \<or> has_prefix dsn ''rediss://'' then
        (case parseURL dsn of
           Inl err \<Rightarrow> (Inl (Wrapf ''parse redis url'' err), w)
         | Inr (addr, password, db) \<Rightarrow>
             (case NewRedis mkClient addr password db w of
                (Inl err, w1) \<Rightarrow> (Inl (Wrapf ''redis client'' err), w1)
              | (Inr c, w1) \<Rightarrow> (Inr c, w1)))
      else
        (case NewRedis mkClient dsn [] 0 w of
           (Inl err, w1) \<Rightarrow> (Inl (Wrapf ''redis client'' err), w1)
         | (Inr c, w1) \<Rightarrow> (Inr c, w1)))"

text \<open>
  The wiring of \<open>main\<close>: the adapters around the clients, the generators on the store and the producer
  as the publisher; the handler that the consumers get runs the message under a context that is not
  canceled with the one of the delivery, which is why the ports have no other context than the
  watcher's.
\<close>

definition worker_wiring ::
    "'w sql_store \<Rightarrow> 'w sql_store \<Rightarrow> 'w redis_cmds \<Rightarrow> ('b, 'w) amqp \<Rightarrow> producer \<Rightarrow> (bytes \<Rightarrow> 'b) \<Rightarrow> 'w worker_ports \<Rightarrow>
     'w worker_ports" where
  "worker_wiring postgresClient canceledClient redisClient am producer body_of outside =
     outside\<lparr>wk_store := worker_postgresAdapter postgresClient,
       wk_store_canceled := worker_postgresAdapter canceledClient,
       wk_Incr := worker_redisAdapter_Incr redisClient,
       wk_Publish := (\<lambda>exchange key body. Producer_Publish am producer exchange key (body_of body))\<rparr>"

definition worker_consumer_handler :: "'w worker_ports \<Rightarrow> bytes delivery \<Rightarrow> 'w \<Rightarrow> (goerr option \<times> 'w) option" where
  "worker_consumer_handler po msg w = handleMessage po (\<lambda>sid. buildGenerators (work_env po sid)) (dl_Body msg) w"

section \<open>cmd/ui and cmd/api\<close>

definition ui_redisAdapter_Get :: "'w redis_cmds \<Rightarrow> string \<Rightarrow> 'w \<Rightarrow> string res \<times> 'w" where
  "ui_redisAdapter_Get c key w =
     (case rd_Get c key w of
        (Inl err, w1) \<Rightarrow> (Inl (Wrapf ''redis get'' err), w1)
      | (Inr v, w1) \<Rightarrow> (Inr v, w1))"

definition ui_newRedisClient where
  "ui_newRedisClient parseURL mkClient dsn w =
     (if has_prefix dsn ''redis://'' \<or> has_prefix dsn ''rediss://'' then
        (case parseURL dsn of
           Inl err \<Rightarrow> (Inl (Wrapf ''parse redis url'' err), w)
         | Inr (addr, password, db) \<Rightarrow>
             (case NewRedis mkClient addr password db w of
                (Inl err, w1) \<Rightarrow> (Inl (Wrapf ''redis client'' err), w1)
              | (Inr c, w1) \<Rightarrow> (Inr c, w1)))
      else
        (case NewRedis mkClient dsn [] 0 w of
           (Inl err, w1) \<Rightarrow> (Inl (Wrapf ''redis client'' err), w1)
         | (Inr c, w1) \<Rightarrow> (Inr c, w1)))"

text \<open>The loop of the API around \<open>NewProducer\<close>; \<open>n\<close> attempts are left.\<close>

fun api_producer_attempts ::
    "('w \<Rightarrow> producer res \<times> 'w) \<Rightarrow> (duration \<Rightarrow> 'w \<Rightarrow> goerr option \<times> 'w) \<Rightarrow> nat \<Rightarrow> goerr \<Rightarrow> 'w \<Rightarrow> producer res \<times> 'w" where
  "api_producer_attempts newProducer wait 0 lastErr w =
     (Inl (Wrapf ''rabbitmq producer unavailable after retries'' lastErr), w)"
| "api_producer_attempts newProducer wait (Suc n) lastErr w =
     (case newProducer w of
        (Inr c, w1) \<Rightarrow> (Inr c, w1)
      | (Inl err, w1) \<Rightarrow>
          (case wait (2 * second) w1 of
             (Some cerr, w2) \<Rightarrow> (Inl (Wrapf ''rabbitmq producer retry canceled'' cerr), w2)
           | (None, w2) \<Rightarrow> api_producer_attempts newProducer wait n err w2))"

definition api_newProducerWithRetry ::
    "('b, 'w) amqp \<Rightarrow> (duration \<Rightarrow> 'w \<Rightarrow> goerr option \<times> 'w) \<Rightarrow> string \<Rightarrow> 'w \<Rightarrow> producer res \<times> 'w" where
  "api_newProducerWithRetry p wait rabbitURL w =
     api_producer_attempts (NewProducer p rabbitURL) wait 30 (ErrText []) w"

section \<open>They are the same\<close>

lemma worker_rowsAdapter_eq: "worker_rowsAdapter = rowsAdapter"
  by (rule ext) (auto simp: worker_rowsAdapter_def rowsAdapter_def worker_rowsAdapter_Scan_def worker_rowsAdapter_Err_def
      split: sum.splits option.splits)

lemma worker_postgresAdapter_eq: "worker_postgresAdapter = postgresAdapter"
  by (rule ext)
     (auto simp: worker_postgresAdapter_def postgresAdapter_def worker_postgresAdapter_Exec_def
       worker_postgresAdapter_Query_def worker_postgresAdapter_QueryRow_def worker_rowsAdapter_eq wrap_err_def fun_eq_iff
       split: prod.splits option.splits sum.splits)

lemma worker_redisAdapter_eq:
  "worker_redisAdapter_Get = redisAdapter_Get" "worker_redisAdapter_Incr = redisAdapter_Incr"
  by (auto simp: worker_redisAdapter_Get_def redisAdapter_Get_def worker_redisAdapter_Incr_def redisAdapter_Incr_def
      wrap_res_def fun_eq_iff split: prod.splits sum.splits)

lemma ui_redisAdapter_eq: "ui_redisAdapter_Get = redisAdapter_Get"
  by (auto simp: ui_redisAdapter_Get_def redisAdapter_Get_def wrap_res_def fun_eq_iff split: prod.splits sum.splits)

lemma newRedisClient_eq: "worker_newRedisClient = newRedisClient" "ui_newRedisClient = newRedisClient"
  by (simp_all add: worker_newRedisClient_def ui_newRedisClient_def newRedisClient_def fun_eq_iff)

lemma api_producer_attempts_eq:
  "api_producer_attempts mk wait n e w = start_retry ''rabbitmq producer'' mk wait n e w"
  by (induction n arbitrary: e w) (simp_all add: startupRetryBackoff_def split: prod.splits sum.splits option.splits)

lemma api_newProducerWithRetry_eq: "api_newProducerWithRetry = newProducerWithRetry"
  by (simp add: fun_eq_iff api_newProducerWithRetry_def newProducerWithRetry_def startupRetryAttempts_def
      api_producer_attempts_eq)

lemma worker_consumer_handler_eq: "worker_consumer_handler = worker_delivery"
  by (simp add: fun_eq_iff worker_consumer_handler_def worker_delivery_def worker_handler_def)

text \<open>The wiring gives the stores and the counter that the cluster runs the worker with.\<close>

lemma worker_wiring_cluster:
  "wk_store (worker_wiring (PostgresClient cluster_pool) (PostgresClient canceled_pool) cluster_redis am producer body_of po) =
     wk_store cluster_worker"
  "wk_store_canceled (worker_wiring (PostgresClient cluster_pool) (PostgresClient canceled_pool) cluster_redis am producer body_of po) =
     wk_store_canceled cluster_worker"
  "wk_Incr (worker_wiring (PostgresClient cluster_pool) (PostgresClient canceled_pool) cluster_redis am producer body_of po) =
     wk_Incr cluster_worker"
  by (simp_all add: worker_wiring_def worker_postgresAdapter_eq worker_redisAdapter_eq cluster_worker_def cluster_store_def)

end
