(* ===== verification/Tracing.thy ===== *)
theory Tracing
  imports Services
begin

text \<open>
  What the program tells its operators: the spans of the generators, the producer and the consumer, the
  log line at the end of a workload, the trace context that crosses the broker, and the request log of
  both HTTP servers. A span is the list of the calls made on it; what the library of OpenTelemetry
  does with them is outside the repository. The functions of the other theories leave spans out, and
  \<open>traced_Publish\<close> and \<open>traced_delivery\<close> put them back: without the calls they are the same functions.
\<close>

section \<open>Spans and the log of the generators\<close>

datatype attribute = AttrString string string | AttrInt string int

datatype span_call =
    SetAttributes "attribute list"
  | RecordError goerr
  | SetStatusError string
  | SpanEnd

type_synonym span = "span_call list"

definition spanAttributes :: "'s WorkloadParams \<Rightarrow> attribute list" where
  "spanAttributes params =
     [AttrString ''workload.type'' (wp_WorkloadType params),
      AttrInt ''workload.duration_ms'' (wp_DurationMs params),
      AttrInt ''workload.alloc_mb'' (wp_AllocMB params),
      AttrInt ''workload.batch_size'' (wp_BatchSize params),
      AttrInt ''workload.read_lookback_ms'' (wp_ReadLookbackMs params)]"

definition finalizeSpan :: "Result \<Rightarrow> goerr option \<Rightarrow> span \<Rightarrow> span" where
  "finalizeSpan result err span =
     (let span1 = span @ [SetAttributes [AttrInt ''workload.ops'' (res_Ops result),
                                        AttrInt ''workload.elapsed_ms'' (milliseconds (res_Duration result))]]
      in case err of
           None \<Rightarrow> span1
         | Some e \<Rightarrow> span1 @ [RecordError e, SetStatusError ''workload failed''])"

text \<open>The levels of package slog.\<close>

definition LevelInfo :: int where "LevelInfo = 0"
definition LevelError :: int where "LevelError = 8"

record completion_log =
  cl_Level :: int
  cl_Message :: string
  cl_workload :: string
  cl_ops :: int
  cl_duration_ms :: int
  cl_error :: "goerr option"

definition logCompletion :: "string \<Rightarrow> Result \<Rightarrow> goerr option \<Rightarrow> completion_log" where
  "logCompletion name result err =
     (case err of
        Some e \<Rightarrow>
          \<lparr>cl_Level = LevelError, cl_Message = ''workload failed'', cl_workload = name, cl_ops = res_Ops result,
           cl_duration_ms = milliseconds (res_Duration result), cl_error = Some e\<rparr>
      | None \<Rightarrow>
          \<lparr>cl_Level = LevelInfo, cl_Message = ''workload completed'', cl_workload = name, cl_ops = res_Ops result,
           cl_duration_ms = milliseconds (res_Duration result), cl_error = None\<rparr>)"

lemma finalizeSpan_fails_iff:
  "set span \<inter> range SetStatusError = {} \<Longrightarrow>
   (\<exists>d. SetStatusError d \<in> set (finalizeSpan result err span)) \<longleftrightarrow> err \<noteq> None"
  by (auto simp: finalizeSpan_def Let_def split: option.splits)

lemma logCompletion_level: "cl_Level (logCompletion name result err) = LevelError \<longleftrightarrow> err \<noteq> None"
  by (simp add: logCompletion_def LevelError_def LevelInfo_def split: option.split)

section \<open>The error that is not retried\<close>

text \<open>\<open>Error\<close> and \<open>Unwrap\<close> of \<open>UnrecoverableError\<close>, and \<open>Unwrap\<close> of what \<open>fmt.Errorf\<close> makes.\<close>

definition UnrecoverableError_Error :: "goerr \<Rightarrow> string" where
  "UnrecoverableError_Error Err = error_string Err"

definition UnrecoverableError_Unwrap :: "goerr \<Rightarrow> goerr" where
  "UnrecoverableError_Unwrap Err = Err"

fun errors_Unwrap :: "goerr \<Rightarrow> goerr option" where
  "errors_Unwrap (UnrecoverableError e) = Some (UnrecoverableError_Unwrap e)"
| "errors_Unwrap (Wrapf p e) = Some e"
| "errors_Unwrap _ = None"

lemma unrecoverable_text: "error_string (UnrecoverableError e) = UnrecoverableError_Error e"
  by (simp add: UnrecoverableError_Error_def)

text \<open>The tests of package errors walk the chain that \<open>Unwrap\<close> gives.\<close>

lemma errors_is_unwraps:
  "errors_is e t \<longleftrightarrow> e = t \<or> (case errors_Unwrap e of None \<Rightarrow> False | Some e' \<Rightarrow> errors_is e' t)"
  by (cases e) (auto simp: UnrecoverableError_Unwrap_def)

lemma errors_as_unwraps:
  "errors_as_unrecoverable e \<longleftrightarrow>
   (\<exists>x. e = UnrecoverableError x) \<or>
   (case errors_Unwrap e of None \<Rightarrow> False | Some e' \<Rightarrow> (\<nexists>x. e = UnrecoverableError x) \<and> errors_as_unrecoverable e')"
  by (cases e) auto

section \<open>The trace context\<close>

text \<open>
  The tracer and the propagator \<open>propagation.TraceContext\<close> on contexts \<open>'c\<close>: the entries \<open>Inject\<close> sets,
  what \<open>Extract\<close> makes of the carrier it reads with \<open>Get\<close>, the context of a new span, and the trace of
  the span in a context.
\<close>

record 'c tracing =
  tr_Inject :: "'c \<Rightarrow> (string \<times> string) list"
  tr_Extract :: "'c \<Rightarrow> (string \<Rightarrow> string) \<Rightarrow> 'c"
  tr_Start :: "string \<Rightarrow> 'c \<Rightarrow> 'c"
  tr_TraceID :: "'c \<Rightarrow> string option"

text \<open>\<open>Keys\<close> lists the headers in the order of a Go map, which is any.\<close>

definition amqpHeaderCarrier_Keys :: "amqp_table \<Rightarrow> string list \<Rightarrow> bool" where
  "amqpHeaderCarrier_Keys c keys \<longleftrightarrow> distinct keys \<and> set keys = dom c"

definition injectTraceContext :: "'c tracing \<Rightarrow> 'c \<Rightarrow> 'b delivery \<Rightarrow> 'c" where
  "injectTraceContext tr ctx m = tr_Extract tr ctx (amqpHeaderCarrier_Get (dl_Headers m))"

text \<open>The contexts \<open>Publish\<close> injects and \<open>Consume\<close> hands to the handler.\<close>

definition publish_context :: "'c tracing \<Rightarrow> 'c \<Rightarrow> 'c" where
  "publish_context tr ctx = tr_Start tr ''rabbitmq.publish'' ctx"

definition consume_context :: "'c tracing \<Rightarrow> 'c \<Rightarrow> 'b delivery \<Rightarrow> 'c" where
  "consume_context tr ctx m = tr_Start tr ''rabbitmq.consume'' (injectTraceContext tr ctx m)"

text \<open>
  The documented behaviour: a span belongs to the trace of the context it is started in, the entries of
  a context with a trace have different names, and a carrier that gives these entries back is extracted
  to a context of the same trace.
\<close>

definition trace_laws :: "'c tracing \<Rightarrow> bool" where
  "trace_laws tr \<longleftrightarrow>
     (\<forall>name ctx t. tr_TraceID tr ctx = Some t \<longrightarrow> tr_TraceID tr (tr_Start tr name ctx) = Some t) \<and>
     (\<forall>ctx t. tr_TraceID tr ctx = Some t \<longrightarrow>
        distinct (map fst (tr_Inject tr ctx)) \<and>
        (\<forall>d get. (\<forall>(k, v)\<in>set (tr_Inject tr ctx). get k = v) \<longrightarrow> tr_TraceID tr (tr_Extract tr d get) = Some t))"

lemma trace_lawsD:
  assumes "trace_laws tr" and "tr_TraceID tr ctx = Some t"
  shows "tr_TraceID tr (tr_Start tr name ctx) = Some t" and "distinct (map fst (tr_Inject tr ctx))"
    and "(\<And>k v. (k, v) \<in> set (tr_Inject tr ctx) \<Longrightarrow> get k = v) \<Longrightarrow> tr_TraceID tr (tr_Extract tr d get) = Some t"
  using assms unfolding trace_laws_def by blast+

text \<open>The headers of a message as they are published, for every broker.\<close>

definition publish_headers :: "'c tracing \<Rightarrow> 'c \<Rightarrow> amqp_table" where
  "publish_headers tr ctx = inject (tr_Inject tr (publish_context tr ctx)) Map.empty"

lemma consumed_trace:
  assumes "trace_laws tr" and "tr_TraceID tr ctx = Some t" and "dl_Headers m = publish_headers tr ctx"
  shows "tr_TraceID tr (consume_context tr d m) = Some t"
proof -
  have p: "tr_TraceID tr (publish_context tr ctx) = Some t"
    unfolding publish_context_def using assms(1,2) by (rule trace_lawsD)
  have "tr_TraceID tr (injectTraceContext tr d m) = Some t"
    unfolding injectTraceContext_def assms(3) publish_headers_def
    using assms(1) p inject_get [OF trace_lawsD(2) [OF assms(1) p]] by (rule trace_lawsD(3))
  with assms(1) show ?thesis
    unfolding consume_context_def by (rule trace_lawsD)
qed

lemma published_headers:
  assumes "Producer_Publish broker_amqp pr exchange key body w = (None, w')"
    and "br_context w = tr_Inject tr (publish_context tr ctx)"
  shows "\<exists>msg. br_published w' = br_published w @ [(exchange, key, msg)] \<and> pb_Body msg = body \<and>
    pb_Headers msg = publish_headers tr ctx"
  using assms
  by (auto simp: Producer_Publish_def broker_amqp_def br_call_def br_fault_def Let_def publish_headers_def
      split: option.splits list.splits prod.splits)

text \<open>
  C25. The trace context survives the broker. A message that is published in a context of the trace \<open>t\<close> is
  handled in a context of the trace \<open>t\<close>, whatever the context of the consumer was before, when the
  delivery has the headers the message was published with and the propagator keeps its documented laws.
\<close>

theorem trace_survives_broker:
  assumes "trace_laws tr" and "tr_TraceID tr ctx = Some t"
    and "Producer_Publish broker_amqp pr exchange key body w = (None, w')"
    and "br_context w = tr_Inject tr (publish_context tr ctx)"
  shows "\<exists>msg. br_published w' = br_published w @ [(exchange, key, msg)] \<and> pb_Body msg = body \<and>
    (\<forall>m d. dl_Headers (m :: 'b delivery) = pb_Headers msg \<longrightarrow> tr_TraceID tr (consume_context tr d m) = Some t)"
  using published_headers [OF assms(3,4)] consumed_trace [OF assms(1,2)] by metis

text \<open>A propagator of one header, on contexts that are the name of a trace, empty for none.\<close>

definition demo_tracing :: "string tracing" where
  "demo_tracing =
     \<lparr>tr_Inject = (\<lambda>c. if c = [] then [] else [(''traceparent'', c)]),
      tr_Extract = (\<lambda>d get. if get ''traceparent'' = [] then d else get ''traceparent''),
      tr_Start = (\<lambda>name c. if c = [] then ''new'' else c),
      tr_TraceID = (\<lambda>c. if c = [] then None else Some c)\<rparr>"

lemma demo_tracing_laws: "trace_laws demo_tracing"
  by (auto simp: trace_laws_def demo_tracing_def split: if_splits)

theorem trace_survives_broker_witness:
  "\<exists>(w' :: (unit, unit) broker) msg. br_published w' = [(exchangeName, routingHigh, msg)] \<and>
     tr_TraceID demo_tracing
       (consume_context demo_tracing [] \<lparr>dl_tag = 1, dl_RoutingKey = routingHigh, dl_Headers = pb_Headers msg, dl_Body = ()\<rparr>) =
     Some ''00-1-2-01''"
proof -
  let ?pr = "\<lparr>pr_ep = \<lparr>ep_conn = Some 0, ep_channel = Some 1\<rparr>, pr_reconnectCh = True\<rparr>"
  let ?w = "demo_broker\<lparr>br_context := [(''traceparent'', ''00-1-2-01'')]\<rparr>"
  obtain w' where run: "Producer_Publish broker_amqp ?pr exchangeName routingHigh () ?w = (None, w')"
    by (simp add: Producer_Publish_def broker_amqp_def br_call_def br_fault_def demo_broker_def Let_def)
  have ctx: "tr_TraceID demo_tracing ''00-1-2-01'' = Some ''00-1-2-01''"
    "br_context ?w = tr_Inject demo_tracing (publish_context demo_tracing ''00-1-2-01'')"
    by (simp_all add: demo_tracing_def publish_context_def)
  obtain msg where "br_published w' = br_published ?w @ [(exchangeName, routingHigh, msg)]"
    and "\<forall>m d. dl_Headers (m :: unit delivery) = pb_Headers msg \<longrightarrow>
           tr_TraceID demo_tracing (consume_context demo_tracing d m) = Some ''00-1-2-01''"
    using trace_survives_broker [OF demo_tracing_laws ctx(1) run ctx(2)] by blast
  then show ?thesis
    by (intro exI [of _ w'] exI [of _ msg]) (simp add: demo_broker_def)
qed

section \<open>The spans of the producer and the consumer\<close>

definition messaging_attributes :: "string \<Rightarrow> string \<Rightarrow> attribute list" where
  "messaging_attributes destination routingKey =
     [AttrString ''messaging.system'' ''rabbitmq'', AttrString ''messaging.destination'' destination,
      AttrString ''messaging.rabbitmq.routing_key'' routingKey]"

text \<open>\<open>Publish\<close> with its span, which is ended by a \<open>defer\<close>.\<close>

definition traced_Publish ::
    "('b, 'w) amqp \<Rightarrow> producer \<Rightarrow> string \<Rightarrow> string \<Rightarrow> 'b \<Rightarrow> 'w \<Rightarrow> span \<times> goerr option \<times> 'w" where
  "traced_Publish p pr exchange routingKey body w =
     (let calls = [SetAttributes (messaging_attributes exchange routingKey)] in
      case ep_channel (pr_ep pr) of
        None \<Rightarrow>
          let err = ErrText ''rabbitmq channel not available''
          in (calls @ [RecordError err, SetStatusError ''publish failed'', SpanEnd], Some err, w)
      | Some ch \<Rightarrow>
          let msg = \<lparr>pb_ContentType = ''application/json'', pb_Body = body,
                     pb_Headers = inject (am_propagate p w) Map.empty, pb_DeliveryMode = 2\<rparr>
          in (case am_Publish p ch exchange routingKey msg w of
                (Some err, w1) \<Rightarrow>
                  (calls @ [RecordError err, SetStatusError ''publish failed'', SpanEnd],
                   Some (Wrapf ''rabbitmq publish'' err), w1)
              | (None, w1) \<Rightarrow> (calls @ [SpanEnd], None, w1)))"

text \<open>One delivery of \<open>Consume\<close> with its span, which has no \<open>defer\<close>.\<close>

definition traced_delivery ::
    "('b, 'w) amqp \<Rightarrow> string \<Rightarrow> ('b, 'w) handler \<Rightarrow> nat \<Rightarrow> 'b delivery \<Rightarrow> 'w \<Rightarrow> span \<times> (consuming \<times> 'w) option" where
  "traced_delivery p queue handler stream m w =
     (let calls = [SetAttributes (messaging_attributes queue (dl_RoutingKey m))] in
      case handler m w of
        None \<Rightarrow> (calls, None)
      | Some (Some err, w1) \<Rightarrow>
          (let calls1 = calls @ [RecordError err, SetStatusError ''handler error''] in
           if errors_as_unrecoverable err then
             (case am_Nack p m False w1 of
                (Some nackErr, w2) \<Rightarrow> (calls1, Some (Finished (Some (Wrapf ''nack message'' nackErr)), w2))
              | (None, w2) \<Rightarrow> (calls1 @ [SpanEnd], Some (Receiving stream, w2)))
           else
             (case am_Nack p m True w1 of
                (Some nackErr, w2) \<Rightarrow> (calls1, Some (Finished (Some (Wrapf ''nack message'' nackErr)), w2))
              | (None, w2) \<Rightarrow> (calls1 @ [SpanEnd], Some (Receiving stream, w2))))
      | Some (None, w1) \<Rightarrow>
          (case am_Ack p m w1 of
             (Some err, w2) \<Rightarrow>
               (calls @ [RecordError err, SetStatusError ''ack error'', SpanEnd],
                Some (Finished (Some (Wrapf ''ack message'' err)), w2))
           | (None, w2) \<Rightarrow> (calls @ [SpanEnd], Some (Receiving stream, w2))))"

lemma traced_Publish_result: "snd (traced_Publish p pr exchange key body w) = Producer_Publish p pr exchange key body w"
  by (simp add: traced_Publish_def Producer_Publish_def Let_def split: option.split prod.split)

lemma traced_delivery_result: "snd (traced_delivery p queue h d m w) = consume_delivery p h d m w"
  by (auto simp: traced_delivery_def consume_delivery_def Let_def split: option.split prod.split)

text \<open>A span that was ended once, as its last call.\<close>

definition ended :: "span \<Rightarrow> bool" where
  "ended calls \<longleftrightarrow> calls \<noteq> [] \<and> last calls = SpanEnd \<and> SpanEnd \<notin> set (butlast calls)"

definition recorded :: "span \<Rightarrow> goerr list" where
  "recorded calls = concat (map (\<lambda>c. case c of RecordError e \<Rightarrow> [e] | _ \<Rightarrow> []) calls)"

lemma publish_span:
  "traced_Publish p pr exchange key body w = (calls, err, w') \<Longrightarrow>
   ended calls \<and> (recorded calls = [] \<longleftrightarrow> err = None)"
  by (auto simp: traced_Publish_def ended_def recorded_def Let_def split: option.splits prod.splits)

definition nack_failed :: "consuming \<Rightarrow> bool" where
  "nack_failed st \<longleftrightarrow> (\<exists>e. st = Finished (Some (Wrapf ''nack message'' e)))"

lemma delivery_span:
  "traced_delivery p queue handler stream m w = (calls, Some (st, w')) \<Longrightarrow>
   (if nack_failed st then SpanEnd \<notin> set calls else ended calls) \<and>
   (recorded calls = [] \<longleftrightarrow> st = Receiving stream \<and> (\<exists>w1. handler m w = Some (None, w1)))"
  by (auto simp: traced_delivery_def nack_failed_def ended_def recorded_def Let_def messaging_attributes_def
      split: option.splits prod.splits if_splits)

text \<open>
  C27. The spans of the consumer. The span of a delivery that was handled is ended exactly once, as its last
  call, unless the negative acknowledgement fails: then it is never ended, so that the span with the error
  of the handler is the one that is lost. It records an error exactly when the handler or the
  acknowledgement failed; the error of the negative acknowledgement is in no span.
\<close>

theorem delivery_span_ends:
  assumes "traced_delivery p queue handler stream m w = (calls, Some (st, w'))"
  shows "consume_delivery p handler stream m w = Some (st, w') \<and>
    (if nack_failed st then SpanEnd \<notin> set calls else ended calls) \<and>
    (recorded calls = [] \<longleftrightarrow> st = Receiving stream \<and> (\<exists>w1. handler m w = Some (None, w1)))"
  using delivery_span [OF assms] traced_delivery_result [of p queue handler stream m w] assms by simp

text \<open>A malformed message whose negative acknowledgement fails.\<close>

theorem delivery_span_ends_witness:
  "\<exists>calls w'. traced_delivery broker_amqp queueHigh (\<lambda>m w. Some (Some (UnrecoverableError (ErrText ''bad'')), w)) 3
       (demo_delivery 1) (demo_broker\<lparr>br_faults := [Some (ErrText ''gone'')]\<rparr>) =
       (calls, Some (Finished (Some (Wrapf ''nack message'' (ErrText ''gone''))), w')) \<and>
     SpanEnd \<notin> set calls \<and> recorded calls \<noteq> []"
proof -
  let ?h = "\<lambda>m w. Some (Some (UnrecoverableError (ErrText ''bad'')), w :: (unit, unit) broker)"
  let ?w = "demo_broker\<lparr>br_faults := [Some (ErrText ''gone'')]\<rparr>"
  obtain calls w' where run: "traced_delivery broker_amqp queueHigh ?h 3 (demo_delivery 1) ?w =
      (calls, Some (Finished (Some (Wrapf ''nack message'' (ErrText ''gone''))), w'))"
    by (simp add: traced_delivery_def broker_amqp_def br_call_def br_fault_def demo_broker_def Let_def)
  from delivery_span_ends [OF this] show ?thesis
    using run by (intro exI [of _ calls] exI [of _ w']) (simp add: nack_failed_def)
qed

section \<open>The request log\<close>

text \<open>
  \<open>Flush\<close> of the wrapped writer, in cmd/api: \<open>flusher\<close> is the method \<open>Flush\<close> of the writer inside, when
  it has one.
\<close>

definition rw_Flush :: "(http_response \<Rightarrow> http_response) option \<Rightarrow> responseWriter \<Rightarrow> responseWriter" where
  "rw_Flush flusher w =
     (case flusher of
        Some Flush \<Rightarrow> w\<lparr>rw_ResponseWriter := Flush (rw_ResponseWriter w)\<rparr>
      | None \<Rightarrow> w)"

text \<open>cmd/ui has a middleware of its own.\<close>

definition ui_rw_WriteHeader :: "int \<Rightarrow> responseWriter \<Rightarrow> responseWriter" where
  "ui_rw_WriteHeader code w = w\<lparr>rw_status := code, rw_ResponseWriter := WriteHeader code (rw_ResponseWriter w)\<rparr>"

definition ui_rw_Flush :: "(http_response \<Rightarrow> http_response) option \<Rightarrow> responseWriter \<Rightarrow> responseWriter" where
  "ui_rw_Flush flusher w =
     (case flusher of
        Some Flush \<Rightarrow> w\<lparr>rw_ResponseWriter := Flush (rw_ResponseWriter w)\<rparr>
      | None \<Rightarrow> w)"

definition ui_sanitizeLogValue :: "string \<Rightarrow> string" where
  "ui_sanitizeLogValue value = map (\<lambda>c. if c = CHR 0x0A \<or> c = CHR 0x0D then CHR '' '' else c) value"

definition ui_Logging ::
    "('w \<Rightarrow> time \<times> 'w) \<Rightarrow> (responseWriter \<Rightarrow> 'w \<Rightarrow> responseWriter \<times> 'w) \<Rightarrow> string \<Rightarrow> string \<Rightarrow> string \<Rightarrow>
     http_response \<Rightarrow> 'w \<Rightarrow> http_log \<times> http_response \<times> 'w" where
  "ui_Logging now next traceID meth path h w =
     (case now w of (start, w1) \<Rightarrow>
      case next \<lparr>rw_ResponseWriter = h, rw_status = StatusOK\<rparr> w1 of (wrapped, w2) \<Rightarrow>
      case now w2 of (end, w3) \<Rightarrow>
        (\<lparr>hl_method = ui_sanitizeLogValue meth, hl_path = ui_sanitizeLogValue path, hl_status = rw_status wrapped,
          hl_latency_ms = milliseconds (end - start), hl_trace_id = traceID\<rparr>,
         rw_ResponseWriter wrapped, w3))"

text \<open>Both do the same, and the log line of a request is one line.\<close>

lemma same_middleware:
  "ui_rw_WriteHeader = rw_WriteHeader" "ui_rw_Flush = rw_Flush" "ui_sanitizeLogValue = sanitizeLogValue"
  "ui_Logging = Logging"
  by (simp_all add: fun_eq_iff ui_rw_WriteHeader_def rw_WriteHeader_def ui_rw_Flush_def rw_Flush_def
      ui_sanitizeLogValue_def sanitizeLogValue_def ui_Logging_def Logging_def)

lemma sanitized_one_line: "CHR 0x0A \<notin> set (sanitizeLogValue v)" "CHR 0x0D \<notin> set (sanitizeLogValue v)"
  by (auto simp: sanitizeLogValue_def split: if_splits)

text \<open>
  The status that is logged is the one the client got, as long as no status is set twice: \<open>WriteHeader\<close>
  keeps the last, the connection sends the first.
\<close>

lemma logged_status_sent:
  assumes "hr_sent (rw_ResponseWriter w) = None"
  shows "response_code (rw_ResponseWriter (rw_WriteHeader code w)) = Some code" "rw_status (rw_WriteHeader code w) = code"
  using assms by (simp_all add: rw_WriteHeader_def WriteHeader_def response_code_def)

end
