(* ===== verification/Schema.thy ===== *)
theory Schema
  imports Postgres Db_Clients
begin

text \<open>
  What \<open>InitSchema\<close> does to the database, every time a service starts: the five statements of
  internal/db/schema/postgres.sql on the tables of Postgres, with the copy of the status events that
  versions of the program before the table scenario_events kept in load_events.
\<close>

section \<open>The statements\<close>

text \<open>
  A database with the tables it has. \<open>same\<close> is the equality of JSONB values. A table that does not exist
  has no rows.
\<close>

record schema_db =
  sh_tables :: "string set"
  sh_pg :: pg

definition create_table :: "string \<Rightarrow> schema_db \<Rightarrow> schema_db" where
  "create_table name s = s\<lparr>sh_tables := insert name (sh_tables s)\<rparr>"

text \<open>The operator \<open>?\<close> of JSONB: a key of an object, a string in an array, or the string itself.\<close>

definition jsonb_exists :: "bytes \<Rightarrow> string \<Rightarrow> bool" where
  "jsonb_exists b k =
     (case b of
        Doc (JObj kvs) \<Rightarrow> k \<in> fst ` set kvs
      | Doc (JArr xs) \<Rightarrow> JStr k \<in> set xs
      | Doc (JStr x) \<Rightarrow> x = k
      | _ \<Rightarrow> False)"

definition same_event :: "(bytes \<Rightarrow> bytes \<Rightarrow> bool) \<Rightarrow> event_row \<Rightarrow> event_row \<Rightarrow> bool" where
  "same_event same e r \<longleftrightarrow>
     ev_scenario_id e = ev_scenario_id r \<and> same (ev_payload e) (ev_payload r) \<and> ev_created_at e = ev_created_at r"

definition rows_to_copy :: "(bytes \<Rightarrow> bytes \<Rightarrow> bool) \<Rightarrow> pg \<Rightarrow> event_row list" where
  "rows_to_copy same db =
     filter (\<lambda>r. jsonb_exists (ev_payload r) ''status'' \<and> \<not> list_ex (\<lambda>e. same_event same e r) (scenario_events db))
       (load_events db)"

text \<open>The rows get new numbers, in the order in which the query finds them.\<close>

fun append_rows :: "event_row list \<Rightarrow> pg \<Rightarrow> pg" where
  "append_rows [] db = db"
| "append_rows (r # rs) db =
     append_rows rs (insert_scenario_event (ev_created_at r) (ev_scenario_id r) (ev_payload r) db)"

definition copy_status_events :: "(bytes \<Rightarrow> bytes \<Rightarrow> bool) \<Rightarrow> schema_db \<Rightarrow> goerr option \<times> schema_db" where
  "copy_status_events same s =
     (if {''load_events'', ''scenario_events''} \<subseteq> sh_tables s
      then (None, s\<lparr>sh_pg := append_rows (rows_to_copy same (sh_pg s)) (sh_pg s)\<rparr>)
      else (Some (ErrText ''ERROR: relation does not exist (SQLSTATE 42P01)''), s))"

definition schema_statement :: "nat \<Rightarrow> string" where
  "schema_statement i = splitSQLStatements schema_text ! i"

definition schema_Exec ::
    "(bytes \<Rightarrow> bytes \<Rightarrow> bool) \<Rightarrow> string \<Rightarrow> sql_val list \<Rightarrow> schema_db \<Rightarrow> goerr option \<times> schema_db" where
  "schema_Exec same q args s =
     (if q = schema_statement 0 then (None, create_table ''load_events'' s)
      else if q = schema_statement 1 then (None, create_table ''scenario_events'' s)
      else if q = schema_statement 2 then copy_status_events same s
      else if q = schema_statement 3 then (None, create_table ''chaos_events'' s)
      else if q = schema_statement 4 then (None, create_table ''metrics_snapshots'' s)
      else (Some statement_error, s))"

definition schema_store :: "(bytes \<Rightarrow> bytes \<Rightarrow> bool) \<Rightarrow> schema_db sql_store" where
  "schema_store same =
     \<lparr>st_Exec = schema_Exec same, st_Query = (\<lambda>q args s. (Inl statement_error, s)),
      st_QueryRow = (\<lambda>q args s. (Inl statement_error, s))\<rparr>"

section \<open>Starting once and again\<close>

lemma schema_lengths: "map length (splitSQLStatements schema_text) = [181, 185, 445, 186, 157]"
  by code_simp

lemma schema_statements: "length (splitSQLStatements schema_text) = 5" "distinct (splitSQLStatements schema_text)"
proof -
  show "length (splitSQLStatements schema_text) = 5"
    using arg_cong [OF schema_lengths, of length] by simp
  have "distinct (map length (splitSQLStatements schema_text))"
    by (simp add: schema_lengths)
  then show "distinct (splitSQLStatements schema_text)"
    by (simp add: distinct_map)
qed

lemma schema_statement_inj:
  "i < 5 \<Longrightarrow> j < 5 \<Longrightarrow> schema_statement i = schema_statement j \<longleftrightarrow> i = j"
  by (simp add: schema_statement_def nth_eq_iff_index_eq schema_statements)

lemma five_elements: "length xs = 5 \<Longrightarrow> xs = [xs ! 0, xs ! 1, xs ! 2, xs ! 3, xs ! 4]"
  by (auto simp: list_eq_iff_nth_eq less_Suc_eq numeral_eq_Suc)

lemma schema_list:
  "splitSQLStatements schema_text =
   [schema_statement 0, schema_statement (Suc 0), schema_statement 2, schema_statement 3, schema_statement 4]"
  unfolding schema_statement_def using five_elements [OF schema_statements(1)] by simp

lemma append_rows_simps:
  "load_events (append_rows rs db) = load_events db"
  "\<exists>new. scenario_events (append_rows rs db) = scenario_events db @ new \<and>
     map (\<lambda>r. (ev_scenario_id r, ev_payload r, ev_created_at r)) new =
     map (\<lambda>r. (ev_scenario_id r, ev_payload r, ev_created_at r)) rs"
proof (induction rs arbitrary: db)
  case (Cons r rs)
  { case 1 show ?case using Cons(1) by (simp add: insert_scenario_event_def) }
  { case 2 show ?case
      using Cons(2) [of "insert_scenario_event (ev_created_at r) (ev_scenario_id r) (ev_payload r) db"]
      by (auto simp: insert_scenario_event_def) }
qed simp_all

lemma nothing_to_copy_iff:
  "rows_to_copy same db = [] \<longleftrightarrow>
   (\<forall>r \<in> set (load_events db). jsonb_exists (ev_payload r) ''status'' \<longrightarrow>
      (\<exists>e \<in> set (scenario_events db). same_event same e r))"
  by (auto simp: rows_to_copy_def filter_empty_conv list_ex_iff)

lemma nothing_left_to_copy:
  assumes "reflp same"
  shows "rows_to_copy same (append_rows (rows_to_copy same db) db) = []"
proof -
  let ?rs = "rows_to_copy same db"
  let ?cols = "\<lambda>r. (ev_scenario_id r, ev_payload r, ev_created_at r)"
  obtain new where new: "scenario_events (append_rows ?rs db) = scenario_events db @ new" "map ?cols new = map ?cols ?rs"
    using append_rows_simps(2) [of ?rs db] by blast
  have "\<exists>e \<in> set (scenario_events db @ new). same_event same e r"
    if r: "r \<in> set (load_events db)" "jsonb_exists (ev_payload r) ''status''" for r
  proof (cases "r \<in> set ?rs")
    case True
    then have "?cols r \<in> set (map ?cols new)"
      unfolding new(2) by force
    then obtain e where "e \<in> set new" "?cols e = ?cols r"
      by auto
    with reflpD [OF assms] show ?thesis
      by (auto simp: same_event_def)
  next
    case False
    with r show ?thesis
      by (auto simp: rows_to_copy_def list_ex_iff)
  qed
  then show ?thesis
    unfolding nothing_to_copy_iff append_rows_simps(1) new(1) by blast
qed

text \<open>The state after all five statements.\<close>

definition with_schema :: "(bytes \<Rightarrow> bytes \<Rightarrow> bool) \<Rightarrow> schema_db \<Rightarrow> schema_db" where
  "with_schema same s =
     \<lparr>sh_tables = sh_tables s \<union> {''load_events'', ''scenario_events'', ''chaos_events'', ''metrics_snapshots''},
      sh_pg = append_rows (rows_to_copy same (sh_pg s)) (sh_pg s)\<rparr>"

lemma schema_Exec_simps:
  "st_Exec (PostgresClient (schema_store same)) (schema_statement 0) args s = (None, create_table ''load_events'' s)"
  "st_Exec (PostgresClient (schema_store same)) (schema_statement (Suc 0)) args s = (None, create_table ''scenario_events'' s)"
  "st_Exec (PostgresClient (schema_store same)) (schema_statement 2) args s =
     wrap_err ''postgres exec'' (copy_status_events same s)"
  "st_Exec (PostgresClient (schema_store same)) (schema_statement 3) args s = (None, create_table ''chaos_events'' s)"
  "st_Exec (PostgresClient (schema_store same)) (schema_statement 4) args s = (None, create_table ''metrics_snapshots'' s)"
  by (simp_all add: PostgresClient_def schema_store_def schema_Exec_def schema_statement_inj wrap_err_def)

lemma InitSchema_result:
  "InitSchema (Inr schema_text) (PostgresClient (schema_store same)) s = (None, with_schema same s)"
  by (simp add: InitSchema_def schema_list schema_Exec_simps wrap_err_def copy_status_events_def create_table_def
      with_schema_def insert_commute)

lemma with_schema_again:
  assumes "reflp same"
  shows "with_schema same (with_schema same s) = with_schema same s"
  using nothing_left_to_copy [OF assms, of "sh_pg s"] by (auto simp: with_schema_def)

text \<open>A start that was interrupted after \<open>k\<close> statements.\<close>

lemma interrupted_schema:
  assumes "reflp same"
    and "apply_schema (PostgresClient (schema_store same)) (take k (splitSQLStatements schema_text)) s = (r, s1)"
  shows "r = None \<and> with_schema same s1 = with_schema same s"
proof -
  have k: "k = 0 \<or> k = 1 \<or> k = 2 \<or> k = 3 \<or> k = 4 \<or> 5 \<le> k"
    by linarith
  note defs = schema_list schema_Exec_simps wrap_err_def copy_status_events_def create_table_def with_schema_def
    insert_commute
  from assms(2) k show ?thesis
    using nothing_left_to_copy [OF assms(1), of "sh_pg s"] by (elim disjE) (auto simp: defs take_Cons')
qed

text \<open>The load events of this version have no status.\<close>

lemma load_event_no_status: "load_event_payload uid sid wt t = Inr b \<Longrightarrow> \<not> jsonb_exists b ''status''"
  by (auto simp: load_event_payload_def jsonb_exists_def split: sum.splits)

lemma no_copy:
  assumes "\<And>r. r \<in> set (load_events (sh_pg s)) \<Longrightarrow> \<exists>uid sid wt t. load_event_payload uid sid wt t = Inr (ev_payload r)"
  shows "sh_pg (with_schema same s) = sh_pg s"
proof -
  have "rows_to_copy same (sh_pg s) = []"
    using assms load_event_no_status by (fastforce simp: nothing_to_copy_iff)
  then show ?thesis
    by (simp add: with_schema_def)
qed

text \<open>
  C24. The schema. \<open>InitSchema\<close> succeeds on every database, whatever tables it has; a start that was
  interrupted after any number of statements and tried again, and every further start, gives the same
  database as one start. The load events stay, the scenario events keep their rows and get the status
  events that load_events alone has; and a database whose load events were all written by the write
  generator is not changed, so that starting a service touches no scenario.
\<close>

theorem InitSchema_converges:
  assumes "reflp same"
    and "apply_schema (PostgresClient (schema_store same)) (take k (splitSQLStatements schema_text)) s = (r, s1)"
  shows "\<exists>s' new. InitSchema (Inr schema_text) (PostgresClient (schema_store same)) s = (None, s') \<and>
    InitSchema (Inr schema_text) (PostgresClient (schema_store same)) s1 = (None, s') \<and>
    InitSchema (Inr schema_text) (PostgresClient (schema_store same)) s' = (None, s') \<and>
    load_events (sh_pg s') = load_events (sh_pg s) \<and>
    scenario_events (sh_pg s') = scenario_events (sh_pg s) @ new \<and>
    map (\<lambda>r. (ev_scenario_id r, ev_payload r, ev_created_at r)) new =
      map (\<lambda>r. (ev_scenario_id r, ev_payload r, ev_created_at r)) (rows_to_copy same (sh_pg s)) \<and>
    ((\<forall>r \<in> set (load_events (sh_pg s)). \<exists>uid sid wt t. load_event_payload uid sid wt t = Inr (ev_payload r)) \<longrightarrow>
       sh_pg s' = sh_pg s)"
proof -
  obtain new where "scenario_events (sh_pg (with_schema same s)) = scenario_events (sh_pg s) @ new"
    and "map (\<lambda>r. (ev_scenario_id r, ev_payload r, ev_created_at r)) new =
      map (\<lambda>r. (ev_scenario_id r, ev_payload r, ev_created_at r)) (rows_to_copy same (sh_pg s))"
    using append_rows_simps(2) [of "rows_to_copy same (sh_pg s)" "sh_pg s"] by (auto simp: with_schema_def)
  with interrupted_schema [OF assms] with_schema_again [OF assms(1)] no_copy [of s] show ?thesis
    by (intro exI [of _ "with_schema same s"] exI [of _ new]) (auto simp: InitSchema_result with_schema_def append_rows_simps(1))
qed

text \<open>An old database with one status event in load_events, interrupted after the first statement.\<close>

definition old_database :: schema_db where
  "old_database =
     \<lparr>sh_tables = {''load_events''},
      sh_pg = empty_pg\<lparr>load_events :=
        [\<lparr>ev_id = 1, ev_scenario_id = ''s1'', ev_payload = Doc (JObj [(''status'', JStr ''queued'')]), ev_created_at = 7\<rparr>],
        load_seq := 1\<rparr>\<rparr>"

theorem InitSchema_converges_witness:
  "\<exists>s'. InitSchema (Inr schema_text) (PostgresClient (schema_store (=))) old_database = (None, s') \<and>
     InitSchema (Inr schema_text) (PostgresClient (schema_store (=))) s' = (None, s') \<and>
     map ev_scenario_id (scenario_events (sh_pg s')) = [''s1'']"
proof -
  have "apply_schema (PostgresClient (schema_store (=))) (take 1 (splitSQLStatements schema_text)) old_database =
      (None, create_table ''load_events'' old_database)"
    by (simp add: schema_list schema_Exec_simps)
  moreover have "reflp ((=) :: bytes \<Rightarrow> bytes \<Rightarrow> bool)"
    by (simp add: reflp_def)
  ultimately obtain s' new where
    "InitSchema (Inr schema_text) (PostgresClient (schema_store (=))) old_database = (None, s')"
    "InitSchema (Inr schema_text) (PostgresClient (schema_store (=))) s' = (None, s')"
    "scenario_events (sh_pg s') = scenario_events (sh_pg old_database) @ new"
    "map (\<lambda>r. (ev_scenario_id r, ev_payload r, ev_created_at r)) new =
      map (\<lambda>r. (ev_scenario_id r, ev_payload r, ev_created_at r)) (rows_to_copy (=) (sh_pg old_database))"
    using InitSchema_converges by blast
  then show ?thesis
    by (intro exI [of _ s']) (auto simp: old_database_def empty_pg_def rows_to_copy_def jsonb_exists_def)
qed

end
