(* ===== verification/Chaos_Lab.thy ===== *)
theory Chaos_Lab
  imports Api_Chaos
begin

text \<open>
  The chaos endpoints on a cluster in memory: the objects of \<open>kube\<close>, the records of the collection with
  a script of failures of the store, and the order in which the map of the kinds is walked. The API
  server of \<open>lab_ports\<close> refuses nothing but a missing or an existing name; the one of \<open>flaky_ports\<close> may
  answer any call with any error. The collection is a list: an insert does not look for another record
  with the same \<open>_id\<close>, and an update or a deletion acts on every record with the id.
\<close>

record lab =
  lab_kube :: kube
  lab_records :: "chaosRecord list"
  lab_faults :: "goerr option list"

definition lab_call :: "(lab \<Rightarrow> 'a) \<Rightarrow> (lab \<Rightarrow> lab) \<Rightarrow> lab \<Rightarrow> 'a res \<times> lab" where
  "lab_call result effect w =
     (case lab_faults w of
        Some err # fs \<Rightarrow> (Inl err, w\<lparr>lab_faults := fs\<rparr>)
      | None # fs \<Rightarrow> (Inr (result w), effect (w\<lparr>lab_faults := fs\<rparr>))
      | [] \<Rightarrow> (Inr (result w), effect w))"

definition lab_update :: "(lab \<Rightarrow> lab) \<Rightarrow> lab \<Rightarrow> goerr option \<times> lab" where
  "lab_update effect w = (case lab_call (\<lambda>w. ()) effect w of (Inl err, w1) \<Rightarrow> (Some err, w1) | (Inr u, w1) \<Rightarrow> (None, w1))"

definition set_status :: "string \<Rightarrow> string \<Rightarrow> chaosRecord \<Rightarrow> chaosRecord" where
  "set_status xid status r = (if rc_ID r = xid then r\<lparr>rc_Status := status\<rparr> else r)"

definition lab_mongo :: "lab mongo" where
  "lab_mongo =
     \<lparr>mg_InsertOne = \<lambda>c r. lab_update (\<lambda>w. w\<lparr>lab_records := lab_records w @ [r]\<rparr>),
      mg_Find = \<lambda>c f. lab_call (\<lambda>w. \<lparr>cu_rows = map Inr (filter (\<lambda>r. case f of None \<Rightarrow> True | Some i \<Rightarrow> rc_ID r = i) (lab_records w)),
                                    cu_err = None\<rparr>) (\<lambda>w. w),
      mg_UpdateOne = \<lambda>c i s. lab_update (\<lambda>w. w\<lparr>lab_records := map (set_status i s) (lab_records w)\<rparr>),
      mg_DeleteOne = \<lambda>c i. lab_update (\<lambda>w. w\<lparr>lab_records := filter (\<lambda>r. rc_ID r \<noteq> i) (lab_records w)\<rparr>)\<rparr>"

definition on_kube :: "(kube \<Rightarrow> 'a \<times> kube) \<Rightarrow> lab \<Rightarrow> 'a \<times> lab" where
  "on_kube f w = (case f (lab_kube w) of (r, kw) \<Rightarrow> (r, w\<lparr>lab_kube := kw\<rparr>))"

definition lab_ports :: "fraction \<Rightarrow> (string \<times> string) list \<Rightarrow> lab chaos_ports" where
  "lab_ports frac order =
     \<lparr>cp_store = mongoAdapter (MongoClient lab_mongo),
      cp_Apply = \<lambda>spec. on_kube (Chaos_Apply (kube_k8s frac) ''cluster-probe'' spec),
      cp_Status = \<lambda>xid. on_kube (Chaos_Status (kube_k8s frac) ''cluster-probe'' order xid),
      cp_Delete = \<lambda>xid. on_kube (Chaos_Delete (kube_k8s frac) ''cluster-probe'' order xid),
      cp_List = on_kube (Chaos_List (kube_k8s frac) ''cluster-probe'' order),
      cp_now = \<lambda>w. (kb_clock (lab_kube w), w)\<rparr>"

section \<open>The specification\<close>

text \<open>
  The type decides: a request gives a specification exactly when its type is one of the five, and
  the specification has a kind the client supports, the name of the request and the namespace of the
  deployment; the error for an invalid configuration is never given.
\<close>

theorem buildExperimentSpec_types:
  "case buildExperimentSpec req of
     Inr spec \<Rightarrow> config_get (cr_Config req) ''type'' \<in> {''pod'', ''network'', ''io'', ''stress'', ''time''} \<and>
       map_of chaosGVRs (es_Kind spec) \<noteq> None \<and> es_Name spec = cr_Name req \<and> es_Namespace spec = ''cluster-probe'' \<and>
       es_Spec spec \<noteq> None
   | Inl err \<Rightarrow> config_get (cr_Config req) ''type'' \<notin> {''pod'', ''network'', ''io'', ''stress'', ''time''} \<and>
       err = ErrText ''chaos type is required''"
  by (simp add: buildExperimentSpec_def chaosKindFromConfig_def chaosSpecFromConfig_def chaosGVRs_def Let_def)

text \<open>What a target has to look like: \<open>key=value\<close> around the first equals sign, neither of them blank.\<close>

definition is_label_selector :: "string \<Rightarrow> string \<Rightarrow> string \<Rightarrow> bool" where
  "is_label_selector t k v \<longleftrightarrow>
     (\<exists>a b. t = a @ ''='' @ b \<and> CHR ''='' \<notin> set a \<and> k = trim_space a \<and> v = trim_space b \<and> k \<noteq> [] \<and> v \<noteq> [])"

lemma cut_at: "c \<notin> set a \<Longrightarrow> cut c (a @ c # b) = Some (a, b)" "c \<notin> set s \<Longrightarrow> cut c s = None"
  by (induction a) (auto simp: cut_def)

lemma parseLabelSelector_iff: "parseLabelSelector t = Some (k, v) \<longleftrightarrow> is_label_selector t k v"
proof (cases "CHR ''='' \<in> set t")
  case True
  then obtain a b where t: "t = a @ CHR ''='' # b" "CHR ''='' \<notin> set a"
    by (blast dest: split_list_first)
  have "is_label_selector t k v \<longleftrightarrow> k = trim_space a \<and> v = trim_space b \<and> k \<noteq> [] \<and> v \<noteq> []"
    unfolding is_label_selector_def t(1)
  proof
    assume "\<exists>aa ba. a @ CHR ''='' # b = aa @ ''='' @ ba \<and> CHR ''='' \<notin> set aa \<and> k = trim_space aa \<and> v = trim_space ba \<and> k \<noteq> [] \<and> v \<noteq> []"
    then obtain aa ba where eq: "a @ CHR ''='' # b = aa @ CHR ''='' # ba" and other: "CHR ''='' \<notin> set aa"
      and kv: "k = trim_space aa" "v = trim_space ba" "k \<noteq> []" "v \<noteq> []"
      by auto
    have "cut (CHR ''='') (a @ CHR ''='' # b) = Some (aa, ba)"
      unfolding eq by (rule cut_at(1) [OF other])
    with cut_at(1) [OF t(2), of b] kv show "k = trim_space a \<and> v = trim_space b \<and> k \<noteq> [] \<and> v \<noteq> []"
      by simp
  qed (rule exI [of _ a], rule exI [of _ b], use t(2) in auto)
  then show ?thesis
    using cut_at(1) [OF t(2), of b] t(1) by (auto simp: parseLabelSelector_def splitN2_def Let_def)
next
  case False
  then show ?thesis
    using cut_at(2) [OF False] by (auto simp: parseLabelSelector_def splitN2_def is_label_selector_def)
qed

text \<open>
  C37. Which pods an experiment selects: with a target \<open>key=value\<close>, both parts not blank, those of the
  namespace with this label; with any other target, whatever it is (no equals sign, an empty or blank
  key, an empty or blank value), every pod of the namespace, as if no target had been given, and without
  an error.
\<close>

theorem malformed_target_selects_all:
  assumes "buildExperimentSpec req = Inr spec"
  shows "(\<forall>k v. is_label_selector (config_get (cr_Config req) ''target'') k v \<longrightarrow>
       map_of (the (es_Spec spec)) ''selector'' =
         Some (JObj [(''namespaces'', JArr [JStr ''cluster-probe'']), (''labelSelectors'', JObj [(k, JStr v)])])) \<and>
    ((\<nexists>k v. is_label_selector (config_get (cr_Config req) ''target'') k v) \<longrightarrow>
       map_of (the (es_Spec spec)) ''selector'' = Some (JObj [(''namespaces'', JArr [JStr ''cluster-probe''])]))"
proof -
  let ?t = "config_get (cr_Config req) ''target''"
  have "map_of (the (es_Spec spec)) ''selector'' = Some (chaos_selector (cr_Config req))"
    using assms by (auto simp: buildExperimentSpec_def chaosSpecFromConfig_def Let_def split: if_splits)
  moreover have "parseLabelSelector [] = None"
    by (simp add: parseLabelSelector_def splitN2_def cut_def)
  ultimately have sel: "map_of (the (es_Spec spec)) ''selector'' = Some (JObj ((''namespaces'', JArr [JStr ''cluster-probe'']) #
      (case parseLabelSelector ?t of None \<Rightarrow> [] | Some (k, v) \<Rightarrow> [(''labelSelectors'', JObj [(k, JStr v)])])))"
    by (auto simp: chaos_selector_def Let_def)
  show ?thesis
    unfolding sel using parseLabelSelector_iff [of ?t] by (cases "parseLabelSelector ?t") auto
qed

theorem malformed_target_selects_all_witness:
  "list_all (\<lambda>target. \<exists>spec. buildExperimentSpec \<lparr>cr_Name = ''x'', cr_Scenario = ''s'',
       cr_Config = Some [(''type'', ''network''), (''target'', target)]\<rparr> = Inr spec \<and>
     map_of (the (es_Spec spec)) ''selector'' = Some (JObj [(''namespaces'', JArr [JStr ''cluster-probe''])]))
     [''component:worker'', ''=worker'', ''k='', ''k=  '']"
  unfolding list_all_iff
proof
  fix target :: string
  assume "target \<in> set [''component:worker'', ''=worker'', ''k='', ''k=  '']"
  then consider "target = ''component:worker''" | "target = ''=worker''" | "target = ''k=''" | "target = ''k=  ''"
    by auto
  then have none: "parseLabelSelector target = None"
    by cases (simp_all, code_simp+)
  let ?req = "\<lparr>cr_Name = ''x'', cr_Scenario = ''s'', cr_Config = Some [(''type'', ''network''), (''target'', target)]\<rparr>"
  obtain spec where spec: "buildExperimentSpec ?req = Inr spec"
    by (simp add: buildExperimentSpec_def chaosKindFromConfig_def chaosSpecFromConfig_def config_get_def Let_def)
  from malformed_target_selects_all [OF spec] none parseLabelSelector_iff [of target]
  have "map_of (the (es_Spec spec)) ''selector'' = Some (JObj [(''namespaces'', JArr [JStr ''cluster-probe''])])"
    by (simp add: config_get_def)
  with spec show "\<exists>spec. buildExperimentSpec ?req = Inr spec \<and>
     map_of (the (es_Spec spec)) ''selector'' = Some (JObj [(''namespaces'', JArr [JStr ''cluster-probe''])])"
    by blast
qed

section \<open>Creating and deleting\<close>

definition chaos_rejected :: "bytes \<Rightarrow> bool" where
  "chaos_rejected body =
     (case decodeJSON (dec_ChaosExperimentRequest True) body zero_chaos_request of
        Inl e \<Rightarrow> True
      | Inr req \<Rightarrow> ChaosExperimentRequest_Validate req \<noteq> None \<or> isl (buildExperimentSpec req))"

lemma lab_sel [simp]:
  "cp_store (lab_ports frac order) = mongoAdapter (MongoClient lab_mongo)"
  "cp_now (lab_ports frac order) w = (kb_clock (lab_kube w), w)"
  by (simp_all add: lab_ports_def)

lemma lab_Insert:
  "mg_InsertOne (mongoAdapter (MongoClient lab_mongo)) c r w = (e, w') \<Longrightarrow>
     lab_kube w' = lab_kube w \<and> lab_records w' = lab_records w @ (if e = None then [r] else [])"
  by (auto simp: mongoAdapter_def MongoClient_defs lab_mongo_def lab_update_def lab_call_def wrap_err_def
      split: list.splits option.splits)

lemma lab_Delete:
  "mg_DeleteOne (mongoAdapter (MongoClient lab_mongo)) c i w = (e, w') \<Longrightarrow>
     lab_kube w' = lab_kube w \<and>
     lab_records w' = (if e = None then filter (\<lambda>r. rc_ID r \<noteq> i) (lab_records w) else lab_records w)"
  by (auto simp: mongoAdapter_def MongoClient_defs lab_mongo_def lab_update_def lab_call_def wrap_err_def
      split: list.splits option.splits)

lemma kube_Apply:
  assumes "buildExperimentSpec req = Inr spec" and "cr_Name req \<noteq> []"
  shows "\<exists>g obj. map_of chaosGVRs (es_Kind spec) = Some g \<and> ko_name obj = cr_Name req \<and>
     Chaos_Apply (kube_k8s frac) ns spec kw =
       (if kube_has kw (g, ''cluster-probe'', cr_Name req)
        then (Inl (Wrapf ''create chaos experiment'' (ErrText ''already exists'')), kw)
        else (Inr (cr_Name req), kw\<lparr>kb_objects := kb_objects kw @ [((g, ''cluster-probe'', cr_Name req), obj)]\<rparr>))"
proof -
  have kinds: "es_Kind spec \<in> {''PodChaos'', ''NetworkChaos'', ''IOChaos'', ''StressChaos'', ''TimeChaos''}"
    and spec: "es_Name spec = cr_Name req" "es_Namespace spec = ''cluster-probe''" "es_Spec spec \<noteq> None"
    using assms(1) by (auto simp: buildExperimentSpec_def chaosKindFromConfig_def Let_def split: if_splits option.splits)
  then obtain g entries where g: "map_of chaosGVRs (es_Kind spec) = Some g" "es_Spec spec = Some entries" "es_Kind spec \<noteq> []"
    by (auto simp: chaosGVRs_def)
  let ?obj = "kobject_of (kb_clock kw) (experiment_object spec ''cluster-probe'' entries)"
  have name: "ko_name ?obj = cr_Name req"
    by (simp add: kobject_of_def experiment_object_def spec Let_def)
  show ?thesis
    by (intro exI [of _ g] exI [of _ ?obj])
       (use g spec assms(2) name in \<open>simp add: Chaos_Apply_def kube_k8s_def kube_has_map_of Let_def\<close>)
qed

text \<open>\<open>toResponse\<close> of the record of a new experiment is what the answer carries.\<close>

definition pending_record :: "ChaosExperimentRequest \<Rightarrow> time \<Rightarrow> chaosRecord" where
  "pending_record req now = \<lparr>rc_ID = cr_Name req, rc_Name = cr_Name req, rc_Scenario = cr_Scenario req,
     rc_Config = cr_Config req, rc_Status = ''pending'', rc_CreatedAt = now\<rparr>"

lemma CreateExperiment_valid:
  assumes run: "CreateExperiment (lab_ports frac order) body new_response w = (h, w')"
    and req: "decodeJSON (dec_ChaosExperimentRequest True) body zero_chaos_request = Inr req"
      "ChaosExperimentRequest_Validate req = None" "buildExperimentSpec req = Inr spec"
  shows "\<exists>g. map_of chaosGVRs (es_Kind spec) = Some g \<and>
    (if kube_has (lab_kube w) (g, ''cluster-probe'', cr_Name req) then response_code h = Some 502 \<and> w' = w
     else (\<forall>x. kube_has (lab_kube w') x \<longleftrightarrow> kube_has (lab_kube w) x \<or> x = (g, ''cluster-probe'', cr_Name req)) \<and>
       (h = respond StatusAccepted (enc_ChaosExperimentResponse (toResponse (pending_record req (kb_clock (lab_kube w))))) new_response \<and>
          lab_records w' = lab_records w @ [pending_record req (kb_clock (lab_kube w))] \<or>
        response_code h = Some 500 \<and> lab_records w' = lab_records w))"
proof -
  have "cr_Name req \<noteq> []"
    using req(2) by (simp add: ChaosExperimentRequest_Validate_iff)
  from kube_Apply [OF req(3) this, of frac "''cluster-probe''" "lab_kube w"] obtain g obj where
    g: "map_of chaosGVRs (es_Kind spec) = Some g" and
    app: "Chaos_Apply (kube_k8s frac) ''cluster-probe'' spec (lab_kube w) =
       (if kube_has (lab_kube w) (g, ''cluster-probe'', cr_Name req)
        then (Inl (Wrapf ''create chaos experiment'' (ErrText ''already exists'')), lab_kube w)
        else (Inr (cr_Name req), (lab_kube w)\<lparr>kb_objects := kb_objects (lab_kube w) @ [((g, ''cluster-probe'', cr_Name req), obj)]\<rparr>))"
    by blast
  let ?key = "(g, ''cluster-probe'', cr_Name req)"
  show ?thesis
  proof (cases "kube_has (lab_kube w) ?key")
    case True
    with run req app g show ?thesis
      by (auto simp: CreateExperiment_def lab_ports_def on_kube_def status_defs)
  next
    case False
    let ?w1 = "w\<lparr>lab_kube := (lab_kube w)\<lparr>kb_objects := kb_objects (lab_kube w) @ [(?key, obj)]\<rparr>\<rparr>"
    let ?rec = "pending_record req (kb_clock (lab_kube w))"
    obtain e w2 where ins: "mg_InsertOne (mongoAdapter (MongoClient lab_mongo)) chaosCollection ?rec ?w1 = (e, w2)"
      by fastforce
    have "cp_Apply (lab_ports frac order) spec w = (Inr (cr_Name req), ?w1)"
      using app False by (simp add: lab_ports_def on_kube_def)
    then have "(h, w') = (if e = None then respond StatusAccepted (enc_ChaosExperimentResponse (toResponse ?rec)) new_response
        else errorResponse StatusInternalServerError ''store experiment'' new_response, w2)"
      using run req ins by (cases e) (simp_all add: CreateExperiment_def Let_def pending_record_def)
    moreover from lab_Insert [OF ins] have "\<forall>x. kube_has (lab_kube w2) x \<longleftrightarrow> kube_has (lab_kube w) x \<or> x = ?key"
      by (auto simp: kube_has_def)
    moreover have "lab_records w2 = lab_records w @ (if e = None then [?rec] else [])"
      using lab_Insert [OF ins] by simp
    ultimately show ?thesis
      using g False by (cases e) (simp_all add: status_defs)
  qed
qed

lemma chaos_accepted:
  assumes "\<not> chaos_rejected body"
  obtains req spec where "decodeJSON (dec_ChaosExperimentRequest True) body zero_chaos_request = Inr req"
    "ChaosExperimentRequest_Validate req = None" "buildExperimentSpec req = Inr spec"
  using assms by (auto simp: chaos_rejected_def split: sum.splits) (metis sum.collapse(2))

lemma CreateExperiment_rejected:
  "CreateExperiment (lab_ports frac order) body new_response w = (h, w') \<Longrightarrow> chaos_rejected body \<Longrightarrow>
   response_code h = Some 400 \<and> w' = w"
  by (auto simp: CreateExperiment_def chaos_rejected_def status_defs split: sum.splits option.splits)

text \<open>
  What the answer to a create request means: 400 exactly for a request that does not decode,
  validate or name a type, and nothing happened; 502 exactly when an experiment of the kind and name
  exists, and nothing happened; otherwise the object exists, and there is a pending record with 202
  and none with 500.
\<close>

theorem CreateExperiment_outcomes:
  assumes "CreateExperiment (lab_ports frac order) body new_response w = (h, w')"
  shows "(chaos_rejected body \<longrightarrow> response_code h = Some 400 \<and> w' = w) \<and>
    (\<not> chaos_rejected body \<longrightarrow>
      (\<exists>req spec g. decodeJSON (dec_ChaosExperimentRequest True) body zero_chaos_request = Inr req \<and>
         buildExperimentSpec req = Inr spec \<and> map_of chaosGVRs (es_Kind spec) = Some g \<and>
         (if kube_has (lab_kube w) (g, ''cluster-probe'', cr_Name req) then response_code h = Some 502 \<and> w' = w
          else (\<forall>x. kube_has (lab_kube w') x \<longleftrightarrow> kube_has (lab_kube w) x \<or> x = (g, ''cluster-probe'', cr_Name req)) \<and>
            (response_code h = Some 202 \<and>
               lab_records w' = lab_records w @ [\<lparr>rc_ID = cr_Name req, rc_Name = cr_Name req, rc_Scenario = cr_Scenario req,
                 rc_Config = cr_Config req, rc_Status = ''pending'', rc_CreatedAt = kb_clock (lab_kube w)\<rparr>] \<or>
             response_code h = Some 500 \<and> lab_records w' = lab_records w))))"
proof (cases "chaos_rejected body")
  case True
  with CreateExperiment_rejected [OF assms] show ?thesis
    by simp
next
  case False
  then obtain req spec where req: "decodeJSON (dec_ChaosExperimentRequest True) body zero_chaos_request = Inr req"
    "ChaosExperimentRequest_Validate req = None" "buildExperimentSpec req = Inr spec"
    by (rule chaos_accepted)
  have "response_code (respond StatusAccepted x new_response) = Some 202" for x
    by (cases x) (simp_all add: respond_new_Inl status_defs)
  with False req(1,3) CreateExperiment_valid [OF assms req] show ?thesis
    by (auto simp: pending_record_def)
qed

definition empty_lab :: lab where
  "empty_lab = \<lparr>lab_kube = \<lparr>kb_objects = [], kb_clock = second\<rparr>, lab_records = [], lab_faults = [Some (ErrText ''no primary'')]\<rparr>"

definition demo_chaos :: ChaosExperimentRequest where
  "demo_chaos = \<lparr>cr_Name = ''slow'', cr_Scenario = ''s1'', cr_Config = Some [(''type'', ''network'')]\<rparr>"

theorem CreateExperiment_outcomes_witness:
  "\<exists>h w'. CreateExperiment (lab_ports (\<lambda>f u k. 0) chaosGVRs) NotJson new_response empty_lab = (h, w') \<and>
     response_code h = Some 400 \<and> w' = empty_lab"
proof -
  obtain h w' where run: "CreateExperiment (lab_ports (\<lambda>f u k. 0) chaosGVRs) NotJson new_response empty_lab = (h, w')"
    by fastforce
  have "chaos_rejected NotJson"
    by (simp add: chaos_rejected_def decodeJSON_def json_Unmarshal_def)
  with CreateExperiment_outcomes [OF run] run show ?thesis
    by blast
qed

section \<open>A Kubernetes API that fails\<close>

text \<open>
  The cluster in memory answers every call. Here a script says which calls fail, with any error of the
  API server or the network that does not claim that the object is missing; a call that fails does
  nothing.
\<close>

definition flaky_call :: "(kube \<Rightarrow> 'a \<times> kube) \<Rightarrow> (goerr \<Rightarrow> 'a) \<Rightarrow> kube \<times> goerr option list \<Rightarrow> 'a \<times> kube \<times> goerr option list" where
  "flaky_call f failed s =
     (case s of
        (kw, Some err # fs) \<Rightarrow> (failed (Wrapf ''kubernetes api'' err), kw, fs)
      | (kw, None # fs) \<Rightarrow> (case f kw of (r, kw1) \<Rightarrow> (r, kw1, fs))
      | (kw, []) \<Rightarrow> (case f kw of (r, kw1) \<Rightarrow> (r, kw1, [])))"

definition flaky_k8s :: "fraction \<Rightarrow> (kube \<times> goerr option list) k8s" where
  "flaky_k8s frac =
     (let k = kube_k8s frac in
      \<lparr>ks_Create = \<lambda>g ns j. flaky_call (ks_Create k g ns j) Inl,
       ks_Get = \<lambda>g ns n. flaky_call (ks_Get k g ns n) Inl,
       ks_Delete = \<lambda>g ns n. flaky_call (ks_Delete k g ns n) Some,
       ks_List = \<lambda>g ns. flaky_call (ks_List k g ns) Inl,
       ks_IsNotFound = ks_IsNotFound k,
       ks_now = \<lambda>s. (kb_clock (fst s), s),
       ks_frac = frac\<rparr>)"

lemma kube_Delete [simp]:
  "ks_Delete (kube_k8s frac) g ns n w =
     (if kube_has w (g, ns, n) then (None, w\<lparr>kb_objects := filter (\<lambda>x. fst x \<noteq> (g, ns, n)) (kb_objects w)\<rparr>)
      else (Some kube_NotFound, w))"
  "ks_IsNotFound (kube_k8s frac) e \<longleftrightarrow> e = kube_NotFound"
  by (simp_all add: kube_k8s_def kube_has_map_of)

lemma flaky_sel [simp]:
  "ks_Get (flaky_k8s frac) g ns n = flaky_call (ks_Get (kube_k8s frac) g ns n) Inl"
  "ks_Delete (flaky_k8s frac) g ns n = flaky_call (ks_Delete (kube_k8s frac) g ns n) Some"
  "ks_IsNotFound (flaky_k8s frac) e \<longleftrightarrow> e = kube_NotFound"
  "ks_now (flaky_k8s frac) s = (kb_clock (fst s), s)"
  by (simp_all add: flaky_k8s_def Let_def)

lemma flaky_call_cases:
  assumes "flaky_call f failed (kw, fs) = (r, kw', fs')"
  shows "(\<exists>err. fs = Some err # fs' \<and> r = failed (Wrapf ''kubernetes api'' err) \<and> kw' = kw) \<or> f kw = (r, kw')"
  using assms by (auto simp: flaky_call_def split: list.splits option.splits prod.splits)

lemma api_error_found [simp]: "Wrapf ''kubernetes api'' err \<noteq> kube_NotFound"
  by (simp add: kube_NotFound_def)

interpretation flaky: kube_store "flaky_k8s frac" "\<lambda>s. kube_has (fst s)"
proof
  fix g ns n e t and obj :: kobject and w w' :: "kube \<times> goerr option list"
  obtain kw fs kw' fs' where w: "w = (kw, fs)" "w' = (kw', fs')"
    by fastforce
  show "ks_Get (flaky_k8s frac) g ns n w = (Inr obj, w') \<Longrightarrow>
      kube_has (fst w) (g, ns, n) \<and> kube_has (fst w') = kube_has (fst w)"
    using kube.get_found [of frac g ns n kw obj kw']
    by (auto simp: w dest!: flaky_call_cases)
  show "ks_Get (flaky_k8s frac) g ns n w = (Inl e, w') \<Longrightarrow> kube_has (fst w') = kube_has (fst w) \<and>
      (ks_IsNotFound (flaky_k8s frac) e \<longrightarrow> \<not> kube_has (fst w) (g, ns, n))"
    using kube.get_failed [of frac g ns n kw e kw']
    by (auto simp: w dest!: flaky_call_cases)
  show "ks_Delete (flaky_k8s frac) g ns n w = (None, w') \<Longrightarrow> kube_has (fst w) (g, ns, n) \<and>
      kube_has (fst w') = (\<lambda>x. kube_has (fst w) x \<and> x \<noteq> (g, ns, n))"
    using kube.delete_done [of frac g ns n kw kw']
    by (auto simp: w simp del: kube_Delete(1) dest!: flaky_call_cases)
  show "ks_Delete (flaky_k8s frac) g ns n w = (Some e, w') \<Longrightarrow> kube_has (fst w') = kube_has (fst w) \<and>
      (ks_IsNotFound (flaky_k8s frac) e \<longrightarrow> \<not> kube_has (fst w) (g, ns, n))"
    using kube.delete_failed [of frac g ns n kw e kw']
    by (auto simp: w simp del: kube_Delete(1) dest!: flaky_call_cases)
  show "ks_now (flaky_k8s frac) w = (t, w') \<Longrightarrow> kube_has (fst w') = kube_has (fst w)"
    by (simp add: w)
qed

text \<open>The laboratory with such an API.\<close>

record flaky_lab =
  fb_lab :: lab
  fb_api :: "goerr option list"

definition on_lab :: "(lab \<Rightarrow> 'a \<times> lab) \<Rightarrow> flaky_lab \<Rightarrow> 'a \<times> flaky_lab" where
  "on_lab f w = (case f (fb_lab w) of (r, l) \<Rightarrow> (r, w\<lparr>fb_lab := l\<rparr>))"

definition on_api :: "(kube \<times> goerr option list \<Rightarrow> 'a \<times> kube \<times> goerr option list) \<Rightarrow> flaky_lab \<Rightarrow> 'a \<times> flaky_lab" where
  "on_api f w =
     (case f (lab_kube (fb_lab w), fb_api w) of
        (r, kw, fs) \<Rightarrow> (r, w\<lparr>fb_lab := (fb_lab w)\<lparr>lab_kube := kw\<rparr>, fb_api := fs\<rparr>))"

definition flaky_mongo :: "flaky_lab mongo" where
  "flaky_mongo =
     \<lparr>mg_InsertOne = \<lambda>c r. on_lab (mg_InsertOne lab_mongo c r), mg_Find = \<lambda>c f. on_lab (mg_Find lab_mongo c f),
      mg_UpdateOne = \<lambda>c i s. on_lab (mg_UpdateOne lab_mongo c i s), mg_DeleteOne = \<lambda>c i. on_lab (mg_DeleteOne lab_mongo c i)\<rparr>"

definition flaky_ports :: "fraction \<Rightarrow> (string \<times> string) list \<Rightarrow> flaky_lab chaos_ports" where
  "flaky_ports frac order =
     \<lparr>cp_store = mongoAdapter (MongoClient flaky_mongo),
      cp_Apply = \<lambda>spec. on_api (Chaos_Apply (flaky_k8s frac) ''cluster-probe'' spec),
      cp_Status = \<lambda>xid. on_api (Chaos_Status (flaky_k8s frac) ''cluster-probe'' order xid),
      cp_Delete = \<lambda>xid. on_api (Chaos_Delete (flaky_k8s frac) ''cluster-probe'' order xid),
      cp_List = on_api (Chaos_List (flaky_k8s frac) ''cluster-probe'' order),
      cp_now = \<lambda>w. (kb_clock (lab_kube (fb_lab w)), w)\<rparr>"

lemma flaky_Delete:
  "mg_DeleteOne (mongoAdapter (MongoClient flaky_mongo)) c i w = (e, w') \<Longrightarrow>
     lab_kube (fb_lab w') = lab_kube (fb_lab w) \<and> fb_api w' = fb_api w \<and>
     lab_records (fb_lab w') = (if e = None then filter (\<lambda>r. rc_ID r \<noteq> i) (lab_records (fb_lab w)) else lab_records (fb_lab w))"
  by (auto simp: mongoAdapter_def MongoClient_defs flaky_mongo_def on_lab_def lab_mongo_def lab_update_def lab_call_def
      wrap_err_def split: list.splits option.splits)

text \<open>A delete that gives an error changed nothing, and either no kind has the name or the last call failed.\<close>

lemma flaky_delete_failed:
  "delete_loop (flaky_k8s frac) ns xid order (kw, fs) = (Some e, kw', fs') \<Longrightarrow>
   kw' = kw \<and> ((\<forall>(kind, g)\<in>set order. \<not> kube_has kw (g, ns, xid)) \<or> (\<exists>pre err. fs = pre @ Some err # fs'))"
proof (induction order arbitrary: fs)
  case (Cons x order)
  obtain kind g where x: "x = (kind, g)"
    by fastforce
  obtain r1 kw1 fs1 where one: "ks_Delete (flaky_k8s frac) g ns xid (kw, fs) = (r1, kw1, fs1)"
    by (metis prod_cases3)
  then have call: "flaky_call (ks_Delete (kube_k8s frac) g ns xid) Some (kw, fs) = (r1, kw1, fs1)"
    by simp
  obtain e1 where r1: "r1 = Some e1"
    using Cons.prems one x by (cases r1) simp_all
  show ?case
  proof (cases "e1 = kube_NotFound")
    case True
    then have missing: "\<not> kube_has kw (g, ns, xid)" "kw1 = kw" "\<exists>ps. fs = ps @ fs1"
      using call r1 by (auto simp: flaky_call_def split: list.splits option.splits if_splits)
    have "delete_loop (flaky_k8s frac) ns xid order (kw, fs1) = (Some e, kw', fs')"
      using Cons.prems one x r1 True missing(2) by simp
    from Cons.IH [OF this] missing(1) x missing(3) show ?thesis
      by (auto simp flip: append_assoc)
  next
    case False
    then have "\<exists>err. fs = Some err # fs1" "kw1 = kw"
      using call r1 by (auto simp: flaky_call_def split: list.splits option.splits if_splits)
    moreover have "kw' = kw1" "fs' = fs1"
      using Cons.prems one x r1 False by simp_all
    ultimately show ?thesis
      by (metis append_Nil)
  qed
qed simp

text \<open>
  C15. What the answer to a delete means, on a Kubernetes API that may fail at any call: 204 and 500 only
  after an object of the name was removed, one and no other, with 204 the records of the name removed
  too, with 500 all of them left; 502 only when nothing at all was changed, and then no object had the
  name or the last call to the API had failed. So when the object is already gone, for instance because
  it was removed with kubectl, every attempt is answered 502 and the record stays.
\<close>

theorem DeleteExperiment_outcomes:
  assumes "DeleteExperiment (flaky_ports frac order) xid new_response w = (h, w')"
    and "mset order = mset chaosGVRs" and "xid \<noteq> []"
  shows "((\<exists>(kind, g)\<in>set chaosGVRs. kube_has (lab_kube (fb_lab w)) (g, ''cluster-probe'', xid) \<and>
        (\<forall>x. kube_has (lab_kube (fb_lab w')) x \<longleftrightarrow> kube_has (lab_kube (fb_lab w)) x \<and> x \<noteq> (g, ''cluster-probe'', xid))) \<and>
      (response_code h = Some 204 \<and>
         lab_records (fb_lab w') = filter (\<lambda>r. rc_ID r \<noteq> xid) (lab_records (fb_lab w)) \<or>
       response_code h = Some 500 \<and> lab_records (fb_lab w') = lab_records (fb_lab w))) \<or>
    (response_code h = Some 502 \<and> fb_lab w' = fb_lab w \<and>
      ((\<forall>(kind, g)\<in>set chaosGVRs. \<not> kube_has (lab_kube (fb_lab w)) (g, ''cluster-probe'', xid)) \<or>
       (\<exists>pre err. fb_api w = pre @ Some err # fb_api w')))"
proof -
  have order: "set order = set chaosGVRs"
    using assms(2) by (rule mset_eq_setD)
  obtain r kw fs where del: "delete_loop (flaky_k8s frac) ''cluster-probe'' xid order (lab_kube (fb_lab w), fb_api w) = (r, kw, fs)"
    by (metis prod_cases3)
  let ?w1 = "w\<lparr>fb_lab := (fb_lab w)\<lparr>lab_kube := kw\<rparr>, fb_api := fs\<rparr>"
  have call: "cp_Delete (flaky_ports frac order) xid w = (r, ?w1)"
    using assms(3) del by (simp add: flaky_ports_def on_api_def Chaos_Delete_def)
  show ?thesis
  proof (cases r)
    case (Some e)
    have "kw = lab_kube (fb_lab w) \<and> ((\<forall>(kind, g)\<in>set order. \<not> kube_has (lab_kube (fb_lab w)) (g, ''cluster-probe'', xid)) \<or>
        (\<exists>pre err. fb_api w = pre @ Some err # fs))"
      using flaky_delete_failed [OF del [unfolded Some]] .
    then show ?thesis
      using assms(1,3) call Some order by (auto simp: DeleteExperiment_def status_defs)
  next
    case None
    have gone: "\<exists>(kind, g)\<in>set chaosGVRs. kube_has (lab_kube (fb_lab w)) (g, ''cluster-probe'', xid) \<and>
        (\<forall>x. kube_has kw x \<longleftrightarrow> kube_has (lab_kube (fb_lab w)) x \<and> x \<noteq> (g, ''cluster-probe'', xid))"
      using flaky.delete_loop_result [OF del] None order by fastforce
    obtain e w2 where rec: "mg_DeleteOne (mongoAdapter (MongoClient flaky_mongo)) chaosCollection xid ?w1 = (e, w2)"
      by fastforce
    have "cp_store (flaky_ports frac order) = mongoAdapter (MongoClient flaky_mongo)"
      by (simp add: flaky_ports_def)
    then have "(h, w') = (if e = None then WriteHeader 204 new_response
        else errorResponse 500 ''delete experiment record'' new_response, w2)"
      using assms(1,3) call None rec by (cases e) (simp_all add: DeleteExperiment_def status_defs)
    moreover have "response_code (WriteHeader 204 new_response) = Some 204"
      by (simp add: response_code_def WriteHeader_def new_response_def)
    ultimately have run: "w' = w2" "response_code h = Some (if e = None then 204 else 500)"
      by (simp_all split: if_splits)
    have kept: "lab_kube (fb_lab w2) = kw"
      "lab_records (fb_lab w2) = (if e = None then filter (\<lambda>r. rc_ID r \<noteq> xid) (lab_records (fb_lab w)) else lab_records (fb_lab w))"
      using flaky_Delete [OF rec] by simp_all
    have "response_code h = Some 204 \<and> lab_records (fb_lab w') = filter (\<lambda>r. rc_ID r \<noteq> xid) (lab_records (fb_lab w)) \<or>
        response_code h = Some 500 \<and> lab_records (fb_lab w') = lab_records (fb_lab w)"
      using run kept(2) by (cases e) simp_all
    with gone kept(1) run(1) show ?thesis
      by simp
  qed
qed

text \<open>One network experiment, its record, and an API that fails once.\<close>

definition slow_record :: chaosRecord where
  "slow_record = \<lparr>rc_ID = ''slow'', rc_Name = ''slow'', rc_Scenario = ''s1'', rc_Config = None, rc_Status = ''pending'', rc_CreatedAt = second\<rparr>"

definition slow_lab :: lab where
  "slow_lab = \<lparr>lab_kube = \<lparr>kb_objects = [demo_object ''NetworkChaos'' ''networkchaos''], kb_clock = second\<rparr>,
     lab_records = [slow_record], lab_faults = []\<rparr>"

theorem DeleteExperiment_outcomes_witness:
  "(\<exists>h w'. DeleteExperiment (flaky_ports (\<lambda>f u k. 0) chaosGVRs) ''slow'' new_response \<lparr>fb_lab = slow_lab, fb_api = []\<rparr> = (h, w') \<and>
      response_code h = Some 204 \<and> lab_records (fb_lab w') = []) \<and>
   (\<exists>h w'. DeleteExperiment (flaky_ports (\<lambda>f u k. 0) chaosGVRs) ''slow'' new_response
         \<lparr>fb_lab = slow_lab, fb_api = [Some (ErrText ''timeout'')]\<rparr> = (h, w') \<and>
      response_code h = Some 502 \<and> fb_lab w' = slow_lab)"
proof
  let ?w = "\<lparr>fb_lab = slow_lab, fb_api = []\<rparr>"
  obtain h w' where run: "DeleteExperiment (flaky_ports (\<lambda>f u k. 0) chaosGVRs) ''slow'' new_response ?w = (h, w')"
    by fastforce
  have "response_code (fst (DeleteExperiment (flaky_ports (\<lambda>f u k. 0) chaosGVRs) ''slow'' new_response ?w)) = Some 204"
    by code_simp
  with run DeleteExperiment_outcomes [OF run] have "response_code h = Some 204" "lab_records (fb_lab w') = []"
    by (auto simp: slow_lab_def slow_record_def)
  with run show "\<exists>h w'. DeleteExperiment (flaky_ports (\<lambda>f u k. 0) chaosGVRs) ''slow'' new_response ?w = (h, w') \<and>
      response_code h = Some 204 \<and> lab_records (fb_lab w') = []"
    by blast
next
  let ?w = "\<lparr>fb_lab = slow_lab, fb_api = [Some (ErrText ''timeout'')]\<rparr>"
  obtain h w' where run: "DeleteExperiment (flaky_ports (\<lambda>f u k. 0) chaosGVRs) ''slow'' new_response ?w = (h, w')"
    by fastforce
  have "response_code (fst (DeleteExperiment (flaky_ports (\<lambda>f u k. 0) chaosGVRs) ''slow'' new_response ?w)) = Some 502"
    by code_simp
  with run DeleteExperiment_outcomes [OF run] have "response_code h = Some 502" "fb_lab w' = slow_lab"
    by auto
  with run show "\<exists>h w'. DeleteExperiment (flaky_ports (\<lambda>f u k. 0) chaosGVRs) ''slow'' new_response ?w = (h, w') \<and>
      response_code h = Some 502 \<and> fb_lab w' = slow_lab"
    by blast
qed

section \<open>Listing\<close>

text \<open>
  What a list has to show, from the objects alone. The phase of an object at a time: what Chaos Mesh
  reports, and otherwise what its dates say.
\<close>

definition dated_phase :: "fraction \<Rightarrow> time \<Rightarrow> kobject \<Rightarrow> string" where
  "dated_phase frac now obj =
     (if ko_deleted obj \<noteq> None \<and> ko_deleted obj \<noteq> Some 0 then ''deleting''
      else if ko_created obj = 0 then ''unknown''
      else if (case Option.bind (ko_nested obj [''spec'', ''duration'']) (parse_duration frac) of
                 None \<Rightarrow> False | Some d \<Rightarrow> d \<le> 0 \<or> ko_created obj + d \<le> now) then ''completed''
      else ''running'')"

definition object_phase :: "fraction \<Rightarrow> time \<Rightarrow> kobject \<Rightarrow> string" where
  "object_phase frac now obj =
     (case ko_nested obj [''status'', ''phase''] of
        None \<Rightarrow> dated_phase frac now obj
      | Some p \<Rightarrow> if p = [] \<or> p = ''unknown'' then dated_phase frac now obj else p)"

text \<open>The experiments of a name: the objects of the five kinds in the namespace of the deployment.\<close>

definition experiments_named :: "kube \<Rightarrow> string \<Rightarrow> kobject set" where
  "experiments_named kw i =
     {obj. \<exists>g n. ((g, ''cluster-probe'', n), obj) \<in> set (kb_objects kw) \<and> g \<in> snd ` set chaosGVRs \<and> ko_name obj = i \<and> i \<noteq> []}"

text \<open>A record with the phase of an experiment of its name, or as it is stored when there is none.\<close>

definition shows_live :: "fraction \<Rightarrow> kube \<Rightarrow> chaosRecord \<Rightarrow> chaosRecord \<Rightarrow> bool" where
  "shows_live frac kw r r' \<longleftrightarrow>
     (if experiments_named kw (rc_ID r) = {} then r' = r
      else \<exists>obj \<in> experiments_named kw (rc_ID r). r' = r\<lparr>rc_Status := object_phase frac (kb_clock kw) obj\<rparr>)"

definition refresh :: "(string \<rightharpoonup> ExperimentStatus) \<Rightarrow> chaosRecord \<Rightarrow> chaosRecord" where
  "refresh live r = (case live (rc_ID r) of None \<Rightarrow> r | Some st \<Rightarrow> r\<lparr>rc_Status := xs_Phase st\<rparr>)"

text \<open>A status that tells of an object.\<close>

definition tells :: "fraction \<Rightarrow> kube \<Rightarrow> kobject \<Rightarrow> ExperimentStatus \<Rightarrow> bool" where
  "tells frac kw obj st \<longleftrightarrow> xs_ID st = ko_name obj \<and> xs_Name st = ko_name obj \<and>
     xs_Phase st = object_phase frac (kb_clock kw) obj"

lemma phase_nonempty: "object_phase frac t obj \<noteq> []"
  by (auto simp: object_phase_def dated_phase_def split: option.splits)

lemma inferred_dated:
  "inferPhaseFromObject frac obj (\<lambda>w. (t w, w)) w = (dated_phase frac (t w) obj, w)"
proof -
  have "parse_duration frac [] = None"
    by (simp add: parse_duration_def)
  then show ?thesis
    by (cases "ko_deleted obj"; cases "ko_nested obj [''spec'', ''duration'']")
       (auto simp: inferPhaseFromObject_def dated_phase_def is_zero_time_def split: option.split)
qed

lemma status_tells:
  assumes "statusFromObject (kube_k8s frac) obj kw = (st, kw')"
  shows "kw' = kw \<and> tells frac kw obj st"
proof -
  have "ks_frac (kube_k8s frac) = frac" "ks_now (kube_k8s frac) = (\<lambda>w. (kb_clock w, w))"
    by (simp_all add: kube_k8s_def)
  then have "statusFromObjectAt frac obj (\<lambda>w. (kb_clock w, w)) kw = (st, kw')"
    using assms by (simp add: statusFromObject_def)
  then show ?thesis
    by (cases "ko_nested obj [''status'', ''phase'']")
       (auto simp: statusFromObjectAt_def inferred_dated Let_def tells_def object_phase_def split: if_splits)
qed

lemma tells_kind [simp]: "tells frac kw obj (st\<lparr>xs_Kind := kind\<rparr>) = tells frac kw obj st"
  by (simp add: tells_def)

lemma list_items_tell:
  "\<exists>sts. list_items (kube_k8s frac) kind objs kw = (sts, kw) \<and> list_all2 (tells frac kw) objs sts"
proof (induction objs)
  case (Cons obj objs)
  then obtain sts where sts: "list_items (kube_k8s frac) kind objs kw = (sts, kw)" "list_all2 (tells frac kw) objs sts"
    by blast
  obtain st kw' where st: "statusFromObject (kube_k8s frac) obj kw = (st, kw')"
    by fastforce
  with status_tells [OF st] sts show ?case
    by simp
qed simp

definition objects_at :: "kube \<Rightarrow> string \<Rightarrow> string \<Rightarrow> kobject list" where
  "objects_at kw ns g = map snd (filter (\<lambda>x. fst (fst x) = g \<and> fst (snd (fst x)) = ns) (kb_objects kw))"

lemma list_loop_tells:
  "\<exists>sts. list_loop (kube_k8s frac) ns order acc kw = (Inr (acc @ sts), kw) \<and>
     list_all2 (tells frac kw) (concat (map (\<lambda>(kind, g). objects_at kw ns g) order)) sts"
proof (induction order arbitrary: acc)
  case (Cons x order)
  obtain kind g where x: "x = (kind, g)"
    by fastforce
  have items: "ks_List (kube_k8s frac) g ns kw = (Inr (objects_at kw ns g), kw)"
    by (simp add: kube_k8s_def objects_at_def)
  obtain sts where sts: "list_items (kube_k8s frac) kind (objects_at kw ns g) kw = (sts, kw)"
    "list_all2 (tells frac kw) (objects_at kw ns g) sts"
    using list_items_tell by blast
  from Cons.IH [of "acc @ sts"] obtain rest where
    "list_loop (kube_k8s frac) ns order (acc @ sts) kw = (Inr ((acc @ sts) @ rest), kw)"
    "list_all2 (tells frac kw) (concat (map (\<lambda>(kind, g). objects_at kw ns g) order)) rest"
    by blast
  with sts items x show ?case
    by (intro exI [of _ "sts @ rest"]) (simp add: list_all2_appendI)
qed simp

lemma experiments_listed:
  "set order = set chaosGVRs \<Longrightarrow>
   experiments_named kw i =
     {obj \<in> set (concat (map (\<lambda>(kind, g). objects_at kw ''cluster-probe'' g) order)). ko_name obj = i \<and> i \<noteq> []}"
proof -
  assume order: "set order = set chaosGVRs"
  have "obj \<in> set (objects_at kw ns g) \<longleftrightarrow> (\<exists>n. ((g, ns, n), obj) \<in> set (kb_objects kw))" for obj ns g
    by (force simp: objects_at_def)
  note at = this
  have kinds: "g \<in> snd ` set chaosGVRs \<longleftrightarrow> (\<exists>kind. (kind, g) \<in> set order)" for g
    unfolding order by force
  have listed: "obj \<in> set (concat (map (\<lambda>(kind, g). objects_at kw ''cluster-probe'' g) order)) \<longleftrightarrow>
      (\<exists>kind g. (kind, g) \<in> set order \<and> obj \<in> set (objects_at kw ''cluster-probe'' g))" for obj
    by auto
  show ?thesis
    unfolding experiments_named_def kinds listed at by blast
qed

definition by_id :: "ExperimentStatus list \<Rightarrow> (string \<rightharpoonup> ExperimentStatus) \<Rightarrow> string \<rightharpoonup> ExperimentStatus" where
  "by_id sts m = fold (\<lambda>st byID.
     let byID1 = (if xs_ID st \<noteq> [] then byID(xs_ID st \<mapsto> st) else byID)
     in if xs_Name st \<noteq> [] then byID1(xs_Name st \<mapsto> st) else byID1) sts m"

lemma by_id_result:
  assumes "\<forall>st \<in> set sts. xs_ID st = xs_Name st"
  shows "case by_id sts m i of
      None \<Rightarrow> m i = None \<and> (i = [] \<or> (\<forall>st \<in> set sts. xs_Name st \<noteq> i))
    | Some st \<Rightarrow> m i = Some st \<or> st \<in> set sts \<and> xs_Name st = i \<and> i \<noteq> []"
  using assms
proof (induction sts arbitrary: m)
  case (Cons st sts)
  let ?m = "if xs_Name st \<noteq> [] then m(xs_Name st \<mapsto> st) else m"
  have step: "by_id (st # sts) m = by_id sts ?m"
    using Cons.prems by (simp add: by_id_def Let_def)
  from Cons have "case by_id sts ?m i of
      None \<Rightarrow> ?m i = None \<and> (i = [] \<or> (\<forall>st \<in> set sts. xs_Name st \<noteq> i))
    | Some st \<Rightarrow> ?m i = Some st \<or> st \<in> set sts \<and> xs_Name st = i \<and> i \<noteq> []"
    by simp
  then show ?case
    unfolding step by (auto split: option.splits if_splits)
qed (simp add: by_id_def split: option.splits)

lemma list_all2_in:
  assumes "list_all2 P xs ys"
  shows "x \<in> set xs \<Longrightarrow> \<exists>y \<in> set ys. P x y" and "y \<in> set ys \<Longrightarrow> \<exists>x \<in> set xs. P x y"
  using assms by (induction xs ys rule: list_all2_induct) auto

lemma live_statuses:
  assumes "liveStatusByID (lab_ports frac order) w = (live, w')" and "set order = set chaosGVRs"
  shows "w' = w \<and> (case live i of
      None \<Rightarrow> experiments_named (lab_kube w) i = {}
    | Some st \<Rightarrow> \<exists>obj \<in> experiments_named (lab_kube w) i. xs_Phase st = object_phase frac (kb_clock (lab_kube w)) obj)"
proof -
  let ?objs = "concat (map (\<lambda>(kind, g). objects_at (lab_kube w) ''cluster-probe'' g) order)"
  obtain sts where sts: "list_loop (kube_k8s frac) ''cluster-probe'' order [] (lab_kube w) = (Inr sts, lab_kube w)"
    "list_all2 (tells frac (lab_kube w)) ?objs sts"
    using list_loop_tells [of frac "''cluster-probe''" order "[]" "lab_kube w"] by auto
  have out: "live = by_id sts Map.empty" "w' = w"
    using assms(1) sts(1) by (simp_all add: liveStatusByID_def lab_ports_def on_kube_def Chaos_List_def by_id_def)
  have fwd: "st \<in> set sts \<Longrightarrow> \<exists>obj \<in> set ?objs. tells frac (lab_kube w) obj st" for st
    using list_all2_in(2) [OF sts(2)] by blast
  have bwd: "obj \<in> set ?objs \<Longrightarrow> \<exists>st \<in> set sts. tells frac (lab_kube w) obj st" for obj
    using list_all2_in(1) [OF sts(2)] by blast
  note named = experiments_listed [OF assms(2), of "lab_kube w" i]
  have "case live i of
      None \<Rightarrow> i = [] \<or> (\<forall>st \<in> set sts. xs_Name st \<noteq> i)
    | Some st \<Rightarrow> st \<in> set sts \<and> xs_Name st = i \<and> i \<noteq> []"
    using by_id_result [of sts Map.empty i] fwd out(1) by (fastforce simp: tells_def split: option.splits)
  then show ?thesis
    using out(2) fwd bwd unfolding named by (cases "live i") (fastforce simp: tells_def)+
qed

text \<open>Storing a status: the store may fail, and nobody notices.\<close>

lemma lab_persist:
  assumes "s \<noteq> []" and "persistChaosStatus (lab_ports frac order) xid s w = w'"
  shows "lab_kube w' = lab_kube w \<and>
    (lab_records w' = lab_records w \<or> lab_records w' = map (set_status xid s) (lab_records w)) \<and>
    (set (lab_faults w) \<subseteq> {None} \<longrightarrow>
       set (lab_faults w') \<subseteq> {None} \<and> lab_records w' = map (set_status xid s) (lab_records w))"
  using assms
  by (auto simp: persistChaosStatus_def mongoAdapter_def MongoClient_defs lab_mongo_def lab_update_def lab_call_def
      wrap_err_def split: list.splits option.splits)

lemma refresh_same:
  "live (rc_ID q) = Some st \<Longrightarrow> set_status (rc_ID q) (xs_Phase st) r \<in> {r, refresh live r}"
  "refresh live (refresh live r) = refresh live r"
  "live (rc_ID q) = Some st \<Longrightarrow> refresh live (set_status (rc_ID q) (xs_Phase st) r) = refresh live r"
  "rc_ID (set_status i s r) = rc_ID r"
  by (auto simp: refresh_def set_status_def split: option.splits)

lemma collect_lab:
  assumes "\<forall>i st. live i = Some st \<longrightarrow> xs_Phase st \<noteq> []"
  shows "\<exists>w'. collect_experiments (lab_ports frac order) live (map Inr rs) acc w =
      (Some (acc @ map (\<lambda>r. toResponse (refresh live r)) rs), w') \<and>
    lab_kube w' = lab_kube w \<and> list_all2 (\<lambda>r r'. r' \<in> {r, refresh live r}) (lab_records w) (lab_records w') \<and>
    (set (lab_faults w) \<subseteq> {None} \<longrightarrow>
       lab_records w' = map (\<lambda>r. if rc_ID r \<in> rc_ID ` set rs then refresh live r else r) (lab_records w))"
proof (induction rs arbitrary: acc w)
  case Nil
  show ?case
    by (simp add: list.rel_refl)
next
  case (Cons q rs)
  show ?case
  proof (cases "live (rc_ID q)")
    case None
    then have "refresh live q = q" "rc_ID r = rc_ID q \<Longrightarrow> refresh live r = r" for r
      by (simp_all add: refresh_def)
    with Cons [of "acc @ [toResponse q]" w] None show ?thesis
      by (auto intro!: map_cong)
  next
    case (Some st)
    obtain w1 where w1: "persistChaosStatus (lab_ports frac order) (rc_ID q) (xs_Phase st) w = w1"
      by blast
    have "xs_Phase st \<noteq> []"
      using assms Some by blast
    note p = lab_persist [OF this w1]
    obtain w' where w': "collect_experiments (lab_ports frac order) live (map Inr rs) (acc @ [toResponse (refresh live q)]) w1 =
        (Some ((acc @ [toResponse (refresh live q)]) @ map (\<lambda>r. toResponse (refresh live r)) rs), w')"
      "lab_kube w' = lab_kube w1" "list_all2 (\<lambda>r r'. r' \<in> {r, refresh live r}) (lab_records w1) (lab_records w')"
      "set (lab_faults w1) \<subseteq> {None} \<longrightarrow>
         lab_records w' = map (\<lambda>r. if rc_ID r \<in> rc_ID ` set rs then refresh live r else r) (lab_records w1)"
      using Cons.IH by blast
    have run: "collect_experiments (lab_ports frac order) live (map Inr (q # rs)) acc w =
        (Some (acc @ map (\<lambda>r. toResponse (refresh live r)) (q # rs)), w')"
      using Some w'(1) w1 by (simp add: refresh_def)
    have one: "list_all2 (\<lambda>r r'. r' \<in> {r, refresh live r}) (lab_records w) (lab_records w1)"
      using p refresh_same(1) [of live q st, OF Some]
      by (elim conjE disjE) (auto simp: list.rel_refl list.rel_map list_all2_same)
    have two: "list_all2 (\<lambda>r r'. r' \<in> {r, refresh live r}) (lab_records w) (lab_records w')"
      by (rule list_all2_trans [OF _ one w'(3)]) (auto simp: refresh_same(2))
    have three: "lab_records w' = map (\<lambda>r. if rc_ID r \<in> rc_ID ` set (q # rs) then refresh live r else r) (lab_records w)"
      if "set (lab_faults w) \<subseteq> {None}"
    proof -
      have "(if rc_ID (set_status (rc_ID q) (xs_Phase st) r) \<in> S then refresh live (set_status (rc_ID q) (xs_Phase st) r)
          else set_status (rc_ID q) (xs_Phase st) r) =
        (if rc_ID r \<in> insert (rc_ID q) S then refresh live r else r)" for r S
        using Some by (auto simp: refresh_def set_status_def split: option.splits)
      with that p w'(4) show ?thesis
        by (simp add: comp_def)
    qed
    show ?thesis
      using run p w'(2) two three by (intro exI [of _ w']) simp
  qed
qed



end
