(* ===== verification/Ui_Chaos.thy ===== *)
theory Ui_Chaos
  imports Ui_Api Chaos_Lab
begin

text \<open>
  The chaos form of the browser, through the client of cmd/ui, the routes and the handler of cmd/api and
  the client of internal/chaos, to the objects of the cluster and the records of the collection.
\<close>

section \<open>The form\<close>

definition form_experiment :: "(string \<Rightarrow> string) \<Rightarrow> ChaosExperimentRequest" where
  "form_experiment form =
     \<lparr>cr_Name = form ''name'', cr_Scenario = form ''scenario'', cr_Config = Some (chaos_config form)\<rparr>"

lemma parameters_distinct: "distinct (map fst (parseChaosParameters value))"
proof -
  have "distinct (map fst ps) \<Longrightarrow> distinct (map fst (fold (\<lambda>line params.
             let line = trim_space line in
             if line = [] then params
             else (case splitN2 (CHR ''='') line of
                     [k, v] \<Rightarrow> AList.update (trim_space k) (trim_space v) params
                   | _ \<Rightarrow> params)) lines ps))" for lines ps
    by (induction lines arbitrary: ps) (auto simp: Let_def distinct_update split: list.splits)
  then show ?thesis
    unfolding parseChaosParameters_def by simp
qed

lemma config_distinct: "distinct (map fst (chaos_config form))"
  by (simp add: chaos_config_def distinct_update parameters_distinct)

lemma form_experiment_decodes:
  "decodeJSON (dec_ChaosExperimentRequest True) (Doc (enc_ChaosExperimentRequest (form_experiment form))) zero_chaos_request =
   Inr (form_experiment form)"
  by (simp add: decodeJSON_def json_Unmarshal_def dec_enc_ChaosExperimentRequest map_ok_def form_experiment_def config_distinct)

lemma api_CreateExperiment_loopback:
  "api_CreateExperiment (loopback match_path a base) base req w =
     understood dec_ChaosExperimentResponse zero_experiment
       (CreateExperiment (aa_chaos a) (Doc (enc_ChaosExperimentRequest req)) new_response w)"
  unfolding api_CreateExperiment_def
  by (rule doJSON_loopback [where payload = "Some (enc_ChaosExperimentRequest req)", simplified, OF router.ui_calls(7) [of "''x''"]])
     (simp_all add: api_handle_def segment_def)

section \<open>From the answer of the API to the page\<close>

lemma understood_refused:
  "response_code h = Some code \<Longrightarrow> 400 \<le> code \<Longrightarrow> \<exists>e. understood dec zero (h, w) = (Inl e, w)"
  by (simp add: understood_def response_status_def status_defs)

lemma understood_experiment:
  assumes "enc_ChaosExperimentResponse resp = Inr j" and "map_ok (ce_Config resp)"
  shows "understood dec_ChaosExperimentResponse zero_experiment
    (respond StatusAccepted (enc_ChaosExperimentResponse resp) new_response, w) = (Inr resp, w)"
proof -
  have "dec_ChaosExperimentResponse j zero_experiment = Inr resp"
    using assms(2) by (intro dec_enc_experiment [OF assms(1)]) (auto simp: map_ok_def split: option.splits)
  then show ?thesis
    by (simp add: understood_def assms(1) response_status_def response_bytes_def json_Unmarshal_def status_defs)
qed

text \<open>The page of a new experiment.\<close>

definition created_page :: "('w, 'st) ui_server \<Rightarrow> string \<Rightarrow> time \<Rightarrow> http_response" where
  "created_page s name now =
     or_template_error (RenderTemplate s ''chaos-new''
       (TForm ((form_data ''chaos'' ''New Chaos Experiment | ClusterProbe'' now)
          \<lparr>fd_ID := name, fd_ExperimentID := name, fd_Status := ''pending'', fd_StatusClass := statusClass ''pending''\<rparr>))
       new_response)"

lemma created_page_code: "response_code (created_page s name now) \<in> {Some 200, Some 500}"
  by (auto simp: created_page_def or_template_error_def RenderTemplate_def renderTemplateStatus_def status_defs
      response_code_def write_chunk_def WriteHeader_def set_header_def new_response_def http_Error_def Let_def
      split: option.split prod.split)

text \<open>
  C14. The chaos form of the browser, through the client, the router and the handler of the API to the
  cluster and the collection, with any failures of the store: either the page of the new experiment is
  rendered, and then the object of the kind and name of the form was created in the cluster and nothing
  else, and there is a pending record with the configuration of the form; or the answer is 502 and there
  is no new record. Then the cluster is unchanged, unless the record could not be stored: the object is
  left behind in the cluster.
\<close>

theorem form_creates_experiment:
  assumes "us_api s = apiClient (loopback match_path a base) open base" and "aa_chaos a = lab_ports frac order"
    and "ur_form r = Inr form" and "Ui_CreateChaos s r new_response w = (h, w')"
    and "\<And>w. snd (us_now s w) = w" and "enc_time (kb_clock (lab_kube w)) = Inr t"
  shows
    "(\<exists>spec g now. h = created_page s (form ''name'') now \<and> buildExperimentSpec (form_experiment form) = Inr spec \<and>
        map_of chaosGVRs (es_Kind spec) = Some g \<and> \<not> kube_has (lab_kube w) (g, ''cluster-probe'', form ''name'') \<and>
        (\<forall>x. kube_has (lab_kube w') x \<longleftrightarrow> kube_has (lab_kube w) x \<or> x = (g, ''cluster-probe'', form ''name'')) \<and>
        lab_records w' = lab_records w @ [pending_record (form_experiment form) (kb_clock (lab_kube w))]) \<or>
     response_code h = Some 502 \<and> lab_records w' = lab_records w \<and>
       (w' = w \<or> (\<exists>g. \<forall>x. kube_has (lab_kube w') x \<longleftrightarrow> kube_has (lab_kube w) x \<or> x = (g, ''cluster-probe'', form ''name'')))"
proof -
  let ?req = "form_experiment form" and ?dec = "understood dec_ChaosExperimentResponse zero_experiment"
  let ?body = "Doc (enc_ChaosExperimentRequest ?req)"
  obtain h1 w1 where api: "CreateExperiment (lab_ports frac order) ?body new_response w = (h1, w1)"
    by fastforce
  have call: "ac_CreateExperiment (us_api s) ?req w = ?dec (h1, w1)"
    using api_CreateExperiment_loopback [of a base ?req w] by (simp add: assms(1,2) apiClient_def api)
  note page = assms(3,4) call [unfolded form_experiment_def]
  have failed: "response_code h = Some 502 \<and> w' = w1" if "response_code h1 = Some code" "400 \<le> code" for code
    using understood_refused [OF that, of dec_ChaosExperimentResponse zero_experiment w1] page
    by (auto simp: Ui_CreateChaos_def status_defs Let_def)
  show ?thesis
  proof (cases "chaos_rejected ?body")
    case True
    with CreateExperiment_rejected [OF api] failed show ?thesis
      by simp
  next
    case False
    then obtain req spec where req: "decodeJSON (dec_ChaosExperimentRequest True) ?body zero_chaos_request = Inr req"
      "ChaosExperimentRequest_Validate req = None" "buildExperimentSpec req = Inr spec"
      by (rule chaos_accepted)
    moreover have r: "req = ?req"
      using req(1) form_experiment_decodes by simp
    have name: "cr_Name ?req = form ''name''"
      by (simp add: form_experiment_def)
    let ?rec = "pending_record ?req (kb_clock (lab_kube w))"
    from CreateExperiment_valid [OF api req, unfolded r name]
    obtain g where g: "map_of chaosGVRs (es_Kind spec) = Some g" and
      out: "if kube_has (lab_kube w) (g, ''cluster-probe'', form ''name'') then response_code h1 = Some 502 \<and> w1 = w
       else (\<forall>x. kube_has (lab_kube w1) x \<longleftrightarrow> kube_has (lab_kube w) x \<or> x = (g, ''cluster-probe'', form ''name'')) \<and>
         (h1 = respond StatusAccepted (enc_ChaosExperimentResponse (toResponse ?rec)) new_response \<and>
            lab_records w1 = lab_records w @ [?rec] \<or>
          response_code h1 = Some 500 \<and> lab_records w1 = lab_records w)"
      by blast
    consider (exists) "response_code h1 = Some 502" "w1 = w"
      | (lost) "response_code h1 = Some 500" "lab_records w1 = lab_records w"
          "\<forall>x. kube_has (lab_kube w1) x \<longleftrightarrow> kube_has (lab_kube w) x \<or> x = (g, ''cluster-probe'', form ''name'')"
      | (made) "h1 = respond StatusAccepted (enc_ChaosExperimentResponse (toResponse ?rec)) new_response"
          "lab_records w1 = lab_records w @ [?rec]" "\<not> kube_has (lab_kube w) (g, ''cluster-probe'', form ''name'')"
          "\<forall>x. kube_has (lab_kube w1) x \<longleftrightarrow> kube_has (lab_kube w) x \<or> x = (g, ''cluster-probe'', form ''name'')"
      using out by (auto split: if_splits)
    then show ?thesis
    proof cases
      case exists
      with failed show ?thesis
        by simp
    next
      case lost
      with failed show ?thesis
        by auto
    next
      case made
      obtain j where "enc_ChaosExperimentResponse (toResponse ?rec) = Inr j"
        using assms(6) by (simp add: enc_ChaosExperimentResponse_def toResponse_def pending_record_def)
      then have "?dec (h1, w1) = (Inr (toResponse ?rec), w1)"
        unfolding made(1) by (rule understood_experiment)
          (simp add: toResponse_def pending_record_def form_experiment_def map_ok_def config_distinct)
      with page have "h = created_page s (form ''name'') (fst (us_now s w1)) \<and> w' = w1"
        using assms(5) [of w1]
        by (cases "us_now s w1") (auto simp: Ui_CreateChaos_def created_page_def toResponse_def pending_record_def form_experiment_def Let_def)
      with made(2,3,4) g req(3) show ?thesis
        unfolding r by blast
    qed
  qed
qed

section \<open>An experiment created in the browser\<close>

definition demo_lab_app :: "lab api_app" where
  "demo_lab_app =
     \<lparr>aa_api =
        \<lparr>ap_store = \<lparr>st_Exec = (\<lambda>q args w. (Some (ErrText ''down''), w)), st_Query = (\<lambda>q args w. (Inl (ErrText ''down''), w)),
           st_QueryRow = (\<lambda>q args w. (Inl (ErrText ''down''), w))\<rparr>,
         ap_Publish = (\<lambda>e k b w. (Some (ErrText ''down''), w)), ap_Get = (\<lambda>k w. (Inl (ErrText ''down''), w)),
         ap_now = (\<lambda>w. (second, w)), ap_uuid = (\<lambda>w. ([], w))\<rparr>,
      aa_chaos = lab_ports (\<lambda>f u k. 0) chaosGVRs, aa_tick = (\<lambda>d w. (None, w))\<rparr>"

definition chaos_form :: "string \<Rightarrow> string" where
  "chaos_form field_name =
     (case map_of [(''name'', ''slow''), (''scenario'', ''s1''), (''type'', ''network''), (''target'', ''component=worker''),
                   (''duration'', ''30s'')] field_name of
        None \<Rightarrow> [] | Some v \<Rightarrow> v)"

abbreviation chaos_post :: ui_request where
  "chaos_post \<equiv> \<lparr>ur_method = ''POST'', ur_id = [], ur_query = (\<lambda>k. []), ur_form = Inr chaos_form\<rparr>"

abbreviation chaos_browser :: "(lab, unit) ui_server" where
  "chaos_browser \<equiv> demo_ui (\<lambda>p. None)
     (apiClient (loopback match_path demo_lab_app ''http://api:8080'') (\<lambda>u w. (Inl (ErrText ''down''), w)) ''http://api:8080'')"

abbreviation quiet_lab :: lab where
  "quiet_lab \<equiv> \<lparr>lab_kube = \<lparr>kb_objects = [], kb_clock = second\<rparr>, lab_records = [], lab_faults = []\<rparr>"

lemma chaos_form_accepted:
  "response_code (fst (Ui_CreateChaos chaos_browser chaos_post new_response quiet_lab)) = Some 500"
  "\<not> isl (enc_time (kb_clock (lab_kube quiet_lab)))"
  by code_simp+

theorem form_creates_experiment_witness:
  "\<exists>g. kube_has (lab_kube (snd (Ui_CreateChaos chaos_browser chaos_post new_response quiet_lab))) (g, ''cluster-probe'', ''slow'') \<and>
     lab_records (snd (Ui_CreateChaos chaos_browser chaos_post new_response quiet_lab)) =
       [pending_record (form_experiment chaos_form) second]"
proof -
  obtain h w' where run: "Ui_CreateChaos chaos_browser chaos_post new_response quiet_lab = (h, w')"
    by fastforce
  obtain t where t: "enc_time (kb_clock (lab_kube quiet_lab)) = Inr t"
    using chaos_form_accepted(2) by (metis sum.collapse(2))
  have app: "us_api chaos_browser = apiClient (loopback match_path demo_lab_app ''http://api:8080'')
      (\<lambda>u w. (Inl (ErrText ''down''), w)) ''http://api:8080''"
    "aa_chaos demo_lab_app = lab_ports (\<lambda>f u k. 0) chaosGVRs" "ur_form chaos_post = Inr chaos_form"
    "\<And>w. snd (us_now chaos_browser w) = w" "chaos_form ''name'' = ''slow''"
    by (simp_all add: demo_ui_def demo_lab_app_def chaos_form_def)
  have "response_code h \<noteq> Some 502"
    using chaos_form_accepted(1) run by simp
  with form_creates_experiment [OF app(1-3) run app(4) t] show ?thesis
    unfolding run snd_conv app(5) by auto
qed

end
