(* ===== verification/Store_Clients.thy ===== *)
theory Store_Clients
  imports Api_Chaos
begin

text \<open>
  The other operations that the client types of internal/db (redis.go, mongo.go, postgres.go) offer: each
  passes its arguments to the driver and wraps its error. The services only call the ones that close. A
  subscription that cannot be confirmed is closed again.
\<close>

record 'w redis_driver =
  rv_Set :: "string \<Rightarrow> string \<Rightarrow> duration \<Rightarrow> 'w \<Rightarrow> goerr option \<times> 'w"
  rv_Del :: "string list \<Rightarrow> 'w \<Rightarrow> int res \<times> 'w"
  rv_Expire :: "string \<Rightarrow> duration \<Rightarrow> 'w \<Rightarrow> bool res \<times> 'w"
  rv_Publish :: "string \<Rightarrow> string \<Rightarrow> 'w \<Rightarrow> int res \<times> 'w"
  rv_Subscribe :: "string \<Rightarrow> 'w \<Rightarrow> nat \<times> 'w"
  rv_Receive :: "nat \<Rightarrow> 'w \<Rightarrow> goerr option \<times> 'w"
  rv_ClosePubSub :: "nat \<Rightarrow> 'w \<Rightarrow> goerr option \<times> 'w"
  rv_Close :: "'w \<Rightarrow> goerr option \<times> 'w"

definition Redis_Set :: "'w redis_driver \<Rightarrow> string \<Rightarrow> string \<Rightarrow> duration \<Rightarrow> 'w \<Rightarrow> goerr option \<times> 'w" where
  "Redis_Set c key value ttl w = wrap_err ''redis set'' (rv_Set c key value ttl w)"

definition Redis_Del :: "'w redis_driver \<Rightarrow> string list \<Rightarrow> 'w \<Rightarrow> int res \<times> 'w" where
  "Redis_Del c keys w = wrap_res ''redis del'' (rv_Del c keys w)"

definition Redis_Expire :: "'w redis_driver \<Rightarrow> string \<Rightarrow> duration \<Rightarrow> 'w \<Rightarrow> bool res \<times> 'w" where
  "Redis_Expire c key ttl w = wrap_res ''redis expire'' (rv_Expire c key ttl w)"

definition Redis_Publish :: "'w redis_driver \<Rightarrow> string \<Rightarrow> string \<Rightarrow> 'w \<Rightarrow> int res \<times> 'w" where
  "Redis_Publish c channel payload w = wrap_res ''redis publish'' (rv_Publish c channel payload w)"

definition Redis_Subscribe :: "'w redis_driver \<Rightarrow> string \<Rightarrow> 'w \<Rightarrow> nat res \<times> 'w" where
  "Redis_Subscribe c channel w =
     (case rv_Subscribe c channel w of (pubsub, w1) \<Rightarrow>
      case rv_Receive c pubsub w1 of
        (Some err, w2) \<Rightarrow> (Inl (Wrapf ''redis subscribe'' err), snd (rv_ClosePubSub c pubsub w2))
      | (None, w2) \<Rightarrow> (Inr pubsub, w2))"

definition Redis_Close :: "'w redis_driver \<Rightarrow> 'w \<Rightarrow> goerr option \<times> 'w" where
  "Redis_Close c w = wrap_err ''redis close'' (rv_Close c w)"

record 'w mongo_driver =
  mv_InsertMany :: "string \<Rightarrow> chaosRecord list \<Rightarrow> 'w \<Rightarrow> goerr option \<times> 'w"
  mv_FindOne :: "string \<Rightarrow> string option \<Rightarrow> 'w \<Rightarrow> chaosRecord res \<times> 'w"
  mv_Disconnect :: "'w \<Rightarrow> goerr option \<times> 'w"

definition Mongo_InsertMany :: "'w mongo_driver \<Rightarrow> string \<Rightarrow> chaosRecord list \<Rightarrow> 'w \<Rightarrow> goerr option \<times> 'w" where
  "Mongo_InsertMany m collection docs w = wrap_err ''mongo insert many'' (mv_InsertMany m collection docs w)"

definition Mongo_FindOne :: "'w mongo_driver \<Rightarrow> string \<Rightarrow> string option \<Rightarrow> 'w \<Rightarrow> chaosRecord res \<times> 'w" where
  "Mongo_FindOne m collection filter_id w = wrap_res ''mongo find one'' (mv_FindOne m collection filter_id w)"

definition Mongo_Close :: "'w mongo_driver \<Rightarrow> 'w \<Rightarrow> goerr option \<times> 'w" where
  "Mongo_Close m w = wrap_err ''mongo disconnect'' (mv_Disconnect m w)"

record 'w postgres_pool =
  pv_Ping :: "'w \<Rightarrow> goerr option \<times> 'w"
  pv_Close :: "'w \<Rightarrow> 'w"

definition Postgres_Ping :: "'w postgres_pool \<Rightarrow> 'w \<Rightarrow> goerr option \<times> 'w" where
  "Postgres_Ping pool w = wrap_err ''postgres ping'' (pv_Ping pool w)"

definition Postgres_Close :: "'w postgres_pool \<Rightarrow> 'w \<Rightarrow> 'w" where
  "Postgres_Close pool w = pv_Close pool w"

text \<open>A collection is named by the database of the client and its own name.\<close>

definition Mongo_Collection :: "string \<Rightarrow> string \<Rightarrow> string \<times> string" where
  "Mongo_Collection database name = (database, name)"

text \<open>No subscription is left open by a failed \<open>Subscribe\<close>.\<close>

lemma Redis_Subscribe_closes:
  assumes "\<And>p w w'. rv_Subscribe c channel w = (p, w') \<Longrightarrow> subs w' = insert p (subs w)"
    and "\<And>p w r w'. rv_Receive c p w = (r, w') \<Longrightarrow> subs w' = subs w"
    and "\<And>p w r w'. rv_ClosePubSub c p w = (r, w') \<Longrightarrow> subs w' = subs w - {p}"
    and "Redis_Subscribe c channel w = (Inl e, w')"
  shows "subs w' \<subseteq> subs w"
proof -
  obtain p w1 where p: "rv_Subscribe c channel w = (p, w1)"
    by fastforce
  obtain r w2 where r: "rv_Receive c p w1 = (r, w2)"
    by fastforce
  obtain q w3 where q: "rv_ClosePubSub c p w2 = (q, w3)"
    by fastforce
  from assms(4) have "w' = w3"
    by (auto simp: Redis_Subscribe_def p r q split: option.splits)
  then show ?thesis
    using assms(1) [OF p] assms(2) [OF r] assms(3) [OF q] by auto
qed

end
