(* ===== verification/Spec2Isabelle.thy ===== *)
theory Spec2Isabelle
  imports Scenario_System Overlap Service_Main Client_Adapters Tracing Schema Ui_Chaos Store_Clients
begin

text \<open>
  ClusterProbe: a verification library for the Go code of the repository.

  The program. Three services and a command. cmd/api takes requests for load scenarios and chaos
  experiments; it stores every change of a scenario as an event in PostgreSQL, publishes new scenarios to
  RabbitMQ, keeps experiments in MongoDB and as Chaos Mesh objects in Kubernetes. cmd/worker consumes the
  scenarios, runs the load generators of internal/workload, watches for a stop, and reports to PostgreSQL,
  Redis and RabbitMQ. cmd/ui is the browser interface, a client of cmd/api. cmd/chaos-ctrl applies and
  inspects experiments from the command line. internal/ holds what they share.

  How the code is read. A Go function is a function of its arguments and of the state of the outside
  (\<open>'w\<close>, threaded explicitly), a method takes its receiver as a record with the fields of the struct, an
  interface is a record of functions, an error is a value of \<open>goerr\<close> with the chain that \<open>fmt.Errorf\<close>
  builds, a result is \<open>goerr + 'a\<close>. \<open>int64\<close> is \<open>int\<close> with \<open>wrap64\<close> where a sum or product can leave the
  range. Loops whose end depends on the outside are partial functions with \<open>None\<close> for no return; loops with
  a counter are structural recursion, the counters of the code being the bounds (ten attempts to connect,
  thirty at the start of a service). Goroutines that share state are step relations.

  Theories and sources.
  \<^item> Language and standard library: Go_Base (errors, int64, time), Go_Strings (strings, strconv), Go_Time
    (calendar, RFC 3339), Go_Json (encoding/json on values), Go_Duration (time.ParseDuration).
  \<^item> internal/workload: Workload_Types (types.go), Workload_Execute (execute.go), Mixed_Split (the split of
    a mixed load in mixed.go), Generators (the five Execute methods), Generator_Frame (what a generator
    keeps of the state around it, used for the interleaving with the watcher).
  \<^item> internal/db: Db_Clients (connecting, the operations the services call, the adapters of cmd/api and
    cmd/worker), Store_Clients (the other operations), Postgres (the tables and what each SQL statement of
    the program does to them), Schema (what the statements of the schema do, each time a service starts).
  \<^item> internal/messaging/rabbitmq.go: Amqp_Endpoint (connections and their goroutines, the locale
    \<open>connections\<close>), Producer (Publish, the topology, Close, a concrete broker that interprets the locale),
    Consumer (Consume).
  \<^item> internal/config: Config_Load. internal/chaos: Chaos_Client (the locale \<open>kube_store\<close> for the API server
    and its interpretation). internal/telemetry: Services.
  \<^item> cmd/api: Api_Http (net/http and helpers.go), Api_Scenarios (scenarios.go, status.go), Api_Chaos
    (chaos.go), Api_Router (router.go, logs.go, the middleware; the locale \<open>chi_router\<close>).
  \<^item> cmd/worker: Worker (handleMessage, the watcher, reporting.go), Worker_Main (start, pool of consumers,
    probes).
  \<^item> cmd/ui: Ui_Client (client.go), Ui_Server (server.go, types.go), Ui_Pages (the handlers).
  \<^item> cmd/chaos-ctrl: Chaos_Ctrl. The start of the services and the wiring of their parts: Services. The end
    of main, serving and shutdown: Service_Main. What each binary repeats around the clients:
    Client_Adapters. Spans, the trace context and the request log: Tracing.
  \<^item> Compositions: Cluster (one state for database, Redis, broker and clock, with other clients, faults and
    ticks of the watcher as scripts), Cluster_Worker, Worker_Protocol, Cluster_Api (the API and the worker on
    it), Chaos_Lab (the chaos endpoints on a MongoDB and a Kubernetes), Ui_Api (the UI on the API), Ui_Chaos
    (the chaos form of the UI on the API and the cluster).
  \<^item> The whole: Lifecycle (the life of a scenario as an abstract system, and what it means to simulate it:
    the locale \<open>simulation\<close>), World_Frame (what the operations of the program may do to the outside, once
    for all of them: the locales \<open>outside_frame\<close>, \<open>world_frame\<close> and \<open>api_frame\<close>), Scenario_System (the API,
    the broker and the workers as one step relation, which interprets \<open>simulation\<close>), Overlap (the histories
    of a scenario whose deliveries overlap).

  What is shown.
  \<^item> A scenario from the form of the browser to the stored event and the published message (Ui_Api), from
    there through the worker to a terminal status and the acknowledgement (Cluster_Api, Worker_Main), with
    the protocol of the worker's statements under any interleaving and any fault (Worker_Protocol), what a stop does before,
    between and after them and when the watcher cancels (Cluster_Worker, Cluster_Api), and that handling
    always ends unless the memory load asks for an impossible allocation (Cluster_Worker, Generators). A
    terminal status is promised for a handler that is done before the clock reaches year 10000
    (\<open>year_start 10000\<close>, Go_Time): the snapshot of the result cannot hold a later time, and then the
    handler fails.
  \<^item> The whole system (Scenario_System): when requests, deliveries and redeliveries come one after another,
    in any order, with faults and other clients between any two statements, the events of a scenario are
    a history of the abstract lifecycle, one attempt after the other; a stop that was accepted between two
    deliveries is final. A step is a request or a delivery as a whole: two deliveries of one scenario do
    not overlap, a delivery may fail and come again, one that panics is not a step; the other clients of
    the scenario only insert stops, and none before its first event. What is outside of these limits has
    its own statements: a stop between the check and the \<open>running\<close> event is lost (Cluster_Worker), and
    when deliveries overlap each handler still keeps to its part of the lifecycle, with never more
    outcomes than runs, but the history as a whole may leave the lifecycle (Overlap).
  \<^item> The end of the services (Service_Main): the worker ends once it is told to, and not before its
    consumers have returned.
  \<^item> The generators: what each reports on every way out (Generators), the split of a mixed duration
    (Mixed_Split).
  \<^item> Messaging: no connection leaks under any interleaving (Producer), every delivery is settled once and
    as its handler's result asks, \<open>Consume\<close> ends in the first round that finds its context ended (Consumer),
    what the topology routes (Producer), the pool (Worker_Main),
    and that the trace of a message survives the broker (Tracing).
  \<^item> Chaos: what each endpoint answers and leaves behind in both stores (Chaos_Lab, deletion also on an API
    server that fails at any call), which pods a target selects (Chaos_Lab), an experiment from the
    form of the browser to the cluster and the collection (Ui_Chaos), the loops over the kinds
    in any order of the map (Chaos_Client), the flags of the command in all their forms (Chaos_Ctrl).
  \<^item> The edges: configuration (Config_Load), JSON and event streams as round trips (Ui_Client, Ui_Pages),
    routing (Api_Router, Ui_Api), numbers of the forms (Ui_Server), repeated and interrupted starts on one
    database (Schema).

  Hypotheses about code outside. pgx, go-redis, the Mongo driver, amqp091-go, client-go, go-chi, html/template
  and the OpenTelemetry SDK are parameters. Where a property needs more than their types, the law is a
  locale assumption that a concrete store interprets, or a named hypothesis (\<open>documented_match\<close> for the
  topic exchange, \<open>trace_laws\<close> for the propagator).

  Not modelled: the text syntax of JSON (bytes are the text of a value or not JSON); the spans of the
  database and chaos clients and of the handlers of the UI, the log lines beside those of Tracing and
  Service_Main, the latency histogram; floating-point numbers (the rate and the percentage of the
  dashboard are ports); HTML templates, static files and the text of the pages; the sockets; trailing
  slashes in routes; the middleware of otelhttp, which is one call of that library; running out of memory
  below the address space of the run time; manifests, CI and build files.
\<close>

end
